(* ===== verification/Eproxy_Prelude.thy ===== *)
theory Eproxy_Prelude
  imports Main "HOL-Library.Word"
begin

text \<open>
  Shared vocabulary of the development: the fixed-width integer types of the C and Go sources,
  the outcome of a Go call (a result or a panic, each with the state reached), the byte images of
  integers in memory, and the generic lemmas on words, lists and maps that the component theories
  rely on.

  The collections \<^verbatim>\<open>layout_simps\<close>, \<^verbatim>\<open>decl_simps\<close> and \<^verbatim>\<open>go_simps\<close> are filled by the component
  theories: the first unfolds the layout engine on closed types, the second unfolds the declaration
  tables taken from the headers, the third unfolds the Go operations.
\<close>

unbundle bit_operations_syntax

named_theorems layout_simps
named_theorems decl_simps
named_theorems go_simps

type_synonym u8 = "8 word"
type_synonym u16 = "16 word"
type_synonym u32 = "32 word"
type_synonym u64 = "64 word"

section \<open>Outcome of a Go call\<close>

text \<open>
  A Go function either returns or panics. A panic does not roll back the writes done before it, so
  both outcomes carry the state.
\<close>

datatype ('r, 's) go_result =
    Returns 'r 's
  | Panics string 's

fun go_state :: "('r, 's) go_result \<Rightarrow> 's" where
  "go_state (Returns r s) = s"
| "go_state (Panics e s) = s"

fun go_returns :: "('r, 's) go_result \<Rightarrow> bool" where
  "go_returns (Returns r s) = True"
| "go_returns (Panics e s) = False"

fun go_bind :: "('r, 's) go_result \<Rightarrow> ('r \<Rightarrow> 's \<Rightarrow> ('q, 's) go_result) \<Rightarrow> ('q, 's) go_result" where
  "go_bind (Returns r s) k = k r s"
| "go_bind (Panics e s) k = Panics e s"

section \<open>Integers in memory\<close>

text \<open>
  The bytes of an integer at increasing addresses, on a little-endian machine (the only one the
  build targets: \<^verbatim>\<open>GOARCH=amd64\<close>, \<^verbatim>\<open>-D__x86_64__\<close>) and in network order.
\<close>

definition le16 :: "u16 \<Rightarrow> u8 list" where
  "le16 w = [ucast w, ucast (drop_bit 8 w)]"

definition le32 :: "u32 \<Rightarrow> u8 list" where
  "le32 w = [ucast w, ucast (drop_bit 8 w), ucast (drop_bit 16 w), ucast (drop_bit 24 w)]"

definition le64 :: "u64 \<Rightarrow> u8 list" where
  "le64 w = le32 (ucast w) @ le32 (ucast (drop_bit 32 w))"

definition be16 :: "u16 \<Rightarrow> u8 list" where
  "be16 w = rev (le16 w)"

definition be32 :: "u32 \<Rightarrow> u8 list" where
  "be32 w = rev (le32 w)"

definition be64 :: "u64 \<Rightarrow> u8 list" where
  "be64 w = rev (le64 w)"

text \<open>
  Reading them back, as \<^verbatim>\<open>binary.LittleEndian.Uint16\<close> and \<^verbatim>\<open>binary.LittleEndian.Uint32\<close> of the Go
  standard library do.
\<close>

definition of_le16 :: "u8 \<Rightarrow> u8 \<Rightarrow> u16" where
  "of_le16 b0 b1 = ucast b0 OR push_bit 8 (ucast b1)"

definition of_le32 :: "u8 \<Rightarrow> u8 \<Rightarrow> u8 \<Rightarrow> u8 \<Rightarrow> u32" where
  "of_le32 b0 b1 b2 b3 =
     ucast b0 OR push_bit 8 (ucast b1) OR push_bit 16 (ucast b2) OR push_bit 24 (ucast b3)"

section \<open>Lemmas on outcomes\<close>

lemma go_returns_iff: "go_returns r \<longleftrightarrow> (\<exists>v s. r = Returns v s)"
  by (cases r) auto

lemma go_bind_Returns_iff:
  "go_bind m k = Returns v s \<longleftrightarrow> (\<exists>r s'. m = Returns r s' \<and> k r s' = Returns v s)"
  by (cases m) auto

section \<open>Lemmas on words\<close>

lemma bit_out_of_range [simp]:
  fixes w :: "'a::len word"
  shows "LENGTH('a) \<le> n \<Longrightarrow> \<not> bit w n"
  using bit_imp_le_length not_less by blast

lemma of_le16_le16 [simp]: "of_le16 (ucast w) (ucast (drop_bit 8 w)) = w"
  by (rule bit_word_eqI) (auto simp: of_le16_def bit_simps not_less)

lemma of_le32_le32 [simp]:
  "of_le32 (ucast w) (ucast (drop_bit 8 w)) (ucast (drop_bit 16 w)) (ucast (drop_bit 24 w)) = w"
proof (rule bit_word_eqI)
  fix n
  assume "n < LENGTH(32)"
  then show "bit (of_le32 (ucast w) (ucast (drop_bit 8 w)) (ucast (drop_bit 16 w))
      (ucast (drop_bit 24 w))) n = bit w n"
    by (cases "24 \<le> n"; cases "16 \<le> n") (auto simp: of_le32_def bit_simps not_less)
qed

lemma le16_inject [simp]: "le16 a = le16 b \<longleftrightarrow> a = b"
  unfolding le16_def by (metis list.inject of_le16_le16)

lemma le32_inject [simp]: "le32 a = le32 b \<longleftrightarrow> a = b"
  unfolding le32_def by (metis list.inject of_le32_le32)

lemma le16_of_le16: "le16 (of_le16 a b) = [a, b]"
  by (auto simp: le16_def of_le16_def bit_simps intro!: bit_word_eqI)

lemma le32_of_le32: "le32 (of_le32 a b c d) = [a, b, c, d]"
  by (auto simp: le32_def of_le32_def bit_simps intro!: bit_word_eqI)

lemma length_le16 [simp]: "length (le16 w) = 2"
  by (simp add: le16_def)

lemma length_le32 [simp]: "length (le32 w) = 4"
  by (simp add: le32_def)

lemma length_le64 [simp]: "length (le64 w) = 8"
  by (simp add: le64_def)

lemma length_be [simp]: "length (be16 a) = 2" "length (be32 b) = 4" "length (be64 c) = 8"
  by (simp_all add: be16_def be32_def be64_def)

end
