(* ===== verification/Bpf_Endian.thy ===== *)
theory Bpf_Endian
  imports Eproxy_Prelude
begin

text \<open>
  Byte-order conversion, from \<^verbatim>\<open>src/ebpf/src/headers/bpf_endian.h\<close>: the shift-based constant
  swaps, the compiler builtins they must agree with, and the \<^verbatim>\<open>bpf_htons\<close> family, which picks one
  or the other by \<^verbatim>\<open>__builtin_constant_p\<close> and the target byte order. The lemmas show that the two
  variants agree, that the conversions undo each other on either byte order, and that the result,
  stored in memory, is the value in network order.
\<close>

section \<open>Byte moves and constant swaps\<close>

text \<open>
  \<^verbatim>\<open>___bpf_mvb(x, b, n, m)\<close> is \<^verbatim>\<open>((__u##b)(x) << (b-(n+1)*8) >> (b-8) << (m*8))\<close>. For \<^verbatim>\<open>b = 16\<close> the
  operand is promoted to \<^verbatim>\<open>int\<close>; the value stays below \<^verbatim>\<open>2 ^ 24\<close>, so the 32-bit shifts are exact and
  the sign bit is never reached.
\<close>

definition bpf_mvb16 :: "u16 \<Rightarrow> nat \<Rightarrow> nat \<Rightarrow> u32" where
  "bpf_mvb16 x n m =
     push_bit (m * 8) (drop_bit (16 - 8) (push_bit (16 - (n + 1) * 8) (ucast x :: u32)))"

definition bpf_mvb32 :: "u32 \<Rightarrow> nat \<Rightarrow> nat \<Rightarrow> u32" where
  "bpf_mvb32 x n m = push_bit (m * 8) (drop_bit (32 - 8) (push_bit (32 - (n + 1) * 8) x))"

definition bpf_mvb64 :: "u64 \<Rightarrow> nat \<Rightarrow> nat \<Rightarrow> u64" where
  "bpf_mvb64 x n m = push_bit (m * 8) (drop_bit (64 - 8) (push_bit (64 - (n + 1) * 8) x))"

definition bpf_swab16 :: "u16 \<Rightarrow> u16" where
  "bpf_swab16 x = ucast (bpf_mvb16 x 0 1 OR bpf_mvb16 x 1 0)"

definition bpf_swab32 :: "u32 \<Rightarrow> u32" where
  "bpf_swab32 x =
     bpf_mvb32 x 0 3 OR
     bpf_mvb32 x 1 2 OR
     bpf_mvb32 x 2 1 OR
     bpf_mvb32 x 3 0"

definition bpf_swab64 :: "u64 \<Rightarrow> u64" where
  "bpf_swab64 x =
     bpf_mvb64 x 0 7 OR
     bpf_mvb64 x 1 6 OR
     bpf_mvb64 x 2 5 OR
     bpf_mvb64 x 3 4 OR
     bpf_mvb64 x 4 3 OR
     bpf_mvb64 x 5 2 OR
     bpf_mvb64 x 6 1 OR
     bpf_mvb64 x 7 0"

section \<open>Compiler builtins\<close>

text \<open>\<^verbatim>\<open>__builtin_bswapN\<close>: the value whose bytes are those of the argument in reverse.\<close>

definition builtin_bswap16 :: "u16 \<Rightarrow> u16" where
  "builtin_bswap16 x = of_le16 (ucast (drop_bit 8 x)) (ucast x)"

definition builtin_bswap32 :: "u32 \<Rightarrow> u32" where
  "builtin_bswap32 x =
     of_le32 (ucast (drop_bit 24 x)) (ucast (drop_bit 16 x)) (ucast (drop_bit 8 x)) (ucast x)"

definition builtin_bswap64 :: "u64 \<Rightarrow> u64" where
  "builtin_bswap64 x =
     ucast (builtin_bswap32 (ucast (drop_bit 32 x))) OR
     push_bit 32 (ucast (builtin_bswap32 (ucast x)))"

section \<open>The conversion macros\<close>

text \<open>
  The preprocessor picks the branch of \<^verbatim>\<open>__BYTE_ORDER__\<close>; the boolean argument is the value of
  \<^verbatim>\<open>__builtin_constant_p(x)\<close>.
\<close>

datatype byte_order = Little_Endian | Big_Endian

fun bpf_htons :: "byte_order \<Rightarrow> bool \<Rightarrow> u16 \<Rightarrow> u16" where
  "bpf_htons Little_Endian const x = (if const then bpf_swab16 x else builtin_bswap16 x)"
| "bpf_htons Big_Endian const x = x"

fun bpf_ntohs :: "byte_order \<Rightarrow> bool \<Rightarrow> u16 \<Rightarrow> u16" where
  "bpf_ntohs Little_Endian const x = (if const then bpf_swab16 x else builtin_bswap16 x)"
| "bpf_ntohs Big_Endian const x = x"

fun bpf_htonl :: "byte_order \<Rightarrow> bool \<Rightarrow> u32 \<Rightarrow> u32" where
  "bpf_htonl Little_Endian const x = (if const then bpf_swab32 x else builtin_bswap32 x)"
| "bpf_htonl Big_Endian const x = x"

fun bpf_ntohl :: "byte_order \<Rightarrow> bool \<Rightarrow> u32 \<Rightarrow> u32" where
  "bpf_ntohl Little_Endian const x = (if const then bpf_swab32 x else builtin_bswap32 x)"
| "bpf_ntohl Big_Endian const x = x"

fun bpf_cpu_to_be64 :: "byte_order \<Rightarrow> bool \<Rightarrow> u64 \<Rightarrow> u64" where
  "bpf_cpu_to_be64 Little_Endian const x = (if const then bpf_swab64 x else builtin_bswap64 x)"
| "bpf_cpu_to_be64 Big_Endian const x = x"

fun bpf_be64_to_cpu :: "byte_order \<Rightarrow> bool \<Rightarrow> u64 \<Rightarrow> u64" where
  "bpf_be64_to_cpu Little_Endian const x = (if const then bpf_swab64 x else builtin_bswap64 x)"
| "bpf_be64_to_cpu Big_Endian const x = x"

text \<open>What a store of an integer leaves in memory, at increasing addresses.\<close>

fun store16 :: "byte_order \<Rightarrow> u16 \<Rightarrow> u8 list" where
  "store16 Little_Endian x = le16 x"
| "store16 Big_Endian x = be16 x"

fun store32 :: "byte_order \<Rightarrow> u32 \<Rightarrow> u8 list" where
  "store32 Little_Endian x = le32 x"
| "store32 Big_Endian x = be32 x"

fun store64 :: "byte_order \<Rightarrow> u64 \<Rightarrow> u8 list" where
  "store64 Little_Endian x = le64 x"
| "store64 Big_Endian x = be64 x"

section \<open>Swaps move byte k to byte (size - 1 - k)\<close>

lemma bit_mvb16:
  "n < 2 \<Longrightarrow> m < 2 \<Longrightarrow> k < 16 \<Longrightarrow>
     bit (bpf_mvb16 x n m) k \<longleftrightarrow> m * 8 \<le> k \<and> bit x (k - m * 8 + n * 8)"
  by (auto simp: bpf_mvb16_def bit_simps algebra_simps)

lemma bit_mvb32:
  "n < 4 \<Longrightarrow> m < 4 \<Longrightarrow>
     bit (bpf_mvb32 x n m) k \<longleftrightarrow> m * 8 \<le> k \<and> k < m * 8 + 8 \<and> bit x (k - m * 8 + n * 8)"
  by (auto simp: bpf_mvb32_def bit_simps algebra_simps)

lemma bit_mvb64:
  "n < 8 \<Longrightarrow> m < 8 \<Longrightarrow>
     bit (bpf_mvb64 x n m) k \<longleftrightarrow> m * 8 \<le> k \<and> k < m * 8 + 8 \<and> bit x (k - m * 8 + n * 8)"
  by (auto simp: bpf_mvb64_def bit_simps algebra_simps)

lemma bit_swab16: "k < 16 \<Longrightarrow> bit (bpf_swab16 x) k = bit x (if k < 8 then k + 8 else k - 8)"
  by (auto simp: bpf_swab16_def bit_simps bit_mvb16)

lemma bit_swab32:
  "k < 32 \<Longrightarrow> bit (bpf_swab32 x) k =
     bit x (if k < 8 then k + 24 else if k < 16 then k + 8 else if k < 24 then k - 8 else k - 24)"
  by (auto simp: bpf_swab32_def bit_simps bit_mvb32 add.commute)

lemma bit_bswap16: "k < 16 \<Longrightarrow> bit (builtin_bswap16 x) k = bit x (if k < 8 then k + 8 else k - 8)"
  by (auto simp: builtin_bswap16_def of_le16_def bit_simps algebra_simps)

lemma bit_bswap32:
  "k < 32 \<Longrightarrow> bit (builtin_bswap32 x) k =
     bit x (if k < 8 then k + 24 else if k < 16 then k + 8 else if k < 24 then k - 8 else k - 24)"
  by (auto simp: builtin_bswap32_def of_le32_def bit_simps algebra_simps)

lemma swab16_eq_bswap16: "bpf_swab16 x = builtin_bswap16 x"
  by (rule bit_word_eqI) (simp add: bit_swab16 bit_bswap16)

lemma swab32_eq_bswap32: "bpf_swab32 x = builtin_bswap32 x"
  by (rule bit_word_eqI) (simp add: bit_swab32 bit_bswap32)

lemma bit_swab64:
  "k < 64 \<Longrightarrow> bit (bpf_swab64 x) k =
     bit x (if k < 8 then k + 56 else if k < 16 then k + 40 else if k < 24 then k + 24
       else if k < 32 then k + 8 else if k < 40 then k - 8 else if k < 48 then k - 24
       else if k < 56 then k - 40 else k - 56)"
  by (auto simp: bpf_swab64_def bit_simps bit_mvb64 add.commute)

lemma bit_bswap64:
  "k < 64 \<Longrightarrow> bit (builtin_bswap64 x) k =
     bit x (if k < 8 then k + 56 else if k < 16 then k + 40 else if k < 24 then k + 24
       else if k < 32 then k + 8 else if k < 40 then k - 8 else if k < 48 then k - 24
       else if k < 56 then k - 40 else k - 56)"
  by (cases "k < 32") (auto simp: builtin_bswap64_def bit_simps bit_bswap32 algebra_simps)

lemma swab64_eq_bswap64: "bpf_swab64 x = builtin_bswap64 x"
  by (rule bit_word_eqI) (simp add: bit_swab64 bit_bswap64)

lemmas swab_eq_bswap = swab16_eq_bswap16 swab32_eq_bswap32 swab64_eq_bswap64

lemma bswap_involution:
  "builtin_bswap16 (builtin_bswap16 a) = a"
  "builtin_bswap32 (builtin_bswap32 b) = b"
  "builtin_bswap64 (builtin_bswap64 c) = c"
  by (rule bit_word_eqI; auto simp: bit_bswap16 bit_bswap32 bit_bswap64)+

lemma le_bswap:
  "le16 (builtin_bswap16 a) = be16 a"
  "le32 (builtin_bswap32 b) = be32 b"
  unfolding builtin_bswap16_def builtin_bswap32_def le16_of_le16 le32_of_le32 be16_def be32_def
  by (simp_all add: le16_def le32_def)

lemma bswap64_halves:
  "ucast (builtin_bswap64 x) = builtin_bswap32 (ucast (drop_bit 32 x))"
  "ucast (drop_bit 32 (builtin_bswap64 x)) = builtin_bswap32 (ucast x)"
  by (auto simp: builtin_bswap64_def bit_simps intro!: bit_word_eqI)

lemma le_bswap64: "le64 (builtin_bswap64 x) = be64 x"
  by (simp add: le64_def be64_def bswap64_halves le_bswap be32_def)

section \<open>Properties of the macros\<close>

text \<open>On either byte order and in the constant and the run-time variant, a value converted to
  network order and stored in memory appears as its bytes from the most significant to the least
  significant one, for the 16, 32 and 64 bit macros.\<close>

theorem network_byte_order:
  "store16 ord (bpf_htons ord const a) = be16 a \<and>
   store32 ord (bpf_htonl ord const b) = be32 b \<and>
   store64 ord (bpf_cpu_to_be64 ord const c) = be64 c"
  by (cases ord) (simp_all add: swab_eq_bswap le_bswap le_bswap64)

text \<open>Converting to network order and back gives the value, whichever of the two conversions was
  folded at compile time.\<close>

theorem host_network_roundtrip:
  "bpf_ntohs ord const (bpf_htons ord const' a) = a \<and>
   bpf_ntohl ord const (bpf_htonl ord const' b) = b \<and>
   bpf_be64_to_cpu ord const (bpf_cpu_to_be64 ord const' c) = c"
  by (cases ord) (simp_all add: swab_eq_bswap bswap_involution)

end
