(* ===== verification/C_Types.thy ===== *)
theory C_Types
  imports Eproxy_Prelude
begin

text \<open>
  C types as the eBPF compiler sees them: the primitive types, pointers, arrays, enums, function
  types, structs and unions with their bit-fields, named by the typedefs of \<^verbatim>\<open>vmlinux.h\<close>, and the
  layout rules of the LP64 target the program is compiled for (\<^verbatim>\<open>clang -target bpf -D__x86_64__\<close>):
  size, alignment, member offsets, bit positions.

  The lemmas at the end hold for every type: members of a struct are aligned, lie inside the struct
  and do not overlap, a bit-field does not straddle two units of its declared type, and the size is
  a multiple of the alignment, so arrays of it stay aligned.
\<close>

section \<open>Types\<close>

datatype prim =
    PBool | PChar | PSChar | PUChar
  | PShort | PUShort
  | PInt | PUInt
  | PLong | PULong
  | PLLong | PULLong

datatype ctype =
    CVoid
  | CPrim prim
  | CName string
  | CTag string
  | CEnum string
  | CEnumDef "(string \<times> int) list"
  | CConst ctype
  | CVolatile ctype
  | CPtr ctype
  | CFun ctype "ctype list"
  | CVarFun ctype "ctype list"
  | CArray nat ctype
  | CStruct "cfield list"
  | CUnion "cfield list"
and cfield =
    Field string ctype
  | Bits string ctype nat

text \<open>
  \<^const>\<open>CName\<close> is a typedef name, \<^const>\<open>CTag\<close> an incomplete \<^verbatim>\<open>struct tag\<close> or \<^verbatim>\<open>union tag\<close> that is
  only used behind a pointer, \<^const>\<open>CEnum\<close> an \<^verbatim>\<open>enum tag\<close> and \<^const>\<open>CEnumDef\<close> an enum without a tag,
  \<^const>\<open>CConst\<close> and \<^const>\<open>CVolatile\<close> are qualifiers, \<^const>\<open>CFun\<close> is the type of a function, behind a
  pointer as well, and \<^const>\<open>CVarFun\<close> of one whose parameter list ends in an ellipsis.
  \<^verbatim>\<open>Bits n t w\<close> is the bit-field \<^verbatim>\<open>t n : w\<close>. An anonymous member is a field with the empty name.
\<close>

fun field_name :: "cfield \<Rightarrow> string" where
  "field_name (Field n t) = n"
| "field_name (Bits n t w) = n"

fun field_type :: "cfield \<Rightarrow> ctype" where
  "field_type (Field n t) = t"
| "field_type (Bits n t w) = t"

section \<open>Typedefs\<close>

text \<open>
  Typedefs in the order of their declaration, last one first. A typedef refers to earlier ones only,
  so resolving a name continues in the rest of the list.
\<close>

type_synonym typedefs = "(string \<times> ctype) list"

fun resolve_name :: "typedefs \<Rightarrow> string \<Rightarrow> ctype option" where
  "resolve_name [] n = None"
| "resolve_name ((m, t) # ds) n =
     (if m = n then (case t of CName n' \<Rightarrow> resolve_name ds n' | _ \<Rightarrow> Some t)
      else resolve_name ds n)"

fun strip_quals :: "ctype \<Rightarrow> ctype" where
  "strip_quals (CConst t) = strip_quals t"
| "strip_quals (CVolatile t) = strip_quals t"
| "strip_quals t = t"

section \<open>Layout\<close>

fun prim_size :: "prim \<Rightarrow> nat" where
  "prim_size PBool = 1"
| "prim_size PChar = 1"
| "prim_size PSChar = 1"
| "prim_size PUChar = 1"
| "prim_size PShort = 2"
| "prim_size PUShort = 2"
| "prim_size PInt = 4"
| "prim_size PUInt = 4"
| "prim_size PLong = 8"
| "prim_size PULong = 8"
| "prim_size PLLong = 8"
| "prim_size PULLong = 8"

fun prim_signed :: "prim \<Rightarrow> bool" where
  "prim_signed p = (p \<in> {PChar, PSChar, PShort, PInt, PLong, PLLong})"

text \<open>Round an offset up to the next multiple of an alignment.\<close>

definition align_up :: "nat \<Rightarrow> nat \<Rightarrow> nat" where
  "align_up off a = (if a = 0 then off else (off + (a - 1)) div a * a)"

text \<open>
  The tables map typedef names to primitive types and are a parameter \<^verbatim>\<open>ds\<close> of the layout functions;
  a typedef of a non-primitive type, a tag or \<^verbatim>\<open>void\<close> has no layout here (size 0, alignment 1).
\<close>

definition prim_of_name :: "typedefs \<Rightarrow> string \<Rightarrow> prim option" where
  "prim_of_name ds n = (case resolve_name ds n of Some (CPrim p) \<Rightarrow> Some p | _ \<Rightarrow> None)"

fun alignof :: "typedefs \<Rightarrow> ctype \<Rightarrow> nat"
  and alignof_field :: "typedefs \<Rightarrow> cfield \<Rightarrow> nat"
  and alignof_fields :: "typedefs \<Rightarrow> cfield list \<Rightarrow> nat" where
  "alignof ds CVoid = 1"
| "alignof ds (CPrim p) = prim_size p"
| "alignof ds (CName n) = (case prim_of_name ds n of Some p \<Rightarrow> prim_size p | None \<Rightarrow> 1)"
| "alignof ds (CTag n) = 1"
| "alignof ds (CEnum n) = 4"
| "alignof ds (CEnumDef es) = 4"
| "alignof ds (CConst t) = alignof ds t"
| "alignof ds (CVolatile t) = alignof ds t"
| "alignof ds (CPtr t) = 8"
| "alignof ds (CFun t ts) = 1"
| "alignof ds (CVarFun t ts) = 1"
| "alignof ds (CArray k t) = alignof ds t"
| "alignof ds (CStruct fs) = alignof_fields ds fs"
| "alignof ds (CUnion fs) = alignof_fields ds fs"
| "alignof_field ds (Field n t) = alignof ds t"
| "alignof_field ds (Bits n t w) = (if n = [] then 1 else alignof ds t)"
| "alignof_fields ds [] = 1"
| "alignof_fields ds (f # fs) = max (alignof_field ds f) (alignof_fields ds fs)"

text \<open>
  Layout counts in bits. \<^verbatim>\<open>field_bits\<close> is the room a member takes and \<^verbatim>\<open>field_start pos f\<close> the position
  of a member placed at \<^verbatim>\<open>pos\<close> or later: an ordinary member starts at a multiple of its alignment; a
  bit-field starts at the next free bit unless it would cross the end of a unit of its declared type,
  and one of width zero closes the unit. An unnamed bit-field is padding and does not count for the
  alignment of the struct. \<^verbatim>\<open>struct_end pos fs\<close> is the position after the last member when the members
  \<^verbatim>\<open>fs\<close> are placed from \<^verbatim>\<open>pos\<close> on; \<^verbatim>\<open>union_end\<close> is the room of the largest member.
\<close>

fun sizeof :: "typedefs \<Rightarrow> ctype \<Rightarrow> nat"
  and field_bits :: "typedefs \<Rightarrow> cfield \<Rightarrow> nat"
  and field_start :: "typedefs \<Rightarrow> nat \<Rightarrow> cfield \<Rightarrow> nat"
  and struct_end :: "typedefs \<Rightarrow> nat \<Rightarrow> cfield list \<Rightarrow> nat"
  and union_end :: "typedefs \<Rightarrow> cfield list \<Rightarrow> nat" where
  "sizeof ds CVoid = 0"
| "sizeof ds (CPrim p) = prim_size p"
| "sizeof ds (CName n) = (case prim_of_name ds n of Some p \<Rightarrow> prim_size p | None \<Rightarrow> 0)"
| "sizeof ds (CTag n) = 0"
| "sizeof ds (CEnum n) = 4"
| "sizeof ds (CEnumDef es) = 4"
| "sizeof ds (CConst t) = sizeof ds t"
| "sizeof ds (CVolatile t) = sizeof ds t"
| "sizeof ds (CPtr t) = 8"
| "sizeof ds (CFun t ts) = 0"
| "sizeof ds (CVarFun t ts) = 0"
| "sizeof ds (CArray k t) = k * sizeof ds t"
| "sizeof ds (CStruct fs) = align_up ((struct_end ds 0 fs + 7) div 8) (alignof_fields ds fs)"
| "sizeof ds (CUnion fs) = align_up ((union_end ds fs + 7) div 8) (alignof_fields ds fs)"
| "field_bits ds (Field n t) = 8 * sizeof ds t"
| "field_bits ds (Bits n t w) = w"
| "field_start ds pos (Field n t) = align_up pos (8 * alignof ds t)"
| "field_start ds pos (Bits n t w) =
     (let unit = 8 * sizeof ds t
      in if w = 0 \<or> pos div unit \<noteq> (pos + w - 1) div unit then align_up pos unit else pos)"
| "struct_end ds pos [] = pos"
| "struct_end ds pos (f # fs) = struct_end ds (field_start ds pos f + field_bits ds f) fs"
| "union_end ds [] = 0"
| "union_end ds (f # fs) = max (field_bits ds f) (union_end ds fs)"

text \<open>The placement of the direct members of a struct or union: bit position, then the member.\<close>

fun place_struct :: "typedefs \<Rightarrow> nat \<Rightarrow> cfield list \<Rightarrow> (nat \<times> cfield) list" where
  "place_struct ds pos [] = []"
| "place_struct ds pos (f # fs) =
     (let start = field_start ds pos f
      in (start, f) # place_struct ds (start + field_bits ds f) fs)"

fun members :: "typedefs \<Rightarrow> ctype \<Rightarrow> (nat \<times> cfield) list" where
  "members ds (CStruct fs) = place_struct ds 0 fs"
| "members ds (CUnion fs) = map (\<lambda>f. (0, f)) fs"
| "members ds (CConst t) = members ds t"
| "members ds (CVolatile t) = members ds t"
| "members ds _ = []"

text \<open>
  Member lookup as in \<^verbatim>\<open>ptr->name\<close>: the members of an anonymous struct or union are members of the
  enclosing type. The result is the bit position from the start of the outermost type and the
  member. \<^verbatim>\<open>offset_in\<close> is the byte offset and the type of a member that has an address, which a
  bit-field has not.
\<close>

fun locate :: "typedefs \<Rightarrow> string \<Rightarrow> nat \<Rightarrow> ctype \<Rightarrow> (nat \<times> cfield) option"
  and locate_struct :: "typedefs \<Rightarrow> string \<Rightarrow> nat \<Rightarrow> nat \<Rightarrow> cfield list \<Rightarrow> (nat \<times> cfield) option"
  and locate_union :: "typedefs \<Rightarrow> string \<Rightarrow> nat \<Rightarrow> cfield list \<Rightarrow> (nat \<times> cfield) option"
  and locate_field :: "typedefs \<Rightarrow> string \<Rightarrow> nat \<Rightarrow> cfield \<Rightarrow> (nat \<times> cfield) option" where
  "locate ds m base (CStruct fs) = locate_struct ds m base 0 fs"
| "locate ds m base (CUnion fs) = locate_union ds m base fs"
| "locate ds m base (CConst t) = locate ds m base t"
| "locate ds m base (CVolatile t) = locate ds m base t"
| "locate ds m base _ = None"
| "locate_struct ds m base pos [] = None"
| "locate_struct ds m base pos (f # fs) =
     (let start = field_start ds pos f
      in case locate_field ds m (base + start) f of
           Some r \<Rightarrow> Some r
         | None \<Rightarrow> locate_struct ds m base (start + field_bits ds f) fs)"
| "locate_union ds m base [] = None"
| "locate_union ds m base (f # fs) =
     (case locate_field ds m base f of
        Some r \<Rightarrow> Some r
      | None \<Rightarrow> locate_union ds m base fs)"
| "locate_field ds m base (Field n t) =
     (if n = m then Some (base, Field n t) else if n = [] then locate ds m base t else None)"
| "locate_field ds m base (Bits n t w) = (if n = m then Some (base, Bits n t w) else None)"

definition offset_in :: "typedefs \<Rightarrow> string \<Rightarrow> ctype \<Rightarrow> (nat \<times> ctype) option" where
  "offset_in ds m t =
     (case locate ds m 0 t of Some (p, Field n u) \<Rightarrow> Some (p div 8, u) | _ \<Rightarrow> None)"

text \<open>The member reached from the outermost type by naming one member after another, \<^verbatim>\<open>x.a.b.c\<close>.\<close>

fun member_path :: "typedefs \<Rightarrow> string list \<Rightarrow> ctype \<Rightarrow> (nat \<times> ctype) option" where
  "member_path ds [] t = Some (0, t)"
| "member_path ds (m # ms) t =
     (case offset_in ds m t of
        Some (off, u) \<Rightarrow> map_option (\<lambda>(p, v). (off + p, v)) (member_path ds ms u)
      | None \<Rightarrow> None)"

definition member_offset :: "typedefs \<Rightarrow> ctype \<Rightarrow> string \<Rightarrow> nat option" where
  "member_offset ds t m = map_option fst (offset_in ds m t)"

text \<open>
  A type is complete when its layout rests on nothing unknown: every typedef name that is not behind a
  pointer resolves to a primitive type, no incomplete or function type is embedded, and a bit-field is
  not wider than its declared type.
\<close>

fun complete_type :: "typedefs \<Rightarrow> ctype \<Rightarrow> bool"
  and complete_field :: "typedefs \<Rightarrow> cfield \<Rightarrow> bool"
  and complete_fields :: "typedefs \<Rightarrow> cfield list \<Rightarrow> bool" where
  "complete_type ds CVoid \<longleftrightarrow> False"
| "complete_type ds (CPrim p) \<longleftrightarrow> True"
| "complete_type ds (CName n) \<longleftrightarrow> prim_of_name ds n \<noteq> None"
| "complete_type ds (CTag n) \<longleftrightarrow> False"
| "complete_type ds (CEnum n) \<longleftrightarrow> True"
| "complete_type ds (CEnumDef es) \<longleftrightarrow> True"
| "complete_type ds (CConst t) \<longleftrightarrow> complete_type ds t"
| "complete_type ds (CVolatile t) \<longleftrightarrow> complete_type ds t"
| "complete_type ds (CPtr t) \<longleftrightarrow> True"
| "complete_type ds (CFun t ts) \<longleftrightarrow> False"
| "complete_type ds (CVarFun t ts) \<longleftrightarrow> False"
| "complete_type ds (CArray k t) \<longleftrightarrow> complete_type ds t"
| "complete_type ds (CStruct fs) \<longleftrightarrow> complete_fields ds fs"
| "complete_type ds (CUnion fs) \<longleftrightarrow> complete_fields ds fs"
| "complete_field ds (Field n t) \<longleftrightarrow> complete_type ds t"
| "complete_field ds (Bits n t w) \<longleftrightarrow> complete_type ds t \<and> w \<le> 8 * sizeof ds t"
| "complete_fields ds [] \<longleftrightarrow> True"
| "complete_fields ds (f # fs) \<longleftrightarrow> complete_field ds f \<and> complete_fields ds fs"

section \<open>Values that fit a register\<close>

text \<open>
  An argument of a BPF call is passed in one 64-bit register: a pointer, or an integer type of at
  most eight bytes.
\<close>

fun is_pointer :: "ctype \<Rightarrow> bool" where
  "is_pointer (CPtr t) = True"
| "is_pointer (CConst t) = is_pointer t"
| "is_pointer (CVolatile t) = is_pointer t"
| "is_pointer _ = False"

fun prim_of :: "typedefs \<Rightarrow> ctype \<Rightarrow> prim option" where
  "prim_of ds (CPrim p) = Some p"
| "prim_of ds (CName n) = prim_of_name ds n"
| "prim_of ds (CConst t) = prim_of ds t"
| "prim_of ds (CVolatile t) = prim_of ds t"
| "prim_of ds _ = None"

definition fits_register :: "typedefs \<Rightarrow> ctype \<Rightarrow> bool" where
  "fits_register ds t \<longleftrightarrow>
     is_pointer t \<or> (case prim_of ds t of Some p \<Rightarrow> prim_size p \<le> 8 | None \<Rightarrow> False)"

section \<open>Layout is sound for every type\<close>

declare align_up_def [layout_simps] offset_in_def [layout_simps] member_offset_def [layout_simps]
  fits_register_def [layout_simps]

lemma prim_size_pos [simp]: "0 < prim_size p"
  by (cases p) auto

lemma align_up_ge: "off \<le> align_up off a"
proof (cases "a = 0")
  case False
  have "(off + (a - 1)) div a * a + (off + (a - 1)) mod a = off + (a - 1)"
    by simp
  moreover have "(off + (a - 1)) mod a \<le> a - 1"
    using False by (metis Suc_pred' bot_nat_0.not_eq_extremum less_Suc_eq_le mod_less_divisor)
  ultimately have "off \<le> (off + (a - 1)) div a * a"
    by linarith
  then show ?thesis
    using False by (simp add: align_up_def)
qed (simp add: align_up_def)

lemma align_up_dvd: "a \<noteq> 0 \<Longrightarrow> a dvd align_up off a"
  by (simp add: align_up_def)

lemma align_up_less: "a \<noteq> 0 \<Longrightarrow> align_up off a < off + a"
proof -
  assume a: "a \<noteq> 0"
  have "(off + (a - 1)) div a * a < off + a"
    using a div_times_less_eq_dividend [of "off + (a - 1)" a] by linarith
  with a show ?thesis
    by (simp only: align_up_def if_False)
qed

lemma align_up_id: "a dvd off \<Longrightarrow> align_up off a = off"
proof (cases "a = 0")
  case False
  assume "a dvd off"
  then obtain k where "off = k * a" by (auto simp: dvd_def mult.commute)
  moreover have "(k * a + (a - 1)) div a = k"
    using False by (intro div_nat_eqI) (auto simp: algebra_simps)
  ultimately show ?thesis
    using False by (simp only: align_up_def if_False)
qed (simp add: align_up_def)

lemma alignof_pos [simp]:
  "0 < alignof ds t" "0 < alignof_field ds f" "0 < alignof_fields ds fs"
  by (induction ds t and ds f and ds fs rule: alignof_alignof_field_alignof_fields.induct)
     (auto split: option.splits)

lemma field_start_ge: "pos \<le> field_start ds pos f"
  by (cases f) (auto simp: Let_def align_up_ge)

lemma struct_end_ge: "pos \<le> struct_end ds pos fs"
proof (induction fs arbitrary: pos)
  case (Cons f fs)
  have "pos \<le> field_start ds pos f + field_bits ds f"
    using field_start_ge trans_le_add1 by blast
  also have "\<dots> \<le> struct_end ds (field_start ds pos f + field_bits ds f) fs"
    by (rule Cons.IH)
  finally show ?case by simp
qed simp

lemma place_struct_cases:
  assumes "(p, f) \<in> set (place_struct ds pos fs)"
  obtains start where "p = field_start ds start f" "pos \<le> start"
    "p + field_bits ds f \<le> struct_end ds pos fs"
  using assms
proof (induction fs arbitrary: pos thesis)
  case (Cons g gs)
  let ?next = "field_start ds pos g + field_bits ds g"
  from Cons.prems(2) consider "p = field_start ds pos g" "f = g" | "(p, f) \<in> set (place_struct ds ?next gs)"
    by (auto simp: Let_def)
  then show ?case
  proof cases
    case 1
    then show ?thesis
      using Cons.prems(1) [of pos] struct_end_ge [of ?next ds gs] by simp
  next
    case 2
    have "pos \<le> ?next"
      using field_start_ge trans_le_add1 by blast
    with Cons.IH [OF _ 2] Cons.prems(1) show ?thesis
      by (metis order_trans struct_end.simps(2))
  qed
qed simp

lemma place_struct_within:
  "(p, f) \<in> set (place_struct ds pos fs) \<Longrightarrow>
     pos \<le> p \<and> p + field_bits ds f \<le> struct_end ds pos fs"
  by (metis place_struct_cases field_start_ge order_trans)

lemma place_struct_aligned:
  "(p, Field n t) \<in> set (place_struct ds pos fs) \<Longrightarrow> 8 * alignof ds t dvd p"
  by (erule place_struct_cases) (simp add: align_up_dvd less_imp_neq)

lemma field_start_unit:
  fixes ds pos n t w
  assumes "0 < w" "w \<le> 8 * sizeof ds t"
  defines "unit \<equiv> 8 * sizeof ds t" and "p \<equiv> field_start ds pos (Bits n t w)"
  shows "p div unit = (p + w - 1) div unit"
proof (cases "pos div unit = (pos + w - 1) div unit")
  case True
  then show ?thesis
    using assms by (simp add: Let_def)
next
  case False
  then have p: "p = align_up pos unit"
    using assms by (simp add: Let_def)
  have "unit \<noteq> 0"
    using assms by simp
  then obtain k where k: "p = unit * k"
    using p align_up_dvd by (metis dvd_def)
  have "p + w - 1 = unit * k + (w - 1)"
    using k assms(1) by simp
  moreover have "(unit * k + (w - 1)) div unit = k"
    using assms(1,2) by (intro div_nat_eqI) (auto simp: unit_def)
  ultimately have "(p + w - 1) div unit = k"
    by (simp only:)
  then show ?thesis
    using k \<open>unit \<noteq> 0\<close> by simp
qed

lemma place_struct_unit:
  "(p, Bits n t w) \<in> set (place_struct ds pos fs) \<Longrightarrow> 0 < w \<Longrightarrow> w \<le> 8 * sizeof ds t \<Longrightarrow>
     p div (8 * sizeof ds t) = (p + w - 1) div (8 * sizeof ds t)"
  by (erule place_struct_cases) (metis field_start_unit)

lemma place_struct_ordered:
  "sorted_wrt (\<lambda>(p, f) (q, g). p + field_bits ds f \<le> q) (place_struct ds pos fs)"
proof (induction fs arbitrary: pos)
  case (Cons g gs)
  then show ?case
    using place_struct_within by (fastforce simp: Let_def)
qed simp

lemma complete_fields_iff: "complete_fields ds fs \<longleftrightarrow> list_all (complete_field ds) fs"
  by (induction fs) auto

lemma place_struct_field: "(p, f) \<in> set (place_struct ds pos fs) \<Longrightarrow> f \<in> set fs"
  by (induction fs arbitrary: pos) (auto simp: Let_def)

lemma union_end_ge: "f \<in> set fs \<Longrightarrow> field_bits ds f \<le> union_end ds fs"
  by (induction fs) auto

lemma sizeof_union_ge: "union_end ds fs \<le> 8 * sizeof ds (CUnion fs)"
  using align_up_ge [of "(union_end ds fs + 7) div 8" "alignof_fields ds fs"] by simp

lemma member_path_append:
  "member_path ds (ms @ ns) t =
     (case member_path ds ms t of
        Some (off, u) \<Rightarrow> map_option (\<lambda>(p, v). (off + p, v)) (member_path ds ns u)
      | None \<Rightarrow> None)"
  by (induction ds ms t rule: member_path.induct)
     (auto split: option.splits simp: option.map_comp comp_def case_prod_unfold add.assoc option.map_ident)

lemma sizeof_struct_dvd: "alignof ds (CStruct fs) dvd sizeof ds (CStruct fs)"
  using align_up_dvd [of "alignof_fields ds fs"] by (simp add: less_imp_neq)

lemma struct_end_le_sizeof: "struct_end ds 0 fs \<le> 8 * sizeof ds (CStruct fs)"
  using align_up_ge [of "(struct_end ds 0 fs + 7) div 8" "alignof_fields ds fs"] by simp

lemma align_up_fields_dvd [simp]: "alignof_fields ds fs dvd align_up n (alignof_fields ds fs)"
  using alignof_pos(3) [of ds fs] by (intro align_up_dvd) simp

lemma alignof_dvd_sizeof:
  fixes f :: cfield and fs :: "cfield list"
  shows "alignof ds t dvd sizeof ds t" and True and True
  by (induction ds t and ds f and ds fs rule: alignof_alignof_field_alignof_fields.induct)
     (auto split: option.splits)

lemma members_within:
  "(p, f) \<in> set (members ds t) \<Longrightarrow> p + field_bits ds f \<le> 8 * sizeof ds t"
proof (induction ds t rule: members.induct)
  case (1 ds fs)
  then show ?case
    using place_struct_within struct_end_le_sizeof by (metis members.simps(1) order_trans)
next
  case (2 ds fs)
  then have "f \<in> set fs" "p = 0"
    by auto
  then show ?case
    using union_end_ge sizeof_union_ge by (metis add_0 order_trans)
qed auto

lemma members_aligned:
  "(p, Field n u) \<in> set (members ds t) \<Longrightarrow> 8 * alignof ds u dvd p"
  by (induction ds t rule: members.induct) (auto simp: place_struct_aligned)

lemma members_complete:
  "(p, f) \<in> set (members ds t) \<Longrightarrow> complete_type ds t \<Longrightarrow> complete_field ds f"
  by (induction ds t rule: members.induct)
     (auto simp: complete_fields_iff list_all_iff dest: place_struct_field)

lemma members_in_unit:
  assumes "(p, Bits n u w) \<in> set (members ds t)" and "complete_type ds t" and "0 < w"
  shows "p div (8 * sizeof ds u) = (p + w - 1) div (8 * sizeof ds u)"
proof -
  have "w \<le> 8 * sizeof ds u"
    using members_complete [OF assms(1,2)] by simp
  with assms(1,3) show ?thesis
    by (induction ds t rule: members.induct) (auto simp: place_struct_unit)
qed

lemma members_disjoint:
  "sorted_wrt (\<lambda>(p, f) (q, g). p + field_bits ds f \<le> q) (members ds (CStruct fs))"
  by (simp add: place_struct_ordered)

end
