(* ===== verification/Helper_Defs.thy ===== *)
theory Helper_Defs
  imports C_Types
begin

text \<open>
  The helper prototypes of \<^verbatim>\<open>src/ebpf/src/headers/bpf_helper_defs.h\<close>: every stub
  \<^verbatim>\<open>static T (*bpf_f)(params) = (void *) N;\<close> is one definition with the name, the result type, the
  parameters in order, whether the parameter list ends in an ellipsis, and the number \<^verbatim>\<open>N\<close> a call
  through the stub invokes. The documentation comment above a stub says what the helper returns;
  that contract is recorded as a \<^verbatim>\<open>ret_doc\<close> value.
\<close>

section \<open>Declarations\<close>

text \<open>
  The documented result: zero on success and a negative error otherwise; a value on success and a
  negative error otherwise; a value with no error reported; always zero; a verdict code of the
  hook; a pointer that is never NULL; a pointer or NULL; nothing.
\<close>

datatype ret_doc =
    Ret_Zero_Or_Neg
  | Ret_Value_Or_Neg
  | Ret_Value
  | Ret_Zero
  | Ret_Verdict
  | Ret_Ptr
  | Ret_Ptr_Or_Null
  | Ret_Nothing

datatype helper_decl =
  Helper_Decl (hd_name: string) (hd_ret: ctype) (hd_params: "(string \<times> ctype) list")
    (hd_variadic: bool) (hd_returns: ret_doc) (hd_id: nat)

text \<open>The stubs, in the order of the header.\<close>

definition bpf_map_lookup_elem :: helper_decl where
  [decl_simps]: "bpf_map_lookup_elem = Helper_Decl ''bpf_map_lookup_elem'' (CPtr CVoid)
     [(''map'', CPtr CVoid),
      (''key'', CPtr (CConst CVoid))]
     False Ret_Ptr_Or_Null 1"

definition bpf_map_update_elem :: helper_decl where
  [decl_simps]: "bpf_map_update_elem = Helper_Decl ''bpf_map_update_elem'' (CPrim PLong)
     [(''map'', CPtr CVoid),
      (''key'', CPtr (CConst CVoid)),
      (''value'', CPtr (CConst CVoid)),
      (''flags'', CName ''__u64'')]
     False Ret_Zero_Or_Neg 2"

definition bpf_map_delete_elem :: helper_decl where
  [decl_simps]: "bpf_map_delete_elem = Helper_Decl ''bpf_map_delete_elem'' (CPrim PLong)
     [(''map'', CPtr CVoid),
      (''key'', CPtr (CConst CVoid))]
     False Ret_Zero_Or_Neg 3"

definition bpf_probe_read :: helper_decl where
  [decl_simps]: "bpf_probe_read = Helper_Decl ''bpf_probe_read'' (CPrim PLong)
     [(''dst'', CPtr CVoid),
      (''size'', CName ''__u32''),
      (''unsafe_ptr'', CPtr (CConst CVoid))]
     False Ret_Zero_Or_Neg 4"

definition bpf_ktime_get_ns :: helper_decl where
  [decl_simps]: "bpf_ktime_get_ns = Helper_Decl ''bpf_ktime_get_ns'' (CName ''__u64'')
     []
     False Ret_Value 5"

definition bpf_trace_printk :: helper_decl where
  [decl_simps]: "bpf_trace_printk = Helper_Decl ''bpf_trace_printk'' (CPrim PLong)
     [(''fmt'', CPtr (CConst (CPrim PChar))),
      (''fmt_size'', CName ''__u32'')]
     True Ret_Value_Or_Neg 6"

definition bpf_get_prandom_u32 :: helper_decl where
  [decl_simps]: "bpf_get_prandom_u32 = Helper_Decl ''bpf_get_prandom_u32'' (CName ''__u32'')
     []
     False Ret_Value 7"

definition bpf_get_smp_processor_id :: helper_decl where
  [decl_simps]: "bpf_get_smp_processor_id = Helper_Decl ''bpf_get_smp_processor_id'' (CName ''__u32'')
     []
     False Ret_Value 8"

definition bpf_skb_store_bytes :: helper_decl where
  [decl_simps]: "bpf_skb_store_bytes = Helper_Decl ''bpf_skb_store_bytes'' (CPrim PLong)
     [(''skb'', CPtr (CTag ''__sk_buff'')),
      (''offset'', CName ''__u32''),
      (''from'', CPtr (CConst CVoid)),
      (''len'', CName ''__u32''),
      (''flags'', CName ''__u64'')]
     False Ret_Zero_Or_Neg 9"

definition bpf_l3_csum_replace :: helper_decl where
  [decl_simps]: "bpf_l3_csum_replace = Helper_Decl ''bpf_l3_csum_replace'' (CPrim PLong)
     [(''skb'', CPtr (CTag ''__sk_buff'')),
      (''offset'', CName ''__u32''),
      (''from'', CName ''__u64''),
      (''to'', CName ''__u64''),
      (''size'', CName ''__u64'')]
     False Ret_Zero_Or_Neg 10"

definition bpf_l4_csum_replace :: helper_decl where
  [decl_simps]: "bpf_l4_csum_replace = Helper_Decl ''bpf_l4_csum_replace'' (CPrim PLong)
     [(''skb'', CPtr (CTag ''__sk_buff'')),
      (''offset'', CName ''__u32''),
      (''from'', CName ''__u64''),
      (''to'', CName ''__u64''),
      (''flags'', CName ''__u64'')]
     False Ret_Zero_Or_Neg 11"

definition bpf_tail_call :: helper_decl where
  [decl_simps]: "bpf_tail_call = Helper_Decl ''bpf_tail_call'' (CPrim PLong)
     [(''ctx'', CPtr CVoid),
      (''prog_array_map'', CPtr CVoid),
      (''index'', CName ''__u32'')]
     False Ret_Zero_Or_Neg 12"

definition bpf_clone_redirect :: helper_decl where
  [decl_simps]: "bpf_clone_redirect = Helper_Decl ''bpf_clone_redirect'' (CPrim PLong)
     [(''skb'', CPtr (CTag ''__sk_buff'')),
      (''ifindex'', CName ''__u32''),
      (''flags'', CName ''__u64'')]
     False Ret_Zero_Or_Neg 13"

definition bpf_get_current_pid_tgid :: helper_decl where
  [decl_simps]: "bpf_get_current_pid_tgid = Helper_Decl ''bpf_get_current_pid_tgid'' (CName ''__u64'')
     []
     False Ret_Value 14"

definition bpf_get_current_uid_gid :: helper_decl where
  [decl_simps]: "bpf_get_current_uid_gid = Helper_Decl ''bpf_get_current_uid_gid'' (CName ''__u64'')
     []
     False Ret_Value 15"

definition bpf_get_current_comm :: helper_decl where
  [decl_simps]: "bpf_get_current_comm = Helper_Decl ''bpf_get_current_comm'' (CPrim PLong)
     [(''buf'', CPtr CVoid),
      (''size_of_buf'', CName ''__u32'')]
     False Ret_Zero_Or_Neg 16"

definition bpf_get_cgroup_classid :: helper_decl where
  [decl_simps]: "bpf_get_cgroup_classid = Helper_Decl ''bpf_get_cgroup_classid'' (CName ''__u32'')
     [(''skb'', CPtr (CTag ''__sk_buff''))]
     False Ret_Value 17"

definition bpf_skb_vlan_push :: helper_decl where
  [decl_simps]: "bpf_skb_vlan_push = Helper_Decl ''bpf_skb_vlan_push'' (CPrim PLong)
     [(''skb'', CPtr (CTag ''__sk_buff'')),
      (''vlan_proto'', CName ''__be16''),
      (''vlan_tci'', CName ''__u16'')]
     False Ret_Zero_Or_Neg 18"

definition bpf_skb_vlan_pop :: helper_decl where
  [decl_simps]: "bpf_skb_vlan_pop = Helper_Decl ''bpf_skb_vlan_pop'' (CPrim PLong)
     [(''skb'', CPtr (CTag ''__sk_buff''))]
     False Ret_Zero_Or_Neg 19"

definition bpf_skb_get_tunnel_key :: helper_decl where
  [decl_simps]: "bpf_skb_get_tunnel_key = Helper_Decl ''bpf_skb_get_tunnel_key'' (CPrim PLong)
     [(''skb'', CPtr (CTag ''__sk_buff'')),
      (''key'', CPtr (CTag ''bpf_tunnel_key'')),
      (''size'', CName ''__u32''),
      (''flags'', CName ''__u64'')]
     False Ret_Zero_Or_Neg 20"

definition bpf_skb_set_tunnel_key :: helper_decl where
  [decl_simps]: "bpf_skb_set_tunnel_key = Helper_Decl ''bpf_skb_set_tunnel_key'' (CPrim PLong)
     [(''skb'', CPtr (CTag ''__sk_buff'')),
      (''key'', CPtr (CTag ''bpf_tunnel_key'')),
      (''size'', CName ''__u32''),
      (''flags'', CName ''__u64'')]
     False Ret_Zero_Or_Neg 21"

definition bpf_perf_event_read :: helper_decl where
  [decl_simps]: "bpf_perf_event_read = Helper_Decl ''bpf_perf_event_read'' (CName ''__u64'')
     [(''map'', CPtr CVoid),
      (''flags'', CName ''__u64'')]
     False Ret_Value_Or_Neg 22"

definition bpf_redirect :: helper_decl where
  [decl_simps]: "bpf_redirect = Helper_Decl ''bpf_redirect'' (CPrim PLong)
     [(''ifindex'', CName ''__u32''),
      (''flags'', CName ''__u64'')]
     False Ret_Verdict 23"

definition bpf_get_route_realm :: helper_decl where
  [decl_simps]: "bpf_get_route_realm = Helper_Decl ''bpf_get_route_realm'' (CName ''__u32'')
     [(''skb'', CPtr (CTag ''__sk_buff''))]
     False Ret_Value 24"

definition bpf_perf_event_output :: helper_decl where
  [decl_simps]: "bpf_perf_event_output = Helper_Decl ''bpf_perf_event_output'' (CPrim PLong)
     [(''ctx'', CPtr CVoid),
      (''map'', CPtr CVoid),
      (''flags'', CName ''__u64''),
      (''data'', CPtr CVoid),
      (''size'', CName ''__u64'')]
     False Ret_Zero_Or_Neg 25"

definition bpf_skb_load_bytes :: helper_decl where
  [decl_simps]: "bpf_skb_load_bytes = Helper_Decl ''bpf_skb_load_bytes'' (CPrim PLong)
     [(''skb'', CPtr (CConst CVoid)),
      (''offset'', CName ''__u32''),
      (''to'', CPtr CVoid),
      (''len'', CName ''__u32'')]
     False Ret_Zero_Or_Neg 26"

definition bpf_get_stackid :: helper_decl where
  [decl_simps]: "bpf_get_stackid = Helper_Decl ''bpf_get_stackid'' (CPrim PLong)
     [(''ctx'', CPtr CVoid),
      (''map'', CPtr CVoid),
      (''flags'', CName ''__u64'')]
     False Ret_Value_Or_Neg 27"

definition bpf_csum_diff :: helper_decl where
  [decl_simps]: "bpf_csum_diff = Helper_Decl ''bpf_csum_diff'' (CName ''__s64'')
     [(''from'', CPtr (CName ''__be32'')),
      (''from_size'', CName ''__u32''),
      (''to'', CPtr (CName ''__be32'')),
      (''to_size'', CName ''__u32''),
      (''seed'', CName ''__wsum'')]
     False Ret_Value_Or_Neg 28"

definition bpf_skb_get_tunnel_opt :: helper_decl where
  [decl_simps]: "bpf_skb_get_tunnel_opt = Helper_Decl ''bpf_skb_get_tunnel_opt'' (CPrim PLong)
     [(''skb'', CPtr (CTag ''__sk_buff'')),
      (''opt'', CPtr CVoid),
      (''size'', CName ''__u32'')]
     False Ret_Value 29"

definition bpf_skb_set_tunnel_opt :: helper_decl where
  [decl_simps]: "bpf_skb_set_tunnel_opt = Helper_Decl ''bpf_skb_set_tunnel_opt'' (CPrim PLong)
     [(''skb'', CPtr (CTag ''__sk_buff'')),
      (''opt'', CPtr CVoid),
      (''size'', CName ''__u32'')]
     False Ret_Zero_Or_Neg 30"

definition bpf_skb_change_proto :: helper_decl where
  [decl_simps]: "bpf_skb_change_proto = Helper_Decl ''bpf_skb_change_proto'' (CPrim PLong)
     [(''skb'', CPtr (CTag ''__sk_buff'')),
      (''proto'', CName ''__be16''),
      (''flags'', CName ''__u64'')]
     False Ret_Zero_Or_Neg 31"

definition bpf_skb_change_type :: helper_decl where
  [decl_simps]: "bpf_skb_change_type = Helper_Decl ''bpf_skb_change_type'' (CPrim PLong)
     [(''skb'', CPtr (CTag ''__sk_buff'')),
      (''type'', CName ''__u32'')]
     False Ret_Zero_Or_Neg 32"

definition bpf_skb_under_cgroup :: helper_decl where
  [decl_simps]: "bpf_skb_under_cgroup = Helper_Decl ''bpf_skb_under_cgroup'' (CPrim PLong)
     [(''skb'', CPtr (CTag ''__sk_buff'')),
      (''map'', CPtr CVoid),
      (''index'', CName ''__u32'')]
     False Ret_Value_Or_Neg 33"

definition bpf_get_hash_recalc :: helper_decl where
  [decl_simps]: "bpf_get_hash_recalc = Helper_Decl ''bpf_get_hash_recalc'' (CName ''__u32'')
     [(''skb'', CPtr (CTag ''__sk_buff''))]
     False Ret_Value 34"

definition bpf_get_current_task :: helper_decl where
  [decl_simps]: "bpf_get_current_task = Helper_Decl ''bpf_get_current_task'' (CName ''__u64'')
     []
     False Ret_Value 35"

definition bpf_probe_write_user :: helper_decl where
  [decl_simps]: "bpf_probe_write_user = Helper_Decl ''bpf_probe_write_user'' (CPrim PLong)
     [(''dst'', CPtr CVoid),
      (''src'', CPtr (CConst CVoid)),
      (''len'', CName ''__u32'')]
     False Ret_Zero_Or_Neg 36"

definition bpf_current_task_under_cgroup :: helper_decl where
  [decl_simps]: "bpf_current_task_under_cgroup = Helper_Decl ''bpf_current_task_under_cgroup'' (CPrim PLong)
     [(''map'', CPtr CVoid),
      (''index'', CName ''__u32'')]
     False Ret_Value_Or_Neg 37"

definition bpf_skb_change_tail :: helper_decl where
  [decl_simps]: "bpf_skb_change_tail = Helper_Decl ''bpf_skb_change_tail'' (CPrim PLong)
     [(''skb'', CPtr (CTag ''__sk_buff'')),
      (''len'', CName ''__u32''),
      (''flags'', CName ''__u64'')]
     False Ret_Zero_Or_Neg 38"

definition bpf_skb_pull_data :: helper_decl where
  [decl_simps]: "bpf_skb_pull_data = Helper_Decl ''bpf_skb_pull_data'' (CPrim PLong)
     [(''skb'', CPtr (CTag ''__sk_buff'')),
      (''len'', CName ''__u32'')]
     False Ret_Zero_Or_Neg 39"

definition bpf_csum_update :: helper_decl where
  [decl_simps]: "bpf_csum_update = Helper_Decl ''bpf_csum_update'' (CName ''__s64'')
     [(''skb'', CPtr (CTag ''__sk_buff'')),
      (''csum'', CName ''__wsum'')]
     False Ret_Value_Or_Neg 40"

definition bpf_set_hash_invalid :: helper_decl where
  [decl_simps]: "bpf_set_hash_invalid = Helper_Decl ''bpf_set_hash_invalid'' CVoid
     [(''skb'', CPtr (CTag ''__sk_buff''))]
     False Ret_Nothing 41"

definition bpf_get_numa_node_id :: helper_decl where
  [decl_simps]: "bpf_get_numa_node_id = Helper_Decl ''bpf_get_numa_node_id'' (CPrim PLong)
     []
     False Ret_Value 42"

definition bpf_skb_change_head :: helper_decl where
  [decl_simps]: "bpf_skb_change_head = Helper_Decl ''bpf_skb_change_head'' (CPrim PLong)
     [(''skb'', CPtr (CTag ''__sk_buff'')),
      (''len'', CName ''__u32''),
      (''flags'', CName ''__u64'')]
     False Ret_Zero_Or_Neg 43"

definition bpf_xdp_adjust_head :: helper_decl where
  [decl_simps]: "bpf_xdp_adjust_head = Helper_Decl ''bpf_xdp_adjust_head'' (CPrim PLong)
     [(''xdp_md'', CPtr (CTag ''xdp_md'')),
      (''delta'', CPrim PInt)]
     False Ret_Zero_Or_Neg 44"

definition bpf_probe_read_str :: helper_decl where
  [decl_simps]: "bpf_probe_read_str = Helper_Decl ''bpf_probe_read_str'' (CPrim PLong)
     [(''dst'', CPtr CVoid),
      (''size'', CName ''__u32''),
      (''unsafe_ptr'', CPtr (CConst CVoid))]
     False Ret_Value_Or_Neg 45"

definition bpf_get_socket_cookie :: helper_decl where
  [decl_simps]: "bpf_get_socket_cookie = Helper_Decl ''bpf_get_socket_cookie'' (CName ''__u64'')
     [(''ctx'', CPtr CVoid)]
     False Ret_Value 46"

definition bpf_get_socket_uid :: helper_decl where
  [decl_simps]: "bpf_get_socket_uid = Helper_Decl ''bpf_get_socket_uid'' (CName ''__u32'')
     [(''skb'', CPtr (CTag ''__sk_buff''))]
     False Ret_Value 47"

definition bpf_set_hash :: helper_decl where
  [decl_simps]: "bpf_set_hash = Helper_Decl ''bpf_set_hash'' (CPrim PLong)
     [(''skb'', CPtr (CTag ''__sk_buff'')),
      (''hash'', CName ''__u32'')]
     False Ret_Zero 48"

definition bpf_setsockopt :: helper_decl where
  [decl_simps]: "bpf_setsockopt = Helper_Decl ''bpf_setsockopt'' (CPrim PLong)
     [(''bpf_socket'', CPtr CVoid),
      (''level'', CPrim PInt),
      (''optname'', CPrim PInt),
      (''optval'', CPtr CVoid),
      (''optlen'', CPrim PInt)]
     False Ret_Zero_Or_Neg 49"

definition bpf_skb_adjust_room :: helper_decl where
  [decl_simps]: "bpf_skb_adjust_room = Helper_Decl ''bpf_skb_adjust_room'' (CPrim PLong)
     [(''skb'', CPtr (CTag ''__sk_buff'')),
      (''len_diff'', CName ''__s32''),
      (''mode'', CName ''__u32''),
      (''flags'', CName ''__u64'')]
     False Ret_Zero_Or_Neg 50"

definition bpf_redirect_map :: helper_decl where
  [decl_simps]: "bpf_redirect_map = Helper_Decl ''bpf_redirect_map'' (CPrim PLong)
     [(''map'', CPtr CVoid),
      (''key'', CName ''__u32''),
      (''flags'', CName ''__u64'')]
     False Ret_Verdict 51"

definition bpf_sk_redirect_map :: helper_decl where
  [decl_simps]: "bpf_sk_redirect_map = Helper_Decl ''bpf_sk_redirect_map'' (CPrim PLong)
     [(''skb'', CPtr (CTag ''__sk_buff'')),
      (''map'', CPtr CVoid),
      (''key'', CName ''__u32''),
      (''flags'', CName ''__u64'')]
     False Ret_Verdict 52"

definition bpf_sock_map_update :: helper_decl where
  [decl_simps]: "bpf_sock_map_update = Helper_Decl ''bpf_sock_map_update'' (CPrim PLong)
     [(''skops'', CPtr (CTag ''bpf_sock_ops'')),
      (''map'', CPtr CVoid),
      (''key'', CPtr CVoid),
      (''flags'', CName ''__u64'')]
     False Ret_Zero_Or_Neg 53"

definition bpf_xdp_adjust_meta :: helper_decl where
  [decl_simps]: "bpf_xdp_adjust_meta = Helper_Decl ''bpf_xdp_adjust_meta'' (CPrim PLong)
     [(''xdp_md'', CPtr (CTag ''xdp_md'')),
      (''delta'', CPrim PInt)]
     False Ret_Zero_Or_Neg 54"

definition bpf_perf_event_read_value :: helper_decl where
  [decl_simps]: "bpf_perf_event_read_value = Helper_Decl ''bpf_perf_event_read_value'' (CPrim PLong)
     [(''map'', CPtr CVoid),
      (''flags'', CName ''__u64''),
      (''buf'', CPtr (CTag ''bpf_perf_event_value'')),
      (''buf_size'', CName ''__u32'')]
     False Ret_Zero_Or_Neg 55"

definition bpf_perf_prog_read_value :: helper_decl where
  [decl_simps]: "bpf_perf_prog_read_value = Helper_Decl ''bpf_perf_prog_read_value'' (CPrim PLong)
     [(''ctx'', CPtr (CTag ''bpf_perf_event_data'')),
      (''buf'', CPtr (CTag ''bpf_perf_event_value'')),
      (''buf_size'', CName ''__u32'')]
     False Ret_Zero_Or_Neg 56"

definition bpf_getsockopt :: helper_decl where
  [decl_simps]: "bpf_getsockopt = Helper_Decl ''bpf_getsockopt'' (CPrim PLong)
     [(''bpf_socket'', CPtr CVoid),
      (''level'', CPrim PInt),
      (''optname'', CPrim PInt),
      (''optval'', CPtr CVoid),
      (''optlen'', CPrim PInt)]
     False Ret_Zero_Or_Neg 57"

definition bpf_override_return :: helper_decl where
  [decl_simps]: "bpf_override_return = Helper_Decl ''bpf_override_return'' (CPrim PLong)
     [(''regs'', CPtr (CTag ''pt_regs'')),
      (''rc'', CName ''__u64'')]
     False Ret_Zero 58"

definition bpf_sock_ops_cb_flags_set :: helper_decl where
  [decl_simps]: "bpf_sock_ops_cb_flags_set = Helper_Decl ''bpf_sock_ops_cb_flags_set'' (CPrim PLong)
     [(''bpf_sock'', CPtr (CTag ''bpf_sock_ops'')),
      (''argval'', CPrim PInt)]
     False Ret_Value_Or_Neg 59"

definition bpf_msg_redirect_map :: helper_decl where
  [decl_simps]: "bpf_msg_redirect_map = Helper_Decl ''bpf_msg_redirect_map'' (CPrim PLong)
     [(''msg'', CPtr (CTag ''sk_msg_md'')),
      (''map'', CPtr CVoid),
      (''key'', CName ''__u32''),
      (''flags'', CName ''__u64'')]
     False Ret_Verdict 60"

definition bpf_msg_apply_bytes :: helper_decl where
  [decl_simps]: "bpf_msg_apply_bytes = Helper_Decl ''bpf_msg_apply_bytes'' (CPrim PLong)
     [(''msg'', CPtr (CTag ''sk_msg_md'')),
      (''bytes'', CName ''__u32'')]
     False Ret_Zero 61"

definition bpf_msg_cork_bytes :: helper_decl where
  [decl_simps]: "bpf_msg_cork_bytes = Helper_Decl ''bpf_msg_cork_bytes'' (CPrim PLong)
     [(''msg'', CPtr (CTag ''sk_msg_md'')),
      (''bytes'', CName ''__u32'')]
     False Ret_Zero 62"

definition bpf_msg_pull_data :: helper_decl where
  [decl_simps]: "bpf_msg_pull_data = Helper_Decl ''bpf_msg_pull_data'' (CPrim PLong)
     [(''msg'', CPtr (CTag ''sk_msg_md'')),
      (''start'', CName ''__u32''),
      (''end'', CName ''__u32''),
      (''flags'', CName ''__u64'')]
     False Ret_Zero_Or_Neg 63"

definition bpf_bind :: helper_decl where
  [decl_simps]: "bpf_bind = Helper_Decl ''bpf_bind'' (CPrim PLong)
     [(''ctx'', CPtr (CTag ''bpf_sock_addr'')),
      (''addr'', CPtr (CTag ''sockaddr'')),
      (''addr_len'', CPrim PInt)]
     False Ret_Zero_Or_Neg 64"

definition bpf_xdp_adjust_tail :: helper_decl where
  [decl_simps]: "bpf_xdp_adjust_tail = Helper_Decl ''bpf_xdp_adjust_tail'' (CPrim PLong)
     [(''xdp_md'', CPtr (CTag ''xdp_md'')),
      (''delta'', CPrim PInt)]
     False Ret_Zero_Or_Neg 65"

definition bpf_skb_get_xfrm_state :: helper_decl where
  [decl_simps]: "bpf_skb_get_xfrm_state = Helper_Decl ''bpf_skb_get_xfrm_state'' (CPrim PLong)
     [(''skb'', CPtr (CTag ''__sk_buff'')),
      (''index'', CName ''__u32''),
      (''xfrm_state'', CPtr (CTag ''bpf_xfrm_state'')),
      (''size'', CName ''__u32''),
      (''flags'', CName ''__u64'')]
     False Ret_Zero_Or_Neg 66"

definition bpf_get_stack :: helper_decl where
  [decl_simps]: "bpf_get_stack = Helper_Decl ''bpf_get_stack'' (CPrim PLong)
     [(''ctx'', CPtr CVoid),
      (''buf'', CPtr CVoid),
      (''size'', CName ''__u32''),
      (''flags'', CName ''__u64'')]
     False Ret_Value_Or_Neg 67"

definition bpf_skb_load_bytes_relative :: helper_decl where
  [decl_simps]: "bpf_skb_load_bytes_relative = Helper_Decl ''bpf_skb_load_bytes_relative'' (CPrim PLong)
     [(''skb'', CPtr (CConst CVoid)),
      (''offset'', CName ''__u32''),
      (''to'', CPtr CVoid),
      (''len'', CName ''__u32''),
      (''start_header'', CName ''__u32'')]
     False Ret_Zero_Or_Neg 68"

definition bpf_fib_lookup :: helper_decl where
  [decl_simps]: "bpf_fib_lookup = Helper_Decl ''bpf_fib_lookup'' (CPrim PLong)
     [(''ctx'', CPtr CVoid),
      (''params'', CPtr (CTag ''bpf_fib_lookup'')),
      (''plen'', CPrim PInt),
      (''flags'', CName ''__u32'')]
     False Ret_Value_Or_Neg 69"

definition bpf_sock_hash_update :: helper_decl where
  [decl_simps]: "bpf_sock_hash_update = Helper_Decl ''bpf_sock_hash_update'' (CPrim PLong)
     [(''skops'', CPtr (CTag ''bpf_sock_ops'')),
      (''map'', CPtr CVoid),
      (''key'', CPtr CVoid),
      (''flags'', CName ''__u64'')]
     False Ret_Zero_Or_Neg 70"

definition bpf_msg_redirect_hash :: helper_decl where
  [decl_simps]: "bpf_msg_redirect_hash = Helper_Decl ''bpf_msg_redirect_hash'' (CPrim PLong)
     [(''msg'', CPtr (CTag ''sk_msg_md'')),
      (''map'', CPtr CVoid),
      (''key'', CPtr CVoid),
      (''flags'', CName ''__u64'')]
     False Ret_Verdict 71"

definition bpf_sk_redirect_hash :: helper_decl where
  [decl_simps]: "bpf_sk_redirect_hash = Helper_Decl ''bpf_sk_redirect_hash'' (CPrim PLong)
     [(''skb'', CPtr (CTag ''__sk_buff'')),
      (''map'', CPtr CVoid),
      (''key'', CPtr CVoid),
      (''flags'', CName ''__u64'')]
     False Ret_Verdict 72"

definition bpf_lwt_push_encap :: helper_decl where
  [decl_simps]: "bpf_lwt_push_encap = Helper_Decl ''bpf_lwt_push_encap'' (CPrim PLong)
     [(''skb'', CPtr (CTag ''__sk_buff'')),
      (''type'', CName ''__u32''),
      (''hdr'', CPtr CVoid),
      (''len'', CName ''__u32'')]
     False Ret_Zero_Or_Neg 73"

definition bpf_lwt_seg6_store_bytes :: helper_decl where
  [decl_simps]: "bpf_lwt_seg6_store_bytes = Helper_Decl ''bpf_lwt_seg6_store_bytes'' (CPrim PLong)
     [(''skb'', CPtr (CTag ''__sk_buff'')),
      (''offset'', CName ''__u32''),
      (''from'', CPtr (CConst CVoid)),
      (''len'', CName ''__u32'')]
     False Ret_Zero_Or_Neg 74"

definition bpf_lwt_seg6_adjust_srh :: helper_decl where
  [decl_simps]: "bpf_lwt_seg6_adjust_srh = Helper_Decl ''bpf_lwt_seg6_adjust_srh'' (CPrim PLong)
     [(''skb'', CPtr (CTag ''__sk_buff'')),
      (''offset'', CName ''__u32''),
      (''delta'', CName ''__s32'')]
     False Ret_Zero_Or_Neg 75"

definition bpf_lwt_seg6_action :: helper_decl where
  [decl_simps]: "bpf_lwt_seg6_action = Helper_Decl ''bpf_lwt_seg6_action'' (CPrim PLong)
     [(''skb'', CPtr (CTag ''__sk_buff'')),
      (''action'', CName ''__u32''),
      (''param'', CPtr CVoid),
      (''param_len'', CName ''__u32'')]
     False Ret_Zero_Or_Neg 76"

definition bpf_rc_repeat :: helper_decl where
  [decl_simps]: "bpf_rc_repeat = Helper_Decl ''bpf_rc_repeat'' (CPrim PLong)
     [(''ctx'', CPtr CVoid)]
     False Ret_Zero 77"

definition bpf_rc_keydown :: helper_decl where
  [decl_simps]: "bpf_rc_keydown = Helper_Decl ''bpf_rc_keydown'' (CPrim PLong)
     [(''ctx'', CPtr CVoid),
      (''protocol'', CName ''__u32''),
      (''scancode'', CName ''__u64''),
      (''toggle'', CName ''__u32'')]
     False Ret_Zero 78"

definition bpf_skb_cgroup_id :: helper_decl where
  [decl_simps]: "bpf_skb_cgroup_id = Helper_Decl ''bpf_skb_cgroup_id'' (CName ''__u64'')
     [(''skb'', CPtr (CTag ''__sk_buff''))]
     False Ret_Value 79"

definition bpf_get_current_cgroup_id :: helper_decl where
  [decl_simps]: "bpf_get_current_cgroup_id = Helper_Decl ''bpf_get_current_cgroup_id'' (CName ''__u64'')
     []
     False Ret_Value 80"

definition bpf_get_local_storage :: helper_decl where
  [decl_simps]: "bpf_get_local_storage = Helper_Decl ''bpf_get_local_storage'' (CPtr CVoid)
     [(''map'', CPtr CVoid),
      (''flags'', CName ''__u64'')]
     False Ret_Ptr 81"

definition bpf_sk_select_reuseport :: helper_decl where
  [decl_simps]: "bpf_sk_select_reuseport = Helper_Decl ''bpf_sk_select_reuseport'' (CPrim PLong)
     [(''reuse'', CPtr (CTag ''sk_reuseport_md'')),
      (''map'', CPtr CVoid),
      (''key'', CPtr CVoid),
      (''flags'', CName ''__u64'')]
     False Ret_Zero_Or_Neg 82"

definition bpf_skb_ancestor_cgroup_id :: helper_decl where
  [decl_simps]: "bpf_skb_ancestor_cgroup_id = Helper_Decl ''bpf_skb_ancestor_cgroup_id'' (CName ''__u64'')
     [(''skb'', CPtr (CTag ''__sk_buff'')),
      (''ancestor_level'', CPrim PInt)]
     False Ret_Value 83"

definition bpf_sk_lookup_tcp :: helper_decl where
  [decl_simps]: "bpf_sk_lookup_tcp = Helper_Decl ''bpf_sk_lookup_tcp'' (CPtr (CTag ''bpf_sock''))
     [(''ctx'', CPtr CVoid),
      (''tuple'', CPtr (CTag ''bpf_sock_tuple'')),
      (''tuple_size'', CName ''__u32''),
      (''netns'', CName ''__u64''),
      (''flags'', CName ''__u64'')]
     False Ret_Ptr_Or_Null 84"

definition bpf_sk_lookup_udp :: helper_decl where
  [decl_simps]: "bpf_sk_lookup_udp = Helper_Decl ''bpf_sk_lookup_udp'' (CPtr (CTag ''bpf_sock''))
     [(''ctx'', CPtr CVoid),
      (''tuple'', CPtr (CTag ''bpf_sock_tuple'')),
      (''tuple_size'', CName ''__u32''),
      (''netns'', CName ''__u64''),
      (''flags'', CName ''__u64'')]
     False Ret_Ptr_Or_Null 85"

definition bpf_sk_release :: helper_decl where
  [decl_simps]: "bpf_sk_release = Helper_Decl ''bpf_sk_release'' (CPrim PLong)
     [(''sock'', CPtr CVoid)]
     False Ret_Zero_Or_Neg 86"

definition bpf_map_push_elem :: helper_decl where
  [decl_simps]: "bpf_map_push_elem = Helper_Decl ''bpf_map_push_elem'' (CPrim PLong)
     [(''map'', CPtr CVoid),
      (''value'', CPtr (CConst CVoid)),
      (''flags'', CName ''__u64'')]
     False Ret_Zero_Or_Neg 87"

definition bpf_map_pop_elem :: helper_decl where
  [decl_simps]: "bpf_map_pop_elem = Helper_Decl ''bpf_map_pop_elem'' (CPrim PLong)
     [(''map'', CPtr CVoid),
      (''value'', CPtr CVoid)]
     False Ret_Zero_Or_Neg 88"

definition bpf_map_peek_elem :: helper_decl where
  [decl_simps]: "bpf_map_peek_elem = Helper_Decl ''bpf_map_peek_elem'' (CPrim PLong)
     [(''map'', CPtr CVoid),
      (''value'', CPtr CVoid)]
     False Ret_Zero_Or_Neg 89"

definition bpf_msg_push_data :: helper_decl where
  [decl_simps]: "bpf_msg_push_data = Helper_Decl ''bpf_msg_push_data'' (CPrim PLong)
     [(''msg'', CPtr (CTag ''sk_msg_md'')),
      (''start'', CName ''__u32''),
      (''len'', CName ''__u32''),
      (''flags'', CName ''__u64'')]
     False Ret_Zero_Or_Neg 90"

definition bpf_msg_pop_data :: helper_decl where
  [decl_simps]: "bpf_msg_pop_data = Helper_Decl ''bpf_msg_pop_data'' (CPrim PLong)
     [(''msg'', CPtr (CTag ''sk_msg_md'')),
      (''start'', CName ''__u32''),
      (''len'', CName ''__u32''),
      (''flags'', CName ''__u64'')]
     False Ret_Zero_Or_Neg 91"

definition bpf_rc_pointer_rel :: helper_decl where
  [decl_simps]: "bpf_rc_pointer_rel = Helper_Decl ''bpf_rc_pointer_rel'' (CPrim PLong)
     [(''ctx'', CPtr CVoid),
      (''rel_x'', CName ''__s32''),
      (''rel_y'', CName ''__s32'')]
     False Ret_Zero 92"

definition bpf_spin_lock :: helper_decl where
  [decl_simps]: "bpf_spin_lock = Helper_Decl ''bpf_spin_lock'' (CPrim PLong)
     [(''lock'', CPtr (CTag ''bpf_spin_lock''))]
     False Ret_Zero 93"

definition bpf_spin_unlock :: helper_decl where
  [decl_simps]: "bpf_spin_unlock = Helper_Decl ''bpf_spin_unlock'' (CPrim PLong)
     [(''lock'', CPtr (CTag ''bpf_spin_lock''))]
     False Ret_Zero 94"

definition bpf_sk_fullsock :: helper_decl where
  [decl_simps]: "bpf_sk_fullsock = Helper_Decl ''bpf_sk_fullsock'' (CPtr (CTag ''bpf_sock''))
     [(''sk'', CPtr (CTag ''bpf_sock''))]
     False Ret_Ptr_Or_Null 95"

definition bpf_tcp_sock :: helper_decl where
  [decl_simps]: "bpf_tcp_sock = Helper_Decl ''bpf_tcp_sock'' (CPtr (CTag ''bpf_tcp_sock''))
     [(''sk'', CPtr (CTag ''bpf_sock''))]
     False Ret_Ptr_Or_Null 96"

definition bpf_skb_ecn_set_ce :: helper_decl where
  [decl_simps]: "bpf_skb_ecn_set_ce = Helper_Decl ''bpf_skb_ecn_set_ce'' (CPrim PLong)
     [(''skb'', CPtr (CTag ''__sk_buff''))]
     False Ret_Value 97"

definition bpf_get_listener_sock :: helper_decl where
  [decl_simps]: "bpf_get_listener_sock = Helper_Decl ''bpf_get_listener_sock'' (CPtr (CTag ''bpf_sock''))
     [(''sk'', CPtr (CTag ''bpf_sock''))]
     False Ret_Ptr_Or_Null 98"

definition bpf_skc_lookup_tcp :: helper_decl where
  [decl_simps]: "bpf_skc_lookup_tcp = Helper_Decl ''bpf_skc_lookup_tcp'' (CPtr (CTag ''bpf_sock''))
     [(''ctx'', CPtr CVoid),
      (''tuple'', CPtr (CTag ''bpf_sock_tuple'')),
      (''tuple_size'', CName ''__u32''),
      (''netns'', CName ''__u64''),
      (''flags'', CName ''__u64'')]
     False Ret_Ptr_Or_Null 99"

definition bpf_tcp_check_syncookie :: helper_decl where
  [decl_simps]: "bpf_tcp_check_syncookie = Helper_Decl ''bpf_tcp_check_syncookie'' (CPrim PLong)
     [(''sk'', CPtr CVoid),
      (''iph'', CPtr CVoid),
      (''iph_len'', CName ''__u32''),
      (''th'', CPtr (CTag ''tcphdr'')),
      (''th_len'', CName ''__u32'')]
     False Ret_Zero_Or_Neg 100"

definition bpf_sysctl_get_name :: helper_decl where
  [decl_simps]: "bpf_sysctl_get_name = Helper_Decl ''bpf_sysctl_get_name'' (CPrim PLong)
     [(''ctx'', CPtr (CTag ''bpf_sysctl'')),
      (''buf'', CPtr (CPrim PChar)),
      (''buf_len'', CPrim PULong),
      (''flags'', CName ''__u64'')]
     False Ret_Value_Or_Neg 101"

definition bpf_sysctl_get_current_value :: helper_decl where
  [decl_simps]: "bpf_sysctl_get_current_value = Helper_Decl ''bpf_sysctl_get_current_value'' (CPrim PLong)
     [(''ctx'', CPtr (CTag ''bpf_sysctl'')),
      (''buf'', CPtr (CPrim PChar)),
      (''buf_len'', CPrim PULong)]
     False Ret_Value_Or_Neg 102"

definition bpf_sysctl_get_new_value :: helper_decl where
  [decl_simps]: "bpf_sysctl_get_new_value = Helper_Decl ''bpf_sysctl_get_new_value'' (CPrim PLong)
     [(''ctx'', CPtr (CTag ''bpf_sysctl'')),
      (''buf'', CPtr (CPrim PChar)),
      (''buf_len'', CPrim PULong)]
     False Ret_Value_Or_Neg 103"

definition bpf_sysctl_set_new_value :: helper_decl where
  [decl_simps]: "bpf_sysctl_set_new_value = Helper_Decl ''bpf_sysctl_set_new_value'' (CPrim PLong)
     [(''ctx'', CPtr (CTag ''bpf_sysctl'')),
      (''buf'', CPtr (CConst (CPrim PChar))),
      (''buf_len'', CPrim PULong)]
     False Ret_Zero_Or_Neg 104"

definition bpf_strtol :: helper_decl where
  [decl_simps]: "bpf_strtol = Helper_Decl ''bpf_strtol'' (CPrim PLong)
     [(''buf'', CPtr (CConst (CPrim PChar))),
      (''buf_len'', CPrim PULong),
      (''flags'', CName ''__u64''),
      (''res'', CPtr (CPrim PLong))]
     False Ret_Value_Or_Neg 105"

definition bpf_strtoul :: helper_decl where
  [decl_simps]: "bpf_strtoul = Helper_Decl ''bpf_strtoul'' (CPrim PLong)
     [(''buf'', CPtr (CConst (CPrim PChar))),
      (''buf_len'', CPrim PULong),
      (''flags'', CName ''__u64''),
      (''res'', CPtr (CPrim PULong))]
     False Ret_Value_Or_Neg 106"

definition bpf_sk_storage_get :: helper_decl where
  [decl_simps]: "bpf_sk_storage_get = Helper_Decl ''bpf_sk_storage_get'' (CPtr CVoid)
     [(''map'', CPtr CVoid),
      (''sk'', CPtr CVoid),
      (''value'', CPtr CVoid),
      (''flags'', CName ''__u64'')]
     False Ret_Ptr_Or_Null 107"

definition bpf_sk_storage_delete :: helper_decl where
  [decl_simps]: "bpf_sk_storage_delete = Helper_Decl ''bpf_sk_storage_delete'' (CPrim PLong)
     [(''map'', CPtr CVoid),
      (''sk'', CPtr CVoid)]
     False Ret_Zero_Or_Neg 108"

definition bpf_send_signal :: helper_decl where
  [decl_simps]: "bpf_send_signal = Helper_Decl ''bpf_send_signal'' (CPrim PLong)
     [(''sig'', CName ''__u32'')]
     False Ret_Zero_Or_Neg 109"

definition bpf_tcp_gen_syncookie :: helper_decl where
  [decl_simps]: "bpf_tcp_gen_syncookie = Helper_Decl ''bpf_tcp_gen_syncookie'' (CName ''__s64'')
     [(''sk'', CPtr CVoid),
      (''iph'', CPtr CVoid),
      (''iph_len'', CName ''__u32''),
      (''th'', CPtr (CTag ''tcphdr'')),
      (''th_len'', CName ''__u32'')]
     False Ret_Value_Or_Neg 110"

definition bpf_skb_output :: helper_decl where
  [decl_simps]: "bpf_skb_output = Helper_Decl ''bpf_skb_output'' (CPrim PLong)
     [(''ctx'', CPtr CVoid),
      (''map'', CPtr CVoid),
      (''flags'', CName ''__u64''),
      (''data'', CPtr CVoid),
      (''size'', CName ''__u64'')]
     False Ret_Zero_Or_Neg 111"

definition bpf_probe_read_user :: helper_decl where
  [decl_simps]: "bpf_probe_read_user = Helper_Decl ''bpf_probe_read_user'' (CPrim PLong)
     [(''dst'', CPtr CVoid),
      (''size'', CName ''__u32''),
      (''unsafe_ptr'', CPtr (CConst CVoid))]
     False Ret_Zero_Or_Neg 112"

definition bpf_probe_read_kernel :: helper_decl where
  [decl_simps]: "bpf_probe_read_kernel = Helper_Decl ''bpf_probe_read_kernel'' (CPrim PLong)
     [(''dst'', CPtr CVoid),
      (''size'', CName ''__u32''),
      (''unsafe_ptr'', CPtr (CConst CVoid))]
     False Ret_Zero_Or_Neg 113"

definition bpf_probe_read_user_str :: helper_decl where
  [decl_simps]: "bpf_probe_read_user_str = Helper_Decl ''bpf_probe_read_user_str'' (CPrim PLong)
     [(''dst'', CPtr CVoid),
      (''size'', CName ''__u32''),
      (''unsafe_ptr'', CPtr (CConst CVoid))]
     False Ret_Value_Or_Neg 114"

definition bpf_probe_read_kernel_str :: helper_decl where
  [decl_simps]: "bpf_probe_read_kernel_str = Helper_Decl ''bpf_probe_read_kernel_str'' (CPrim PLong)
     [(''dst'', CPtr CVoid),
      (''size'', CName ''__u32''),
      (''unsafe_ptr'', CPtr (CConst CVoid))]
     False Ret_Value_Or_Neg 115"

definition bpf_tcp_send_ack :: helper_decl where
  [decl_simps]: "bpf_tcp_send_ack = Helper_Decl ''bpf_tcp_send_ack'' (CPrim PLong)
     [(''tp'', CPtr CVoid),
      (''rcv_nxt'', CName ''__u32'')]
     False Ret_Zero_Or_Neg 116"

definition bpf_send_signal_thread :: helper_decl where
  [decl_simps]: "bpf_send_signal_thread = Helper_Decl ''bpf_send_signal_thread'' (CPrim PLong)
     [(''sig'', CName ''__u32'')]
     False Ret_Zero_Or_Neg 117"

definition bpf_jiffies64 :: helper_decl where
  [decl_simps]: "bpf_jiffies64 = Helper_Decl ''bpf_jiffies64'' (CName ''__u64'')
     []
     False Ret_Value 118"

definition bpf_read_branch_records :: helper_decl where
  [decl_simps]: "bpf_read_branch_records = Helper_Decl ''bpf_read_branch_records'' (CPrim PLong)
     [(''ctx'', CPtr (CTag ''bpf_perf_event_data'')),
      (''buf'', CPtr CVoid),
      (''size'', CName ''__u32''),
      (''flags'', CName ''__u64'')]
     False Ret_Value_Or_Neg 119"

definition bpf_get_ns_current_pid_tgid :: helper_decl where
  [decl_simps]: "bpf_get_ns_current_pid_tgid = Helper_Decl ''bpf_get_ns_current_pid_tgid'' (CPrim PLong)
     [(''dev'', CName ''__u64''),
      (''ino'', CName ''__u64''),
      (''nsdata'', CPtr (CTag ''bpf_pidns_info'')),
      (''size'', CName ''__u32'')]
     False Ret_Zero_Or_Neg 120"

definition bpf_xdp_output :: helper_decl where
  [decl_simps]: "bpf_xdp_output = Helper_Decl ''bpf_xdp_output'' (CPrim PLong)
     [(''ctx'', CPtr CVoid),
      (''map'', CPtr CVoid),
      (''flags'', CName ''__u64''),
      (''data'', CPtr CVoid),
      (''size'', CName ''__u64'')]
     False Ret_Zero_Or_Neg 121"

definition bpf_get_netns_cookie :: helper_decl where
  [decl_simps]: "bpf_get_netns_cookie = Helper_Decl ''bpf_get_netns_cookie'' (CName ''__u64'')
     [(''ctx'', CPtr CVoid)]
     False Ret_Value 122"

definition bpf_get_current_ancestor_cgroup_id :: helper_decl where
  [decl_simps]: "bpf_get_current_ancestor_cgroup_id = Helper_Decl ''bpf_get_current_ancestor_cgroup_id'' (CName ''__u64'')
     [(''ancestor_level'', CPrim PInt)]
     False Ret_Value 123"

definition bpf_sk_assign :: helper_decl where
  [decl_simps]: "bpf_sk_assign = Helper_Decl ''bpf_sk_assign'' (CPrim PLong)
     [(''ctx'', CPtr CVoid),
      (''sk'', CPtr CVoid),
      (''flags'', CName ''__u64'')]
     False Ret_Zero_Or_Neg 124"

definition bpf_ktime_get_boot_ns :: helper_decl where
  [decl_simps]: "bpf_ktime_get_boot_ns = Helper_Decl ''bpf_ktime_get_boot_ns'' (CName ''__u64'')
     []
     False Ret_Value 125"

definition bpf_seq_printf :: helper_decl where
  [decl_simps]: "bpf_seq_printf = Helper_Decl ''bpf_seq_printf'' (CPrim PLong)
     [(''m'', CPtr (CTag ''seq_file'')),
      (''fmt'', CPtr (CConst (CPrim PChar))),
      (''fmt_size'', CName ''__u32''),
      (''data'', CPtr (CConst CVoid)),
      (''data_len'', CName ''__u32'')]
     False Ret_Zero_Or_Neg 126"

definition bpf_seq_write :: helper_decl where
  [decl_simps]: "bpf_seq_write = Helper_Decl ''bpf_seq_write'' (CPrim PLong)
     [(''m'', CPtr (CTag ''seq_file'')),
      (''data'', CPtr (CConst CVoid)),
      (''len'', CName ''__u32'')]
     False Ret_Zero_Or_Neg 127"

definition bpf_sk_cgroup_id :: helper_decl where
  [decl_simps]: "bpf_sk_cgroup_id = Helper_Decl ''bpf_sk_cgroup_id'' (CName ''__u64'')
     [(''sk'', CPtr CVoid)]
     False Ret_Value 128"

definition bpf_sk_ancestor_cgroup_id :: helper_decl where
  [decl_simps]: "bpf_sk_ancestor_cgroup_id = Helper_Decl ''bpf_sk_ancestor_cgroup_id'' (CName ''__u64'')
     [(''sk'', CPtr CVoid),
      (''ancestor_level'', CPrim PInt)]
     False Ret_Value 129"

definition bpf_ringbuf_output :: helper_decl where
  [decl_simps]: "bpf_ringbuf_output = Helper_Decl ''bpf_ringbuf_output'' (CPrim PLong)
     [(''ringbuf'', CPtr CVoid),
      (''data'', CPtr CVoid),
      (''size'', CName ''__u64''),
      (''flags'', CName ''__u64'')]
     False Ret_Zero_Or_Neg 130"

definition bpf_ringbuf_reserve :: helper_decl where
  [decl_simps]: "bpf_ringbuf_reserve = Helper_Decl ''bpf_ringbuf_reserve'' (CPtr CVoid)
     [(''ringbuf'', CPtr CVoid),
      (''size'', CName ''__u64''),
      (''flags'', CName ''__u64'')]
     False Ret_Ptr_Or_Null 131"

definition bpf_ringbuf_submit :: helper_decl where
  [decl_simps]: "bpf_ringbuf_submit = Helper_Decl ''bpf_ringbuf_submit'' CVoid
     [(''data'', CPtr CVoid),
      (''flags'', CName ''__u64'')]
     False Ret_Nothing 132"

definition bpf_ringbuf_discard :: helper_decl where
  [decl_simps]: "bpf_ringbuf_discard = Helper_Decl ''bpf_ringbuf_discard'' CVoid
     [(''data'', CPtr CVoid),
      (''flags'', CName ''__u64'')]
     False Ret_Nothing 133"

definition bpf_ringbuf_query :: helper_decl where
  [decl_simps]: "bpf_ringbuf_query = Helper_Decl ''bpf_ringbuf_query'' (CName ''__u64'')
     [(''ringbuf'', CPtr CVoid),
      (''flags'', CName ''__u64'')]
     False Ret_Value 134"

definition bpf_csum_level :: helper_decl where
  [decl_simps]: "bpf_csum_level = Helper_Decl ''bpf_csum_level'' (CPrim PLong)
     [(''skb'', CPtr (CTag ''__sk_buff'')),
      (''level'', CName ''__u64'')]
     False Ret_Value_Or_Neg 135"

definition bpf_skc_to_tcp6_sock :: helper_decl where
  [decl_simps]: "bpf_skc_to_tcp6_sock = Helper_Decl ''bpf_skc_to_tcp6_sock'' (CPtr (CTag ''tcp6_sock''))
     [(''sk'', CPtr CVoid)]
     False Ret_Ptr_Or_Null 136"

definition bpf_skc_to_tcp_sock :: helper_decl where
  [decl_simps]: "bpf_skc_to_tcp_sock = Helper_Decl ''bpf_skc_to_tcp_sock'' (CPtr (CTag ''tcp_sock''))
     [(''sk'', CPtr CVoid)]
     False Ret_Ptr_Or_Null 137"

definition bpf_skc_to_tcp_timewait_sock :: helper_decl where
  [decl_simps]: "bpf_skc_to_tcp_timewait_sock = Helper_Decl ''bpf_skc_to_tcp_timewait_sock'' (CPtr (CTag ''tcp_timewait_sock''))
     [(''sk'', CPtr CVoid)]
     False Ret_Ptr_Or_Null 138"

definition bpf_skc_to_tcp_request_sock :: helper_decl where
  [decl_simps]: "bpf_skc_to_tcp_request_sock = Helper_Decl ''bpf_skc_to_tcp_request_sock'' (CPtr (CTag ''tcp_request_sock''))
     [(''sk'', CPtr CVoid)]
     False Ret_Ptr_Or_Null 139"

definition bpf_skc_to_udp6_sock :: helper_decl where
  [decl_simps]: "bpf_skc_to_udp6_sock = Helper_Decl ''bpf_skc_to_udp6_sock'' (CPtr (CTag ''udp6_sock''))
     [(''sk'', CPtr CVoid)]
     False Ret_Ptr_Or_Null 140"

definition bpf_get_task_stack :: helper_decl where
  [decl_simps]: "bpf_get_task_stack = Helper_Decl ''bpf_get_task_stack'' (CPrim PLong)
     [(''task'', CPtr (CTag ''task_struct'')),
      (''buf'', CPtr CVoid),
      (''size'', CName ''__u32''),
      (''flags'', CName ''__u64'')]
     False Ret_Value_Or_Neg 141"

definition bpf_load_hdr_opt :: helper_decl where
  [decl_simps]: "bpf_load_hdr_opt = Helper_Decl ''bpf_load_hdr_opt'' (CPrim PLong)
     [(''skops'', CPtr (CTag ''bpf_sock_ops'')),
      (''searchby_res'', CPtr CVoid),
      (''len'', CName ''__u32''),
      (''flags'', CName ''__u64'')]
     False Ret_Value_Or_Neg 142"

definition bpf_store_hdr_opt :: helper_decl where
  [decl_simps]: "bpf_store_hdr_opt = Helper_Decl ''bpf_store_hdr_opt'' (CPrim PLong)
     [(''skops'', CPtr (CTag ''bpf_sock_ops'')),
      (''from'', CPtr (CConst CVoid)),
      (''len'', CName ''__u32''),
      (''flags'', CName ''__u64'')]
     False Ret_Zero_Or_Neg 143"

definition bpf_reserve_hdr_opt :: helper_decl where
  [decl_simps]: "bpf_reserve_hdr_opt = Helper_Decl ''bpf_reserve_hdr_opt'' (CPrim PLong)
     [(''skops'', CPtr (CTag ''bpf_sock_ops'')),
      (''len'', CName ''__u32''),
      (''flags'', CName ''__u64'')]
     False Ret_Zero_Or_Neg 144"

definition bpf_inode_storage_get :: helper_decl where
  [decl_simps]: "bpf_inode_storage_get = Helper_Decl ''bpf_inode_storage_get'' (CPtr CVoid)
     [(''map'', CPtr CVoid),
      (''inode'', CPtr CVoid),
      (''value'', CPtr CVoid),
      (''flags'', CName ''__u64'')]
     False Ret_Ptr_Or_Null 145"

definition bpf_inode_storage_delete :: helper_decl where
  [decl_simps]: "bpf_inode_storage_delete = Helper_Decl ''bpf_inode_storage_delete'' (CPrim PInt)
     [(''map'', CPtr CVoid),
      (''inode'', CPtr CVoid)]
     False Ret_Zero_Or_Neg 146"

definition bpf_d_path :: helper_decl where
  [decl_simps]: "bpf_d_path = Helper_Decl ''bpf_d_path'' (CPrim PLong)
     [(''path'', CPtr (CTag ''path'')),
      (''buf'', CPtr (CPrim PChar)),
      (''sz'', CName ''__u32'')]
     False Ret_Value_Or_Neg 147"

definition bpf_copy_from_user :: helper_decl where
  [decl_simps]: "bpf_copy_from_user = Helper_Decl ''bpf_copy_from_user'' (CPrim PLong)
     [(''dst'', CPtr CVoid),
      (''size'', CName ''__u32''),
      (''user_ptr'', CPtr (CConst CVoid))]
     False Ret_Zero_Or_Neg 148"

definition bpf_snprintf_btf :: helper_decl where
  [decl_simps]: "bpf_snprintf_btf = Helper_Decl ''bpf_snprintf_btf'' (CPrim PLong)
     [(''str'', CPtr (CPrim PChar)),
      (''str_size'', CName ''__u32''),
      (''ptr'', CPtr (CTag ''btf_ptr'')),
      (''btf_ptr_size'', CName ''__u32''),
      (''flags'', CName ''__u64'')]
     False Ret_Value_Or_Neg 149"

definition bpf_seq_printf_btf :: helper_decl where
  [decl_simps]: "bpf_seq_printf_btf = Helper_Decl ''bpf_seq_printf_btf'' (CPrim PLong)
     [(''m'', CPtr (CTag ''seq_file'')),
      (''ptr'', CPtr (CTag ''btf_ptr'')),
      (''ptr_size'', CName ''__u32''),
      (''flags'', CName ''__u64'')]
     False Ret_Zero_Or_Neg 150"

definition bpf_skb_cgroup_classid :: helper_decl where
  [decl_simps]: "bpf_skb_cgroup_classid = Helper_Decl ''bpf_skb_cgroup_classid'' (CName ''__u64'')
     [(''skb'', CPtr (CTag ''__sk_buff''))]
     False Ret_Value 151"

definition bpf_redirect_neigh :: helper_decl where
  [decl_simps]: "bpf_redirect_neigh = Helper_Decl ''bpf_redirect_neigh'' (CPrim PLong)
     [(''ifindex'', CName ''__u32''),
      (''params'', CPtr (CTag ''bpf_redir_neigh'')),
      (''plen'', CPrim PInt),
      (''flags'', CName ''__u64'')]
     False Ret_Verdict 152"

definition bpf_per_cpu_ptr :: helper_decl where
  [decl_simps]: "bpf_per_cpu_ptr = Helper_Decl ''bpf_per_cpu_ptr'' (CPtr CVoid)
     [(''percpu_ptr'', CPtr (CConst CVoid)),
      (''cpu'', CName ''__u32'')]
     False Ret_Ptr_Or_Null 153"

definition bpf_this_cpu_ptr :: helper_decl where
  [decl_simps]: "bpf_this_cpu_ptr = Helper_Decl ''bpf_this_cpu_ptr'' (CPtr CVoid)
     [(''percpu_ptr'', CPtr (CConst CVoid))]
     False Ret_Ptr 154"

definition bpf_redirect_peer :: helper_decl where
  [decl_simps]: "bpf_redirect_peer = Helper_Decl ''bpf_redirect_peer'' (CPrim PLong)
     [(''ifindex'', CName ''__u32''),
      (''flags'', CName ''__u64'')]
     False Ret_Verdict 155"

definition bpf_task_storage_get :: helper_decl where
  [decl_simps]: "bpf_task_storage_get = Helper_Decl ''bpf_task_storage_get'' (CPtr CVoid)
     [(''map'', CPtr CVoid),
      (''task'', CPtr (CTag ''task_struct'')),
      (''value'', CPtr CVoid),
      (''flags'', CName ''__u64'')]
     False Ret_Ptr_Or_Null 156"

definition bpf_task_storage_delete :: helper_decl where
  [decl_simps]: "bpf_task_storage_delete = Helper_Decl ''bpf_task_storage_delete'' (CPrim PLong)
     [(''map'', CPtr CVoid),
      (''task'', CPtr (CTag ''task_struct''))]
     False Ret_Zero_Or_Neg 157"

definition bpf_get_current_task_btf :: helper_decl where
  [decl_simps]: "bpf_get_current_task_btf = Helper_Decl ''bpf_get_current_task_btf'' (CPtr (CTag ''task_struct''))
     []
     False Ret_Ptr 158"

definition bpf_bprm_opts_set :: helper_decl where
  [decl_simps]: "bpf_bprm_opts_set = Helper_Decl ''bpf_bprm_opts_set'' (CPrim PLong)
     [(''bprm'', CPtr (CTag ''linux_binprm'')),
      (''flags'', CName ''__u64'')]
     False Ret_Zero_Or_Neg 159"

definition bpf_ktime_get_coarse_ns :: helper_decl where
  [decl_simps]: "bpf_ktime_get_coarse_ns = Helper_Decl ''bpf_ktime_get_coarse_ns'' (CName ''__u64'')
     []
     False Ret_Value 160"

definition bpf_ima_inode_hash :: helper_decl where
  [decl_simps]: "bpf_ima_inode_hash = Helper_Decl ''bpf_ima_inode_hash'' (CPrim PLong)
     [(''inode'', CPtr (CTag ''inode'')),
      (''dst'', CPtr CVoid),
      (''size'', CName ''__u32'')]
     False Ret_Value_Or_Neg 161"

definition bpf_sock_from_file :: helper_decl where
  [decl_simps]: "bpf_sock_from_file = Helper_Decl ''bpf_sock_from_file'' (CPtr (CTag ''socket''))
     [(''file'', CPtr (CTag ''file''))]
     False Ret_Ptr_Or_Null 162"

definition bpf_check_mtu :: helper_decl where
  [decl_simps]: "bpf_check_mtu = Helper_Decl ''bpf_check_mtu'' (CPrim PLong)
     [(''ctx'', CPtr CVoid),
      (''ifindex'', CName ''__u32''),
      (''mtu_len'', CPtr (CName ''__u32'')),
      (''len_diff'', CName ''__s32''),
      (''flags'', CName ''__u64'')]
     False Ret_Value_Or_Neg 163"

definition bpf_for_each_map_elem :: helper_decl where
  [decl_simps]: "bpf_for_each_map_elem = Helper_Decl ''bpf_for_each_map_elem'' (CPrim PLong)
     [(''map'', CPtr CVoid),
      (''callback_fn'', CPtr CVoid),
      (''callback_ctx'', CPtr CVoid),
      (''flags'', CName ''__u64'')]
     False Ret_Value_Or_Neg 164"

definition bpf_snprintf :: helper_decl where
  [decl_simps]: "bpf_snprintf = Helper_Decl ''bpf_snprintf'' (CPrim PLong)
     [(''str'', CPtr (CPrim PChar)),
      (''str_size'', CName ''__u32''),
      (''fmt'', CPtr (CConst (CPrim PChar))),
      (''data'', CPtr (CName ''__u64'')),
      (''data_len'', CName ''__u32'')]
     False Ret_Value_Or_Neg 165"

definition bpf_sys_bpf :: helper_decl where
  [decl_simps]: "bpf_sys_bpf = Helper_Decl ''bpf_sys_bpf'' (CPrim PLong)
     [(''cmd'', CName ''__u32''),
      (''attr'', CPtr CVoid),
      (''attr_size'', CName ''__u32'')]
     False Ret_Value 166"

definition bpf_btf_find_by_name_kind :: helper_decl where
  [decl_simps]: "bpf_btf_find_by_name_kind = Helper_Decl ''bpf_btf_find_by_name_kind'' (CPrim PLong)
     [(''name'', CPtr (CPrim PChar)),
      (''name_sz'', CPrim PInt),
      (''kind'', CName ''__u32''),
      (''flags'', CPrim PInt)]
     False Ret_Value 167"

definition bpf_sys_close :: helper_decl where
  [decl_simps]: "bpf_sys_close = Helper_Decl ''bpf_sys_close'' (CPrim PLong)
     [(''fd'', CName ''__u32'')]
     False Ret_Value 168"

definition bpf_timer_init :: helper_decl where
  [decl_simps]: "bpf_timer_init = Helper_Decl ''bpf_timer_init'' (CPrim PLong)
     [(''timer'', CPtr (CTag ''bpf_timer'')),
      (''map'', CPtr CVoid),
      (''flags'', CName ''__u64'')]
     False Ret_Zero_Or_Neg 169"

definition bpf_timer_set_callback :: helper_decl where
  [decl_simps]: "bpf_timer_set_callback = Helper_Decl ''bpf_timer_set_callback'' (CPrim PLong)
     [(''timer'', CPtr (CTag ''bpf_timer'')),
      (''callback_fn'', CPtr CVoid)]
     False Ret_Zero_Or_Neg 170"

definition bpf_timer_start :: helper_decl where
  [decl_simps]: "bpf_timer_start = Helper_Decl ''bpf_timer_start'' (CPrim PLong)
     [(''timer'', CPtr (CTag ''bpf_timer'')),
      (''nsecs'', CName ''__u64''),
      (''flags'', CName ''__u64'')]
     False Ret_Zero_Or_Neg 171"

definition bpf_timer_cancel :: helper_decl where
  [decl_simps]: "bpf_timer_cancel = Helper_Decl ''bpf_timer_cancel'' (CPrim PLong)
     [(''timer'', CPtr (CTag ''bpf_timer''))]
     False Ret_Value_Or_Neg 172"

definition bpf_get_func_ip :: helper_decl where
  [decl_simps]: "bpf_get_func_ip = Helper_Decl ''bpf_get_func_ip'' (CName ''__u64'')
     [(''ctx'', CPtr CVoid)]
     False Ret_Value 173"

definition bpf_get_attach_cookie :: helper_decl where
  [decl_simps]: "bpf_get_attach_cookie = Helper_Decl ''bpf_get_attach_cookie'' (CName ''__u64'')
     [(''ctx'', CPtr CVoid)]
     False Ret_Value 174"

definition bpf_task_pt_regs :: helper_decl where
  [decl_simps]: "bpf_task_pt_regs = Helper_Decl ''bpf_task_pt_regs'' (CPrim PLong)
     [(''task'', CPtr (CTag ''task_struct''))]
     False Ret_Value 175"

definition bpf_get_branch_snapshot :: helper_decl where
  [decl_simps]: "bpf_get_branch_snapshot = Helper_Decl ''bpf_get_branch_snapshot'' (CPrim PLong)
     [(''entries'', CPtr CVoid),
      (''size'', CName ''__u32''),
      (''flags'', CName ''__u64'')]
     False Ret_Value_Or_Neg 176"

definition bpf_trace_vprintk :: helper_decl where
  [decl_simps]: "bpf_trace_vprintk = Helper_Decl ''bpf_trace_vprintk'' (CPrim PLong)
     [(''fmt'', CPtr (CConst (CPrim PChar))),
      (''fmt_size'', CName ''__u32''),
      (''data'', CPtr (CConst CVoid)),
      (''data_len'', CName ''__u32'')]
     False Ret_Value_Or_Neg 177"

definition bpf_skc_to_unix_sock :: helper_decl where
  [decl_simps]: "bpf_skc_to_unix_sock = Helper_Decl ''bpf_skc_to_unix_sock'' (CPtr (CTag ''unix_sock''))
     [(''sk'', CPtr CVoid)]
     False Ret_Ptr_Or_Null 178"

definition bpf_kallsyms_lookup_name :: helper_decl where
  [decl_simps]: "bpf_kallsyms_lookup_name = Helper_Decl ''bpf_kallsyms_lookup_name'' (CPrim PLong)
     [(''name'', CPtr (CConst (CPrim PChar))),
      (''name_sz'', CPrim PInt),
      (''flags'', CPrim PInt),
      (''res'', CPtr (CName ''__u64''))]
     False Ret_Zero_Or_Neg 179"

definition bpf_find_vma :: helper_decl where
  [decl_simps]: "bpf_find_vma = Helper_Decl ''bpf_find_vma'' (CPrim PLong)
     [(''task'', CPtr (CTag ''task_struct'')),
      (''addr'', CName ''__u64''),
      (''callback_fn'', CPtr CVoid),
      (''callback_ctx'', CPtr CVoid),
      (''flags'', CName ''__u64'')]
     False Ret_Zero_Or_Neg 180"

text \<open>All stubs of the header, in order.\<close>

definition helper_table :: "helper_decl list" where
  "helper_table = [
    bpf_map_lookup_elem, bpf_map_update_elem, bpf_map_delete_elem,
    bpf_probe_read, bpf_ktime_get_ns, bpf_trace_printk,
    bpf_get_prandom_u32, bpf_get_smp_processor_id, bpf_skb_store_bytes,
    bpf_l3_csum_replace, bpf_l4_csum_replace, bpf_tail_call,
    bpf_clone_redirect, bpf_get_current_pid_tgid, bpf_get_current_uid_gid,
    bpf_get_current_comm, bpf_get_cgroup_classid, bpf_skb_vlan_push,
    bpf_skb_vlan_pop, bpf_skb_get_tunnel_key, bpf_skb_set_tunnel_key,
    bpf_perf_event_read, bpf_redirect, bpf_get_route_realm,
    bpf_perf_event_output, bpf_skb_load_bytes, bpf_get_stackid,
    bpf_csum_diff, bpf_skb_get_tunnel_opt, bpf_skb_set_tunnel_opt,
    bpf_skb_change_proto, bpf_skb_change_type, bpf_skb_under_cgroup,
    bpf_get_hash_recalc, bpf_get_current_task, bpf_probe_write_user,
    bpf_current_task_under_cgroup, bpf_skb_change_tail, bpf_skb_pull_data,
    bpf_csum_update, bpf_set_hash_invalid, bpf_get_numa_node_id,
    bpf_skb_change_head, bpf_xdp_adjust_head, bpf_probe_read_str,
    bpf_get_socket_cookie, bpf_get_socket_uid, bpf_set_hash,
    bpf_setsockopt, bpf_skb_adjust_room, bpf_redirect_map,
    bpf_sk_redirect_map, bpf_sock_map_update, bpf_xdp_adjust_meta,
    bpf_perf_event_read_value, bpf_perf_prog_read_value, bpf_getsockopt,
    bpf_override_return, bpf_sock_ops_cb_flags_set, bpf_msg_redirect_map,
    bpf_msg_apply_bytes, bpf_msg_cork_bytes, bpf_msg_pull_data,
    bpf_bind, bpf_xdp_adjust_tail, bpf_skb_get_xfrm_state,
    bpf_get_stack, bpf_skb_load_bytes_relative, bpf_fib_lookup,
    bpf_sock_hash_update, bpf_msg_redirect_hash, bpf_sk_redirect_hash,
    bpf_lwt_push_encap, bpf_lwt_seg6_store_bytes, bpf_lwt_seg6_adjust_srh,
    bpf_lwt_seg6_action, bpf_rc_repeat, bpf_rc_keydown,
    bpf_skb_cgroup_id, bpf_get_current_cgroup_id, bpf_get_local_storage,
    bpf_sk_select_reuseport, bpf_skb_ancestor_cgroup_id, bpf_sk_lookup_tcp,
    bpf_sk_lookup_udp, bpf_sk_release, bpf_map_push_elem,
    bpf_map_pop_elem, bpf_map_peek_elem, bpf_msg_push_data,
    bpf_msg_pop_data, bpf_rc_pointer_rel, bpf_spin_lock,
    bpf_spin_unlock, bpf_sk_fullsock, bpf_tcp_sock,
    bpf_skb_ecn_set_ce, bpf_get_listener_sock, bpf_skc_lookup_tcp,
    bpf_tcp_check_syncookie, bpf_sysctl_get_name, bpf_sysctl_get_current_value,
    bpf_sysctl_get_new_value, bpf_sysctl_set_new_value, bpf_strtol,
    bpf_strtoul, bpf_sk_storage_get, bpf_sk_storage_delete,
    bpf_send_signal, bpf_tcp_gen_syncookie, bpf_skb_output,
    bpf_probe_read_user, bpf_probe_read_kernel, bpf_probe_read_user_str,
    bpf_probe_read_kernel_str, bpf_tcp_send_ack, bpf_send_signal_thread,
    bpf_jiffies64, bpf_read_branch_records, bpf_get_ns_current_pid_tgid,
    bpf_xdp_output, bpf_get_netns_cookie, bpf_get_current_ancestor_cgroup_id,
    bpf_sk_assign, bpf_ktime_get_boot_ns, bpf_seq_printf,
    bpf_seq_write, bpf_sk_cgroup_id, bpf_sk_ancestor_cgroup_id,
    bpf_ringbuf_output, bpf_ringbuf_reserve, bpf_ringbuf_submit,
    bpf_ringbuf_discard, bpf_ringbuf_query, bpf_csum_level,
    bpf_skc_to_tcp6_sock, bpf_skc_to_tcp_sock, bpf_skc_to_tcp_timewait_sock,
    bpf_skc_to_tcp_request_sock, bpf_skc_to_udp6_sock, bpf_get_task_stack,
    bpf_load_hdr_opt, bpf_store_hdr_opt, bpf_reserve_hdr_opt,
    bpf_inode_storage_get, bpf_inode_storage_delete, bpf_d_path,
    bpf_copy_from_user, bpf_snprintf_btf, bpf_seq_printf_btf,
    bpf_skb_cgroup_classid, bpf_redirect_neigh, bpf_per_cpu_ptr,
    bpf_this_cpu_ptr, bpf_redirect_peer, bpf_task_storage_get,
    bpf_task_storage_delete, bpf_get_current_task_btf, bpf_bprm_opts_set,
    bpf_ktime_get_coarse_ns, bpf_ima_inode_hash, bpf_sock_from_file,
    bpf_check_mtu, bpf_for_each_map_elem, bpf_snprintf,
    bpf_sys_bpf, bpf_btf_find_by_name_kind, bpf_sys_close,
    bpf_timer_init, bpf_timer_set_callback, bpf_timer_start,
    bpf_timer_cancel, bpf_get_func_ip, bpf_get_attach_cookie,
    bpf_task_pt_regs, bpf_get_branch_snapshot, bpf_trace_vprintk,
    bpf_skc_to_unix_sock, bpf_kallsyms_lookup_name, bpf_find_vma]"

end
