(* ===== verification/Kernel_Uapi.thy ===== *)
theory Kernel_Uapi
  imports C_Types
begin

text \<open>
  Kernel declarations the eBPF program is compiled against: the typedefs, enums and structs of
  \<^verbatim>\<open>src/ebpf/src/kernel/vmlinux.h\<close> that the program, the helper prototypes and the loader use, and
  the socket constants of \<^verbatim>\<open>src/ebpf/src/kernel/socket.h\<close>. Each declaration is one definition with
  the members in source order; a typedef list is kept last declaration first, as
  \<^const>\<open>resolve_name\<close> expects.

  The lemmas and properties check these tables against one another and against the layout engine:
  the socket macros agree with the kernel's enums, and the context structure that \<^verbatim>\<open>connect4\<close>
  reads and writes has the offsets and sizes the access rules of the kernel require.
\<close>

section \<open>Typedefs of vmlinux.h\<close>

definition int_typedefs :: typedefs where
  "int_typedefs = [
    (''u64'', CName ''__u64''),
    (''s64'', CName ''__s64''),
    (''u32'', CName ''__u32''),
    (''s32'', CName ''__s32''),
    (''u16'', CName ''__u16''),
    (''s16'', CName ''__s16''),
    (''u8'', CName ''__u8''),
    (''s8'', CName ''__s8''),
    (''__u64'', CPrim PULLong),
    (''__s64'', CPrim PLLong),
    (''__u32'', CPrim PUInt),
    (''__s32'', CPrim PInt),
    (''__u16'', CPrim PUShort),
    (''__s16'', CPrim PShort),
    (''__u8'', CPrim PUChar),
    (''__s8'', CPrim PSChar)]"

definition kernel_typedefs :: typedefs where
  "kernel_typedefs = [
    (''resource_size_t'', CName ''phys_addr_t''),
    (''phys_addr_t'', CName ''u64''),
    (''fmode_t'', CPrim PUInt),
    (''gfp_t'', CPrim PUInt),
    (''blkcnt_t'', CName ''u64''),
    (''sector_t'', CName ''u64''),
    (''uint32_t'', CName ''u32''),
    (''uint16_t'', CName ''u16''),
    (''uint8_t'', CName ''u8''),
    (''ssize_t'', CName ''__kernel_ssize_t''),
    (''size_t'', CName ''__kernel_size_t''),
    (''loff_t'', CName ''__kernel_loff_t''),
    (''gid_t'', CName ''__kernel_gid32_t''),
    (''uid_t'', CName ''__kernel_uid32_t''),
    (''bool'', CPrim PBool),
    (''clockid_t'', CName ''__kernel_clockid_t''),
    (''pid_t'', CName ''__kernel_pid_t''),
    (''umode_t'', CPrim PUShort),
    (''dev_t'', CName ''__kernel_dev_t''),
    (''__kernel_dev_t'', CName ''u32''),
    (''__poll_t'', CPrim PUInt),
    (''__kernel_clockid_t'', CPrim PInt),
    (''__kernel_timer_t'', CPrim PInt),
    (''__kernel_clock_t'', CName ''__kernel_long_t''),
    (''__kernel_time64_t'', CPrim PLLong),
    (''__kernel_loff_t'', CPrim PLLong),
    (''__kernel_ssize_t'', CName ''__kernel_long_t''),
    (''__kernel_size_t'', CName ''__kernel_ulong_t''),
    (''__kernel_gid32_t'', CPrim PUInt),
    (''__kernel_uid32_t'', CPrim PUInt),
    (''__kernel_pid_t'', CPrim PInt),
    (''__kernel_ulong_t'', CPrim PULong),
    (''__kernel_long_t'', CPrim PLong)]"

definition net_typedefs :: typedefs where
  "net_typedefs = [
    (''__wsum'', CName ''__u32''),
    (''__be64'', CName ''__u64''),
    (''__be32'', CName ''__u32''),
    (''__be16'', CName ''__u16''),
    (''__le16'', CName ''__u16''),
    (''__kernel_time_t'', CName ''__kernel_long_t'')]"

definition sa_family_typedef :: typedefs where
  "sa_family_typedef = [
    (''__kernel_sa_family_t'', CPrim PUShort)]"

definition vmlinux_typedefs :: typedefs where
  "vmlinux_typedefs =
     sa_family_typedef @ net_typedefs @ kernel_typedefs @ int_typedefs"

section \<open>Enums of vmlinux.h\<close>

type_synonym c_enum = "(string \<times> int) list"

definition enum_value :: "c_enum \<Rightarrow> string \<Rightarrow> int option" where
  "enum_value e n = map_of e n"

definition bpf_map_type :: c_enum where
  [decl_simps]: "bpf_map_type = [
    (''BPF_MAP_TYPE_UNSPEC'', 0),
    (''BPF_MAP_TYPE_HASH'', 1),
    (''BPF_MAP_TYPE_ARRAY'', 2),
    (''BPF_MAP_TYPE_PROG_ARRAY'', 3),
    (''BPF_MAP_TYPE_PERF_EVENT_ARRAY'', 4),
    (''BPF_MAP_TYPE_PERCPU_HASH'', 5),
    (''BPF_MAP_TYPE_PERCPU_ARRAY'', 6),
    (''BPF_MAP_TYPE_STACK_TRACE'', 7),
    (''BPF_MAP_TYPE_CGROUP_ARRAY'', 8),
    (''BPF_MAP_TYPE_LRU_HASH'', 9),
    (''BPF_MAP_TYPE_LRU_PERCPU_HASH'', 10),
    (''BPF_MAP_TYPE_LPM_TRIE'', 11),
    (''BPF_MAP_TYPE_ARRAY_OF_MAPS'', 12),
    (''BPF_MAP_TYPE_HASH_OF_MAPS'', 13),
    (''BPF_MAP_TYPE_DEVMAP'', 14),
    (''BPF_MAP_TYPE_SOCKMAP'', 15),
    (''BPF_MAP_TYPE_CPUMAP'', 16),
    (''BPF_MAP_TYPE_XSKMAP'', 17),
    (''BPF_MAP_TYPE_SOCKHASH'', 18),
    (''BPF_MAP_TYPE_CGROUP_STORAGE'', 19),
    (''BPF_MAP_TYPE_REUSEPORT_SOCKARRAY'', 20),
    (''BPF_MAP_TYPE_PERCPU_CGROUP_STORAGE'', 21),
    (''BPF_MAP_TYPE_QUEUE'', 22),
    (''BPF_MAP_TYPE_STACK'', 23),
    (''BPF_MAP_TYPE_SK_STORAGE'', 24),
    (''BPF_MAP_TYPE_DEVMAP_HASH'', 25)]"

definition bpf_func_id :: c_enum where
  [decl_simps]: "bpf_func_id = [
    (''BPF_FUNC_unspec'', 0),
    (''BPF_FUNC_map_lookup_elem'', 1),
    (''BPF_FUNC_map_update_elem'', 2),
    (''BPF_FUNC_map_delete_elem'', 3),
    (''BPF_FUNC_probe_read'', 4),
    (''BPF_FUNC_ktime_get_ns'', 5),
    (''BPF_FUNC_trace_printk'', 6),
    (''BPF_FUNC_get_prandom_u32'', 7),
    (''BPF_FUNC_get_smp_processor_id'', 8),
    (''BPF_FUNC_skb_store_bytes'', 9),
    (''BPF_FUNC_l3_csum_replace'', 10),
    (''BPF_FUNC_l4_csum_replace'', 11),
    (''BPF_FUNC_tail_call'', 12),
    (''BPF_FUNC_clone_redirect'', 13),
    (''BPF_FUNC_get_current_pid_tgid'', 14),
    (''BPF_FUNC_get_current_uid_gid'', 15),
    (''BPF_FUNC_get_current_comm'', 16),
    (''BPF_FUNC_get_cgroup_classid'', 17),
    (''BPF_FUNC_skb_vlan_push'', 18),
    (''BPF_FUNC_skb_vlan_pop'', 19),
    (''BPF_FUNC_skb_get_tunnel_key'', 20),
    (''BPF_FUNC_skb_set_tunnel_key'', 21),
    (''BPF_FUNC_perf_event_read'', 22),
    (''BPF_FUNC_redirect'', 23),
    (''BPF_FUNC_get_route_realm'', 24),
    (''BPF_FUNC_perf_event_output'', 25),
    (''BPF_FUNC_skb_load_bytes'', 26),
    (''BPF_FUNC_get_stackid'', 27),
    (''BPF_FUNC_csum_diff'', 28),
    (''BPF_FUNC_skb_get_tunnel_opt'', 29),
    (''BPF_FUNC_skb_set_tunnel_opt'', 30),
    (''BPF_FUNC_skb_change_proto'', 31),
    (''BPF_FUNC_skb_change_type'', 32),
    (''BPF_FUNC_skb_under_cgroup'', 33),
    (''BPF_FUNC_get_hash_recalc'', 34),
    (''BPF_FUNC_get_current_task'', 35),
    (''BPF_FUNC_probe_write_user'', 36),
    (''BPF_FUNC_current_task_under_cgroup'', 37),
    (''BPF_FUNC_skb_change_tail'', 38),
    (''BPF_FUNC_skb_pull_data'', 39),
    (''BPF_FUNC_csum_update'', 40),
    (''BPF_FUNC_set_hash_invalid'', 41),
    (''BPF_FUNC_get_numa_node_id'', 42),
    (''BPF_FUNC_skb_change_head'', 43),
    (''BPF_FUNC_xdp_adjust_head'', 44),
    (''BPF_FUNC_probe_read_str'', 45),
    (''BPF_FUNC_get_socket_cookie'', 46),
    (''BPF_FUNC_get_socket_uid'', 47),
    (''BPF_FUNC_set_hash'', 48),
    (''BPF_FUNC_setsockopt'', 49),
    (''BPF_FUNC_skb_adjust_room'', 50),
    (''BPF_FUNC_redirect_map'', 51),
    (''BPF_FUNC_sk_redirect_map'', 52),
    (''BPF_FUNC_sock_map_update'', 53),
    (''BPF_FUNC_xdp_adjust_meta'', 54),
    (''BPF_FUNC_perf_event_read_value'', 55),
    (''BPF_FUNC_perf_prog_read_value'', 56),
    (''BPF_FUNC_getsockopt'', 57),
    (''BPF_FUNC_override_return'', 58),
    (''BPF_FUNC_sock_ops_cb_flags_set'', 59),
    (''BPF_FUNC_msg_redirect_map'', 60),
    (''BPF_FUNC_msg_apply_bytes'', 61),
    (''BPF_FUNC_msg_cork_bytes'', 62),
    (''BPF_FUNC_msg_pull_data'', 63),
    (''BPF_FUNC_bind'', 64),
    (''BPF_FUNC_xdp_adjust_tail'', 65),
    (''BPF_FUNC_skb_get_xfrm_state'', 66),
    (''BPF_FUNC_get_stack'', 67),
    (''BPF_FUNC_skb_load_bytes_relative'', 68),
    (''BPF_FUNC_fib_lookup'', 69),
    (''BPF_FUNC_sock_hash_update'', 70),
    (''BPF_FUNC_msg_redirect_hash'', 71),
    (''BPF_FUNC_sk_redirect_hash'', 72),
    (''BPF_FUNC_lwt_push_encap'', 73),
    (''BPF_FUNC_lwt_seg6_store_bytes'', 74),
    (''BPF_FUNC_lwt_seg6_adjust_srh'', 75),
    (''BPF_FUNC_lwt_seg6_action'', 76),
    (''BPF_FUNC_rc_repeat'', 77),
    (''BPF_FUNC_rc_keydown'', 78),
    (''BPF_FUNC_skb_cgroup_id'', 79),
    (''BPF_FUNC_get_current_cgroup_id'', 80),
    (''BPF_FUNC_get_local_storage'', 81),
    (''BPF_FUNC_sk_select_reuseport'', 82),
    (''BPF_FUNC_skb_ancestor_cgroup_id'', 83),
    (''BPF_FUNC_sk_lookup_tcp'', 84),
    (''BPF_FUNC_sk_lookup_udp'', 85),
    (''BPF_FUNC_sk_release'', 86),
    (''BPF_FUNC_map_push_elem'', 87),
    (''BPF_FUNC_map_pop_elem'', 88),
    (''BPF_FUNC_map_peek_elem'', 89),
    (''BPF_FUNC_msg_push_data'', 90),
    (''BPF_FUNC_msg_pop_data'', 91),
    (''BPF_FUNC_rc_pointer_rel'', 92),
    (''BPF_FUNC_spin_lock'', 93),
    (''BPF_FUNC_spin_unlock'', 94),
    (''BPF_FUNC_sk_fullsock'', 95),
    (''BPF_FUNC_tcp_sock'', 96),
    (''BPF_FUNC_skb_ecn_set_ce'', 97),
    (''BPF_FUNC_get_listener_sock'', 98),
    (''BPF_FUNC_skc_lookup_tcp'', 99),
    (''BPF_FUNC_tcp_check_syncookie'', 100),
    (''BPF_FUNC_sysctl_get_name'', 101),
    (''BPF_FUNC_sysctl_get_current_value'', 102),
    (''BPF_FUNC_sysctl_get_new_value'', 103),
    (''BPF_FUNC_sysctl_set_new_value'', 104),
    (''BPF_FUNC_strtol'', 105),
    (''BPF_FUNC_strtoul'', 106),
    (''BPF_FUNC_sk_storage_get'', 107),
    (''BPF_FUNC_sk_storage_delete'', 108),
    (''BPF_FUNC_send_signal'', 109),
    (''BPF_FUNC_tcp_gen_syncookie'', 110),
    (''BPF_FUNC_skb_output'', 111),
    (''BPF_FUNC_probe_read_user'', 112),
    (''BPF_FUNC_probe_read_kernel'', 113),
    (''BPF_FUNC_probe_read_user_str'', 114),
    (''BPF_FUNC_probe_read_kernel_str'', 115),
    (''BPF_FUNC_tcp_send_ack'', 116),
    (''BPF_FUNC_send_signal_thread'', 117),
    (''BPF_FUNC_jiffies64'', 118),
    (''BPF_FUNC_read_branch_records'', 119),
    (''BPF_FUNC_get_ns_current_pid_tgid'', 120),
    (''BPF_FUNC_xdp_output'', 121),
    (''BPF_FUNC_get_netns_cookie'', 122),
    (''BPF_FUNC_get_current_ancestor_cgroup_id'', 123),
    (''BPF_FUNC_sk_assign'', 124),
    (''BPF_FUNC_ktime_get_boot_ns'', 125),
    (''BPF_FUNC_seq_printf'', 126),
    (''BPF_FUNC_seq_write'', 127),
    (''BPF_FUNC_sk_cgroup_id'', 128),
    (''BPF_FUNC_sk_ancestor_cgroup_id'', 129),
    (''BPF_FUNC_ringbuf_output'', 130),
    (''BPF_FUNC_ringbuf_reserve'', 131),
    (''BPF_FUNC_ringbuf_submit'', 132),
    (''BPF_FUNC_ringbuf_discard'', 133),
    (''BPF_FUNC_ringbuf_query'', 134),
    (''BPF_FUNC_csum_level'', 135),
    (''BPF_FUNC_skc_to_tcp6_sock'', 136),
    (''BPF_FUNC_skc_to_tcp_sock'', 137),
    (''BPF_FUNC_skc_to_tcp_timewait_sock'', 138),
    (''BPF_FUNC_skc_to_tcp_request_sock'', 139),
    (''BPF_FUNC_skc_to_udp6_sock'', 140),
    (''BPF_FUNC_get_task_stack'', 141),
    (''BPF_FUNC_load_hdr_opt'', 142),
    (''BPF_FUNC_store_hdr_opt'', 143),
    (''BPF_FUNC_reserve_hdr_opt'', 144),
    (''BPF_FUNC_inode_storage_get'', 145),
    (''BPF_FUNC_inode_storage_delete'', 146),
    (''BPF_FUNC_d_path'', 147),
    (''BPF_FUNC_copy_from_user'', 148),
    (''BPF_FUNC_snprintf_btf'', 149),
    (''BPF_FUNC_seq_printf_btf'', 150),
    (''BPF_FUNC_skb_cgroup_classid'', 151),
    (''BPF_FUNC_redirect_neigh'', 152),
    (''BPF_FUNC_bpf_per_cpu_ptr'', 153),
    (''BPF_FUNC_bpf_this_cpu_ptr'', 154),
    (''BPF_FUNC_redirect_peer'', 155),
    (''__BPF_FUNC_MAX_ID'', 156),
    (''__BPF_BYTEDANCE_FUNC_MIN_ID'', 1073741823),
    (''BPF_FUNC_unsafe_helper'', 1073741824),
    (''__BPF_BYTEDANCE_FUNC_MAX_ID'', 1073741825)]"

definition bpf_prog_type :: c_enum where
  [decl_simps]: "bpf_prog_type = [
    (''BPF_PROG_TYPE_UNSPEC'', 0),
    (''BPF_PROG_TYPE_SOCKET_FILTER'', 1),
    (''BPF_PROG_TYPE_KPROBE'', 2),
    (''BPF_PROG_TYPE_SCHED_CLS'', 3),
    (''BPF_PROG_TYPE_SCHED_ACT'', 4),
    (''BPF_PROG_TYPE_TRACEPOINT'', 5),
    (''BPF_PROG_TYPE_XDP'', 6),
    (''BPF_PROG_TYPE_PERF_EVENT'', 7),
    (''BPF_PROG_TYPE_CGROUP_SKB'', 8),
    (''BPF_PROG_TYPE_CGROUP_SOCK'', 9),
    (''BPF_PROG_TYPE_LWT_IN'', 10),
    (''BPF_PROG_TYPE_LWT_OUT'', 11),
    (''BPF_PROG_TYPE_LWT_XMIT'', 12),
    (''BPF_PROG_TYPE_SOCK_OPS'', 13),
    (''BPF_PROG_TYPE_SK_SKB'', 14),
    (''BPF_PROG_TYPE_CGROUP_DEVICE'', 15),
    (''BPF_PROG_TYPE_SK_MSG'', 16),
    (''BPF_PROG_TYPE_RAW_TRACEPOINT'', 17),
    (''BPF_PROG_TYPE_CGROUP_SOCK_ADDR'', 18),
    (''BPF_PROG_TYPE_LWT_SEG6LOCAL'', 19),
    (''BPF_PROG_TYPE_LIRC_MODE2'', 20),
    (''BPF_PROG_TYPE_SK_REUSEPORT'', 21),
    (''BPF_PROG_TYPE_FLOW_DISSECTOR'', 22),
    (''BPF_PROG_TYPE_CGROUP_SYSCTL'', 23),
    (''BPF_PROG_TYPE_RAW_TRACEPOINT_WRITABLE'', 24),
    (''BPF_PROG_TYPE_CGROUP_SOCKOPT'', 25)]"

definition bpf_attach_type :: c_enum where
  [decl_simps]: "bpf_attach_type = [
    (''BPF_CGROUP_INET_INGRESS'', 0),
    (''BPF_CGROUP_INET_EGRESS'', 1),
    (''BPF_CGROUP_INET_SOCK_CREATE'', 2),
    (''BPF_CGROUP_SOCK_OPS'', 3),
    (''BPF_SK_SKB_STREAM_PARSER'', 4),
    (''BPF_SK_SKB_STREAM_VERDICT'', 5),
    (''BPF_CGROUP_DEVICE'', 6),
    (''BPF_SK_MSG_VERDICT'', 7),
    (''BPF_CGROUP_INET4_BIND'', 8),
    (''BPF_CGROUP_INET6_BIND'', 9),
    (''BPF_CGROUP_INET4_CONNECT'', 10),
    (''BPF_CGROUP_INET6_CONNECT'', 11),
    (''BPF_CGROUP_INET4_POST_BIND'', 12),
    (''BPF_CGROUP_INET6_POST_BIND'', 13),
    (''BPF_CGROUP_UDP4_SENDMSG'', 14),
    (''BPF_CGROUP_UDP6_SENDMSG'', 15),
    (''BPF_LIRC_MODE2'', 16),
    (''BPF_FLOW_DISSECTOR'', 17),
    (''BPF_CGROUP_SYSCTL'', 18),
    (''BPF_CGROUP_UDP4_RECVMSG'', 19),
    (''BPF_CGROUP_UDP6_RECVMSG'', 20),
    (''BPF_CGROUP_GETSOCKOPT'', 21),
    (''BPF_CGROUP_SETSOCKOPT'', 22),
    (''BPF_TRACE_RAW_TP'', 23),
    (''BPF_TRACE_FENTRY'', 24),
    (''BPF_TRACE_FEXIT'', 25),
    (''BPF_MODIFY_RETURN'', 26),
    (''BPF_LSM_MAC'', 27),
    (''BPF_TRACE_ITER'', 28),
    (''BPF_CGROUP_INET4_GETPEERNAME'', 29),
    (''BPF_CGROUP_INET6_GETPEERNAME'', 30),
    (''BPF_CGROUP_INET4_GETSOCKNAME'', 31),
    (''BPF_CGROUP_INET6_GETSOCKNAME'', 32),
    (''BPF_XDP_DEVMAP'', 33),
    (''BPF_CGROUP_INET_SOCK_RELEASE'', 34),
    (''__MAX_BPF_ATTACH_TYPE'', 35)]"

definition bpf_cmd :: c_enum where
  [decl_simps]: "bpf_cmd = [
    (''BPF_MAP_CREATE'', 0),
    (''BPF_MAP_LOOKUP_ELEM'', 1),
    (''BPF_MAP_UPDATE_ELEM'', 2),
    (''BPF_MAP_DELETE_ELEM'', 3),
    (''BPF_MAP_GET_NEXT_KEY'', 4),
    (''BPF_PROG_LOAD'', 5),
    (''BPF_OBJ_PIN'', 6),
    (''BPF_OBJ_GET'', 7),
    (''BPF_PROG_ATTACH'', 8),
    (''BPF_PROG_DETACH'', 9),
    (''BPF_PROG_TEST_RUN'', 10),
    (''BPF_PROG_GET_NEXT_ID'', 11),
    (''BPF_MAP_GET_NEXT_ID'', 12),
    (''BPF_PROG_GET_FD_BY_ID'', 13),
    (''BPF_MAP_GET_FD_BY_ID'', 14),
    (''BPF_OBJ_GET_INFO_BY_FD'', 15),
    (''BPF_PROG_QUERY'', 16),
    (''BPF_RAW_TRACEPOINT_OPEN'', 17),
    (''BPF_BTF_LOAD'', 18),
    (''BPF_BTF_GET_FD_BY_ID'', 19),
    (''BPF_TASK_FD_QUERY'', 20),
    (''BPF_MAP_LOOKUP_AND_DELETE_ELEM'', 21),
    (''BPF_MAP_FREEZE'', 22),
    (''BPF_BTF_GET_NEXT_ID'', 23)]"

definition bpf_update_flags :: c_enum where
  [decl_simps]: "bpf_update_flags = [
    (''BPF_ANY'', 0),
    (''BPF_NOEXIST'', 1),
    (''BPF_EXIST'', 2),
    (''BPF_F_LOCK'', 4)]"

definition bpf_map_flags :: c_enum where
  [decl_simps]: "bpf_map_flags = [
    (''BPF_F_NO_PREALLOC'', 1),
    (''BPF_F_NO_COMMON_LRU'', 2),
    (''BPF_F_NUMA_NODE'', 4),
    (''BPF_F_RDONLY'', 8),
    (''BPF_F_WRONLY'', 16),
    (''BPF_F_STACK_BUILD_ID'', 32),
    (''BPF_F_ZERO_SEED'', 64),
    (''BPF_F_RDONLY_PROG'', 128),
    (''BPF_F_WRONLY_PROG'', 256),
    (''BPF_F_CLONE'', 512)]"

definition sock_type :: c_enum where
  [decl_simps]: "sock_type = [
    (''SOCK_STREAM'', 1),
    (''SOCK_DGRAM'', 2),
    (''SOCK_RAW'', 3),
    (''SOCK_RDM'', 4),
    (''SOCK_SEQPACKET'', 5),
    (''SOCK_DCCP'', 6),
    (''SOCK_PACKET'', 10)]"

definition ipproto :: c_enum where
  [decl_simps]: "ipproto = [
    (''IPPROTO_IP'', 0),
    (''IPPROTO_ICMP'', 1),
    (''IPPROTO_IGMP'', 2),
    (''IPPROTO_IPIP'', 4),
    (''IPPROTO_TCP'', 6),
    (''IPPROTO_EGP'', 8),
    (''IPPROTO_PUP'', 12),
    (''IPPROTO_UDP'', 17),
    (''IPPROTO_IDP'', 22),
    (''IPPROTO_TP'', 29),
    (''IPPROTO_DCCP'', 33),
    (''IPPROTO_IPV6'', 41),
    (''IPPROTO_RSVP'', 46),
    (''IPPROTO_GRE'', 47),
    (''IPPROTO_ESP'', 50),
    (''IPPROTO_AH'', 51),
    (''IPPROTO_MTP'', 92),
    (''IPPROTO_BEETPH'', 94),
    (''IPPROTO_ENCAP'', 98),
    (''IPPROTO_PIM'', 103),
    (''IPPROTO_COMP'', 108),
    (''IPPROTO_SCTP'', 132),
    (''IPPROTO_UDPLITE'', 136),
    (''IPPROTO_MPLS'', 137),
    (''IPPROTO_RAW'', 255),
    (''IPPROTO_MAX'', 256)]"

definition sk_action :: c_enum where
  [decl_simps]: "sk_action = [
    (''SK_DROP'', 0),
    (''SK_PASS'', 1)]"

section \<open>Structs and unions of vmlinux.h\<close>

definition struct_pt_regs :: ctype where
  [decl_simps]: "struct_pt_regs = CStruct [
    Field ''r15'' (CPrim PULong),
    Field ''r14'' (CPrim PULong),
    Field ''r13'' (CPrim PULong),
    Field ''r12'' (CPrim PULong),
    Field ''bp'' (CPrim PULong),
    Field ''bx'' (CPrim PULong),
    Field ''r11'' (CPrim PULong),
    Field ''r10'' (CPrim PULong),
    Field ''r9'' (CPrim PULong),
    Field ''r8'' (CPrim PULong),
    Field ''ax'' (CPrim PULong),
    Field ''cx'' (CPrim PULong),
    Field ''dx'' (CPrim PULong),
    Field ''si'' (CPrim PULong),
    Field ''di'' (CPrim PULong),
    Field ''orig_ax'' (CPrim PULong),
    Field ''ip'' (CPrim PULong),
    Field ''cs'' (CPrim PULong),
    Field ''flags'' (CPrim PULong),
    Field ''sp'' (CPrim PULong),
    Field ''ss'' (CPrim PULong)]"

definition union_bpf_attr :: ctype where
  [decl_simps]: "union_bpf_attr = CUnion [
    Field '''' (CStruct [
      Field ''map_type'' (CName ''__u32''),
      Field ''key_size'' (CName ''__u32''),
      Field ''value_size'' (CName ''__u32''),
      Field ''max_entries'' (CName ''__u32''),
      Field ''map_flags'' (CName ''__u32''),
      Field ''inner_map_fd'' (CName ''__u32''),
      Field ''numa_node'' (CName ''__u32''),
      Field ''map_name'' (CArray 16 (CPrim PChar)),
      Field ''map_ifindex'' (CName ''__u32''),
      Field ''btf_fd'' (CName ''__u32''),
      Field ''btf_key_type_id'' (CName ''__u32''),
      Field ''btf_value_type_id'' (CName ''__u32'')]),
    Field '''' (CStruct [
      Field ''map_fd'' (CName ''__u32''),
      Field ''key'' (CName ''__u64''),
      Field '''' (CUnion [
        Field ''value'' (CName ''__u64''),
        Field ''next_key'' (CName ''__u64'')]),
      Field ''flags'' (CName ''__u64'')]),
    Field '''' (CStruct [
      Field ''prog_type'' (CName ''__u32''),
      Field ''insn_cnt'' (CName ''__u32''),
      Field ''insns'' (CName ''__u64''),
      Field ''license'' (CName ''__u64''),
      Field ''log_level'' (CName ''__u32''),
      Field ''log_size'' (CName ''__u32''),
      Field ''log_buf'' (CName ''__u64''),
      Field ''kern_version'' (CName ''__u32''),
      Field ''prog_flags'' (CName ''__u32''),
      Field ''prog_name'' (CArray 16 (CPrim PChar)),
      Field ''prog_ifindex'' (CName ''__u32''),
      Field ''expected_attach_type'' (CName ''__u32''),
      Field ''prog_btf_fd'' (CName ''__u32''),
      Field ''func_info_rec_size'' (CName ''__u32''),
      Field ''func_info'' (CName ''__u64''),
      Field ''func_info_cnt'' (CName ''__u32''),
      Field ''line_info_rec_size'' (CName ''__u32''),
      Field ''line_info'' (CName ''__u64''),
      Field ''line_info_cnt'' (CName ''__u32'')]),
    Field '''' (CStruct [
      Field ''pathname'' (CName ''__u64''),
      Field ''bpf_fd'' (CName ''__u32''),
      Field ''file_flags'' (CName ''__u32'')]),
    Field '''' (CStruct [
      Field ''target_fd'' (CName ''__u32''),
      Field ''attach_bpf_fd'' (CName ''__u32''),
      Field ''attach_type'' (CName ''__u32''),
      Field ''attach_flags'' (CName ''__u32'')]),
    Field ''test'' (CStruct [
      Field ''prog_fd'' (CName ''__u32''),
      Field ''retval'' (CName ''__u32''),
      Field ''data_size_in'' (CName ''__u32''),
      Field ''data_size_out'' (CName ''__u32''),
      Field ''data_in'' (CName ''__u64''),
      Field ''data_out'' (CName ''__u64''),
      Field ''repeat'' (CName ''__u32''),
      Field ''duration'' (CName ''__u32''),
      Field ''ctx_size_in'' (CName ''__u32''),
      Field ''ctx_size_out'' (CName ''__u32''),
      Field ''ctx_in'' (CName ''__u64''),
      Field ''ctx_out'' (CName ''__u64'')]),
    Field '''' (CStruct [
      Field '''' (CUnion [
        Field ''start_id'' (CName ''__u32''),
        Field ''prog_id'' (CName ''__u32''),
        Field ''map_id'' (CName ''__u32''),
        Field ''btf_id'' (CName ''__u32'')]),
      Field ''next_id'' (CName ''__u32''),
      Field ''open_flags'' (CName ''__u32'')]),
    Field ''info'' (CStruct [
      Field ''bpf_fd'' (CName ''__u32''),
      Field ''info_len'' (CName ''__u32''),
      Field ''info'' (CName ''__u64'')]),
    Field ''query'' (CStruct [
      Field ''target_fd'' (CName ''__u32''),
      Field ''attach_type'' (CName ''__u32''),
      Field ''query_flags'' (CName ''__u32''),
      Field ''attach_flags'' (CName ''__u32''),
      Field ''prog_ids'' (CName ''__u64''),
      Field ''prog_cnt'' (CName ''__u32'')]),
    Field ''raw_tracepoint'' (CStruct [
      Field ''name'' (CName ''__u64''),
      Field ''prog_fd'' (CName ''__u32'')]),
    Field '''' (CStruct [
      Field ''btf'' (CName ''__u64''),
      Field ''btf_log_buf'' (CName ''__u64''),
      Field ''btf_size'' (CName ''__u32''),
      Field ''btf_log_size'' (CName ''__u32''),
      Field ''btf_log_level'' (CName ''__u32'')]),
    Field ''task_fd_query'' (CStruct [
      Field ''pid'' (CName ''__u32''),
      Field ''fd'' (CName ''__u32''),
      Field ''flags'' (CName ''__u32''),
      Field ''buf_len'' (CName ''__u32''),
      Field ''buf'' (CName ''__u64''),
      Field ''prog_id'' (CName ''__u32''),
      Field ''fd_type'' (CName ''__u32''),
      Field ''probe_offset'' (CName ''__u64''),
      Field ''probe_addr'' (CName ''__u64'')])]"

definition struct_bpf_cgroup_storage_key :: ctype where
  [decl_simps]: "struct_bpf_cgroup_storage_key = CStruct [
    Field ''cgroup_inode_id'' (CName ''__u64''),
    Field ''attach_type'' (CName ''__u32'')]"

definition struct_bpf_map_info :: ctype where
  [decl_simps]: "struct_bpf_map_info = CStruct [
    Field ''type'' (CName ''__u32''),
    Field ''id'' (CName ''__u32''),
    Field ''key_size'' (CName ''__u32''),
    Field ''value_size'' (CName ''__u32''),
    Field ''max_entries'' (CName ''__u32''),
    Field ''map_flags'' (CName ''__u32''),
    Field ''name'' (CArray 16 (CPrim PChar)),
    Field ''ifindex'' (CName ''__u32''),
    Field ''netns_dev'' (CName ''__u64''),
    Field ''netns_ino'' (CName ''__u64''),
    Field ''btf_id'' (CName ''__u32''),
    Field ''btf_key_type_id'' (CName ''__u32''),
    Field ''btf_value_type_id'' (CName ''__u32'')]"

definition struct_bpf_btf_info :: ctype where
  [decl_simps]: "struct_bpf_btf_info = CStruct [
    Field ''btf'' (CName ''__u64''),
    Field ''btf_size'' (CName ''__u32''),
    Field ''id'' (CName ''__u32'')]"

definition struct_bpf_spin_lock :: ctype where
  [decl_simps]: "struct_bpf_spin_lock = CStruct [
    Field ''val'' (CName ''__u32'')]"

definition struct_bpf_sock :: ctype where
  [decl_simps]: "struct_bpf_sock = CStruct [
    Field ''bound_dev_if'' (CName ''__u32''),
    Field ''family'' (CName ''__u32''),
    Field ''type'' (CName ''__u32''),
    Field ''protocol'' (CName ''__u32''),
    Field ''mark'' (CName ''__u32''),
    Field ''priority'' (CName ''__u32''),
    Field ''src_ip4'' (CName ''__u32''),
    Field ''src_ip6'' (CArray 4 (CName ''__u32'')),
    Field ''src_port'' (CName ''__u32''),
    Field ''dst_port'' (CName ''__u32''),
    Field ''dst_ip4'' (CName ''__u32''),
    Field ''dst_ip6'' (CArray 4 (CName ''__u32'')),
    Field ''state'' (CName ''__u32'')]"

definition struct___sk_buff :: ctype where
  [decl_simps]: "struct___sk_buff = CStruct [
    Field ''len'' (CName ''__u32''),
    Field ''pkt_type'' (CName ''__u32''),
    Field ''mark'' (CName ''__u32''),
    Field ''queue_mapping'' (CName ''__u32''),
    Field ''protocol'' (CName ''__u32''),
    Field ''vlan_present'' (CName ''__u32''),
    Field ''vlan_tci'' (CName ''__u32''),
    Field ''vlan_proto'' (CName ''__u32''),
    Field ''priority'' (CName ''__u32''),
    Field ''ingress_ifindex'' (CName ''__u32''),
    Field ''ifindex'' (CName ''__u32''),
    Field ''tc_index'' (CName ''__u32''),
    Field ''cb'' (CArray 5 (CName ''__u32'')),
    Field ''hash'' (CName ''__u32''),
    Field ''tc_classid'' (CName ''__u32''),
    Field ''data'' (CName ''__u32''),
    Field ''data_end'' (CName ''__u32''),
    Field ''napi_id'' (CName ''__u32''),
    Field ''family'' (CName ''__u32''),
    Field ''remote_ip4'' (CName ''__u32''),
    Field ''local_ip4'' (CName ''__u32''),
    Field ''remote_ip6'' (CArray 4 (CName ''__u32'')),
    Field ''local_ip6'' (CArray 4 (CName ''__u32'')),
    Field ''remote_port'' (CName ''__u32''),
    Field ''local_port'' (CName ''__u32''),
    Field ''data_meta'' (CName ''__u32''),
    Field '''' (CUnion [
      Field ''flow_keys'' (CPtr (CTag ''bpf_flow_keys''))]),
    Field ''tstamp'' (CName ''__u64''),
    Field ''wire_len'' (CName ''__u32''),
    Field ''gso_segs'' (CName ''__u32''),
    Field '''' (CUnion [
      Field ''sk'' (CPtr (CTag ''bpf_sock''))])]"

definition struct_bpf_cgroup_dev_ctx :: ctype where
  [decl_simps]: "struct_bpf_cgroup_dev_ctx = CStruct [
    Field ''access_type'' (CName ''__u32''),
    Field ''major'' (CName ''__u32''),
    Field ''minor'' (CName ''__u32'')]"

definition struct_bpf_sysctl :: ctype where
  [decl_simps]: "struct_bpf_sysctl = CStruct [
    Field ''write'' (CName ''__u32''),
    Field ''file_pos'' (CName ''__u32'')]"

definition struct_in_addr :: ctype where
  [decl_simps]: "struct_in_addr = CStruct [
    Field ''s_addr'' (CName ''__be32'')]"

definition struct_bpf_tunnel_key :: ctype where
  [decl_simps]: "struct_bpf_tunnel_key = CStruct [
    Field ''tunnel_id'' (CName ''__u32''),
    Field '''' (CUnion [
      Field ''remote_ipv4'' (CName ''__u32''),
      Field ''remote_ipv6'' (CArray 4 (CName ''__u32''))]),
    Field ''tunnel_tos'' (CName ''__u8''),
    Field ''tunnel_ttl'' (CName ''__u8''),
    Field ''tunnel_ext'' (CName ''__u16''),
    Field ''tunnel_label'' (CName ''__u32'')]"

definition struct_bpf_xfrm_state :: ctype where
  [decl_simps]: "struct_bpf_xfrm_state = CStruct [
    Field ''reqid'' (CName ''__u32''),
    Field ''spi'' (CName ''__u32''),
    Field ''family'' (CName ''__u16''),
    Field ''ext'' (CName ''__u16''),
    Field '''' (CUnion [
      Field ''remote_ipv4'' (CName ''__u32''),
      Field ''remote_ipv6'' (CArray 4 (CName ''__u32''))])]"

definition struct_bpf_tcp_sock :: ctype where
  [decl_simps]: "struct_bpf_tcp_sock = CStruct [
    Field ''snd_cwnd'' (CName ''__u32''),
    Field ''srtt_us'' (CName ''__u32''),
    Field ''rtt_min'' (CName ''__u32''),
    Field ''snd_ssthresh'' (CName ''__u32''),
    Field ''rcv_nxt'' (CName ''__u32''),
    Field ''snd_nxt'' (CName ''__u32''),
    Field ''snd_una'' (CName ''__u32''),
    Field ''mss_cache'' (CName ''__u32''),
    Field ''ecn_flags'' (CName ''__u32''),
    Field ''rate_delivered'' (CName ''__u32''),
    Field ''rate_interval_us'' (CName ''__u32''),
    Field ''packets_out'' (CName ''__u32''),
    Field ''retrans_out'' (CName ''__u32''),
    Field ''total_retrans'' (CName ''__u32''),
    Field ''segs_in'' (CName ''__u32''),
    Field ''data_segs_in'' (CName ''__u32''),
    Field ''segs_out'' (CName ''__u32''),
    Field ''data_segs_out'' (CName ''__u32''),
    Field ''lost_out'' (CName ''__u32''),
    Field ''sacked_out'' (CName ''__u32''),
    Field ''bytes_received'' (CName ''__u64''),
    Field ''bytes_acked'' (CName ''__u64''),
    Field ''dsack_dups'' (CName ''__u32''),
    Field ''delivered'' (CName ''__u32''),
    Field ''delivered_ce'' (CName ''__u32''),
    Field ''icsk_retransmits'' (CName ''__u32'')]"

definition struct_bpf_sock_tuple :: ctype where
  [decl_simps]: "struct_bpf_sock_tuple = CStruct [
    Field '''' (CUnion [
      Field ''ipv4'' (CStruct [
        Field ''saddr'' (CName ''__be32''),
        Field ''daddr'' (CName ''__be32''),
        Field ''sport'' (CName ''__be16''),
        Field ''dport'' (CName ''__be16'')]),
      Field ''ipv6'' (CStruct [
        Field ''saddr'' (CArray 4 (CName ''__be32'')),
        Field ''daddr'' (CArray 4 (CName ''__be32'')),
        Field ''sport'' (CName ''__be16''),
        Field ''dport'' (CName ''__be16'')])])]"

definition struct_sk_msg_md :: ctype where
  [decl_simps]: "struct_sk_msg_md = CStruct [
    Field '''' (CUnion [
      Field ''data'' (CPtr CVoid)]),
    Field '''' (CUnion [
      Field ''data_end'' (CPtr CVoid)]),
    Field ''family'' (CName ''__u32''),
    Field ''remote_ip4'' (CName ''__u32''),
    Field ''local_ip4'' (CName ''__u32''),
    Field ''remote_ip6'' (CArray 4 (CName ''__u32'')),
    Field ''local_ip6'' (CArray 4 (CName ''__u32'')),
    Field ''remote_port'' (CName ''__u32''),
    Field ''local_port'' (CName ''__u32''),
    Field ''size'' (CName ''__u32'')]"

definition struct_sk_reuseport_md :: ctype where
  [decl_simps]: "struct_sk_reuseport_md = CStruct [
    Field '''' (CUnion [
      Field ''data'' (CPtr CVoid)]),
    Field '''' (CUnion [
      Field ''data_end'' (CPtr CVoid)]),
    Field ''len'' (CName ''__u32''),
    Field ''eth_protocol'' (CName ''__u32''),
    Field ''ip_protocol'' (CName ''__u32''),
    Field ''bind_inany'' (CName ''__u32''),
    Field ''hash'' (CName ''__u32'')]"

definition struct_bpf_sock_addr :: ctype where
  [decl_simps]: "struct_bpf_sock_addr = CStruct [
    Field ''user_family'' (CName ''__u32''),
    Field ''user_ip4'' (CName ''__u32''),
    Field ''user_ip6'' (CArray 4 (CName ''__u32'')),
    Field ''user_port'' (CName ''__u32''),
    Field ''family'' (CName ''__u32''),
    Field ''type'' (CName ''__u32''),
    Field ''protocol'' (CName ''__u32''),
    Field ''msg_src_ip4'' (CName ''__u32''),
    Field ''msg_src_ip6'' (CArray 4 (CName ''__u32'')),
    Field '''' (CUnion [
      Field ''sk'' (CPtr (CTag ''bpf_sock''))])]"

definition struct_bpf_sock_ops :: ctype where
  [decl_simps]: "struct_bpf_sock_ops = CStruct [
    Field ''op'' (CName ''__u32''),
    Field '''' (CUnion [
      Field ''args'' (CArray 4 (CName ''__u32'')),
      Field ''reply'' (CName ''__u32''),
      Field ''replylong'' (CArray 4 (CName ''__u32''))]),
    Field ''family'' (CName ''__u32''),
    Field ''remote_ip4'' (CName ''__u32''),
    Field ''local_ip4'' (CName ''__u32''),
    Field ''remote_ip6'' (CArray 4 (CName ''__u32'')),
    Field ''local_ip6'' (CArray 4 (CName ''__u32'')),
    Field ''remote_port'' (CName ''__u32''),
    Field ''local_port'' (CName ''__u32''),
    Field ''is_fullsock'' (CName ''__u32''),
    Field ''snd_cwnd'' (CName ''__u32''),
    Field ''srtt_us'' (CName ''__u32''),
    Field ''bpf_sock_ops_cb_flags'' (CName ''__u32''),
    Field ''state'' (CName ''__u32''),
    Field ''rtt_min'' (CName ''__u32''),
    Field ''snd_ssthresh'' (CName ''__u32''),
    Field ''rcv_nxt'' (CName ''__u32''),
    Field ''snd_nxt'' (CName ''__u32''),
    Field ''snd_una'' (CName ''__u32''),
    Field ''mss_cache'' (CName ''__u32''),
    Field ''ecn_flags'' (CName ''__u32''),
    Field ''rate_delivered'' (CName ''__u32''),
    Field ''rate_interval_us'' (CName ''__u32''),
    Field ''packets_out'' (CName ''__u32''),
    Field ''retrans_out'' (CName ''__u32''),
    Field ''total_retrans'' (CName ''__u32''),
    Field ''segs_in'' (CName ''__u32''),
    Field ''data_segs_in'' (CName ''__u32''),
    Field ''segs_out'' (CName ''__u32''),
    Field ''data_segs_out'' (CName ''__u32''),
    Field ''lost_out'' (CName ''__u32''),
    Field ''sacked_out'' (CName ''__u32''),
    Field ''sk_txhash'' (CName ''__u32''),
    Field ''bytes_received'' (CName ''__u64''),
    Field ''bytes_acked'' (CName ''__u64''),
    Field '''' (CUnion [
      Field ''sk'' (CPtr (CTag ''bpf_sock''))]),
    Field '''' (CUnion [
      Field ''skb_data'' (CPtr CVoid)]),
    Field '''' (CUnion [
      Field ''skb_data_end'' (CPtr CVoid)]),
    Field ''skb_len'' (CName ''__u32''),
    Field ''skb_tcp_flags'' (CName ''__u32'')]"

definition struct_bpf_fib_lookup :: ctype where
  [decl_simps]: "struct_bpf_fib_lookup = CStruct [
    Field ''family'' (CName ''__u8''),
    Field ''l4_protocol'' (CName ''__u8''),
    Field ''sport'' (CName ''__be16''),
    Field ''dport'' (CName ''__be16''),
    Field ''tot_len'' (CName ''__u16''),
    Field ''ifindex'' (CName ''__u32''),
    Field '''' (CUnion [
      Field ''tos'' (CName ''__u8''),
      Field ''flowinfo'' (CName ''__be32''),
      Field ''rt_metric'' (CName ''__u32'')]),
    Field '''' (CUnion [
      Field ''ipv4_src'' (CName ''__be32''),
      Field ''ipv6_src'' (CArray 4 (CName ''__u32''))]),
    Field '''' (CUnion [
      Field ''ipv4_dst'' (CName ''__be32''),
      Field ''ipv6_dst'' (CArray 4 (CName ''__u32''))]),
    Field ''h_vlan_proto'' (CName ''__be16''),
    Field ''h_vlan_TCI'' (CName ''__be16''),
    Field ''smac'' (CArray 6 (CName ''__u8'')),
    Field ''dmac'' (CArray 6 (CName ''__u8''))]"

definition struct_bpf_redir_neigh :: ctype where
  [decl_simps]: "struct_bpf_redir_neigh = CStruct [
    Field ''nh_family'' (CName ''__u32''),
    Field '''' (CUnion [
      Field ''ipv4_nh'' (CName ''__be32''),
      Field ''ipv6_nh'' (CArray 4 (CName ''__u32''))])]"

text \<open>The structures that user space, the verifier and the program share, with their tags.\<close>

definition uapi_structs :: "(string \<times> ctype) list" where
  [decl_simps]: "uapi_structs = [
    (''pt_regs'', struct_pt_regs),
    (''bpf_attr'', union_bpf_attr),
    (''bpf_cgroup_storage_key'', struct_bpf_cgroup_storage_key),
    (''bpf_map_info'', struct_bpf_map_info),
    (''bpf_btf_info'', struct_bpf_btf_info),
    (''bpf_spin_lock'', struct_bpf_spin_lock),
    (''bpf_sock'', struct_bpf_sock),
    (''__sk_buff'', struct___sk_buff),
    (''bpf_cgroup_dev_ctx'', struct_bpf_cgroup_dev_ctx),
    (''bpf_sysctl'', struct_bpf_sysctl),
    (''in_addr'', struct_in_addr),
    (''bpf_tunnel_key'', struct_bpf_tunnel_key),
    (''bpf_xfrm_state'', struct_bpf_xfrm_state),
    (''bpf_tcp_sock'', struct_bpf_tcp_sock),
    (''bpf_sock_tuple'', struct_bpf_sock_tuple),
    (''sk_msg_md'', struct_sk_msg_md),
    (''sk_reuseport_md'', struct_sk_reuseport_md),
    (''bpf_sock_addr'', struct_bpf_sock_addr),
    (''bpf_sock_ops'', struct_bpf_sock_ops),
    (''bpf_fib_lookup'', struct_bpf_fib_lookup),
    (''bpf_redir_neigh'', struct_bpf_redir_neigh)]"

section \<open>Macros of socket.h\<close>

datatype macro_body = MNum int | MName string

definition socket_h :: "(string \<times> macro_body) list" where
  [decl_simps]: "socket_h = [
    (''SCM_RIGHTS'', MNum 1),
    (''SOCK_STREAM'', MNum 1),
    (''SOCK_DGRAM'', MNum 2),
    (''SOCK_RAW'', MNum 3),
    (''SOCK_RDM'', MNum 4),
    (''SOCK_SEQPACKET'', MNum 5),
    (''SOCK_PACKET'', MNum 10),
    (''AF_UNSPEC'', MNum 0),
    (''AF_UNIX'', MNum 1),
    (''AF_INET'', MNum 2),
    (''AF_AX25'', MNum 3),
    (''AF_IPX'', MNum 4),
    (''AF_APPLETALK'', MNum 5),
    (''AF_NETROM'', MNum 6),
    (''AF_BRIDGE'', MNum 7),
    (''AF_AAL5'', MNum 8),
    (''AF_X25'', MNum 9),
    (''AF_INET6'', MNum 10),
    (''AF_MAX'', MNum 12),
    (''PF_UNSPEC'', MName ''AF_UNSPEC''),
    (''PF_UNIX'', MName ''AF_UNIX''),
    (''PF_INET'', MName ''AF_INET''),
    (''PF_AX25'', MName ''AF_AX25''),
    (''PF_IPX'', MName ''AF_IPX''),
    (''PF_APPLETALK'', MName ''AF_APPLETALK''),
    (''PF_NETROM'', MName ''AF_NETROM''),
    (''PF_BRIDGE'', MName ''AF_BRIDGE''),
    (''PF_AAL5'', MName ''AF_AAL5''),
    (''PF_X25'', MName ''AF_X25''),
    (''PF_INET6'', MName ''AF_INET6''),
    (''PF_MAX'', MName ''AF_MAX''),
    (''SOMAXCONN'', MNum 128),
    (''MSG_OOB'', MNum 1),
    (''MSG_PEEK'', MNum 2),
    (''MSG_DONTROUTE'', MNum 4),
    (''MSG_PROXY'', MNum 16),
    (''SOL_IP'', MNum 0),
    (''SOL_IPX'', MNum 256),
    (''SOL_AX25'', MNum 257),
    (''SOL_ATALK'', MNum 258),
    (''SOL_NETROM'', MNum 259),
    (''SOL_TCP'', MNum 6),
    (''SOL_UDP'', MNum 17),
    (''IP_TOS'', MNum 1),
    (''IPTOS_LOWDELAY'', MNum 0x10),
    (''IPTOS_THROUGHPUT'', MNum 0x08),
    (''IPTOS_RELIABILITY'', MNum 0x04),
    (''IP_TTL'', MNum 2),
    (''IP_HDRINCL'', MNum 3),
    (''IP_OPTIONS'', MNum 4),
    (''IP_MULTICAST_IF'', MNum 32),
    (''IP_MULTICAST_TTL'', MNum 33),
    (''IP_MULTICAST_LOOP'', MNum 34),
    (''IP_ADD_MEMBERSHIP'', MNum 35),
    (''IP_DROP_MEMBERSHIP'', MNum 36),
    (''IP_DEFAULT_MULTICAST_TTL'', MNum 1),
    (''IP_DEFAULT_MULTICAST_LOOP'', MNum 1),
    (''IP_MAX_MEMBERSHIPS'', MNum 20),
    (''IPX_TYPE'', MNum 1),
    (''TCP_NODELAY'', MNum 1),
    (''TCP_MAXSEG'', MNum 2),
    (''SOPRI_INTERACTIVE'', MNum 0),
    (''SOPRI_NORMAL'', MNum 1),
    (''SOPRI_BACKGROUND'', MNum 2),
    (''ETH_P_IP'', MNum 0x0800),
    (''BPF_F_INDEX_MASK'', MNum 0xffffffff),
    (''BPF_F_CURRENT_CPU'', MName ''BPF_F_INDEX_MASK'')]"

text \<open>
  Expansion of an object-like macro to a number: a macro whose body is another macro's name is
  rescanned, with the macro being replaced no longer available, as the preprocessor does.
\<close>

function expand_macro :: "(string \<times> macro_body) list \<Rightarrow> string \<Rightarrow> int option" where
  "expand_macro env n =
     (case map_of env n of
        Some (MNum i) \<Rightarrow> Some i
      | Some (MName m) \<Rightarrow> expand_macro (filter (\<lambda>p. fst p \<noteq> n) env) m
      | None \<Rightarrow> None)"
  by pat_completeness auto
termination
  by (relation "measure (\<lambda>(env, n). length env)")
     (auto dest!: map_of_SomeD intro!: length_filter_less)

declare expand_macro.simps [simp del]

definition macro_value :: "string \<Rightarrow> int option" where
  "macro_value n = expand_macro socket_h n"

section \<open>Evaluation of the tables\<close>

lemma typedef_prims [layout_simps]:
  "prim_of_name vmlinux_typedefs ''__u8'' = Some PUChar"
  "prim_of_name vmlinux_typedefs ''__u16'' = Some PUShort"
  "prim_of_name vmlinux_typedefs ''__u32'' = Some PUInt"
  "prim_of_name vmlinux_typedefs ''__u64'' = Some PULLong"
  "prim_of_name vmlinux_typedefs ''__s16'' = Some PShort"
  "prim_of_name vmlinux_typedefs ''__s32'' = Some PInt"
  "prim_of_name vmlinux_typedefs ''__s64'' = Some PLLong"
  "prim_of_name vmlinux_typedefs ''u8'' = Some PUChar"
  "prim_of_name vmlinux_typedefs ''u16'' = Some PUShort"
  "prim_of_name vmlinux_typedefs ''u32'' = Some PUInt"
  "prim_of_name vmlinux_typedefs ''u64'' = Some PULLong"
  "prim_of_name vmlinux_typedefs ''s32'' = Some PInt"
  "prim_of_name vmlinux_typedefs ''s64'' = Some PLLong"
  "prim_of_name vmlinux_typedefs ''__be16'' = Some PUShort"
  "prim_of_name vmlinux_typedefs ''__be32'' = Some PUInt"
  "prim_of_name vmlinux_typedefs ''__be64'' = Some PULLong"
  "prim_of_name vmlinux_typedefs ''__le16'' = Some PUShort"
  "prim_of_name vmlinux_typedefs ''__wsum'' = Some PUInt"
  "prim_of_name vmlinux_typedefs ''__kernel_sa_family_t'' = Some PUShort"
  "prim_of_name vmlinux_typedefs ''__kernel_ulong_t'' = Some PULong"
  "prim_of_name vmlinux_typedefs ''bool'' = Some PBool"
  "prim_of_name vmlinux_typedefs ''blkcnt_t'' = Some PULLong"
  "prim_of_name vmlinux_typedefs ''clockid_t'' = Some PInt"
  "prim_of_name vmlinux_typedefs ''dev_t'' = Some PUInt"
  "prim_of_name vmlinux_typedefs ''fmode_t'' = Some PUInt"
  "prim_of_name vmlinux_typedefs ''gfp_t'' = Some PUInt"
  "prim_of_name vmlinux_typedefs ''gid_t'' = Some PUInt"
  "prim_of_name vmlinux_typedefs ''uid_t'' = Some PUInt"
  "prim_of_name vmlinux_typedefs ''umode_t'' = Some PUShort"
  "prim_of_name vmlinux_typedefs ''loff_t'' = Some PLLong"
  "prim_of_name vmlinux_typedefs ''pid_t'' = Some PInt"
  "prim_of_name vmlinux_typedefs ''size_t'' = Some PULong"
  by code_simp+

lemma embedded_uapi_layouts [layout_simps]:
  "sizeof vmlinux_typedefs struct_in_addr = 4" "alignof vmlinux_typedefs struct_in_addr = 4"
  "complete_type vmlinux_typedefs struct_in_addr"
  by (simp_all add: layout_simps struct_in_addr_def
     del: One_nat_def)

lemma uapi_sizes:
  "map (\<lambda>(tag, t). (tag, sizeof vmlinux_typedefs t)) uapi_structs =
    [(''pt_regs'', 168), (''bpf_attr'', 112), (''bpf_cgroup_storage_key'', 16),
     (''bpf_map_info'', 80), (''bpf_btf_info'', 16), (''bpf_spin_lock'', 4), (''bpf_sock'', 76),
     (''__sk_buff'', 176), (''bpf_cgroup_dev_ctx'', 12), (''bpf_sysctl'', 8), (''in_addr'', 4),
     (''bpf_tunnel_key'', 28), (''bpf_xfrm_state'', 28), (''bpf_tcp_sock'', 112),
     (''bpf_sock_tuple'', 36), (''sk_msg_md'', 72), (''sk_reuseport_md'', 40),
     (''bpf_sock_addr'', 72), (''bpf_sock_ops'', 216), (''bpf_fib_lookup'', 64),
     (''bpf_redir_neigh'', 20)]"
  by (simp add: decl_simps layout_simps)

section \<open>Properties\<close>

text \<open>The context fields that \<^verbatim>\<open>connect4\<close> uses lie at the offsets of the user-space ABI, each is
  four bytes wide at a multiple of four, and all lie inside the 72 bytes of the context structure:
  every access is one the kernel admits on a socket-address context.\<close>

theorem context_accesses_in_bounds:
  "map (\<lambda>f. map_option (\<lambda>(off, t). (off, sizeof vmlinux_typedefs t))
         (offset_in vmlinux_typedefs f struct_bpf_sock_addr))
     [''user_ip4'', ''user_port'', ''type'', ''protocol''] =
   [Some (4, 4), Some (24, 4), Some (32, 4), Some (36, 4)] \<and>
   sizeof vmlinux_typedefs struct_bpf_sock_addr = 72"
  by (simp add: struct_bpf_sock_addr_def layout_simps)

text \<open>The constants of \<^verbatim>\<open>socket.h\<close> agree with the kernel's own: a socket type defined in both has
  the same number, each protocol family equals its address family, and the option levels equal the
  protocol numbers they must match.\<close>

theorem socket_macros_agree:
  "list_all (\<lambda>(n, v). macro_value n = None \<or> macro_value n = Some v) sock_type \<and>
   list_all (\<lambda>(n, b). macro_value n = macro_value (''A'' @ tl n) \<and> macro_value n \<noteq> None)
     (filter (\<lambda>(n, b). take 3 n = ''PF_'') socket_h) \<and>
   list_all (\<lambda>(n, m). macro_value n = enum_value ipproto m)
     [(''SOL_IP'', ''IPPROTO_IP''), (''SOL_TCP'', ''IPPROTO_TCP''), (''SOL_UDP'', ''IPPROTO_UDP'')]"
  by code_simp

end
