(* ===== verification/Bpf_Helpers.thy ===== *)
theory Bpf_Helpers
  imports Helper_Defs Kernel_Uapi
begin

text \<open>
  The macros of \<^verbatim>\<open>src/ebpf/src/headers/bpf_helpers.h\<close>: argument counting and array filling by the
  preprocessor, the printing wrappers that expand to helper calls, static tail calls, the encoding
  of map attributes in types, version numbers and member offsets. The properties relate them to the
  helper prototypes and to the helper numbers of the kernel.
\<close>

section \<open>Counting macro arguments\<close>

text \<open>
  A preprocessor argument: the leading underscore, one of the caller's arguments, a number or the
  name of a macro to call.
\<close>

datatype 'a pp_token = Underscore | Arg 'a | Num nat | Macro string

text \<open>
  \<^verbatim>\<open>___bpf_nth(_, _1, ..., _9, _a, _b, _c, N, ...)\<close> selects its fourteenth argument; with fewer the
  preprocessor reports an error.
\<close>

definition bpf_nth :: "'a pp_token list \<Rightarrow> 'a pp_token option" where
  "bpf_nth ts = (if length ts < 14 then None else Some (ts ! 13))"

definition bpf_narg :: "'a list \<Rightarrow> 'a pp_token option" where
  "bpf_narg args =
     bpf_nth (Underscore # map Arg args @
       [Num 12, Num 11, Num 10, Num 9, Num 8, Num 7, Num 6, Num 5, Num 4, Num 3, Num 2, Num 1, Num 0])"

text \<open>
  The family \<^verbatim>\<open>___bpf_fill0\<close> to \<^verbatim>\<open>___bpf_fill12\<close>: the first argument is the number in the macro's
  name. A store outside the array, a missing argument or a macro that does not exist is \<^const>\<open>None\<close>.
\<close>

fun bpf_fill_n :: "nat \<Rightarrow> 'v list \<Rightarrow> nat \<Rightarrow> 'v list \<Rightarrow> 'v list option" where
  "bpf_fill_n 0 arr p xs = Some arr"
| "bpf_fill_n (Suc n) arr p [] = None"
| "bpf_fill_n (Suc n) arr p (x # xs) =
     (if n < 12 \<and> p < length arr then bpf_fill_n n (arr[p := x]) (p + 1) xs else None)"

definition bpf_fill :: "'v list \<Rightarrow> 'v list \<Rightarrow> 'v list option" where
  "bpf_fill arr args =
     (case bpf_narg args of Some (Num n) \<Rightarrow> bpf_fill_n n arr 0 args | _ \<Rightarrow> None)"

section \<open>Helper calls\<close>

text \<open>
  The actual arguments of a helper call: a format string, a size, a 64-bit value, an array of such
  values, a map named by its symbol, the bytes a pointer refers to, or another pointer.
\<close>

datatype call_arg =
    A_Fmt string
  | A_Size nat
  | A_Val u64
  | A_Array "u64 list"
  | A_Map string
  | A_Bytes "u8 list"
  | A_Ptr u64

datatype helper_call = Call (call_decl: helper_decl) (call_args: "call_arg list")

text \<open>
  The kind of argument a parameter takes, from its declaration: a format where characters are pointed to,
  an array or the bytes of an object where the pointer is to \<^verbatim>\<open>void\<close> or to a word, a map where the header names
  the parameter for a map, a size or a value where the type is an integer.
\<close>

fun pointee :: "ctype \<Rightarrow> ctype option" where
  "pointee (CPtr t) = Some (strip_quals t)"
| "pointee (CConst t) = pointee t"
| "pointee (CVolatile t) = pointee t"
| "pointee _ = None"

definition map_parameters :: "string list" where
  "map_parameters = [''map'', ''prog_array_map'']"

definition arg_matches :: "string \<times> ctype \<Rightarrow> call_arg \<Rightarrow> bool" where
  "arg_matches param a =
     (let (name, t) = param
      in case a of
           A_Fmt fmt \<Rightarrow> pointee t = Some (CPrim PChar)
         | A_Size n \<Rightarrow> prim_of vmlinux_typedefs t \<noteq> None
         | A_Val v \<Rightarrow> prim_of vmlinux_typedefs t \<noteq> None
         | A_Array vs \<Rightarrow> pointee t \<in> {Some CVoid, Some (CName ''__u64'')}
         | A_Map symb \<Rightarrow> pointee t = Some CVoid \<and> name \<in> set map_parameters
         | A_Bytes bs \<Rightarrow> pointee t = Some CVoid \<and> name \<notin> set map_parameters
         | A_Ptr p \<Rightarrow> pointee t \<noteq> None \<and> name \<notin> set map_parameters)"

text \<open>
  A call is well formed when each declared parameter gets an argument of its kind, what follows them in
  the call of a variadic helper are values, and all fit the five argument registers.
\<close>

definition call_ok :: "helper_call \<Rightarrow> bool" where
  "call_ok c \<longleftrightarrow>
     (let params = hd_params (call_decl c); n = length params; args = call_args c
      in length args \<le> 5 \<and> list_all2 arg_matches params (take n args) \<and>
         (if hd_variadic (call_decl c) then list_all (\<lambda>a. case a of A_Val v \<Rightarrow> True | _ \<Rightarrow> False) (drop n args) else length args = n))"

text \<open>\<^verbatim>\<open>sizeof\<close> of a character array initialised with a string literal counts the final NUL.\<close>

definition fmt_size :: "string \<Rightarrow> nat" where
  "fmt_size fmt = length fmt + 1"

definition BPF_SEQ_PRINTF :: "u64 \<Rightarrow> string \<Rightarrow> u64 list \<Rightarrow> u64 list \<Rightarrow> helper_call option" where
  "BPF_SEQ_PRINTF seq fmt param args =
     (case bpf_narg args of
        Some (Num n) \<Rightarrow>
          (case bpf_fill (take n param) args of
             Some filled \<Rightarrow>
               Some (Call bpf_seq_printf
                 [A_Ptr seq, A_Fmt fmt, A_Size (fmt_size fmt), A_Array filled, A_Size (8 * n)])
           | None \<Rightarrow> None)
      | _ \<Rightarrow> None)"

definition BPF_SNPRINTF ::
  "u64 \<Rightarrow> nat \<Rightarrow> string \<Rightarrow> u64 list \<Rightarrow> u64 list \<Rightarrow> helper_call option" where
  "BPF_SNPRINTF out out_size fmt param args =
     (case bpf_narg args of
        Some (Num n) \<Rightarrow>
          (case bpf_fill (take n param) args of
             Some filled \<Rightarrow>
               Some (Call bpf_snprintf
                 [A_Ptr out, A_Size out_size, A_Fmt fmt, A_Array filled, A_Size (8 * n)])
           | None \<Rightarrow> None)
      | _ \<Rightarrow> None)"

text \<open>
  \<^verbatim>\<open>param\<close> stands for the uninitialised contents of the local array (at least twelve words, of which
  the array takes the first \<^verbatim>\<open>___bpf_narg(args)\<close>).
\<close>

definition do_bpf_printk :: "string \<Rightarrow> u64 list \<Rightarrow> helper_call" where
  "do_bpf_printk fmt args =
     Call bpf_trace_printk (A_Fmt fmt # A_Size (fmt_size fmt) # map A_Val args)"

definition do_bpf_vprintk :: "string \<Rightarrow> u64 list \<Rightarrow> u64 list \<Rightarrow> helper_call option" where
  "do_bpf_vprintk fmt param args =
     (case bpf_narg args of
        Some (Num n) \<Rightarrow>
          (case bpf_fill (take n param) args of
             Some filled \<Rightarrow>
               Some (Call bpf_trace_vprintk
                 [A_Fmt fmt, A_Size (fmt_size fmt), A_Array filled, A_Size (8 * n)])
           | None \<Rightarrow> None)
      | _ \<Rightarrow> None)"

definition bpf_pick_printk :: "'a list \<Rightarrow> 'a pp_token option" where
  "bpf_pick_printk args =
     bpf_nth (Underscore # map Arg args @
       [Macro ''__bpf_vprintk'', Macro ''__bpf_vprintk'', Macro ''__bpf_vprintk'',
        Macro ''__bpf_vprintk'', Macro ''__bpf_vprintk'', Macro ''__bpf_vprintk'', Macro ''__bpf_vprintk'',
        Macro ''__bpf_vprintk'', Macro ''__bpf_vprintk'', Macro ''__bpf_printk'', Macro ''__bpf_printk'',
        Macro ''__bpf_printk'', Macro ''__bpf_printk''])"

definition bpf_printk :: "string \<Rightarrow> u64 list \<Rightarrow> u64 list \<Rightarrow> helper_call option" where
  "bpf_printk fmt param args =
     (case bpf_pick_printk args of
        Some (Macro m) \<Rightarrow>
          (if m = ''__bpf_printk'' then Some (do_bpf_printk fmt args)
           else if m = ''__bpf_vprintk'' then do_bpf_vprintk fmt param args
           else None)
      | _ \<Rightarrow> None)"

section \<open>Tail calls\<close>

text \<open>
  \<^verbatim>\<open>bpf_tail_call_static\<close>: a slot that is not a compile-time constant is a build error; otherwise the
  inline assembly loads the first three argument registers and calls helper 12. \<^verbatim>\<open>helper_by_id\<close> is what
  a call instruction with that number invokes.
\<close>

definition helper_by_id :: "nat \<Rightarrow> helper_decl option" where
  "helper_by_id n = find (\<lambda>d. hd_id d = n) helper_table"

definition bpf_tail_call_static :: "bool \<Rightarrow> u64 \<Rightarrow> string \<Rightarrow> u32 \<Rightarrow> helper_call option" where
  "bpf_tail_call_static slot_constant ctx map_sym slot =
     (if \<not> slot_constant then None
      else map_option (\<lambda>d. Call d [A_Ptr ctx, A_Map map_sym, A_Val (ucast slot)]) (helper_by_id 12))"

section \<open>Versions, offsets, map attributes\<close>

definition KERNEL_VERSION :: "int \<Rightarrow> int \<Rightarrow> int \<Rightarrow> int" where
  "KERNEL_VERSION a b c = a * 2 ^ 16 + b * 2 ^ 8 + (if c > 255 then 255 else c)"

definition bpf_offsetof :: "typedefs \<Rightarrow> ctype \<Rightarrow> string \<Rightarrow> u64 option" where
  "bpf_offsetof ds t m = map_option of_nat (member_offset ds t m)"

definition container_of :: "typedefs \<Rightarrow> u64 \<Rightarrow> ctype \<Rightarrow> string \<Rightarrow> u64 option" where
  "container_of ds ptr t m = map_option (\<lambda>off. ptr - off) (bpf_offsetof ds t m)"

text \<open>
  \<^verbatim>\<open>__uint(name, val)\<close> declares a pointer to an array of \<^verbatim>\<open>val\<close> ints, \<^verbatim>\<open>__type(name, val)\<close> a pointer to
  the type, \<^verbatim>\<open>__array(name, val)\<close> an array of pointers of unspecified length: the loader reads the
  attribute back from the type.
\<close>

definition uint_attr :: "string \<Rightarrow> nat \<Rightarrow> cfield" where
  "uint_attr n v = Field n (CPtr (CArray v (CPrim PInt)))"

definition type_attr :: "string \<Rightarrow> ctype \<Rightarrow> cfield" where
  "type_attr n t = Field n (CPtr t)"

definition array_attr :: "string \<Rightarrow> ctype \<Rightarrow> cfield" where
  "array_attr n t = Field n (CArray 0 (CPtr t))"

fun find_field :: "string \<Rightarrow> cfield list \<Rightarrow> ctype option" where
  "find_field n [] = None"
| "find_field n (Field m t # fs) = (if m = n then Some t else find_field n fs)"
| "find_field n (Bits m t w # fs) = find_field n fs"

fun uint_of :: "ctype \<Rightarrow> nat option" where
  "uint_of (CPtr (CArray v (CPrim PInt))) = Some v"
| "uint_of _ = None"

fun type_of :: "ctype \<Rightarrow> ctype option" where
  "type_of (CPtr t) = Some t"
| "type_of _ = None"

definition struct_bpf_map_def :: ctype where
  [decl_simps]: "struct_bpf_map_def = CStruct [
    Field ''type'' (CPrim PUInt),
    Field ''key_size'' (CPrim PUInt),
    Field ''value_size'' (CPrim PUInt),
    Field ''max_entries'' (CPrim PUInt),
    Field ''map_flags'' (CPrim PUInt)]"

definition libbpf_pin_type :: c_enum where
  [decl_simps]: "libbpf_pin_type = [
    (''LIBBPF_PIN_NONE'', 0),
    (''LIBBPF_PIN_BY_NAME'', 1)]"

definition libbpf_tristate :: c_enum where
  [decl_simps]: "libbpf_tristate = [
    (''TRI_NO'', 0),
    (''TRI_YES'', 1),
    (''TRI_MODULE'', 2)]"

section \<open>Helpers of the running kernel\<close>

text \<open>
  The kernel's enum names helper \<^verbatim>\<open>bpf_f\<close> as \<^verbatim>\<open>BPF_FUNC_f\<close> (two names keep the prefix twice); the
  enum also holds sentinels that name no helper.
\<close>

definition kernel_helper_name :: "string \<Rightarrow> string" where
  "kernel_helper_name n =
     (let s = drop (length ''BPF_FUNC_'') n in if take 4 s = ''bpf_'' then s else ''bpf_'' @ s)"

definition kernel_helpers :: "(string \<times> int) list" where
  "kernel_helpers =
     map (\<lambda>(n, v). (kernel_helper_name n, v))
       (filter (\<lambda>(n, v). take (length ''BPF_FUNC_'') n = ''BPF_FUNC_'' \<and> n \<noteq> ''BPF_FUNC_unspec'')
         bpf_func_id)"

definition kernel_has :: "helper_decl \<Rightarrow> bool" where
  "kernel_has d \<longleftrightarrow> (hd_name d, int (hd_id d)) \<in> set kernel_helpers"

text \<open>Whether the documentation says the helper reports a failure as a negative number.\<close>

definition reports_negative :: "helper_decl \<Rightarrow> bool" where
  "reports_negative d \<longleftrightarrow> hd_returns d \<in> {Ret_Zero_Or_Neg, Ret_Value_Or_Neg}"

definition signed_result :: "helper_decl \<Rightarrow> bool" where
  "signed_result d \<longleftrightarrow>
     (case prim_of vmlinux_typedefs (hd_ret d) of Some p \<Rightarrow> prim_signed p | None \<Rightarrow> False)"

section \<open>Lemmas on the counting macros\<close>

lemma bpf_nth_shift:
  "length args \<le> 12 \<Longrightarrow> length tail = 13 \<Longrightarrow>
     bpf_nth (Underscore # map Arg args @ tail) = Some (tail ! (12 - length args))"
  by (simp add: bpf_nth_def nth_append)

lemma bpf_narg_le:
  assumes "length args \<le> 12"
  shows "bpf_narg args = Some (Num (length args))"
proof -
  have "bpf_narg args = bpf_nth (Underscore # map Arg args @ map Num (rev [0..<13]))"
    by (simp add: bpf_narg_def upt_rec numeral_eq_Suc)
  also have "\<dots> = Some (map Num (rev [0..<13]) ! (12 - length args))"
    using assms by (intro bpf_nth_shift) simp_all
  also have "map Num (rev [0..<13]) ! (12 - length args) = Num (length args)"
    using assms by (simp add: rev_nth)
  finally show ?thesis .
qed

lemma bpf_pick_printk_le:
  assumes "length args \<le> 12"
  shows "bpf_pick_printk args =
    Some (Macro (if length args \<le> 3 then ''__bpf_printk'' else ''__bpf_vprintk''))"
proof -
  let ?tail = "replicate 9 (Macro ''__bpf_vprintk'') @ replicate 4 (Macro ''__bpf_printk'')"
  have "bpf_pick_printk args = bpf_nth (Underscore # map Arg args @ ?tail)"
    by (simp add: bpf_pick_printk_def numeral_eq_Suc)
  also have "\<dots> = Some (?tail ! (12 - length args))"
    using assms by (intro bpf_nth_shift) simp_all
  finally show ?thesis
    using assms by (auto simp: nth_append)
qed

lemma bpf_fill_n_suffix:
  "length xs \<le> 12 \<Longrightarrow> p + length xs = length arr \<Longrightarrow>
     bpf_fill_n (length xs) arr p xs = Some (take p arr @ xs)"
proof (induction xs arbitrary: arr p)
  case (Cons x xs)
  have "bpf_fill_n (length xs) (arr[p := x]) (p + 1) xs = Some (take (p + 1) (arr[p := x]) @ xs)"
    using Cons.prems by (intro Cons.IH) simp_all
  moreover have "take (p + 1) (arr[p := x]) = take p arr @ [x]"
    using Cons.prems by (simp add: take_Suc_conv_app_nth)
  ultimately show ?case
    using Cons.prems by simp
qed simp

lemma bpf_fill_array:
  "length args \<le> 12 \<Longrightarrow> length arr = length args \<Longrightarrow> bpf_fill arr args = Some args"
  using bpf_fill_n_suffix [of args 0 arr] by (simp add: bpf_fill_def bpf_narg_le)

lemma bpf_fill_param:
  "length args \<le> 12 \<Longrightarrow> 12 \<le> length param \<Longrightarrow> bpf_fill (take (length args) param) args = Some args"
  by (rule bpf_fill_array) auto

lemmas printk_eval = bpf_narg_le bpf_pick_printk_le bpf_fill_param fmt_size_def

lemma kernel_helpers_eq:
  "kernel_helpers = map (\<lambda>d. (hd_name d, int (hd_id d))) (take 155 helper_table) @
     [(''bpf_unsafe_helper'', 1073741824)]"
  by (simp add: kernel_helpers_def kernel_helper_name_def helper_table_def decl_simps)

lemma helper_ids: "map hd_id helper_table = [1..<181]"
  by (simp add: helper_table_def decl_simps upt_rec)

lemma length_helper_table: "length helper_table = 180"
  using arg_cong [OF helper_ids, of length] by simp

lemma helper_id_nth: "i < 180 \<Longrightarrow> hd_id (helper_table ! i) = i + 1"
  using arg_cong [OF helper_ids, of "\<lambda>l. l ! i"] by (simp add: length_helper_table)

lemma kernel_has_nth:
  assumes "i < 180"
  shows "kernel_has (helper_table ! i) \<longleftrightarrow> i < 155"
proof -
  have "(hd_name (helper_table ! i), int (hd_id (helper_table ! i))) \<in>
      set (map (\<lambda>d. (hd_name d, int (hd_id d))) (take 155 helper_table))" if "i < 155"
    using that assms length_helper_table by (force simp: in_set_conv_nth)
  moreover have "i < 155" if "kernel_has (helper_table ! i)"
  proof -
    from that have "hd_id (helper_table ! i) \<in> hd_id ` set (take 155 helper_table)
        \<or> hd_id (helper_table ! i) = 1073741824"
      by (fastforce simp: kernel_has_def kernel_helpers_eq)
    then have "i + 1 \<in> hd_id ` set (take 155 helper_table)"
      using assms by (auto simp: helper_id_nth)
    moreover have "hd_id ` set (take 155 helper_table) = set [1..<156]"
      using arg_cong [OF helper_ids, of "take 155"] by (simp add: take_map flip: set_map)
    ultimately show ?thesis by simp
  qed
  ultimately show ?thesis
    using assms by (auto simp: kernel_has_def kernel_helpers_eq)
qed

lemma call_ok_printk:
  "call_ok (Call bpf_trace_printk (A_Fmt fmt # A_Size n # map A_Val vs)) \<longleftrightarrow> length vs \<le> 3"
  by (auto simp: call_ok_def arg_matches_def bpf_trace_printk_def layout_simps list_all_iff)

lemma call_ok_prandom: "call_ok (Call bpf_get_prandom_u32 [])"
  by (simp add: call_ok_def bpf_get_prandom_u32_def)

lemma call_ok_lookup: "call_ok (Call bpf_map_lookup_elem [A_Map symb, A_Bytes bs])"
  by (simp add: call_ok_def arg_matches_def bpf_map_lookup_elem_def map_parameters_def)

section \<open>Properties\<close>

text \<open>C39. The stubs are numbered from 1 to 180 without gap or repetition, and a call through stub
  \<^verbatim>\<open>i\<close> reaches a helper of the same name in the kernel described by \<^verbatim>\<open>vmlinux.h\<close> exactly for the
  first 155 of them: the header declares 25 helpers that kernel does not have.\<close>

theorem helper_numbers_agree:
  "map hd_id helper_table = [1..<181] \<and>
   filter kernel_has helper_table = take 155 helper_table"
proof
  have "filter kernel_has (take 155 helper_table) = take 155 helper_table"
    by (rule filter_True) (auto simp: in_set_conv_nth length_helper_table kernel_has_nth)
  moreover have "filter kernel_has (drop 155 helper_table) = []"
    by (auto simp: filter_empty_conv in_set_conv_nth length_helper_table kernel_has_nth)
  ultimately show "filter kernel_has helper_table = take 155 helper_table"
    by (metis append_Nil2 append_take_drop_id filter_append)
qed (rule helper_ids)

text \<open>Every prototype fits the BPF calling convention: at most five parameters, each a pointer or
  an integer that fits one register; only \<^verbatim>\<open>bpf_trace_printk\<close> takes further arguments.\<close>

theorem helper_prototypes_fit_registers:
  "list_all (\<lambda>d. length (hd_params d) \<le> 5 \<and>
      list_all (\<lambda>(n, t). fits_register vmlinux_typedefs t) (hd_params d) \<and>
      (hd_variadic d \<longleftrightarrow> d = bpf_trace_printk)) helper_table"
  by (simp add: helper_table_def decl_simps layout_simps)

text \<open>A helper documented to report failure as a negative number has a signed result type, with
  one exception: \<^verbatim>\<open>bpf_perf_event_read\<close> is documented to return a negative error code and declared to
  return an unsigned 64-bit value, so a caller that tests the result for being negative never sees
  the error. Pointer results and NULL are documented consistently with the declared types.\<close>

theorem helper_error_results_signed:
  "list_all (\<lambda>d. (reports_negative d \<and> \<not> signed_result d) = (d = bpf_perf_event_read)) helper_table \<and>
   list_all (\<lambda>d. hd_returns d \<in> {Ret_Ptr, Ret_Ptr_Or_Null} \<longleftrightarrow> is_pointer (hd_ret d)) helper_table"
  by (simp add: helper_table_def decl_simps layout_simps reports_negative_def signed_result_def)

text \<open>Printing with up to twelve values expands to a well-formed helper call that passes them in
  order. Up to three values go to \<^verbatim>\<open>bpf_trace_printk\<close>, which the kernel has; with four or more the
  macro calls \<^verbatim>\<open>bpf_trace_vprintk\<close>, number 177, which the kernel of \<^verbatim>\<open>vmlinux.h\<close> lacks.\<close>

theorem bpf_printk_expansion:
  assumes "length args \<le> 12" and "12 \<le> length param"
  shows "\<exists>c. bpf_printk fmt param args = Some c \<and> call_ok c \<and>
    (kernel_has (call_decl c) \<longleftrightarrow> length args \<le> 3) \<and>
    drop 2 (call_args c) =
      (if length args \<le> 3 then map A_Val args else [A_Array args, A_Size (8 * length args)])"
proof (cases "length args \<le> 3")
  case True
  have "bpf_trace_printk = helper_table ! 5"
    by (simp add: helper_table_def)
  then have "kernel_has bpf_trace_printk"
    using kernel_has_nth [of 5] by simp
  with True assms show ?thesis
    by (simp add: bpf_printk_def printk_eval do_bpf_printk_def call_ok_printk)
next
  case False
  have "bpf_trace_vprintk = helper_table ! 176"
    by (simp add: helper_table_def)
  then have "\<not> kernel_has bpf_trace_vprintk"
    using kernel_has_nth [of 176] by simp
  with False assms show ?thesis
    by (simp add: bpf_printk_def printk_eval do_bpf_vprintk_def call_ok_def arg_matches_def
        bpf_trace_vprintk_def layout_simps)
qed

theorem bpf_printk_expansion_witness:
  "\<exists>c. bpf_printk ''%d'' (replicate 12 0) [7] = Some c \<and> call_ok c \<and>
    (kernel_has (call_decl c) \<longleftrightarrow> length [7 :: u64] \<le> 3) \<and>
    drop 2 (call_args c) = map A_Val [7]"
  using bpf_printk_expansion [of "[7]" "replicate 12 0" "''%d''"] by simp

text \<open>Kernel version numbers compare as the versions do, component by component, for a minor
  number below 256; the patch level saturates at 255.\<close>

theorem KERNEL_VERSION_order:
  assumes "0 \<le> b" "b < 256" "0 \<le> c" "0 \<le> b'" "b' < 256" "0 \<le> c'"
  shows "KERNEL_VERSION a b c < KERNEL_VERSION a' b' c' \<longleftrightarrow>
    a < a' \<or> a = a' \<and> (b < b' \<or> b = b' \<and> min c 255 < min c' 255)"
  using assms by (auto simp: KERNEL_VERSION_def min_def)

theorem KERNEL_VERSION_order_witness:
  "KERNEL_VERSION 4 19 300 < KERNEL_VERSION 5 4 0 \<longleftrightarrow>
    (4::int) < 5 \<or> (4::int) = 5 \<and> ((19::int) < 4 \<or> (19::int) = 4 \<and> min (300::int) 255 < min 0 255)"
  using KERNEL_VERSION_order [of 19 300 4 0 4 5] by simp

lemma container_of_member:
  "bpf_offsetof ds t m = Some off \<Longrightarrow> container_of ds (base + off) t m = Some base"
  by (simp add: container_of_def)

lemma tail_call_static_calls_tail_call:
  "bpf_tail_call_static const ctx map_sym slot =
     (if const then Some (Call bpf_tail_call [A_Ptr ctx, A_Map map_sym, A_Val (ucast slot)]) else None)"
  by (simp add: bpf_tail_call_static_def helper_by_id_def helper_table_def decl_simps)

lemma attr_roundtrip:
  "uint_of (field_type (uint_attr n v)) = Some v"
  "type_of (field_type (type_attr n t)) = Some t"
  by (simp_all add: uint_attr_def type_attr_def)

lemma printf_wrappers:
  assumes "length args \<le> 12" and "12 \<le> length param"
  shows "BPF_SEQ_PRINTF seq fmt param args =
      Some (Call bpf_seq_printf [A_Ptr seq, A_Fmt fmt, A_Size (length fmt + 1), A_Array args,
        A_Size (8 * length args)])"
    and "BPF_SNPRINTF out n fmt param args =
      Some (Call bpf_snprintf [A_Ptr out, A_Size n, A_Fmt fmt, A_Array args,
        A_Size (8 * length args)])"
  using assms by (simp_all add: BPF_SEQ_PRINTF_def BPF_SNPRINTF_def printk_eval)

end
