(* ===== verification/Bpf_Tracing.thy ===== *)
theory Bpf_Tracing
  imports Bpf_Helpers
begin

text \<open>
  The register accessors and argument macros of \<^verbatim>\<open>src/ebpf/src/headers/bpf_tracing.h\<close>: the choice
  of the target architecture from the predefined macros, the tables of \<^verbatim>\<open>PT_REGS_*\<close> accessors with
  their \<^verbatim>\<open>_CORE\<close> variants, and the macros that turn a context into the arguments of a program. The
  properties check the tables against each other and against \<^verbatim>\<open>struct pt_regs\<close> of \<^verbatim>\<open>vmlinux.h\<close>.
\<close>

section \<open>Target architecture\<close>

datatype bpf_target =
    T_x86 | T_s390 | T_arm | T_arm64 | T_mips | T_powerpc | T_sparc | T_riscv

definition target_arch_macros :: "(string \<times> bpf_target) list" where
  [decl_simps]: "target_arch_macros = [
    (''__TARGET_ARCH_x86'', T_x86),
    (''__TARGET_ARCH_s390'', T_s390),
    (''__TARGET_ARCH_arm'', T_arm),
    (''__TARGET_ARCH_arm64'', T_arm64),
    (''__TARGET_ARCH_mips'', T_mips),
    (''__TARGET_ARCH_powerpc'', T_powerpc),
    (''__TARGET_ARCH_sparc'', T_sparc),
    (''__TARGET_ARCH_riscv'', T_riscv)]"

definition compiler_macros :: "(string \<times> bpf_target) list" where
  [decl_simps]: "compiler_macros = [
    (''__x86_64__'', T_x86),
    (''__s390__'', T_s390),
    (''__arm__'', T_arm),
    (''__aarch64__'', T_arm64),
    (''__mips__'', T_mips),
    (''__powerpc__'', T_powerpc),
    (''__sparc__'', T_sparc)]"

text \<open>
  The first defined \<^verbatim>\<open>__TARGET_ARCH_xxx\<close> decides; without one, what the compiler predefines; RISC-V
  only when \<^verbatim>\<open>__riscv_xlen\<close> is 64. \<^const>\<open>None\<close> leaves \<^verbatim>\<open>bpf_target_defined\<close> undefined.
\<close>

definition bpf_target_of :: "string list \<Rightarrow> nat \<Rightarrow> bpf_target option" where
  "bpf_target_of defs riscv_xlen =
     (case find (\<lambda>(m, t). List.member defs m) target_arch_macros of
        Some (m, t) \<Rightarrow> Some t
      | None \<Rightarrow>
          (case find (\<lambda>(m, t). List.member defs m) compiler_macros of
             Some (m, t) \<Rightarrow> Some t
           | None \<Rightarrow>
               if List.member defs ''__riscv'' \<and> riscv_xlen = 64 then Some T_riscv else None))"

section \<open>Register accessors\<close>

datatype reg_role = PARM1 | PARM2 | PARM3 | PARM4 | PARM5 | RET | FP | RC | SP | IP

text \<open>
  What an accessor reads from the register structure: a member, an element of an array member, an
  element with a symbolic index, a member of a member, or the constant zero.
\<close>

datatype reg_access =
    Reg_Field string
  | Reg_Index string nat
  | Reg_Sym string string
  | Reg_Path string string
  | Reg_Zero

type_synonym reg_table = "(reg_role \<times> reg_access) list"

definition x86_kernel_regs :: reg_table where
  [decl_simps]: "x86_kernel_regs = [
    (PARM1, Reg_Field ''di''),
    (PARM2, Reg_Field ''si''),
    (PARM3, Reg_Field ''dx''),
    (PARM4, Reg_Field ''cx''),
    (PARM5, Reg_Field ''r8''),
    (RET, Reg_Field ''sp''),
    (FP, Reg_Field ''bp''),
    (RC, Reg_Field ''ax''),
    (SP, Reg_Field ''sp''),
    (IP, Reg_Field ''ip'')]"

definition x86_kernel_regs_core :: reg_table where
  [decl_simps]: "x86_kernel_regs_core = [
    (PARM1, Reg_Field ''di''),
    (PARM2, Reg_Field ''si''),
    (PARM3, Reg_Field ''dx''),
    (PARM4, Reg_Field ''cx''),
    (PARM5, Reg_Field ''r8''),
    (RET, Reg_Field ''sp''),
    (FP, Reg_Field ''bp''),
    (RC, Reg_Field ''ax''),
    (SP, Reg_Field ''sp''),
    (IP, Reg_Field ''ip'')]"

definition i386_regs :: reg_table where
  [decl_simps]: "i386_regs = [
    (PARM1, Reg_Field ''eax''),
    (PARM2, Reg_Field ''edx''),
    (PARM3, Reg_Field ''ecx''),
    (PARM4, Reg_Zero),
    (PARM5, Reg_Zero),
    (RET, Reg_Field ''esp''),
    (FP, Reg_Field ''ebp''),
    (RC, Reg_Field ''eax''),
    (SP, Reg_Field ''esp''),
    (IP, Reg_Field ''eip'')]"

definition i386_regs_core :: reg_table where
  [decl_simps]: "i386_regs_core = [
    (PARM1, Reg_Field ''eax''),
    (PARM2, Reg_Field ''edx''),
    (PARM3, Reg_Field ''ecx''),
    (PARM4, Reg_Zero),
    (PARM5, Reg_Zero),
    (RET, Reg_Field ''esp''),
    (FP, Reg_Field ''ebp''),
    (RC, Reg_Field ''eax''),
    (SP, Reg_Field ''esp''),
    (IP, Reg_Field ''eip'')]"

definition x86_user_regs :: reg_table where
  [decl_simps]: "x86_user_regs = [
    (PARM1, Reg_Field ''rdi''),
    (PARM2, Reg_Field ''rsi''),
    (PARM3, Reg_Field ''rdx''),
    (PARM4, Reg_Field ''rcx''),
    (PARM5, Reg_Field ''r8''),
    (RET, Reg_Field ''rsp''),
    (FP, Reg_Field ''rbp''),
    (RC, Reg_Field ''rax''),
    (SP, Reg_Field ''rsp''),
    (IP, Reg_Field ''rip'')]"

definition x86_user_regs_core :: reg_table where
  [decl_simps]: "x86_user_regs_core = [
    (PARM1, Reg_Field ''rdi''),
    (PARM2, Reg_Field ''rsi''),
    (PARM3, Reg_Field ''rdx''),
    (PARM4, Reg_Field ''rcx''),
    (PARM5, Reg_Field ''r8''),
    (RET, Reg_Field ''rsp''),
    (FP, Reg_Field ''rbp''),
    (RC, Reg_Field ''rax''),
    (SP, Reg_Field ''rsp''),
    (IP, Reg_Field ''rip'')]"

definition s390_regs :: reg_table where
  [decl_simps]: "s390_regs = [
    (PARM1, Reg_Index ''gprs'' 2),
    (PARM2, Reg_Index ''gprs'' 3),
    (PARM3, Reg_Index ''gprs'' 4),
    (PARM4, Reg_Index ''gprs'' 5),
    (PARM5, Reg_Index ''gprs'' 6),
    (RET, Reg_Index ''gprs'' 14),
    (FP, Reg_Index ''gprs'' 11),
    (RC, Reg_Index ''gprs'' 2),
    (SP, Reg_Index ''gprs'' 15),
    (IP, Reg_Path ''psw'' ''addr'')]"

definition s390_regs_core :: reg_table where
  [decl_simps]: "s390_regs_core = [
    (PARM1, Reg_Index ''gprs'' 2),
    (PARM2, Reg_Index ''gprs'' 3),
    (PARM3, Reg_Index ''gprs'' 4),
    (PARM4, Reg_Index ''gprs'' 5),
    (PARM5, Reg_Index ''gprs'' 6),
    (RET, Reg_Index ''gprs'' 14),
    (FP, Reg_Index ''gprs'' 11),
    (RC, Reg_Index ''gprs'' 2),
    (SP, Reg_Index ''gprs'' 15),
    (IP, Reg_Path ''psw'' ''addr'')]"

definition arm_regs :: reg_table where
  [decl_simps]: "arm_regs = [
    (PARM1, Reg_Index ''uregs'' 0),
    (PARM2, Reg_Index ''uregs'' 1),
    (PARM3, Reg_Index ''uregs'' 2),
    (PARM4, Reg_Index ''uregs'' 3),
    (PARM5, Reg_Index ''uregs'' 4),
    (RET, Reg_Index ''uregs'' 14),
    (FP, Reg_Index ''uregs'' 11),
    (RC, Reg_Index ''uregs'' 0),
    (SP, Reg_Index ''uregs'' 13),
    (IP, Reg_Index ''uregs'' 12)]"

definition arm_regs_core :: reg_table where
  [decl_simps]: "arm_regs_core = [
    (PARM1, Reg_Index ''uregs'' 0),
    (PARM2, Reg_Index ''uregs'' 1),
    (PARM3, Reg_Index ''uregs'' 2),
    (PARM4, Reg_Index ''uregs'' 3),
    (PARM5, Reg_Index ''uregs'' 4),
    (RET, Reg_Index ''uregs'' 14),
    (FP, Reg_Index ''uregs'' 11),
    (RC, Reg_Index ''uregs'' 0),
    (SP, Reg_Index ''uregs'' 13),
    (IP, Reg_Index ''uregs'' 12)]"

definition arm64_regs :: reg_table where
  [decl_simps]: "arm64_regs = [
    (PARM1, Reg_Index ''regs'' 0),
    (PARM2, Reg_Index ''regs'' 1),
    (PARM3, Reg_Index ''regs'' 2),
    (PARM4, Reg_Index ''regs'' 3),
    (PARM5, Reg_Index ''regs'' 4),
    (RET, Reg_Index ''regs'' 30),
    (FP, Reg_Index ''regs'' 29),
    (RC, Reg_Index ''regs'' 0),
    (SP, Reg_Field ''sp''),
    (IP, Reg_Field ''pc'')]"

definition arm64_regs_core :: reg_table where
  [decl_simps]: "arm64_regs_core = [
    (PARM1, Reg_Index ''regs'' 0),
    (PARM2, Reg_Index ''regs'' 1),
    (PARM3, Reg_Index ''regs'' 2),
    (PARM4, Reg_Index ''regs'' 3),
    (PARM5, Reg_Index ''regs'' 4),
    (RET, Reg_Index ''regs'' 30),
    (FP, Reg_Index ''regs'' 29),
    (RC, Reg_Index ''regs'' 0),
    (SP, Reg_Field ''sp''),
    (IP, Reg_Field ''pc'')]"

definition mips_regs :: reg_table where
  [decl_simps]: "mips_regs = [
    (PARM1, Reg_Index ''regs'' 4),
    (PARM2, Reg_Index ''regs'' 5),
    (PARM3, Reg_Index ''regs'' 6),
    (PARM4, Reg_Index ''regs'' 7),
    (PARM5, Reg_Index ''regs'' 8),
    (RET, Reg_Index ''regs'' 31),
    (FP, Reg_Index ''regs'' 30),
    (RC, Reg_Index ''regs'' 2),
    (SP, Reg_Index ''regs'' 29),
    (IP, Reg_Field ''cp0_epc'')]"

definition mips_regs_core :: reg_table where
  [decl_simps]: "mips_regs_core = [
    (PARM1, Reg_Index ''regs'' 4),
    (PARM2, Reg_Index ''regs'' 5),
    (PARM3, Reg_Index ''regs'' 6),
    (PARM4, Reg_Index ''regs'' 7),
    (PARM5, Reg_Index ''regs'' 8),
    (RET, Reg_Index ''regs'' 31),
    (FP, Reg_Index ''regs'' 30),
    (RC, Reg_Index ''regs'' 2),
    (SP, Reg_Index ''regs'' 29),
    (IP, Reg_Field ''cp0_epc'')]"

definition powerpc_regs :: reg_table where
  [decl_simps]: "powerpc_regs = [
    (PARM1, Reg_Index ''gpr'' 3),
    (PARM2, Reg_Index ''gpr'' 4),
    (PARM3, Reg_Index ''gpr'' 5),
    (PARM4, Reg_Index ''gpr'' 6),
    (PARM5, Reg_Index ''gpr'' 7),
    (RC, Reg_Index ''gpr'' 3),
    (SP, Reg_Field ''sp''),
    (IP, Reg_Field ''nip'')]"

definition powerpc_regs_core :: reg_table where
  [decl_simps]: "powerpc_regs_core = [
    (PARM1, Reg_Index ''gpr'' 3),
    (PARM2, Reg_Index ''gpr'' 4),
    (PARM3, Reg_Index ''gpr'' 5),
    (PARM4, Reg_Index ''gpr'' 6),
    (PARM5, Reg_Index ''gpr'' 7),
    (RC, Reg_Index ''gpr'' 3),
    (SP, Reg_Field ''sp''),
    (IP, Reg_Field ''nip'')]"

definition sparc_regs :: reg_table where
  [decl_simps]: "sparc_regs = [
    (PARM1, Reg_Sym ''u_regs'' ''UREG_I0''),
    (PARM2, Reg_Sym ''u_regs'' ''UREG_I1''),
    (PARM3, Reg_Sym ''u_regs'' ''UREG_I2''),
    (PARM4, Reg_Sym ''u_regs'' ''UREG_I3''),
    (PARM5, Reg_Sym ''u_regs'' ''UREG_I4''),
    (RET, Reg_Sym ''u_regs'' ''UREG_I7''),
    (RC, Reg_Sym ''u_regs'' ''UREG_I0''),
    (SP, Reg_Sym ''u_regs'' ''UREG_FP'')]"

definition sparc_regs_core :: reg_table where
  [decl_simps]: "sparc_regs_core = [
    (PARM1, Reg_Sym ''u_regs'' ''UREG_I0''),
    (PARM2, Reg_Sym ''u_regs'' ''UREG_I1''),
    (PARM3, Reg_Sym ''u_regs'' ''UREG_I2''),
    (PARM4, Reg_Sym ''u_regs'' ''UREG_I3''),
    (PARM5, Reg_Sym ''u_regs'' ''UREG_I4''),
    (RET, Reg_Sym ''u_regs'' ''UREG_I7''),
    (RC, Reg_Sym ''u_regs'' ''UREG_I0''),
    (SP, Reg_Sym ''u_regs'' ''UREG_FP'')]"

definition riscv_regs :: reg_table where
  [decl_simps]: "riscv_regs = [
    (PARM1, Reg_Field ''a0''),
    (PARM2, Reg_Field ''a1''),
    (PARM3, Reg_Field ''a2''),
    (PARM4, Reg_Field ''a3''),
    (PARM5, Reg_Field ''a4''),
    (RET, Reg_Field ''ra''),
    (FP, Reg_Field ''s5''),
    (RC, Reg_Field ''a5''),
    (SP, Reg_Field ''sp''),
    (IP, Reg_Field ''epc'')]"

definition riscv_regs_core :: reg_table where
  [decl_simps]: "riscv_regs_core = [
    (PARM1, Reg_Field ''a0''),
    (PARM2, Reg_Field ''a1''),
    (PARM3, Reg_Field ''a2''),
    (PARM4, Reg_Field ''a3''),
    (PARM5, Reg_Field ''a4''),
    (RET, Reg_Field ''ra''),
    (FP, Reg_Field ''fp''),
    (RC, Reg_Field ''a5''),
    (SP, Reg_Field ''sp''),
    (IP, Reg_Field ''epc'')]"

text \<open>On SPARC the program counter's member depends on \<^verbatim>\<open>__arch64__\<close>.\<close>

definition sparc_ip :: "string list \<Rightarrow> reg_table" where
  [decl_simps]: "sparc_ip defs =
     [(IP, Reg_Field (if List.member defs ''__arch64__'' then ''tpc'' else ''pc''))]"

definition sparc_ip_core :: "string list \<Rightarrow> reg_table" where
  [decl_simps]: "sparc_ip_core defs =
     [(IP, Reg_Field (if List.member defs ''__arch64__'' then ''tpc'' else ''pc''))]"

text \<open>The table the preprocessor keeps for a target: plain accessors, then \<^verbatim>\<open>_CORE\<close> accessors.\<close>

fun pt_regs_table :: "bpf_target \<Rightarrow> string list \<Rightarrow> reg_table" where
  "pt_regs_table T_x86 defs =
     (if List.member defs ''__KERNEL__'' \<or> List.member defs ''__VMLINUX_H__'' then x86_kernel_regs
      else if List.member defs ''__i386__'' then i386_regs
      else x86_user_regs)"
| "pt_regs_table T_s390 defs = s390_regs"
| "pt_regs_table T_arm defs = arm_regs"
| "pt_regs_table T_arm64 defs = arm64_regs"
| "pt_regs_table T_mips defs = mips_regs"
| "pt_regs_table T_powerpc defs = powerpc_regs"
| "pt_regs_table T_sparc defs = sparc_regs @ sparc_ip defs"
| "pt_regs_table T_riscv defs = riscv_regs"

fun pt_regs_core_table :: "bpf_target \<Rightarrow> string list \<Rightarrow> reg_table" where
  "pt_regs_core_table T_x86 defs =
     (if List.member defs ''__KERNEL__'' \<or> List.member defs ''__VMLINUX_H__'' then x86_kernel_regs_core
      else if List.member defs ''__i386__'' then i386_regs_core
      else x86_user_regs_core)"
| "pt_regs_core_table T_s390 defs = s390_regs_core"
| "pt_regs_core_table T_arm defs = arm_regs_core"
| "pt_regs_core_table T_arm64 defs = arm64_regs_core"
| "pt_regs_core_table T_mips defs = mips_regs_core"
| "pt_regs_core_table T_powerpc defs = powerpc_regs_core"
| "pt_regs_core_table T_sparc defs = sparc_regs_core @ sparc_ip_core defs"
| "pt_regs_core_table T_riscv defs = riscv_regs_core"

text \<open>
  \<^verbatim>\<open>PT_REGS_x(ctx)\<close> and \<^verbatim>\<open>PT_REGS_x_CORE(ctx)\<close>; without a target the macros are build errors.
\<close>

definition PT_REGS :: "bpf_target option \<Rightarrow> string list \<Rightarrow> reg_role \<Rightarrow> reg_access option" where
  "PT_REGS tgt defs r =
     (case tgt of Some t \<Rightarrow> map_of (pt_regs_table t defs) r | None \<Rightarrow> None)"

definition PT_REGS_CORE :: "bpf_target option \<Rightarrow> string list \<Rightarrow> reg_role \<Rightarrow> reg_access option" where
  "PT_REGS_CORE tgt defs r =
     (case tgt of Some t \<Rightarrow> map_of (pt_regs_core_table t defs) r | None \<Rightarrow> None)"

text \<open>How the return address is read at function entry and at function return.\<close>

datatype ret_ip_read =
    From_Field string
  | From_Reg reg_access
  | Probe_Read_Kernel reg_access nat

definition BPF_KPROBE_READ_RET_IP ::
  "bpf_target option \<Rightarrow> string list \<Rightarrow> ret_ip_read option" where
  "BPF_KPROBE_READ_RET_IP tgt defs =
     (case tgt of
        Some T_powerpc \<Rightarrow> Some (From_Field ''link'')
      | Some T_sparc \<Rightarrow> map_option From_Reg (PT_REGS tgt defs RET)
      | Some t \<Rightarrow> map_option (\<lambda>a. Probe_Read_Kernel a 0) (PT_REGS tgt defs RET)
      | None \<Rightarrow> None)"

definition BPF_KRETPROBE_READ_RET_IP ::
  "bpf_target option \<Rightarrow> string list \<Rightarrow> nat \<Rightarrow> ret_ip_read option" where
  "BPF_KRETPROBE_READ_RET_IP tgt defs ip_size =
     (case tgt of
        Some T_powerpc \<Rightarrow> BPF_KPROBE_READ_RET_IP tgt defs
      | Some T_sparc \<Rightarrow> BPF_KPROBE_READ_RET_IP tgt defs
      | Some t \<Rightarrow> map_option (\<lambda>a. Probe_Read_Kernel a ip_size) (PT_REGS tgt defs FP)
      | None \<Rightarrow> None)"

section \<open>Program argument macros\<close>

text \<open>
  The argument list the macros build: the context itself, an element of the context taken as an
  array of 64-bit words, a parameter register or the return-value register.
\<close>

datatype prog_arg = Ctx | Ctx_Elem nat | Ctx_Reg reg_role

text \<open>
  \<^verbatim>\<open>___bpf_ctx_castN(x, args...)\<close> is \<^verbatim>\<open>___bpf_ctx_cast(N-1)(args), (void *)ctx[N-1]\<close>, defined for N up
  to 12; likewise for the kprobe macros up to 5 and the kretprobe macros up to 1. The first argument
  is the number in the macro's name.
\<close>

fun bpf_ctx_cast_n :: "nat \<Rightarrow> 'a list \<Rightarrow> prog_arg list option" where
  "bpf_ctx_cast_n 0 args = (if args = [] then Some [Ctx] else None)"
| "bpf_ctx_cast_n (Suc n) [] = None"
| "bpf_ctx_cast_n (Suc n) (x # args) =
     (if n < 12 then map_option (\<lambda>l. l @ [Ctx_Elem n]) (bpf_ctx_cast_n n args) else None)"

definition bpf_ctx_cast :: "'a list \<Rightarrow> prog_arg list option" where
  "bpf_ctx_cast args =
     (case bpf_narg args of Some (Num n) \<Rightarrow> bpf_ctx_cast_n n args | _ \<Rightarrow> None)"

definition kprobe_parms :: "reg_role list" where
  "kprobe_parms = [PARM1, PARM2, PARM3, PARM4, PARM5]"

fun bpf_kprobe_args_n :: "nat \<Rightarrow> 'a list \<Rightarrow> prog_arg list option" where
  "bpf_kprobe_args_n 0 args = (if args = [] then Some [Ctx] else None)"
| "bpf_kprobe_args_n (Suc n) [] = None"
| "bpf_kprobe_args_n (Suc n) (x # args) =
     (if n < 5 then map_option (\<lambda>l. l @ [Ctx_Reg (kprobe_parms ! n)]) (bpf_kprobe_args_n n args)
      else None)"

definition bpf_kprobe_args :: "'a list \<Rightarrow> prog_arg list option" where
  "bpf_kprobe_args args =
     (case bpf_narg args of Some (Num n) \<Rightarrow> bpf_kprobe_args_n n args | _ \<Rightarrow> None)"

definition bpf_kretprobe_args :: "'a list \<Rightarrow> prog_arg list option" where
  "bpf_kretprobe_args args =
     (case bpf_narg args of
        Some (Num n) \<Rightarrow>
          (if n = 0 then Some [Ctx] else if n = 1 then Some [Ctx, Ctx_Reg RC] else None)
      | _ \<Rightarrow> None)"

text \<open>
  \<^verbatim>\<open>BPF_PROG\<close>, \<^verbatim>\<open>BPF_KPROBE\<close> and \<^verbatim>\<open>BPF_KRETPROBE\<close> define the entry function \<^verbatim>\<open>name(ctx)\<close> as a call of the
  inlined body \<^verbatim>\<open>____name\<close> with these lists; the body's parameters are the context and \<^verbatim>\<open>args\<close>.
\<close>

definition BPF_PROG :: "(prog_arg list \<Rightarrow> 'r) \<Rightarrow> 'a list \<Rightarrow> 'r option" where
  "BPF_PROG body args = map_option body (bpf_ctx_cast args)"

definition BPF_KPROBE :: "(prog_arg list \<Rightarrow> 'r) \<Rightarrow> 'a list \<Rightarrow> 'r option" where
  "BPF_KPROBE body args = map_option body (bpf_kprobe_args args)"

definition BPF_KRETPROBE :: "(prog_arg list \<Rightarrow> 'r) \<Rightarrow> 'a list \<Rightarrow> 'r option" where
  "BPF_KRETPROBE body args = map_option body (bpf_kretprobe_args args)"

text \<open>The macros the eBPF Makefile passes to the compiler.\<close>

definition makefile_defines :: "string list" where
  [decl_simps]: "makefile_defines =
     [''__KERNEL__'', ''__TARGET_ARCH_x86_64'', ''__NATIVE_EBPF__'', ''__x86_64__'']"

section \<open>Lemmas\<close>

lemma bpf_ctx_cast_n_eq:
  "length args \<le> 12 \<Longrightarrow>
     bpf_ctx_cast_n (length args) args = Some (Ctx # map Ctx_Elem [0..<length args])"
  by (induction args) auto

lemma length_kprobe_parms: "length kprobe_parms = 5"
  by (simp add: kprobe_parms_def)

lemma bpf_kprobe_args_n_eq:
  "length args \<le> 5 \<Longrightarrow>
     bpf_kprobe_args_n (length args) args = Some (Ctx # map Ctx_Reg (take (length args) kprobe_parms))"
  by (induction args) (auto simp: take_Suc_conv_app_nth length_kprobe_parms)

section \<open>Properties\<close>

text \<open>C40. The plain and the \<^verbatim>\<open>_CORE\<close> accessor of a register read the same place on every target, with
  one exception: the frame pointer of RISC-V, where \<^verbatim>\<open>PT_REGS_FP\<close> reads \<^verbatim>\<open>s5\<close> and \<^verbatim>\<open>PT_REGS_FP_CORE\<close>
  reads \<^verbatim>\<open>fp\<close>.\<close>

theorem pt_regs_core_agrees:
  "PT_REGS tgt defs r = PT_REGS_CORE tgt defs r \<longleftrightarrow> \<not> (tgt = Some T_riscv \<and> r = FP)"
  by (cases tgt rule: option.exhaust; cases "the tgt"; cases r)
     (auto simp: PT_REGS_def PT_REGS_CORE_def decl_simps)

text \<open>With the flags of the Makefile the target is x86 (through the compiler's macro, since
  \<^verbatim>\<open>__TARGET_ARCH_x86_64\<close> is not one the header knows), and every accessor names a 64-bit member of
  the \<^verbatim>\<open>struct pt_regs\<close> of \<^verbatim>\<open>vmlinux.h\<close>; the five parameters are five different registers.\<close>

theorem pt_regs_accessors_exist:
  "bpf_target_of makefile_defines 0 = Some T_x86 \<and>
   list_all (\<lambda>r. case PT_REGS (Some T_x86) makefile_defines r of
       Some (Reg_Field f) \<Rightarrow>
         map_option (sizeof vmlinux_typedefs \<circ> snd) (offset_in vmlinux_typedefs f struct_pt_regs) = Some 8
     | _ \<Rightarrow> False) [PARM1, PARM2, PARM3, PARM4, PARM5, RET, FP, RC, SP, IP] \<and>
   distinct (map (PT_REGS (Some T_x86) makefile_defines) kprobe_parms)"
  by (simp add: bpf_target_of_def decl_simps PT_REGS_def kprobe_parms_def layout_simps)

text \<open>A program declared with up to twelve parameters receives the context followed by the
  context's first words in order; a kprobe with up to five receives the context followed by the
  parameter registers in order.\<close>

theorem program_arguments_in_order:
  "(length args \<le> 12 \<longrightarrow>
      BPF_PROG body args = Some (body (Ctx # map Ctx_Elem [0..<length args]))) \<and>
   (length args \<le> 5 \<longrightarrow>
      BPF_KPROBE body args = Some (body (Ctx # map Ctx_Reg (take (length args) kprobe_parms))))"
  by (simp add: BPF_PROG_def BPF_KPROBE_def bpf_ctx_cast_def bpf_kprobe_args_def bpf_narg_le
      bpf_ctx_cast_n_eq bpf_kprobe_args_n_eq)

theorem program_arguments_in_order_witness:
  "BPF_PROG id [''a'', ''b''] = Some [Ctx, Ctx_Elem 0, Ctx_Elem 1] \<and>
   BPF_KPROBE id [''a'', ''b''] = Some [Ctx, Ctx_Reg PARM1, Ctx_Reg PARM2]"
  using program_arguments_in_order [of "[''a'', ''b'']" id]
  by (simp add: upt_rec kprobe_parms_def)

end
