(* ===== verification/Kernel_Types.thy ===== *)
theory Kernel_Types
  imports Kernel_Uapi
begin

text \<open>
  Building blocks of the kernel's structures, from \<^verbatim>\<open>src/ebpf/src/kernel/vmlinux.h\<close>: counters, locks,
  lists, trees, timers and wait queues, which the sockets embed, and the format of BPF instructions.

  Each declaration is one definition, in the order of the header and with the members in source order; a
  typedef that follows the struct it names forms one definition with it. A member of struct, union or
  typedef type refers to the definition of that type, which therefore stands earlier, as the compiler
  requires in a single pass; a type behind a pointer is only named. The lemmas give size and alignment
  of every type, from the types without embedded ones upwards, and show that no layout rests on an
  unknown type.
\<close>

section \<open>Building blocks\<close>

definition atomic_t :: ctype where
  "atomic_t = CStruct [
    Field ''counter'' (CPrim PInt)]"

definition atomic64_t :: ctype where
  "atomic64_t = CStruct [
    Field ''counter'' (CName ''s64'')]"

definition struct_list_head :: ctype where
  "struct_list_head = CStruct [
    Field ''next'' (CPtr (CTag ''list_head'')),
    Field ''prev'' (CPtr (CTag ''list_head''))]"

definition struct_hlist_node :: ctype where
  "struct_hlist_node = CStruct [
    Field ''next'' (CPtr (CTag ''hlist_node'')),
    Field ''pprev'' (CPtr (CPtr (CTag ''hlist_node'')))]"

definition struct_callback_head :: ctype where
  "struct_callback_head = CStruct [
    Field ''next'' (CPtr (CTag ''callback_head'')),
    Field ''func'' (CPtr (CFun CVoid [CPtr (CTag ''callback_head'')]))]"

definition arch_spinlock_t :: ctype where
  "arch_spinlock_t = CStruct [
    Field '''' (CUnion [
      Field ''val'' atomic_t,
      Field '''' (CStruct [
        Field ''locked'' (CName ''u8''),
        Field ''pending'' (CName ''u8'')]),
      Field '''' (CStruct [
        Field ''locked_pending'' (CName ''u16''),
        Field ''tail'' (CName ''u16'')])])]"

definition struct_raw_spinlock :: ctype where
  "struct_raw_spinlock = CStruct [
    Field ''raw_lock'' arch_spinlock_t]"

definition spinlock_t :: ctype where
  "spinlock_t = CStruct [
    Field '''' (CUnion [
      Field ''rlock'' struct_raw_spinlock])]"

definition refcount_t :: ctype where
  "refcount_t = CStruct [
    Field ''refs'' atomic_t]"

definition struct_rb_node :: ctype where
  "struct_rb_node = CStruct [
    Field ''__rb_parent_color'' (CPrim PULong),
    Field ''rb_right'' (CPtr (CTag ''rb_node'')),
    Field ''rb_left'' (CPtr (CTag ''rb_node''))]"

definition ktime_t :: ctype where
  "ktime_t = CName ''s64''"

definition struct_timerqueue_node :: ctype where
  "struct_timerqueue_node = CStruct [
    Field ''node'' struct_rb_node,
    Field ''expires'' ktime_t]"

definition struct_hrtimer :: ctype where
  "struct_hrtimer = CStruct [
    Field ''node'' struct_timerqueue_node,
    Field ''_softexpires'' ktime_t,
    Field ''function'' (CPtr (CFun (CEnum ''hrtimer_restart'') [CPtr (CTag ''hrtimer'')])),
    Field ''base'' (CPtr (CTag ''hrtimer_clock_base'')),
    Field ''state'' (CName ''u8''),
    Field ''is_rel'' (CName ''u8''),
    Field ''is_soft'' (CName ''u8''),
    Field ''is_hard'' (CName ''u8'')]"

definition struct_rb_root :: ctype where
  "struct_rb_root = CStruct [
    Field ''rb_node'' (CPtr (CTag ''rb_node''))]"

definition kuid_t :: ctype where
  "kuid_t = CStruct [
    Field ''val'' (CName ''uid_t'')]"

definition atomic_long_t :: ctype where
  "atomic_long_t = atomic64_t"

definition struct_optimistic_spin_queue :: ctype where
  "struct_optimistic_spin_queue = CStruct [
    Field ''tail'' atomic_t]"

definition struct_mutex :: ctype where
  "struct_mutex = CStruct [
    Field ''owner'' atomic_long_t,
    Field ''wait_lock'' spinlock_t,
    Field ''osq'' struct_optimistic_spin_queue,
    Field ''wait_list'' struct_list_head]"

definition struct_page_frag :: ctype where
  "struct_page_frag = CStruct [
    Field ''page'' (CPtr (CTag ''page'')),
    Field ''offset'' (CName ''__u32''),
    Field ''size'' (CName ''__u32'')]"

definition work_func_t :: ctype where
  "work_func_t = CPtr (CFun CVoid [CPtr (CTag ''work_struct'')])"

definition struct_work_struct :: ctype where
  "struct_work_struct = CStruct [
    Field ''data'' atomic_long_t,
    Field ''entry'' struct_list_head,
    Field ''func'' work_func_t]"

definition arch_rwlock_t :: ctype where
  "arch_rwlock_t = CStruct [
    Field '''' (CUnion [
      Field ''cnts'' atomic_t,
      Field '''' (CStruct [
        Field ''wlocked'' (CName ''u8''),
        Field ''__lstate'' (CArray 3 (CName ''u8''))])]),
    Field ''wait_lock'' arch_spinlock_t]"

definition rwlock_t :: ctype where
  "rwlock_t = CStruct [
    Field ''raw_lock'' arch_rwlock_t]"

definition wait_queue_head_t :: ctype where
  "wait_queue_head_t = CStruct [
    Field ''lock'' spinlock_t,
    Field ''head'' struct_list_head]"

definition struct_completion :: ctype where
  "struct_completion = CStruct [
    Field ''done'' (CPrim PUInt),
    Field ''wait'' wait_queue_head_t]"

definition struct_timer_list :: ctype where
  "struct_timer_list = CStruct [
    Field ''entry'' struct_hlist_node,
    Field ''expires'' (CPrim PULong),
    Field ''function'' (CPtr (CFun CVoid [CPtr (CTag ''timer_list'')])),
    Field ''flags'' (CName ''u32'')]"

definition struct_path :: ctype where
  "struct_path = CStruct [
    Field ''mnt'' (CPtr (CTag ''vfsmount'')),
    Field ''dentry'' (CPtr (CTag ''dentry''))]"

definition wait_queue_func_t :: ctype where
  "wait_queue_func_t = CPtr (CFun (CPrim PInt) [CPtr (CTag ''wait_queue_entry''), CPrim PUInt,
    CPrim PInt, CPtr CVoid])"

definition wait_queue_entry_t :: ctype where
  "wait_queue_entry_t = CStruct [
    Field ''flags'' (CPrim PUInt),
    Field ''private'' (CPtr CVoid),
    Field ''func'' wait_queue_func_t,
    Field ''entry'' struct_list_head]"

definition struct_bpf_insn :: ctype where
  "struct_bpf_insn = CStruct [
    Field ''code'' (CName ''__u8''),
    Bits ''dst_reg'' (CName ''__u8'') 4,
    Bits ''src_reg'' (CName ''__u8'') 4,
    Field ''off'' (CName ''__s16''),
    Field ''imm'' (CName ''__s32'')]"

definition uint64_t :: ctype where
  "uint64_t = CName ''u64''"

definition struct_hlist_nulls_node :: ctype where
  "struct_hlist_nulls_node = CStruct [
    Field ''next'' (CPtr (CTag ''hlist_nulls_node'')),
    Field ''pprev'' (CPtr (CPtr (CTag ''hlist_nulls_node'')))]"

definition struct_rhash_head :: ctype where
  "struct_rhash_head = CStruct [
    Field ''next'' (CPtr (CTag ''rhash_head''))]"

text \<open>The structs and unions of this theory, with their tags.\<close>

definition core_structs :: "(string \<times> ctype) list" where
  "core_structs = [
    (''list_head'', struct_list_head),
    (''hlist_node'', struct_hlist_node),
    (''callback_head'', struct_callback_head),
    (''qspinlock'', arch_spinlock_t),
    (''raw_spinlock'', struct_raw_spinlock),
    (''spinlock'', spinlock_t),
    (''refcount_struct'', refcount_t),
    (''rb_node'', struct_rb_node),
    (''timerqueue_node'', struct_timerqueue_node),
    (''hrtimer'', struct_hrtimer),
    (''rb_root'', struct_rb_root),
    (''optimistic_spin_queue'', struct_optimistic_spin_queue),
    (''mutex'', struct_mutex),
    (''page_frag'', struct_page_frag),
    (''work_struct'', struct_work_struct),
    (''qrwlock'', arch_rwlock_t),
    (''wait_queue_head'', wait_queue_head_t),
    (''completion'', struct_completion),
    (''timer_list'', struct_timer_list),
    (''path'', struct_path),
    (''wait_queue_entry'', wait_queue_entry_t),
    (''bpf_insn'', struct_bpf_insn),
    (''hlist_nulls_node'', struct_hlist_nulls_node),
    (''rhash_head'', struct_rhash_head)]"

section \<open>Sizes and alignments\<close>

lemma kernel_types_layout_0 [layout_simps]:
  "sizeof vmlinux_typedefs atomic_t = 4" "alignof vmlinux_typedefs atomic_t = 4"
  "complete_type vmlinux_typedefs atomic_t"
  "sizeof vmlinux_typedefs atomic64_t = 8" "alignof vmlinux_typedefs atomic64_t = 8"
  "complete_type vmlinux_typedefs atomic64_t"
  "sizeof vmlinux_typedefs struct_list_head = 16" "alignof vmlinux_typedefs struct_list_head = 8"
  "complete_type vmlinux_typedefs struct_list_head"
  "sizeof vmlinux_typedefs struct_hlist_node = 16" "alignof vmlinux_typedefs struct_hlist_node = 8"
  "complete_type vmlinux_typedefs struct_hlist_node"
  "sizeof vmlinux_typedefs struct_callback_head = 16"
  "alignof vmlinux_typedefs struct_callback_head = 8"
  "complete_type vmlinux_typedefs struct_callback_head"
  "sizeof vmlinux_typedefs struct_rb_node = 24" "alignof vmlinux_typedefs struct_rb_node = 8"
  "complete_type vmlinux_typedefs struct_rb_node"
  "sizeof vmlinux_typedefs ktime_t = 8" "alignof vmlinux_typedefs ktime_t = 8"
  "complete_type vmlinux_typedefs ktime_t"
  "sizeof vmlinux_typedefs struct_rb_root = 8" "alignof vmlinux_typedefs struct_rb_root = 8"
  "complete_type vmlinux_typedefs struct_rb_root"
  "sizeof vmlinux_typedefs kuid_t = 4" "alignof vmlinux_typedefs kuid_t = 4"
  "complete_type vmlinux_typedefs kuid_t"
  "sizeof vmlinux_typedefs struct_page_frag = 16" "alignof vmlinux_typedefs struct_page_frag = 8"
  "complete_type vmlinux_typedefs struct_page_frag"
  "sizeof vmlinux_typedefs work_func_t = 8" "alignof vmlinux_typedefs work_func_t = 8"
  "complete_type vmlinux_typedefs work_func_t"
  "sizeof vmlinux_typedefs struct_path = 16" "alignof vmlinux_typedefs struct_path = 8"
  "complete_type vmlinux_typedefs struct_path"
  "sizeof vmlinux_typedefs wait_queue_func_t = 8" "alignof vmlinux_typedefs wait_queue_func_t = 8"
  "complete_type vmlinux_typedefs wait_queue_func_t"
  "sizeof vmlinux_typedefs struct_bpf_insn = 8" "alignof vmlinux_typedefs struct_bpf_insn = 4"
  "complete_type vmlinux_typedefs struct_bpf_insn"
  "sizeof vmlinux_typedefs uint64_t = 8" "alignof vmlinux_typedefs uint64_t = 8"
  "complete_type vmlinux_typedefs uint64_t"
  "sizeof vmlinux_typedefs struct_hlist_nulls_node = 16"
  "alignof vmlinux_typedefs struct_hlist_nulls_node = 8"
  "complete_type vmlinux_typedefs struct_hlist_nulls_node"
  "sizeof vmlinux_typedefs struct_rhash_head = 8" "alignof vmlinux_typedefs struct_rhash_head = 8"
  "complete_type vmlinux_typedefs struct_rhash_head"
  by (simp_all add: layout_simps atomic_t_def atomic64_t_def struct_list_head_def struct_hlist_node_def
      struct_callback_head_def struct_rb_node_def ktime_t_def struct_rb_root_def kuid_t_def
      struct_page_frag_def work_func_t_def struct_path_def wait_queue_func_t_def
      struct_bpf_insn_def uint64_t_def struct_hlist_nulls_node_def struct_rhash_head_def
     del: One_nat_def)

lemma kernel_types_layout_1 [layout_simps]:
  "sizeof vmlinux_typedefs arch_spinlock_t = 4" "alignof vmlinux_typedefs arch_spinlock_t = 4"
  "complete_type vmlinux_typedefs arch_spinlock_t"
  "sizeof vmlinux_typedefs refcount_t = 4" "alignof vmlinux_typedefs refcount_t = 4"
  "complete_type vmlinux_typedefs refcount_t"
  "sizeof vmlinux_typedefs struct_timerqueue_node = 32"
  "alignof vmlinux_typedefs struct_timerqueue_node = 8"
  "complete_type vmlinux_typedefs struct_timerqueue_node"
  "sizeof vmlinux_typedefs atomic_long_t = 8" "alignof vmlinux_typedefs atomic_long_t = 8"
  "complete_type vmlinux_typedefs atomic_long_t"
  "sizeof vmlinux_typedefs struct_optimistic_spin_queue = 4"
  "alignof vmlinux_typedefs struct_optimistic_spin_queue = 4"
  "complete_type vmlinux_typedefs struct_optimistic_spin_queue"
  "sizeof vmlinux_typedefs struct_timer_list = 40" "alignof vmlinux_typedefs struct_timer_list = 8"
  "complete_type vmlinux_typedefs struct_timer_list"
  "sizeof vmlinux_typedefs wait_queue_entry_t = 40"
  "alignof vmlinux_typedefs wait_queue_entry_t = 8"
  "complete_type vmlinux_typedefs wait_queue_entry_t"
  by (simp_all add: layout_simps arch_spinlock_t_def refcount_t_def struct_timerqueue_node_def atomic_long_t_def
      struct_optimistic_spin_queue_def struct_timer_list_def wait_queue_entry_t_def
     del: One_nat_def)

lemma kernel_types_layout_2 [layout_simps]:
  "sizeof vmlinux_typedefs struct_raw_spinlock = 4"
  "alignof vmlinux_typedefs struct_raw_spinlock = 4"
  "complete_type vmlinux_typedefs struct_raw_spinlock"
  "sizeof vmlinux_typedefs struct_hrtimer = 64" "alignof vmlinux_typedefs struct_hrtimer = 8"
  "complete_type vmlinux_typedefs struct_hrtimer"
  "sizeof vmlinux_typedefs struct_work_struct = 32"
  "alignof vmlinux_typedefs struct_work_struct = 8"
  "complete_type vmlinux_typedefs struct_work_struct"
  "sizeof vmlinux_typedefs arch_rwlock_t = 8" "alignof vmlinux_typedefs arch_rwlock_t = 4"
  "complete_type vmlinux_typedefs arch_rwlock_t"
  by (simp_all add: layout_simps struct_raw_spinlock_def struct_hrtimer_def struct_work_struct_def arch_rwlock_t_def
     del: One_nat_def)

lemma kernel_types_layout_3 [layout_simps]:
  "sizeof vmlinux_typedefs spinlock_t = 4" "alignof vmlinux_typedefs spinlock_t = 4"
  "complete_type vmlinux_typedefs spinlock_t"
  "sizeof vmlinux_typedefs rwlock_t = 8" "alignof vmlinux_typedefs rwlock_t = 4"
  "complete_type vmlinux_typedefs rwlock_t"
  by (simp_all add: layout_simps spinlock_t_def rwlock_t_def
     del: One_nat_def)

lemma kernel_types_layout_4 [layout_simps]:
  "sizeof vmlinux_typedefs struct_mutex = 32" "alignof vmlinux_typedefs struct_mutex = 8"
  "complete_type vmlinux_typedefs struct_mutex"
  "sizeof vmlinux_typedefs wait_queue_head_t = 24" "alignof vmlinux_typedefs wait_queue_head_t = 8"
  "complete_type vmlinux_typedefs wait_queue_head_t"
  by (simp_all add: layout_simps struct_mutex_def wait_queue_head_t_def
     del: One_nat_def)

lemma kernel_types_layout_5 [layout_simps]:
  "sizeof vmlinux_typedefs struct_completion = 32" "alignof vmlinux_typedefs struct_completion = 8"
  "complete_type vmlinux_typedefs struct_completion"
  by (simp_all add: layout_simps struct_completion_def
     del: One_nat_def)

end
