(* ===== verification/Kernel_Net.thy ===== *)
theory Kernel_Net
  imports Kernel_Types
begin

text \<open>
  Structures of the network stack, from \<^verbatim>\<open>src/ebpf/src/kernel/vmlinux.h\<close>: socket addresses, protocol
  headers and all the socket types the header defines, among them the ones that the socket helpers
  return, with every type they embed, in the form of \<^verbatim>\<open>Kernel_Types\<close>.
\<close>

section \<open>The network stack\<close>

definition addrpair :: ctype where
  "addrpair = CName ''__u64''"

definition portpair :: ctype where
  "portpair = CName ''__u32''"

definition possible_net_t :: ctype where
  "possible_net_t = CStruct [
    Field ''net'' (CPtr (CTag ''net''))]"

definition struct_in6_addr :: ctype where
  "struct_in6_addr = CStruct [
    Field ''in6_u'' (CUnion [
      Field ''u6_addr8'' (CArray 16 (CName ''__u8'')),
      Field ''u6_addr16'' (CArray 8 (CName ''__be16'')),
      Field ''u6_addr32'' (CArray 4 (CName ''__be32''))])]"

definition struct_sock_common :: ctype where
  "struct_sock_common = CStruct [
    Field '''' (CUnion [
      Field ''skc_addrpair'' addrpair,
      Field '''' (CStruct [
        Field ''skc_daddr'' (CName ''__be32''),
        Field ''skc_rcv_saddr'' (CName ''__be32'')])]),
    Field '''' (CUnion [
      Field ''skc_hash'' (CPrim PUInt),
      Field ''skc_u16hashes'' (CArray 2 (CName ''__u16''))]),
    Field '''' (CUnion [
      Field ''skc_portpair'' portpair,
      Field '''' (CStruct [
        Field ''skc_dport'' (CName ''__be16''),
        Field ''skc_num'' (CName ''__u16'')])]),
    Field ''skc_family'' (CPrim PUShort),
    Field ''skc_state'' (CVolatile (CPrim PUChar)),
    Bits ''skc_reuse'' (CPrim PUChar) 4,
    Bits ''skc_reuseport'' (CPrim PUChar) 1,
    Bits ''skc_ipv6only'' (CPrim PUChar) 1,
    Bits ''skc_net_refcnt'' (CPrim PUChar) 1,
    Field ''skc_bound_dev_if'' (CPrim PInt),
    Field '''' (CUnion [
      Field ''skc_bind_node'' struct_hlist_node,
      Field ''skc_portaddr_node'' struct_hlist_node]),
    Field ''skc_prot'' (CPtr (CTag ''proto'')),
    Field ''skc_net'' possible_net_t,
    Field ''skc_v6_daddr'' struct_in6_addr,
    Field ''skc_v6_rcv_saddr'' struct_in6_addr,
    Field ''skc_cookie'' atomic64_t,
    Field '''' (CUnion [
      Field ''skc_flags'' (CPrim PULong),
      Field ''skc_listener'' (CPtr (CTag ''sock'')),
      Field ''skc_tw_dr'' (CPtr (CTag ''inet_timewait_death_row''))]),
    Field ''skc_dontcopy_begin'' (CArray 0 (CPrim PInt)),
    Field '''' (CUnion [
      Field ''skc_node'' struct_hlist_node,
      Field ''skc_nulls_node'' struct_hlist_nulls_node]),
    Field ''skc_tx_queue_mapping'' (CPrim PUShort),
    Field ''skc_rx_queue_mapping'' (CPrim PUShort),
    Field '''' (CUnion [
      Field ''skc_incoming_cpu'' (CPrim PInt),
      Field ''skc_rcv_wnd'' (CName ''u32''),
      Field ''skc_tw_rcv_nxt'' (CName ''u32'')]),
    Field ''skc_refcnt'' refcount_t,
    Field ''skc_dontcopy_end'' (CArray 0 (CPrim PInt)),
    Field '''' (CUnion [
      Field ''skc_rxhash'' (CName ''u32''),
      Field ''skc_window_clamp'' (CName ''u32''),
      Field ''skc_tw_snd_nxt'' (CName ''u32'')])]"

definition socket_lock_t :: ctype where
  "socket_lock_t = CStruct [
    Field ''slock'' spinlock_t,
    Field ''owned'' (CPrim PInt),
    Field ''wq'' wait_queue_head_t]"

definition struct_sk_buff_head :: ctype where
  "struct_sk_buff_head = CStruct [
    Field ''next'' (CPtr (CTag ''sk_buff'')),
    Field ''prev'' (CPtr (CTag ''sk_buff'')),
    Field ''qlen'' (CName ''__u32''),
    Field ''lock'' spinlock_t]"

definition netdev_features_t :: ctype where
  "netdev_features_t = CName ''u64''"

definition struct_sock_cgroup_data :: ctype where
  "struct_sock_cgroup_data = CStruct [
    Field '''' (CUnion [
      Field '''' (CStruct [
        Bits ''is_data'' (CName ''u8'') 1,
        Bits ''no_refcnt'' (CName ''u8'') 1,
        Bits ''unused'' (CName ''u8'') 6,
        Field ''padding'' (CName ''u8''),
        Field ''prioidx'' (CName ''u16''),
        Field ''classid'' (CName ''u32'')]),
      Field ''val'' (CName ''u64'')])]"

definition struct_sock :: ctype where
  "struct_sock = CStruct [
    Field ''__sk_common'' struct_sock_common,
    Field ''sk_lock'' socket_lock_t,
    Field ''sk_drops'' atomic_t,
    Field ''sk_rcvlowat'' (CPrim PInt),
    Field ''sk_error_queue'' struct_sk_buff_head,
    Field ''sk_rx_skb_cache'' (CPtr (CTag ''sk_buff'')),
    Field ''sk_receive_queue'' struct_sk_buff_head,
    Field ''sk_backlog'' (CStruct [
      Field ''rmem_alloc'' atomic_t,
      Field ''len'' (CPrim PInt),
      Field ''head'' (CPtr (CTag ''sk_buff'')),
      Field ''tail'' (CPtr (CTag ''sk_buff''))]),
    Field ''sk_forward_alloc'' (CPrim PInt),
    Field ''sk_ll_usec'' (CPrim PUInt),
    Field ''sk_napi_id'' (CPrim PUInt),
    Field ''sk_rcvbuf'' (CPrim PInt),
    Field ''sk_filter'' (CPtr (CTag ''sk_filter'')),
    Field '''' (CUnion [
      Field ''sk_wq'' (CPtr (CTag ''socket_wq'')),
      Field ''sk_wq_raw'' (CPtr (CTag ''socket_wq''))]),
    Field ''sk_policy'' (CArray 2 (CPtr (CTag ''xfrm_policy''))),
    Field ''sk_rx_dst'' (CPtr (CTag ''dst_entry'')),
    Field ''sk_dst_cache'' (CPtr (CTag ''dst_entry'')),
    Field ''sk_omem_alloc'' atomic_t,
    Field ''sk_sndbuf'' (CPrim PInt),
    Field ''sk_wmem_queued'' (CPrim PInt),
    Field ''sk_wmem_alloc'' refcount_t,
    Field ''sk_tsq_flags'' (CPrim PULong),
    Field '''' (CUnion [
      Field ''sk_send_head'' (CPtr (CTag ''sk_buff'')),
      Field ''tcp_rtx_queue'' struct_rb_root]),
    Field ''sk_tx_skb_cache'' (CPtr (CTag ''sk_buff'')),
    Field ''sk_write_queue'' struct_sk_buff_head,
    Field ''sk_peek_off'' (CName ''__s32''),
    Field ''sk_write_pending'' (CPrim PInt),
    Field ''sk_dst_pending_confirm'' (CName ''__u32''),
    Field ''sk_pacing_status'' (CName ''u32''),
    Field ''sk_sndtimeo'' (CPrim PLong),
    Field ''sk_timer'' struct_timer_list,
    Field ''sk_priority'' (CName ''__u32''),
    Field ''sk_mark'' (CName ''__u32''),
    Field ''sk_pacing_rate'' (CPrim PULong),
    Field ''sk_max_pacing_rate'' (CPrim PULong),
    Field ''sk_frag'' struct_page_frag,
    Field ''sk_route_caps'' netdev_features_t,
    Field ''sk_route_nocaps'' netdev_features_t,
    Field ''sk_route_forced_caps'' netdev_features_t,
    Field ''sk_gso_type'' (CPrim PInt),
    Field ''sk_gso_max_size'' (CPrim PUInt),
    Field ''sk_allocation'' (CName ''gfp_t''),
    Field ''sk_txhash'' (CName ''__u32''),
    Field ''__sk_flags_offset'' (CArray 0 (CPrim PUInt)),
    Bits ''sk_padding'' (CPrim PUInt) 1,
    Bits ''sk_kern_sock'' (CPrim PUInt) 1,
    Bits ''sk_no_check_tx'' (CPrim PUInt) 1,
    Bits ''sk_no_check_rx'' (CPrim PUInt) 1,
    Bits ''sk_userlocks'' (CPrim PUInt) 4,
    Bits ''sk_protocol'' (CPrim PUInt) 8,
    Bits ''sk_type'' (CPrim PUInt) 16,
    Field ''sk_gso_max_segs'' (CName ''u16''),
    Field ''sk_pacing_shift'' (CName ''u8''),
    Field ''sk_lingertime'' (CPrim PULong),
    Field ''sk_prot_creator'' (CPtr (CTag ''proto'')),
    Field ''sk_callback_lock'' rwlock_t,
    Field ''sk_err'' (CPrim PInt),
    Field ''sk_err_soft'' (CPrim PInt),
    Field ''sk_ack_backlog'' (CName ''u32''),
    Field ''sk_max_ack_backlog'' (CName ''u32''),
    Field ''sk_uid'' kuid_t,
    Field ''sk_peer_pid'' (CPtr (CTag ''pid'')),
    Field ''sk_peer_cred'' (CPtr (CConst (CTag ''cred''))),
    Field ''sk_rcvtimeo'' (CPrim PLong),
    Field ''sk_stamp'' ktime_t,
    Field ''sk_tsflags'' (CName ''u16''),
    Field ''sk_shutdown'' (CName ''u8''),
    Field ''sk_tskey'' (CName ''u32''),
    Field ''sk_zckey'' atomic_t,
    Field ''sk_clockid'' (CName ''u8''),
    Bits ''sk_txtime_deadline_mode'' (CName ''u8'') 1,
    Bits ''sk_txtime_report_errors'' (CName ''u8'') 1,
    Bits ''sk_txtime_unused'' (CName ''u8'') 6,
    Field ''sk_socket'' (CPtr (CTag ''socket'')),
    Field ''sk_user_data'' (CPtr CVoid),
    Field ''sk_security'' (CPtr CVoid),
    Field ''sk_cgrp_data'' struct_sock_cgroup_data,
    Field ''sk_memcg'' (CPtr (CTag ''mem_cgroup'')),
    Field ''sk_state_change'' (CPtr (CFun CVoid [CPtr (CTag ''sock'')])),
    Field ''sk_data_ready'' (CPtr (CFun CVoid [CPtr (CTag ''sock'')])),
    Field ''sk_write_space'' (CPtr (CFun CVoid [CPtr (CTag ''sock'')])),
    Field ''sk_error_report'' (CPtr (CFun CVoid [CPtr (CTag ''sock'')])),
    Field ''sk_backlog_rcv'' (CPtr (CFun (CPrim PInt) [CPtr (CTag ''sock''),
      CPtr (CTag ''sk_buff'')])),
    Field ''sk_destruct'' (CPtr (CFun CVoid [CPtr (CTag ''sock'')])),
    Field ''sk_reuseport_cb'' (CPtr (CTag ''sock_reuseport'')),
    Field ''sk_bpf_storage'' (CPtr (CTag ''bpf_sk_storage'')),
    Field ''sk_rcu'' struct_callback_head,
    Field ''tcpa_priv1'' (CPtr CVoid),
    Field ''tcpa_priv2'' (CPtr CVoid),
    Field ''tcpa_priv3'' (CPtr CVoid),
    Field ''tcpa_priv4'' (CName ''u32'')]"

definition sa_family_t :: ctype where
  "sa_family_t = CName ''__kernel_sa_family_t''"

definition struct_sockaddr :: ctype where
  "struct_sockaddr = CStruct [
    Field ''sa_family'' sa_family_t,
    Field ''sa_data'' (CArray 14 (CPrim PChar))]"

definition struct_flowi_tunnel :: ctype where
  "struct_flowi_tunnel = CStruct [
    Field ''tun_id'' (CName ''__be64'')]"

definition struct_flowi_common :: ctype where
  "struct_flowi_common = CStruct [
    Field ''flowic_oif'' (CPrim PInt),
    Field ''flowic_iif'' (CPrim PInt),
    Field ''flowic_mark'' (CName ''__u32''),
    Field ''flowic_tos'' (CName ''__u8''),
    Field ''flowic_scope'' (CName ''__u8''),
    Field ''flowic_proto'' (CName ''__u8''),
    Field ''flowic_flags'' (CName ''__u8''),
    Field ''flowic_secid'' (CName ''__u32''),
    Field ''flowic_uid'' kuid_t,
    Field ''flowic_tun_key'' struct_flowi_tunnel,
    Field ''flowic_multipath_hash'' (CName ''__u32'')]"

definition union_flowi_uli :: ctype where
  "union_flowi_uli = CUnion [
    Field ''ports'' (CStruct [
      Field ''dport'' (CName ''__be16''),
      Field ''sport'' (CName ''__be16'')]),
    Field ''icmpt'' (CStruct [
      Field ''type'' (CName ''__u8''),
      Field ''code'' (CName ''__u8'')]),
    Field ''dnports'' (CStruct [
      Field ''dport'' (CName ''__le16''),
      Field ''sport'' (CName ''__le16'')]),
    Field ''spi'' (CName ''__be32''),
    Field ''gre_key'' (CName ''__be32''),
    Field ''mht'' (CStruct [
      Field ''type'' (CName ''__u8'')])]"

definition struct_flowi4 :: ctype where
  "struct_flowi4 = CStruct [
    Field ''__fl_common'' struct_flowi_common,
    Field ''saddr'' (CName ''__be32''),
    Field ''daddr'' (CName ''__be32''),
    Field ''uli'' union_flowi_uli]"

definition struct_flowi6 :: ctype where
  "struct_flowi6 = CStruct [
    Field ''__fl_common'' struct_flowi_common,
    Field ''daddr'' struct_in6_addr,
    Field ''saddr'' struct_in6_addr,
    Field ''flowlabel'' (CName ''__be32''),
    Field ''uli'' union_flowi_uli,
    Field ''mp_hash'' (CName ''__u32'')]"

definition struct_flowidn :: ctype where
  "struct_flowidn = CStruct [
    Field ''__fl_common'' struct_flowi_common,
    Field ''daddr'' (CName ''__le16''),
    Field ''saddr'' (CName ''__le16''),
    Field ''uli'' union_flowi_uli]"

definition struct_flowi :: ctype where
  "struct_flowi = CStruct [
    Field ''u'' (CUnion [
      Field ''__fl_common'' struct_flowi_common,
      Field ''ip4'' struct_flowi4,
      Field ''ip6'' struct_flowi6,
      Field ''dn'' struct_flowidn])]"

definition struct_socket_wq :: ctype where
  "struct_socket_wq = CStruct [
    Field ''wait'' wait_queue_head_t,
    Field ''fasync_list'' (CPtr (CTag ''fasync_struct'')),
    Field ''flags'' (CPrim PULong),
    Field ''rcu'' struct_callback_head,
    Bits '''' (CPrim PLong) 64]"

definition struct_netlink_callback :: ctype where
  "struct_netlink_callback = CStruct [
    Field ''skb'' (CPtr (CTag ''sk_buff'')),
    Field ''nlh'' (CPtr (CConst (CTag ''nlmsghdr''))),
    Field ''dump'' (CPtr (CFun (CPrim PInt) [CPtr (CTag ''sk_buff''),
      CPtr (CTag ''netlink_callback'')])),
    Field ''done'' (CPtr (CFun (CPrim PInt) [CPtr (CTag ''netlink_callback'')])),
    Field ''data'' (CPtr CVoid),
    Field ''module'' (CPtr (CTag ''module'')),
    Field ''extack'' (CPtr (CTag ''netlink_ext_ack'')),
    Field ''family'' (CName ''u16''),
    Field ''min_dump_alloc'' (CName ''u16''),
    Field ''strict_check'' (CName ''bool''),
    Field ''answer_flags'' (CName ''u16''),
    Field ''prev_seq'' (CPrim PUInt),
    Field ''seq'' (CPrim PUInt),
    Field '''' (CUnion [
      Field ''ctx'' (CArray 48 (CName ''u8'')),
      Field ''args'' (CArray 6 (CPrim PLong))])]"

definition struct_request_sock :: ctype where
  "struct_request_sock = CStruct [
    Field ''__req_common'' struct_sock_common,
    Field ''dl_next'' (CPtr (CTag ''request_sock'')),
    Field ''mss'' (CName ''u16''),
    Field ''num_retrans'' (CName ''u8''),
    Bits ''cookie_ts'' (CName ''u8'') 1,
    Bits ''num_timeout'' (CName ''u8'') 7,
    Field ''ts_recent'' (CName ''u32''),
    Field ''rsk_timer'' struct_timer_list,
    Field ''rsk_ops'' (CPtr (CConst (CTag ''request_sock_ops''))),
    Field ''sk'' (CPtr (CTag ''sock'')),
    Field ''saved_syn'' (CPtr (CTag ''saved_syn'')),
    Field ''secid'' (CName ''u32''),
    Field ''peer_secid'' (CName ''u32'')]"

definition struct_xdp_sock :: ctype where
  "struct_xdp_sock = CStruct [
    Field ''sk'' struct_sock,
    Field ''rx'' (CPtr (CTag ''xsk_queue'')),
    Field ''dev'' (CPtr (CTag ''net_device'')),
    Field ''umem'' (CPtr (CTag ''xdp_umem'')),
    Field ''flush_node'' struct_list_head,
    Field ''queue_id'' (CName ''u16''),
    Field ''zc'' (CName ''bool''),
    Field ''state'' (CEnumDef [(''XSK_READY'', 0), (''XSK_BOUND'', 1), (''XSK_UNBOUND'', 2)]),
    Field ''mutex'' struct_mutex,
    Bits '''' (CPrim PLong) 64,
    Bits '''' (CPrim PLong) 64,
    Bits '''' (CPrim PLong) 64,
    Bits '''' (CPrim PLong) 64,
    Field ''tx'' (CPtr (CTag ''xsk_queue'')),
    Field ''list'' struct_list_head,
    Field ''tx_completion_lock'' spinlock_t,
    Field ''rx_lock'' spinlock_t,
    Field ''rx_dropped'' (CName ''u64''),
    Field ''map_list'' struct_list_head,
    Field ''map_list_lock'' spinlock_t]"

definition sum16 :: ctype where
  "sum16 = CName ''__u16''"

definition struct_unix_sock :: ctype where
  "struct_unix_sock = CStruct [
    Field ''sk'' struct_sock,
    Field ''addr'' (CPtr (CTag ''unix_address'')),
    Field ''path'' struct_path,
    Field ''iolock'' struct_mutex,
    Field ''bindlock'' struct_mutex,
    Field ''peer'' (CPtr (CTag ''sock'')),
    Field ''link'' struct_list_head,
    Field ''inflight'' atomic_long_t,
    Field ''lock'' spinlock_t,
    Field ''gc_flags'' (CPrim PULong),
    Bits '''' (CPrim PLong) 64,
    Bits '''' (CPrim PLong) 64,
    Bits '''' (CPrim PLong) 64,
    Bits '''' (CPrim PLong) 64,
    Bits '''' (CPrim PLong) 64,
    Field ''peer_wq'' struct_socket_wq,
    Field ''peer_wake'' wait_queue_entry_t,
    Bits '''' (CPrim PLong) 64,
    Bits '''' (CPrim PLong) 64,
    Bits '''' (CPrim PLong) 64]"

definition struct_in6_pktinfo :: ctype where
  "struct_in6_pktinfo = CStruct [
    Field ''ipi6_addr'' struct_in6_addr,
    Field ''ipi6_ifindex'' (CPrim PInt)]"

definition struct_ipv6hdr :: ctype where
  "struct_ipv6hdr = CStruct [
    Bits ''priority'' (CName ''__u8'') 4,
    Bits ''version'' (CName ''__u8'') 4,
    Field ''flow_lbl'' (CArray 3 (CName ''__u8'')),
    Field ''payload_len'' (CName ''__be16''),
    Field ''nexthdr'' (CName ''__u8''),
    Field ''hop_limit'' (CName ''__u8''),
    Field ''saddr'' struct_in6_addr,
    Field ''daddr'' struct_in6_addr]"

definition struct_inet_cork :: ctype where
  "struct_inet_cork = CStruct [
    Field ''flags'' (CPrim PUInt),
    Field ''addr'' (CName ''__be32''),
    Field ''opt'' (CPtr (CTag ''ip_options'')),
    Field ''fragsize'' (CPrim PUInt),
    Field ''length'' (CPrim PInt),
    Field ''dst'' (CPtr (CTag ''dst_entry'')),
    Field ''tx_flags'' (CName ''u8''),
    Field ''ttl'' (CName ''__u8''),
    Field ''tos'' (CName ''__s16''),
    Field ''priority'' (CPrim PChar),
    Field ''gso_size'' (CName ''__u16''),
    Field ''transmit_time'' (CName ''u64''),
    Field ''mark'' (CName ''u32'')]"

definition struct_inet_cork_full :: ctype where
  "struct_inet_cork_full = CStruct [
    Field ''base'' struct_inet_cork,
    Field ''fl'' struct_flowi]"

definition struct_inet_sock :: ctype where
  "struct_inet_sock = CStruct [
    Field ''sk'' struct_sock,
    Field ''pinet6'' (CPtr (CTag ''ipv6_pinfo'')),
    Field ''inet_saddr'' (CName ''__be32''),
    Field ''uc_ttl'' (CName ''__s16''),
    Field ''cmsg_flags'' (CName ''__u16''),
    Field ''inet_sport'' (CName ''__be16''),
    Field ''inet_id'' (CName ''__u16''),
    Field ''inet_opt'' (CPtr (CTag ''ip_options_rcu'')),
    Field ''rx_dst_ifindex'' (CPrim PInt),
    Field ''tos'' (CName ''__u8''),
    Field ''min_ttl'' (CName ''__u8''),
    Field ''mc_ttl'' (CName ''__u8''),
    Field ''pmtudisc'' (CName ''__u8''),
    Bits ''recverr'' (CName ''__u8'') 1,
    Bits ''is_icsk'' (CName ''__u8'') 1,
    Bits ''freebind'' (CName ''__u8'') 1,
    Bits ''hdrincl'' (CName ''__u8'') 1,
    Bits ''mc_loop'' (CName ''__u8'') 1,
    Bits ''transparent'' (CName ''__u8'') 1,
    Bits ''mc_all'' (CName ''__u8'') 1,
    Bits ''nodefrag'' (CName ''__u8'') 1,
    Bits ''bind_address_no_port'' (CName ''__u8'') 1,
    Bits ''defer_connect'' (CName ''__u8'') 1,
    Field ''rcv_tos'' (CName ''__u8''),
    Field ''convert_csum'' (CName ''__u8''),
    Field ''uc_index'' (CPrim PInt),
    Field ''mc_index'' (CPrim PInt),
    Field ''mc_addr'' (CName ''__be32''),
    Field ''mc_list'' (CPtr (CTag ''ip_mc_socklist'')),
    Field ''cork'' struct_inet_cork_full]"

definition struct_inet6_cork :: ctype where
  "struct_inet6_cork = CStruct [
    Field ''opt'' (CPtr (CTag ''ipv6_txoptions'')),
    Field ''hop_limit'' (CName ''u8''),
    Field ''tclass'' (CName ''u8'')]"

definition struct_ipv6_pinfo :: ctype where
  "struct_ipv6_pinfo = CStruct [
    Field ''saddr'' struct_in6_addr,
    Field ''sticky_pktinfo'' struct_in6_pktinfo,
    Field ''daddr_cache'' (CPtr (CConst (CTag ''in6_addr''))),
    Field ''saddr_cache'' (CPtr (CConst (CTag ''in6_addr''))),
    Field ''flow_label'' (CName ''__be32''),
    Field ''frag_size'' (CName ''__u32''),
    Bits ''__unused_1'' (CName ''__u16'') 7,
    Bits ''hop_limit'' (CName ''__s16'') 9,
    Bits ''mc_loop'' (CName ''__u16'') 1,
    Bits ''__unused_2'' (CName ''__u16'') 6,
    Bits ''mcast_hops'' (CName ''__s16'') 9,
    Field ''ucast_oif'' (CPrim PInt),
    Field ''mcast_oif'' (CPrim PInt),
    Field ''rxopt'' (CUnion [
      Field ''bits'' (CStruct [
        Bits ''srcrt'' (CName ''__u16'') 1,
        Bits ''osrcrt'' (CName ''__u16'') 1,
        Bits ''rxinfo'' (CName ''__u16'') 1,
        Bits ''rxoinfo'' (CName ''__u16'') 1,
        Bits ''rxhlim'' (CName ''__u16'') 1,
        Bits ''rxohlim'' (CName ''__u16'') 1,
        Bits ''hopopts'' (CName ''__u16'') 1,
        Bits ''ohopopts'' (CName ''__u16'') 1,
        Bits ''dstopts'' (CName ''__u16'') 1,
        Bits ''odstopts'' (CName ''__u16'') 1,
        Bits ''rxflow'' (CName ''__u16'') 1,
        Bits ''rxtclass'' (CName ''__u16'') 1,
        Bits ''rxpmtu'' (CName ''__u16'') 1,
        Bits ''rxorigdstaddr'' (CName ''__u16'') 1,
        Bits ''recvfragsize'' (CName ''__u16'') 1]),
      Field ''all'' (CName ''__u16'')]),
    Bits ''recverr'' (CName ''__u16'') 1,
    Bits ''sndflow'' (CName ''__u16'') 1,
    Bits ''repflow'' (CName ''__u16'') 1,
    Bits ''pmtudisc'' (CName ''__u16'') 3,
    Bits ''padding'' (CName ''__u16'') 1,
    Bits ''srcprefs'' (CName ''__u16'') 3,
    Bits ''dontfrag'' (CName ''__u16'') 1,
    Bits ''autoflowlabel'' (CName ''__u16'') 1,
    Bits ''autoflowlabel_set'' (CName ''__u16'') 1,
    Bits ''mc_all'' (CName ''__u16'') 1,
    Bits ''rtalert_isolate'' (CName ''__u16'') 1,
    Field ''min_hopcount'' (CName ''__u8''),
    Field ''tclass'' (CName ''__u8''),
    Field ''rcv_flowinfo'' (CName ''__be32''),
    Field ''dst_cookie'' (CName ''__u32''),
    Field ''rx_dst_cookie'' (CName ''__u32''),
    Field ''ipv6_mc_list'' (CPtr (CTag ''ipv6_mc_socklist'')),
    Field ''ipv6_ac_list'' (CPtr (CTag ''ipv6_ac_socklist'')),
    Field ''ipv6_fl_list'' (CPtr (CTag ''ipv6_fl_socklist'')),
    Field ''opt'' (CPtr (CTag ''ipv6_txoptions'')),
    Field ''pktoptions'' (CPtr (CTag ''sk_buff'')),
    Field ''rxpmtu'' (CPtr (CTag ''sk_buff'')),
    Field ''cork'' struct_inet6_cork]"

definition struct_tcphdr :: ctype where
  "struct_tcphdr = CStruct [
    Field ''source'' (CName ''__be16''),
    Field ''dest'' (CName ''__be16''),
    Field ''seq'' (CName ''__be32''),
    Field ''ack_seq'' (CName ''__be32''),
    Bits ''res1'' (CName ''__u16'') 4,
    Bits ''doff'' (CName ''__u16'') 4,
    Bits ''fin'' (CName ''__u16'') 1,
    Bits ''syn'' (CName ''__u16'') 1,
    Bits ''rst'' (CName ''__u16'') 1,
    Bits ''psh'' (CName ''__u16'') 1,
    Bits ''ack'' (CName ''__u16'') 1,
    Bits ''urg'' (CName ''__u16'') 1,
    Bits ''ece'' (CName ''__u16'') 1,
    Bits ''cwr'' (CName ''__u16'') 1,
    Field ''window'' (CName ''__be16''),
    Field ''check'' sum16,
    Field ''urg_ptr'' (CName ''__be16'')]"

definition struct_udphdr :: ctype where
  "struct_udphdr = CStruct [
    Field ''source'' (CName ''__be16''),
    Field ''dest'' (CName ''__be16''),
    Field ''len'' (CName ''__be16''),
    Field ''check'' sum16]"

definition struct_iphdr :: ctype where
  "struct_iphdr = CStruct [
    Bits ''ihl'' (CName ''__u8'') 4,
    Bits ''version'' (CName ''__u8'') 4,
    Field ''tos'' (CName ''__u8''),
    Field ''tot_len'' (CName ''__be16''),
    Field ''id'' (CName ''__be16''),
    Field ''frag_off'' (CName ''__be16''),
    Field ''ttl'' (CName ''__u8''),
    Field ''protocol'' (CName ''__u8''),
    Field ''check'' sum16,
    Field ''saddr'' (CName ''__be32''),
    Field ''daddr'' (CName ''__be32'')]"

definition struct_fastopen_queue :: ctype where
  "struct_fastopen_queue = CStruct [
    Field ''rskq_rst_head'' (CPtr (CTag ''request_sock'')),
    Field ''rskq_rst_tail'' (CPtr (CTag ''request_sock'')),
    Field ''lock'' spinlock_t,
    Field ''qlen'' (CPrim PInt),
    Field ''max_qlen'' (CPrim PInt),
    Field ''ctx'' (CPtr (CTag ''tcp_fastopen_context''))]"

definition struct_request_sock_queue :: ctype where
  "struct_request_sock_queue = CStruct [
    Field ''rskq_lock'' spinlock_t,
    Field ''rskq_defer_accept'' (CName ''u8''),
    Field ''synflood_warned'' (CName ''u32''),
    Field ''qlen'' atomic_t,
    Field ''young'' atomic_t,
    Field ''rskq_accept_head'' (CPtr (CTag ''request_sock'')),
    Field ''rskq_accept_tail'' (CPtr (CTag ''request_sock'')),
    Field ''fastopenq'' struct_fastopen_queue]"

definition struct_minmax_sample :: ctype where
  "struct_minmax_sample = CStruct [
    Field ''t'' (CName ''u32''),
    Field ''v'' (CName ''u32'')]"

definition struct_minmax :: ctype where
  "struct_minmax = CStruct [
    Field ''s'' (CArray 3 struct_minmax_sample)]"

definition struct_inet_connection_sock :: ctype where
  "struct_inet_connection_sock = CStruct [
    Field ''icsk_inet'' struct_inet_sock,
    Field ''icsk_accept_queue'' struct_request_sock_queue,
    Field ''icsk_bind_hash'' (CPtr (CTag ''inet_bind_bucket'')),
    Field ''icsk_timeout'' (CPrim PULong),
    Field ''icsk_retransmit_timer'' struct_timer_list,
    Field ''icsk_delack_timer'' struct_timer_list,
    Field ''icsk_rto'' (CName ''__u32''),
    Field ''icsk_rto_min'' (CName ''__u32''),
    Field ''icsk_delack_max'' (CName ''__u32''),
    Field ''icsk_pmtu_cookie'' (CName ''__u32''),
    Field ''icsk_ca_ops'' (CPtr (CConst (CTag ''tcp_congestion_ops''))),
    Field ''icsk_af_ops'' (CPtr (CConst (CTag ''inet_connection_sock_af_ops''))),
    Field ''icsk_ulp_ops'' (CPtr (CConst (CTag ''tcp_ulp_ops''))),
    Field ''icsk_ulp_data'' (CPtr CVoid),
    Field ''icsk_clean_acked'' (CPtr (CFun CVoid [CPtr (CTag ''sock''), CName ''u32''])),
    Field ''icsk_listen_portaddr_node'' struct_hlist_node,
    Field ''icsk_sync_mss'' (CPtr (CFun (CPrim PUInt) [CPtr (CTag ''sock''), CName ''u32''])),
    Bits ''icsk_ca_state'' (CName ''__u8'') 6,
    Bits ''icsk_ca_setsockopt'' (CName ''__u8'') 1,
    Bits ''icsk_ca_dst_locked'' (CName ''__u8'') 1,
    Field ''icsk_retransmits'' (CName ''__u8''),
    Field ''icsk_pending'' (CName ''__u8''),
    Field ''icsk_backoff'' (CName ''__u8''),
    Field ''icsk_syn_retries'' (CName ''__u8''),
    Field ''icsk_probes_out'' (CName ''__u8''),
    Field ''icsk_ext_hdr_len'' (CName ''__u16''),
    Field ''icsk_ack'' (CStruct [
      Field ''pending'' (CName ''__u8''),
      Field ''quick'' (CName ''__u8''),
      Field ''pingpong'' (CName ''__u8''),
      Field ''blocked'' (CName ''__u8''),
      Field ''ato'' (CName ''__u32''),
      Field ''timeout'' (CPrim PULong),
      Field ''lrcvtime'' (CName ''__u32''),
      Field ''last_seg_size'' (CName ''__u16''),
      Field ''rcv_mss'' (CName ''__u16'')]),
    Field ''icsk_mtup'' (CStruct [
      Field ''enabled'' (CPrim PInt),
      Field ''search_high'' (CPrim PInt),
      Field ''search_low'' (CPrim PInt),
      Field ''probe_size'' (CPrim PInt),
      Field ''probe_timestamp'' (CName ''u32'')]),
    Field ''icsk_probes_tstamp'' (CName ''u32''),
    Field ''icsk_user_timeout'' (CName ''u32''),
    Field ''icsk_ca_priv'' (CArray 32 (CName ''u64''))]"

definition struct_tcp_sack_block :: ctype where
  "struct_tcp_sack_block = CStruct [
    Field ''start_seq'' (CName ''u32''),
    Field ''end_seq'' (CName ''u32'')]"

definition struct_tcp_options_received :: ctype where
  "struct_tcp_options_received = CStruct [
    Field ''ts_recent_stamp'' (CPrim PInt),
    Field ''ts_recent'' (CName ''u32''),
    Field ''rcv_tsval'' (CName ''u32''),
    Field ''rcv_tsecr'' (CName ''u32''),
    Bits ''saw_tstamp'' (CName ''u16'') 1,
    Bits ''tstamp_ok'' (CName ''u16'') 1,
    Bits ''dsack'' (CName ''u16'') 1,
    Bits ''wscale_ok'' (CName ''u16'') 1,
    Bits ''sack_ok'' (CName ''u16'') 3,
    Bits ''smc_ok'' (CName ''u16'') 1,
    Bits ''snd_wscale'' (CName ''u16'') 4,
    Bits ''rcv_wscale'' (CName ''u16'') 4,
    Bits ''saw_unknown'' (CName ''u8'') 1,
    Bits ''unused'' (CName ''u8'') 7,
    Field ''num_sacks'' (CName ''u8''),
    Field ''user_mss'' (CName ''u16''),
    Field ''mss_clamp'' (CName ''u16'')]"

definition struct_tcp_rack :: ctype where
  "struct_tcp_rack = CStruct [
    Field ''mstamp'' (CName ''u64''),
    Field ''rtt_us'' (CName ''u32''),
    Field ''end_seq'' (CName ''u32''),
    Field ''last_delivered'' (CName ''u32''),
    Field ''reo_wnd_steps'' (CName ''u8''),
    Bits ''reo_wnd_persist'' (CName ''u8'') 5,
    Bits ''dsack_seen'' (CName ''u8'') 1,
    Bits ''advanced'' (CName ''u8'') 1]"

definition struct_tcp_sock :: ctype where
  "struct_tcp_sock = CStruct [
    Field ''inet_conn'' struct_inet_connection_sock,
    Field ''tcp_header_len'' (CName ''u16''),
    Field ''gso_segs'' (CName ''u16''),
    Field ''pred_flags'' (CName ''__be32''),
    Field ''bytes_received'' (CName ''u64''),
    Field ''segs_in'' (CName ''u32''),
    Field ''data_segs_in'' (CName ''u32''),
    Field ''rcv_nxt'' (CName ''u32''),
    Field ''copied_seq'' (CName ''u32''),
    Field ''rcv_wup'' (CName ''u32''),
    Field ''snd_nxt'' (CName ''u32''),
    Field ''segs_out'' (CName ''u32''),
    Field ''data_segs_out'' (CName ''u32''),
    Field ''bytes_sent'' (CName ''u64''),
    Field ''bytes_acked'' (CName ''u64''),
    Field ''dsack_dups'' (CName ''u32''),
    Field ''snd_una'' (CName ''u32''),
    Field ''snd_sml'' (CName ''u32''),
    Field ''rcv_tstamp'' (CName ''u32''),
    Field ''lsndtime'' (CName ''u32''),
    Field ''last_oow_ack_time'' (CName ''u32''),
    Field ''compressed_ack_rcv_nxt'' (CName ''u32''),
    Field ''tsoffset'' (CName ''u32''),
    Field ''tsq_node'' struct_list_head,
    Field ''tsorted_sent_queue'' struct_list_head,
    Field ''snd_wl1'' (CName ''u32''),
    Field ''snd_wnd'' (CName ''u32''),
    Field ''max_window'' (CName ''u32''),
    Field ''mss_cache'' (CName ''u32''),
    Field ''window_clamp'' (CName ''u32''),
    Field ''rcv_ssthresh'' (CName ''u32''),
    Field ''rack'' struct_tcp_rack,
    Field ''advmss'' (CName ''u16''),
    Field ''compressed_ack'' (CName ''u8''),
    Bits ''tlp_retrans'' (CName ''u8'') 1,
    Bits ''unused_1'' (CName ''u8'') 7,
    Bits ''fast_ack_mode'' (CName ''u8'') 2,
    Bits ''app_disable_frto'' (CName ''u8'') 1,
    Bits ''unused1'' (CName ''u8'') 5,
    Field ''chrono_start'' (CName ''u32''),
    Field ''chrono_stat'' (CArray 3 (CName ''u32'')),
    Bits ''chrono_type'' (CName ''u8'') 2,
    Bits ''rate_app_limited'' (CName ''u8'') 1,
    Bits ''fastopen_connect'' (CName ''u8'') 1,
    Bits ''fastopen_no_cookie'' (CName ''u8'') 1,
    Bits ''is_sack_reneg'' (CName ''u8'') 1,
    Bits ''unused'' (CName ''u8'') 2,
    Bits ''nonagle'' (CName ''u8'') 4,
    Bits ''thin_lto'' (CName ''u8'') 1,
    Bits ''recvmsg_inq'' (CName ''u8'') 1,
    Bits ''repair'' (CName ''u8'') 1,
    Bits ''frto'' (CName ''u8'') 1,
    Field ''repair_queue'' (CName ''u8''),
    Bits ''save_syn'' (CName ''u8'') 2,
    Bits ''syn_data'' (CName ''u8'') 1,
    Bits ''syn_fastopen'' (CName ''u8'') 1,
    Bits ''syn_fastopen_exp'' (CName ''u8'') 1,
    Bits ''syn_fastopen_ch'' (CName ''u8'') 1,
    Bits ''syn_data_acked'' (CName ''u8'') 1,
    Bits ''is_cwnd_limited'' (CName ''u8'') 1,
    Field ''tfo_info'' (CName ''u32''),
    Field ''tcpi_csent_syn_stamp'' (CName ''u64''),
    Field ''tcpi_srcv_syn_stamp'' (CName ''u64''),
    Field ''tcpi_crcv_synack_stamp'' (CName ''u64''),
    Field ''tcpi_srcv_ack_stamp'' (CName ''u64''),
    Field ''tcpi_firstdata_stamp'' (CName ''u64''),
    Field ''tcpi_probe0_times'' (CName ''u32''),
    Field ''tlp_high_seq'' (CName ''u32''),
    Field ''tcp_tx_delay'' (CName ''u32''),
    Field ''tcp_wstamp_ns'' (CName ''u64''),
    Field ''tcp_clock_cache'' (CName ''u64''),
    Field ''tcp_mstamp'' (CName ''u64''),
    Field ''srtt_us'' (CName ''u32''),
    Field ''max_srtt_us'' (CName ''u32''),
    Field ''mdev_us'' (CName ''u32''),
    Field ''mdev_max_us'' (CName ''u32''),
    Field ''rttvar_us'' (CName ''u32''),
    Field ''rtt_seq'' (CName ''u32''),
    Field ''rtt_min'' struct_minmax,
    Field ''rto_min_thresh'' (CName ''u32''),
    Field ''rto_max_thresh'' (CName ''u32''),
    Field ''packets_out'' (CName ''u32''),
    Field ''retrans_out'' (CName ''u32''),
    Field ''max_packets_out'' (CName ''u32''),
    Field ''max_packets_seq'' (CName ''u32''),
    Field ''urg_data'' (CName ''u16''),
    Field ''ecn_flags'' (CName ''u8''),
    Field ''keepalive_probes'' (CName ''u8''),
    Field ''reordering'' (CName ''u32''),
    Field ''reord_seen'' (CName ''u32''),
    Field ''snd_up'' (CName ''u32''),
    Field ''rx_opt'' struct_tcp_options_received,
    Field ''snd_ssthresh'' (CName ''u32''),
    Field ''snd_cwnd'' (CName ''u32''),
    Field ''snd_cwnd_cnt'' (CName ''u32''),
    Field ''snd_cwnd_clamp'' (CName ''u32''),
    Field ''snd_cwnd_used'' (CName ''u32''),
    Field ''snd_cwnd_stamp'' (CName ''u32''),
    Field ''prior_cwnd'' (CName ''u32''),
    Field ''prr_delivered'' (CName ''u32''),
    Field ''prr_out'' (CName ''u32''),
    Field ''delivered'' (CName ''u32''),
    Field ''delivered_ce'' (CName ''u32''),
    Field ''lost'' (CName ''u32''),
    Field ''app_limited'' (CName ''u32''),
    Field ''first_tx_mstamp'' (CName ''u64''),
    Field ''delivered_mstamp'' (CName ''u64''),
    Field ''rate_delivered'' (CName ''u32''),
    Field ''rate_interval_us'' (CName ''u32''),
    Field ''rcv_wnd'' (CName ''u32''),
    Field ''write_seq'' (CName ''u32''),
    Field ''notsent_lowat'' (CName ''u32''),
    Field ''pushed_seq'' (CName ''u32''),
    Field ''lost_out'' (CName ''u32''),
    Field ''sacked_out'' (CName ''u32''),
    Field ''pacing_timer'' struct_hrtimer,
    Field ''compressed_ack_timer'' struct_hrtimer,
    Field ''lost_skb_hint'' (CPtr (CTag ''sk_buff'')),
    Field ''retransmit_skb_hint'' (CPtr (CTag ''sk_buff'')),
    Field ''out_of_order_queue'' struct_rb_root,
    Field ''ooo_last_skb'' (CPtr (CTag ''sk_buff'')),
    Field ''duplicate_sack'' (CArray 1 struct_tcp_sack_block),
    Field ''selective_acks'' (CArray 4 struct_tcp_sack_block),
    Field ''recv_sack_cache'' (CArray 4 struct_tcp_sack_block),
    Field ''highest_sack'' (CPtr (CTag ''sk_buff'')),
    Field ''lost_cnt_hint'' (CPrim PInt),
    Field ''prior_ssthresh'' (CName ''u32''),
    Field ''high_seq'' (CName ''u32''),
    Field ''retrans_stamp'' (CName ''u32''),
    Field ''undo_marker'' (CName ''u32''),
    Field ''undo_retrans'' (CPrim PInt),
    Field ''bytes_retrans'' (CName ''u64''),
    Field ''total_retrans'' (CName ''u32''),
    Field ''urg_seq'' (CName ''u32''),
    Field ''keepalive_time'' (CPrim PUInt),
    Field ''keepalive_intvl'' (CPrim PUInt),
    Field ''linger2'' (CPrim PInt),
    Field ''bpf_sock_ops_cb_flags'' (CName ''u8''),
    Field ''rcv_ooopack'' (CName ''u32''),
    Field ''rcv_rtt_last_tsecr'' (CName ''u32''),
    Field ''rcv_rtt_est'' (CStruct [
      Field ''rtt_us'' (CName ''u32''),
      Field ''seq'' (CName ''u32''),
      Field ''time'' (CName ''u64'')]),
    Field ''rcvq_space'' (CStruct [
      Field ''space'' (CName ''u32''),
      Field ''seq'' (CName ''u32''),
      Field ''time'' (CName ''u64'')]),
    Field ''mtu_probe'' (CStruct [
      Field ''probe_seq_start'' (CName ''u32''),
      Field ''probe_seq_end'' (CName ''u32'')]),
    Field ''mtu_info'' (CName ''u32''),
    Field ''af_specific'' (CPtr (CConst (CTag ''tcp_sock_af_ops''))),
    Field ''md5sig_info'' (CPtr (CTag ''tcp_md5sig_info'')),
    Field ''fastopen_req'' (CPtr (CTag ''tcp_fastopen_request'')),
    Field ''fastopen_rsk'' (CPtr (CTag ''request_sock'')),
    Field ''saved_syn'' (CPtr (CTag ''saved_syn'')),
    Field ''trace_opt'' (CStruct [
      Field ''tcp_trace_opt_calls'' (CName ''u32''),
      Field ''tcp_trace_opt_ctx'' (CName ''u8'')]),
    Field ''tcp_toa_ip'' (CName ''__be32''),
    Field ''tcp_toa_port'' (CName ''__be16'')]"

definition struct_inet_request_sock :: ctype where
  "struct_inet_request_sock = CStruct [
    Field ''req'' struct_request_sock,
    Bits ''snd_wscale'' (CName ''u16'') 4,
    Bits ''rcv_wscale'' (CName ''u16'') 4,
    Bits ''tstamp_ok'' (CName ''u16'') 1,
    Bits ''sack_ok'' (CName ''u16'') 1,
    Bits ''wscale_ok'' (CName ''u16'') 1,
    Bits ''ecn_ok'' (CName ''u16'') 1,
    Bits ''acked'' (CName ''u16'') 1,
    Bits ''no_srccheck'' (CName ''u16'') 1,
    Bits ''smc_ok'' (CName ''u16'') 1,
    Field ''ir_mark'' (CName ''u32''),
    Field '''' (CUnion [
      Field ''ireq_opt'' (CPtr (CTag ''ip_options_rcu'')),
      Field '''' (CStruct [
        Field ''ipv6_opt'' (CPtr (CTag ''ipv6_txoptions'')),
        Field ''pktopts'' (CPtr (CTag ''sk_buff''))])])]"

definition struct_tcp_request_sock :: ctype where
  "struct_tcp_request_sock = CStruct [
    Field ''req'' struct_inet_request_sock,
    Field ''af_specific'' (CPtr (CConst (CTag ''tcp_request_sock_ops''))),
    Field ''snt_synack'' (CName ''u64''),
    Field ''tfo_listener'' (CName ''bool''),
    Field ''txhash'' (CName ''u32''),
    Field ''rcv_isn'' (CName ''u32''),
    Field ''snt_isn'' (CName ''u32''),
    Field ''ts_off'' (CName ''u32''),
    Field ''last_oow_ack_time'' (CName ''u32''),
    Field ''tfo_info'' (CName ''u32''),
    Field ''tcpi_csent_syn_stamp'' (CName ''u64''),
    Field ''tcpi_srcv_syn_stamp'' (CName ''u64''),
    Field ''tcpi_crcv_synack_stamp'' (CName ''u64''),
    Field ''tcpi_srcv_ack_stamp'' (CName ''u64''),
    Field ''rcv_nxt'' (CName ''u32'')]"

definition struct_packet_type :: ctype where
  "struct_packet_type = CStruct [
    Field ''type'' (CName ''__be16''),
    Field ''ignore_outgoing'' (CName ''bool''),
    Field ''dev'' (CPtr (CTag ''net_device'')),
    Field ''func'' (CPtr (CFun (CPrim PInt) [CPtr (CTag ''sk_buff''), CPtr (CTag ''net_device''),
      CPtr (CTag ''packet_type''), CPtr (CTag ''net_device'')])),
    Field ''list_func'' (CPtr (CFun CVoid [CPtr (CTag ''list_head''),
      CPtr (CTag ''packet_type''), CPtr (CTag ''net_device'')])),
    Field ''id_match'' (CPtr (CFun (CName ''bool'') [CPtr (CTag ''packet_type''),
      CPtr (CTag ''sock'')])),
    Field ''af_packet_priv'' (CPtr CVoid),
    Field ''list'' struct_list_head]"

definition struct_sockaddr_in :: ctype where
  "struct_sockaddr_in = CStruct [
    Field ''sin_family'' (CName ''__kernel_sa_family_t''),
    Field ''sin_port'' (CName ''__be16''),
    Field ''sin_addr'' struct_in_addr,
    Field ''__pad'' (CArray 8 (CPrim PUChar))]"

definition struct_netlink_sock :: ctype where
  "struct_netlink_sock = CStruct [
    Field ''sk'' struct_sock,
    Field ''portid'' (CName ''u32''),
    Field ''dst_portid'' (CName ''u32''),
    Field ''dst_group'' (CName ''u32''),
    Field ''flags'' (CName ''u32''),
    Field ''subscriptions'' (CName ''u32''),
    Field ''ngroups'' (CName ''u32''),
    Field ''groups'' (CPtr (CPrim PULong)),
    Field ''state'' (CPrim PULong),
    Field ''max_recvmsg_len'' (CName ''size_t''),
    Field ''wait'' wait_queue_head_t,
    Field ''bound'' (CName ''bool''),
    Field ''cb_running'' (CName ''bool''),
    Field ''dump_done_errno'' (CPrim PInt),
    Field ''cb'' struct_netlink_callback,
    Field ''cb_mutex'' (CPtr (CTag ''mutex'')),
    Field ''cb_def_mutex'' struct_mutex,
    Field ''netlink_rcv'' (CPtr (CFun CVoid [CPtr (CTag ''sk_buff'')])),
    Field ''netlink_bind'' (CPtr (CFun (CPrim PInt) [CPtr (CTag ''net''), CPrim PInt])),
    Field ''netlink_unbind'' (CPtr (CFun CVoid [CPtr (CTag ''net''), CPrim PInt])),
    Field ''module'' (CPtr (CTag ''module'')),
    Field ''node'' struct_rhash_head,
    Field ''rcu'' struct_callback_head,
    Field ''work'' struct_work_struct]"

definition struct_inet_timewait_sock :: ctype where
  "struct_inet_timewait_sock = CStruct [
    Field ''__tw_common'' struct_sock_common,
    Field ''tw_mark'' (CName ''__u32''),
    Field ''tw_substate'' (CVolatile (CPrim PUChar)),
    Field ''tw_rcv_wscale'' (CPrim PUChar),
    Field ''tw_sport'' (CName ''__be16''),
    Bits ''tw_kill'' (CPrim PUInt) 1,
    Bits ''tw_transparent'' (CPrim PUInt) 1,
    Bits ''tw_flowlabel'' (CPrim PUInt) 20,
    Bits ''tw_pad'' (CPrim PUInt) 2,
    Bits ''tw_tos'' (CPrim PUInt) 8,
    Field ''tw_txhash'' (CName ''u32''),
    Field ''tw_priority'' (CName ''u32''),
    Field ''tw_timer'' struct_timer_list,
    Field ''tw_tb'' (CPtr (CTag ''inet_bind_bucket''))]"

definition struct_tcp_timewait_sock :: ctype where
  "struct_tcp_timewait_sock = CStruct [
    Field ''tw_sk'' struct_inet_timewait_sock,
    Field ''tw_rcv_wnd'' (CName ''u32''),
    Field ''tw_ts_offset'' (CName ''u32''),
    Field ''tw_ts_recent'' (CName ''u32''),
    Field ''tw_last_oow_ack_time'' (CName ''u32''),
    Field ''tw_ts_recent_stamp'' (CPrim PInt),
    Field ''tw_tx_delay'' (CName ''u32''),
    Field ''tw_md5_key'' (CPtr (CTag ''tcp_md5sig_key''))]"

definition struct_icmp_filter :: ctype where
  "struct_icmp_filter = CStruct [
    Field ''data'' (CName ''__u32'')]"

definition struct_raw_sock :: ctype where
  "struct_raw_sock = CStruct [
    Field ''inet'' struct_inet_sock,
    Field ''filter'' struct_icmp_filter,
    Field ''ipmr_table'' (CName ''u32'')]"

definition struct_udp_sock :: ctype where
  "struct_udp_sock = CStruct [
    Field ''inet'' struct_inet_sock,
    Field ''pending'' (CPrim PInt),
    Field ''corkflag'' (CPrim PUInt),
    Field ''encap_type'' (CName ''__u8''),
    Bits ''no_check6_tx'' (CPrim PUChar) 1,
    Bits ''no_check6_rx'' (CPrim PUChar) 1,
    Bits ''encap_enabled'' (CPrim PUChar) 1,
    Bits ''gro_enabled'' (CPrim PUChar) 1,
    Field ''len'' (CName ''__u16''),
    Field ''gso_size'' (CName ''__u16''),
    Field ''pcslen'' (CName ''__u16''),
    Field ''pcrlen'' (CName ''__u16''),
    Field ''pcflag'' (CName ''__u8''),
    Field ''unused'' (CArray 3 (CName ''__u8'')),
    Field ''encap_rcv'' (CPtr (CFun (CPrim PInt) [CPtr (CTag ''sock''),
      CPtr (CTag ''sk_buff'')])),
    Field ''encap_err_lookup'' (CPtr (CFun (CPrim PInt) [CPtr (CTag ''sock''),
      CPtr (CTag ''sk_buff'')])),
    Field ''encap_destroy'' (CPtr (CFun CVoid [CPtr (CTag ''sock'')])),
    Field ''gro_receive'' (CPtr (CFun (CPtr (CTag ''sk_buff'')) [CPtr (CTag ''sock''),
      CPtr (CTag ''list_head''), CPtr (CTag ''sk_buff'')])),
    Field ''gro_complete'' (CPtr (CFun (CPrim PInt) [CPtr (CTag ''sock''),
      CPtr (CTag ''sk_buff''), CPrim PInt])),
    Bits '''' (CPrim PLong) 64,
    Bits '''' (CPrim PLong) 64,
    Bits '''' (CPrim PLong) 64,
    Bits '''' (CPrim PLong) 64,
    Field ''reader_queue'' struct_sk_buff_head,
    Field ''forward_deficit'' (CPrim PInt),
    Bits '''' (CPrim PLong) 64,
    Bits '''' (CPrim PLong) 64,
    Bits '''' (CPrim PLong) 64,
    Bits '''' (CPrim PLong) 64]"

definition struct_icmp6_filter :: ctype where
  "struct_icmp6_filter = CStruct [
    Field ''data'' (CArray 8 (CName ''__u32''))]"

definition struct_raw6_sock :: ctype where
  "struct_raw6_sock = CStruct [
    Field ''inet'' struct_inet_sock,
    Field ''checksum'' (CName ''__u32''),
    Field ''offset'' (CName ''__u32''),
    Field ''filter'' struct_icmp6_filter,
    Field ''ip6mr_table'' (CName ''__u32''),
    Field ''inet6'' struct_ipv6_pinfo]"

definition struct_tpacket_stats :: ctype where
  "struct_tpacket_stats = CStruct [
    Field ''tp_packets'' (CPrim PUInt),
    Field ''tp_drops'' (CPrim PUInt)]"

definition struct_tpacket_stats_v3 :: ctype where
  "struct_tpacket_stats_v3 = CStruct [
    Field ''tp_packets'' (CPrim PUInt),
    Field ''tp_drops'' (CPrim PUInt),
    Field ''tp_freeze_q_cnt'' (CPrim PUInt)]"

definition union_tpacket_stats_u :: ctype where
  "union_tpacket_stats_u = CUnion [
    Field ''stats1'' struct_tpacket_stats,
    Field ''stats3'' struct_tpacket_stats_v3]"

definition struct_tpacket_kbdq_core :: ctype where
  "struct_tpacket_kbdq_core = CStruct [
    Field ''pkbdq'' (CPtr (CTag ''pgv'')),
    Field ''feature_req_word'' (CPrim PUInt),
    Field ''hdrlen'' (CPrim PUInt),
    Field ''reset_pending_on_curr_blk'' (CPrim PUChar),
    Field ''delete_blk_timer'' (CPrim PUChar),
    Field ''kactive_blk_num'' (CPrim PUShort),
    Field ''blk_sizeof_priv'' (CPrim PUShort),
    Field ''last_kactive_blk_num'' (CPrim PUShort),
    Field ''pkblk_start'' (CPtr (CPrim PChar)),
    Field ''pkblk_end'' (CPtr (CPrim PChar)),
    Field ''kblk_size'' (CPrim PInt),
    Field ''max_frame_len'' (CPrim PUInt),
    Field ''knum_blocks'' (CPrim PUInt),
    Field ''knxt_seq_num'' uint64_t,
    Field ''prev'' (CPtr (CPrim PChar)),
    Field ''nxt_offset'' (CPtr (CPrim PChar)),
    Field ''skb'' (CPtr (CTag ''sk_buff'')),
    Field ''blk_fill_in_prog'' atomic_t,
    Field ''retire_blk_tov'' (CPrim PUShort),
    Field ''version'' (CPrim PUShort),
    Field ''tov_in_jiffies'' (CPrim PULong),
    Field ''retire_blk_timer'' struct_timer_list]"

definition struct_packet_ring_buffer :: ctype where
  "struct_packet_ring_buffer = CStruct [
    Field ''pg_vec'' (CPtr (CTag ''pgv'')),
    Field ''head'' (CPrim PUInt),
    Field ''frames_per_block'' (CPrim PUInt),
    Field ''frame_size'' (CPrim PUInt),
    Field ''frame_max'' (CPrim PUInt),
    Field ''pg_vec_order'' (CPrim PUInt),
    Field ''pg_vec_pages'' (CPrim PUInt),
    Field ''pg_vec_len'' (CPrim PUInt),
    Field ''pending_refcnt'' (CPtr (CPrim PUInt)),
    Field '''' (CUnion [
      Field ''rx_owner_map'' (CPtr (CPrim PULong)),
      Field ''prb_bdqc'' struct_tpacket_kbdq_core])]"

definition struct_packet_sock :: ctype where
  "struct_packet_sock = CStruct [
    Field ''sk'' struct_sock,
    Field ''fanout'' (CPtr (CTag ''packet_fanout'')),
    Field ''stats'' union_tpacket_stats_u,
    Field ''rx_ring'' struct_packet_ring_buffer,
    Field ''tx_ring'' struct_packet_ring_buffer,
    Field ''copy_thresh'' (CPrim PInt),
    Field ''bind_lock'' spinlock_t,
    Field ''pg_vec_lock'' struct_mutex,
    Field ''running'' (CPrim PUInt),
    Bits ''auxdata'' (CPrim PUInt) 1,
    Bits ''origdev'' (CPrim PUInt) 1,
    Bits ''has_vnet_hdr'' (CPrim PUInt) 1,
    Bits ''tp_loss'' (CPrim PUInt) 1,
    Bits ''tp_tx_has_off'' (CPrim PUInt) 1,
    Field ''pressure'' (CPrim PInt),
    Field ''ifindex'' (CPrim PInt),
    Field ''num'' (CName ''__be16''),
    Field ''rollover'' (CPtr (CTag ''packet_rollover'')),
    Field ''mclist'' (CPtr (CTag ''packet_mclist'')),
    Field ''mapped'' atomic_t,
    Field ''tp_version'' (CEnum ''tpacket_versions''),
    Field ''tp_hdrlen'' (CPrim PUInt),
    Field ''tp_reserve'' (CPrim PUInt),
    Field ''tp_tstamp'' (CPrim PUInt),
    Field ''skb_completion'' struct_completion,
    Field ''cached_dev'' (CPtr (CTag ''net_device'')),
    Field ''xmit'' (CPtr (CFun (CPrim PInt) [CPtr (CTag ''sk_buff'')])),
    Field ''prot_hook'' struct_packet_type,
    Field ''tp_drops'' atomic_t,
    Bits '''' (CPrim PLong) 64,
    Bits '''' (CPrim PLong) 64,
    Bits '''' (CPrim PLong) 64,
    Bits '''' (CPrim PLong) 64,
    Bits '''' (CPrim PLong) 64,
    Bits '''' (CPrim PLong) 64,
    Bits '''' (CPrim PLong) 64]"

text \<open>The structs and unions of this theory, with their tags.\<close>

definition net_structs :: "(string \<times> ctype) list" where
  "net_structs = [
    (''in6_addr'', struct_in6_addr),
    (''sock_common'', struct_sock_common),
    (''sk_buff_head'', struct_sk_buff_head),
    (''sock_cgroup_data'', struct_sock_cgroup_data),
    (''sock'', struct_sock),
    (''sockaddr'', struct_sockaddr),
    (''flowi_tunnel'', struct_flowi_tunnel),
    (''flowi_common'', struct_flowi_common),
    (''flowi_uli'', union_flowi_uli),
    (''flowi4'', struct_flowi4),
    (''flowi6'', struct_flowi6),
    (''flowidn'', struct_flowidn),
    (''flowi'', struct_flowi),
    (''socket_wq'', struct_socket_wq),
    (''netlink_callback'', struct_netlink_callback),
    (''request_sock'', struct_request_sock),
    (''xdp_sock'', struct_xdp_sock),
    (''unix_sock'', struct_unix_sock),
    (''in6_pktinfo'', struct_in6_pktinfo),
    (''ipv6hdr'', struct_ipv6hdr),
    (''inet_cork'', struct_inet_cork),
    (''inet_cork_full'', struct_inet_cork_full),
    (''inet_sock'', struct_inet_sock),
    (''inet6_cork'', struct_inet6_cork),
    (''ipv6_pinfo'', struct_ipv6_pinfo),
    (''tcphdr'', struct_tcphdr),
    (''udphdr'', struct_udphdr),
    (''iphdr'', struct_iphdr),
    (''fastopen_queue'', struct_fastopen_queue),
    (''request_sock_queue'', struct_request_sock_queue),
    (''minmax_sample'', struct_minmax_sample),
    (''minmax'', struct_minmax),
    (''inet_connection_sock'', struct_inet_connection_sock),
    (''tcp_sack_block'', struct_tcp_sack_block),
    (''tcp_options_received'', struct_tcp_options_received),
    (''tcp_rack'', struct_tcp_rack),
    (''tcp_sock'', struct_tcp_sock),
    (''inet_request_sock'', struct_inet_request_sock),
    (''tcp_request_sock'', struct_tcp_request_sock),
    (''packet_type'', struct_packet_type),
    (''sockaddr_in'', struct_sockaddr_in),
    (''netlink_sock'', struct_netlink_sock),
    (''inet_timewait_sock'', struct_inet_timewait_sock),
    (''tcp_timewait_sock'', struct_tcp_timewait_sock),
    (''icmp_filter'', struct_icmp_filter),
    (''raw_sock'', struct_raw_sock),
    (''udp_sock'', struct_udp_sock),
    (''icmp6_filter'', struct_icmp6_filter),
    (''raw6_sock'', struct_raw6_sock),
    (''tpacket_stats'', struct_tpacket_stats),
    (''tpacket_stats_v3'', struct_tpacket_stats_v3),
    (''tpacket_stats_u'', union_tpacket_stats_u),
    (''tpacket_kbdq_core'', struct_tpacket_kbdq_core),
    (''packet_ring_buffer'', struct_packet_ring_buffer),
    (''packet_sock'', struct_packet_sock)]"

section \<open>Sizes and alignments\<close>

lemma kernel_net_layout_0 [layout_simps]:
  "sizeof vmlinux_typedefs addrpair = 8" "alignof vmlinux_typedefs addrpair = 8"
  "complete_type vmlinux_typedefs addrpair"
  "sizeof vmlinux_typedefs portpair = 4" "alignof vmlinux_typedefs portpair = 4"
  "complete_type vmlinux_typedefs portpair"
  "sizeof vmlinux_typedefs possible_net_t = 8" "alignof vmlinux_typedefs possible_net_t = 8"
  "complete_type vmlinux_typedefs possible_net_t"
  "sizeof vmlinux_typedefs struct_in6_addr = 16" "alignof vmlinux_typedefs struct_in6_addr = 4"
  "complete_type vmlinux_typedefs struct_in6_addr"
  "sizeof vmlinux_typedefs netdev_features_t = 8" "alignof vmlinux_typedefs netdev_features_t = 8"
  "complete_type vmlinux_typedefs netdev_features_t"
  "sizeof vmlinux_typedefs struct_sock_cgroup_data = 8"
  "alignof vmlinux_typedefs struct_sock_cgroup_data = 8"
  "complete_type vmlinux_typedefs struct_sock_cgroup_data"
  "sizeof vmlinux_typedefs sa_family_t = 2" "alignof vmlinux_typedefs sa_family_t = 2"
  "complete_type vmlinux_typedefs sa_family_t"
  "sizeof vmlinux_typedefs struct_flowi_tunnel = 8"
  "alignof vmlinux_typedefs struct_flowi_tunnel = 8"
  "complete_type vmlinux_typedefs struct_flowi_tunnel"
  "sizeof vmlinux_typedefs union_flowi_uli = 4" "alignof vmlinux_typedefs union_flowi_uli = 4"
  "complete_type vmlinux_typedefs union_flowi_uli"
  "sizeof vmlinux_typedefs struct_netlink_callback = 120"
  "alignof vmlinux_typedefs struct_netlink_callback = 8"
  "complete_type vmlinux_typedefs struct_netlink_callback"
  "sizeof vmlinux_typedefs sum16 = 2" "alignof vmlinux_typedefs sum16 = 2"
  "complete_type vmlinux_typedefs sum16"
  "sizeof vmlinux_typedefs struct_inet_cork = 56" "alignof vmlinux_typedefs struct_inet_cork = 8"
  "complete_type vmlinux_typedefs struct_inet_cork"
  "sizeof vmlinux_typedefs struct_inet6_cork = 16" "alignof vmlinux_typedefs struct_inet6_cork = 8"
  "complete_type vmlinux_typedefs struct_inet6_cork"
  "sizeof vmlinux_typedefs struct_minmax_sample = 8"
  "alignof vmlinux_typedefs struct_minmax_sample = 4"
  "complete_type vmlinux_typedefs struct_minmax_sample"
  "sizeof vmlinux_typedefs struct_tcp_sack_block = 8"
  "alignof vmlinux_typedefs struct_tcp_sack_block = 4"
  "complete_type vmlinux_typedefs struct_tcp_sack_block"
  "sizeof vmlinux_typedefs struct_tcp_options_received = 24"
  "alignof vmlinux_typedefs struct_tcp_options_received = 4"
  "complete_type vmlinux_typedefs struct_tcp_options_received"
  "sizeof vmlinux_typedefs struct_tcp_rack = 24" "alignof vmlinux_typedefs struct_tcp_rack = 8"
  "complete_type vmlinux_typedefs struct_tcp_rack"
  "sizeof vmlinux_typedefs struct_sockaddr_in = 16"
  "alignof vmlinux_typedefs struct_sockaddr_in = 4"
  "complete_type vmlinux_typedefs struct_sockaddr_in"
  "sizeof vmlinux_typedefs struct_icmp_filter = 4" "alignof vmlinux_typedefs struct_icmp_filter = 4"
  "complete_type vmlinux_typedefs struct_icmp_filter"
  "sizeof vmlinux_typedefs struct_icmp6_filter = 32"
  "alignof vmlinux_typedefs struct_icmp6_filter = 4"
  "complete_type vmlinux_typedefs struct_icmp6_filter"
  "sizeof vmlinux_typedefs struct_tpacket_stats = 8"
  "alignof vmlinux_typedefs struct_tpacket_stats = 4"
  "complete_type vmlinux_typedefs struct_tpacket_stats"
  "sizeof vmlinux_typedefs struct_tpacket_stats_v3 = 12"
  "alignof vmlinux_typedefs struct_tpacket_stats_v3 = 4"
  "complete_type vmlinux_typedefs struct_tpacket_stats_v3"
  by (simp_all add: layout_simps addrpair_def portpair_def possible_net_t_def struct_in6_addr_def netdev_features_t_def
      struct_sock_cgroup_data_def sa_family_t_def struct_flowi_tunnel_def union_flowi_uli_def
      struct_netlink_callback_def sum16_def struct_inet_cork_def struct_inet6_cork_def
      struct_minmax_sample_def struct_tcp_sack_block_def struct_tcp_options_received_def
      struct_tcp_rack_def struct_sockaddr_in_def struct_icmp_filter_def
      struct_icmp6_filter_def struct_tpacket_stats_def struct_tpacket_stats_v3_def
     del: One_nat_def)

lemma kernel_net_layout_1 [layout_simps]:
  "sizeof vmlinux_typedefs struct_sockaddr = 16" "alignof vmlinux_typedefs struct_sockaddr = 2"
  "complete_type vmlinux_typedefs struct_sockaddr"
  "sizeof vmlinux_typedefs struct_flowi_common = 40"
  "alignof vmlinux_typedefs struct_flowi_common = 8"
  "complete_type vmlinux_typedefs struct_flowi_common"
  "sizeof vmlinux_typedefs struct_in6_pktinfo = 20"
  "alignof vmlinux_typedefs struct_in6_pktinfo = 4"
  "complete_type vmlinux_typedefs struct_in6_pktinfo"
  "sizeof vmlinux_typedefs struct_ipv6hdr = 40" "alignof vmlinux_typedefs struct_ipv6hdr = 4"
  "complete_type vmlinux_typedefs struct_ipv6hdr"
  "sizeof vmlinux_typedefs struct_tcphdr = 20" "alignof vmlinux_typedefs struct_tcphdr = 4"
  "complete_type vmlinux_typedefs struct_tcphdr"
  "sizeof vmlinux_typedefs struct_udphdr = 8" "alignof vmlinux_typedefs struct_udphdr = 2"
  "complete_type vmlinux_typedefs struct_udphdr"
  "sizeof vmlinux_typedefs struct_iphdr = 20" "alignof vmlinux_typedefs struct_iphdr = 4"
  "complete_type vmlinux_typedefs struct_iphdr"
  "sizeof vmlinux_typedefs struct_minmax = 24" "alignof vmlinux_typedefs struct_minmax = 4"
  "complete_type vmlinux_typedefs struct_minmax"
  "sizeof vmlinux_typedefs struct_packet_type = 64"
  "alignof vmlinux_typedefs struct_packet_type = 8"
  "complete_type vmlinux_typedefs struct_packet_type"
  "sizeof vmlinux_typedefs union_tpacket_stats_u = 12"
  "alignof vmlinux_typedefs union_tpacket_stats_u = 4"
  "complete_type vmlinux_typedefs union_tpacket_stats_u"
  by (simp_all add: layout_simps struct_sockaddr_def struct_flowi_common_def struct_in6_pktinfo_def struct_ipv6hdr_def
      struct_tcphdr_def struct_udphdr_def struct_iphdr_def struct_minmax_def
      struct_packet_type_def union_tpacket_stats_u_def
     del: One_nat_def)

lemma kernel_net_layout_2 [layout_simps]:
  "sizeof vmlinux_typedefs struct_sock_common = 136"
  "alignof vmlinux_typedefs struct_sock_common = 8"
  "complete_type vmlinux_typedefs struct_sock_common"
  "sizeof vmlinux_typedefs struct_flowi4 = 56" "alignof vmlinux_typedefs struct_flowi4 = 8"
  "complete_type vmlinux_typedefs struct_flowi4"
  "sizeof vmlinux_typedefs struct_flowi6 = 88" "alignof vmlinux_typedefs struct_flowi6 = 8"
  "complete_type vmlinux_typedefs struct_flowi6"
  "sizeof vmlinux_typedefs struct_flowidn = 48" "alignof vmlinux_typedefs struct_flowidn = 8"
  "complete_type vmlinux_typedefs struct_flowidn"
  "sizeof vmlinux_typedefs struct_ipv6_pinfo = 160" "alignof vmlinux_typedefs struct_ipv6_pinfo = 8"
  "complete_type vmlinux_typedefs struct_ipv6_pinfo"
  "sizeof vmlinux_typedefs struct_tpacket_kbdq_core = 144"
  "alignof vmlinux_typedefs struct_tpacket_kbdq_core = 8"
  "complete_type vmlinux_typedefs struct_tpacket_kbdq_core"
  by (simp_all add: layout_simps struct_sock_common_def struct_flowi4_def struct_flowi6_def struct_flowidn_def
      struct_ipv6_pinfo_def struct_tpacket_kbdq_core_def
     del: One_nat_def)

lemma kernel_net_layout_3 [layout_simps]:
  "sizeof vmlinux_typedefs struct_flowi = 88" "alignof vmlinux_typedefs struct_flowi = 8"
  "complete_type vmlinux_typedefs struct_flowi"
  "sizeof vmlinux_typedefs struct_request_sock = 224"
  "alignof vmlinux_typedefs struct_request_sock = 8"
  "complete_type vmlinux_typedefs struct_request_sock"
  "sizeof vmlinux_typedefs struct_inet_timewait_sock = 208"
  "alignof vmlinux_typedefs struct_inet_timewait_sock = 8"
  "complete_type vmlinux_typedefs struct_inet_timewait_sock"
  "sizeof vmlinux_typedefs struct_packet_ring_buffer = 192"
  "alignof vmlinux_typedefs struct_packet_ring_buffer = 8"
  "complete_type vmlinux_typedefs struct_packet_ring_buffer"
  by (simp_all add: layout_simps struct_flowi_def struct_request_sock_def struct_inet_timewait_sock_def
      struct_packet_ring_buffer_def
     del: One_nat_def)

lemma kernel_net_layout_4 [layout_simps]:
  "sizeof vmlinux_typedefs struct_sk_buff_head = 24"
  "alignof vmlinux_typedefs struct_sk_buff_head = 8"
  "complete_type vmlinux_typedefs struct_sk_buff_head"
  "sizeof vmlinux_typedefs struct_inet_cork_full = 144"
  "alignof vmlinux_typedefs struct_inet_cork_full = 8"
  "complete_type vmlinux_typedefs struct_inet_cork_full"
  "sizeof vmlinux_typedefs struct_fastopen_queue = 40"
  "alignof vmlinux_typedefs struct_fastopen_queue = 8"
  "complete_type vmlinux_typedefs struct_fastopen_queue"
  "sizeof vmlinux_typedefs struct_inet_request_sock = 248"
  "alignof vmlinux_typedefs struct_inet_request_sock = 8"
  "complete_type vmlinux_typedefs struct_inet_request_sock"
  "sizeof vmlinux_typedefs struct_tcp_timewait_sock = 240"
  "alignof vmlinux_typedefs struct_tcp_timewait_sock = 8"
  "complete_type vmlinux_typedefs struct_tcp_timewait_sock"
  by (simp_all add: layout_simps struct_sk_buff_head_def struct_inet_cork_full_def struct_fastopen_queue_def
      struct_inet_request_sock_def struct_tcp_timewait_sock_def
     del: One_nat_def)

lemma kernel_net_layout_5 [layout_simps]:
  "sizeof vmlinux_typedefs socket_lock_t = 32" "alignof vmlinux_typedefs socket_lock_t = 8"
  "complete_type vmlinux_typedefs socket_lock_t"
  "sizeof vmlinux_typedefs struct_socket_wq = 64" "alignof vmlinux_typedefs struct_socket_wq = 8"
  "complete_type vmlinux_typedefs struct_socket_wq"
  "sizeof vmlinux_typedefs struct_request_sock_queue = 80"
  "alignof vmlinux_typedefs struct_request_sock_queue = 8"
  "complete_type vmlinux_typedefs struct_request_sock_queue"
  "sizeof vmlinux_typedefs struct_tcp_request_sock = 336"
  "alignof vmlinux_typedefs struct_tcp_request_sock = 8"
  "complete_type vmlinux_typedefs struct_tcp_request_sock"
  by (simp_all add: layout_simps socket_lock_t_def struct_socket_wq_def struct_request_sock_queue_def
      struct_tcp_request_sock_def
     del: One_nat_def)

lemma kernel_net_layout_6 [layout_simps]:
  "sizeof vmlinux_typedefs struct_sock = 784" "alignof vmlinux_typedefs struct_sock = 8"
  "complete_type vmlinux_typedefs struct_sock"
  by (simp_all add: layout_simps struct_sock_def
     del: One_nat_def)

lemma kernel_net_layout_7 [layout_simps]:
  "sizeof vmlinux_typedefs struct_xdp_sock = 960" "alignof vmlinux_typedefs struct_xdp_sock = 8"
  "complete_type vmlinux_typedefs struct_xdp_sock"
  "sizeof vmlinux_typedefs struct_unix_sock = 1088" "alignof vmlinux_typedefs struct_unix_sock = 8"
  "complete_type vmlinux_typedefs struct_unix_sock"
  "sizeof vmlinux_typedefs struct_inet_sock = 992" "alignof vmlinux_typedefs struct_inet_sock = 8"
  "complete_type vmlinux_typedefs struct_inet_sock"
  "sizeof vmlinux_typedefs struct_netlink_sock = 1112"
  "alignof vmlinux_typedefs struct_netlink_sock = 8"
  "complete_type vmlinux_typedefs struct_netlink_sock"
  "sizeof vmlinux_typedefs struct_packet_sock = 1472"
  "alignof vmlinux_typedefs struct_packet_sock = 8"
  "complete_type vmlinux_typedefs struct_packet_sock"
  by (simp_all add: layout_simps struct_xdp_sock_def struct_unix_sock_def struct_inet_sock_def struct_netlink_sock_def
      struct_packet_sock_def
     del: One_nat_def)

lemma kernel_net_layout_8 [layout_simps]:
  "sizeof vmlinux_typedefs struct_inet_connection_sock = 1568"
  "alignof vmlinux_typedefs struct_inet_connection_sock = 8"
  "complete_type vmlinux_typedefs struct_inet_connection_sock"
  "sizeof vmlinux_typedefs struct_raw_sock = 1000" "alignof vmlinux_typedefs struct_raw_sock = 8"
  "complete_type vmlinux_typedefs struct_raw_sock"
  "sizeof vmlinux_typedefs struct_udp_sock = 1152" "alignof vmlinux_typedefs struct_udp_sock = 8"
  "complete_type vmlinux_typedefs struct_udp_sock"
  "sizeof vmlinux_typedefs struct_raw6_sock = 1200" "alignof vmlinux_typedefs struct_raw6_sock = 8"
  "complete_type vmlinux_typedefs struct_raw6_sock"
  by (simp_all add: layout_simps struct_inet_connection_sock_def struct_raw_sock_def struct_udp_sock_def
      struct_raw6_sock_def
     del: One_nat_def)

lemma kernel_net_layout_9 [layout_simps]:
  "sizeof vmlinux_typedefs struct_tcp_sock = 2480" "alignof vmlinux_typedefs struct_tcp_sock = 8"
  "complete_type vmlinux_typedefs struct_tcp_sock"
  by (simp_all add: layout_simps struct_tcp_sock_def
     del: One_nat_def)

end
