(* ===== verification/Lb_Types.thy ===== *)
theory Lb_Types
  imports Bpf_Helpers
begin

text \<open>
  The keys and values of the two load-balancing maps, once as the C structs of
  \<^verbatim>\<open>src/ebpf/src/kernel/common.h\<close> that the eBPF program uses and once as the Go structs of
  \<^verbatim>\<open>src/pkg/bpf/types.go\<close> that the control plane writes. The kernel compares keys and copies values as
  bytes, so the two sides agree only if the byte images do; the properties show that they do. The
  declarations of the maps in \<^verbatim>\<open>src/ebpf/src/service.c\<close> are here too.
\<close>

section \<open>C structs\<close>

record lb4_key =
  k_address :: u32
  k_dport :: u16
  k_proto :: u8
  k_pad :: u8

record lb4_backend =
  b_address :: u32
  b_port :: u16
  b_proto :: u8
  b_pad :: u8

record lb4_service =
  s_service_id :: u16
  s_count :: u16

definition struct_lb4_key :: ctype where
  [decl_simps]: "struct_lb4_key = CStruct [
    Field ''address'' (CName ''__be32''),
    Field ''dport'' (CName ''__be16''),
    Field ''proto'' (CName ''__u8''),
    Field ''pad'' (CName ''__u8'')]"

definition struct_lb4_backend :: ctype where
  [decl_simps]: "struct_lb4_backend = CStruct [
    Field ''address'' (CName ''__be32''),
    Field ''port'' (CName ''__be16''),
    Field ''proto'' (CName ''__u8''),
    Field ''pad'' (CName ''__u8'')]"

definition struct_lb4_service :: ctype where
  [decl_simps]: "struct_lb4_service = CStruct [
    Field ''service_id'' (CName ''__u16''),
    Field ''count'' (CName ''__u16'')]"

text \<open>Memory images on the little-endian target, and reading a struct through a pointer.\<close>

definition lb4_key_bytes :: "lb4_key \<Rightarrow> u8 list" where
  "lb4_key_bytes k = le32 (k_address k) @ le16 (k_dport k) @ [k_proto k, k_pad k]"

definition lb4_backend_bytes :: "lb4_backend \<Rightarrow> u8 list" where
  "lb4_backend_bytes b = le32 (b_address b) @ le16 (b_port b) @ [b_proto b, b_pad b]"

definition lb4_service_bytes :: "lb4_service \<Rightarrow> u8 list" where
  "lb4_service_bytes s = le16 (s_service_id s) @ le16 (s_count s)"

fun lb4_backend_of_bytes :: "u8 list \<Rightarrow> lb4_backend option" where
  "lb4_backend_of_bytes [a0, a1, a2, a3, p0, p1, pr, pd] =
     Some \<lparr>b_address = of_le32 a0 a1 a2 a3, b_port = of_le16 p0 p1, b_proto = pr, b_pad = pd\<rparr>"
| "lb4_backend_of_bytes _ = None"

fun lb4_service_of_bytes :: "u8 list \<Rightarrow> lb4_service option" where
  "lb4_service_of_bytes [i0, i1, c0, c1] =
     Some \<lparr>s_service_id = of_le16 i0 i1, s_count = of_le16 c0 c1\<rparr>"
| "lb4_service_of_bytes _ = None"

section \<open>Go structs\<close>

record Service4Key =
  ServiceIP :: u32
  ServicePort :: u16
  SK_Proto :: u8
  SK_Pad :: u8

record Service4Value =
  ServiceID :: u16
  Count :: u16

record Endpoint4Key =
  EndpointID :: u32

record Endpoint4Value =
  EndpointIP :: u32
  EndpointPort :: u16
  EV_Proto :: u8
  EV_Pad :: u8

text \<open>Go lays out these fixed-size fields as C does: in order, each aligned to its size.\<close>

definition go_Service4Key :: ctype where
  [decl_simps]: "go_Service4Key = CStruct [
    Field ''ServiceIP'' (CPrim PUInt),
    Field ''ServicePort'' (CPrim PUShort),
    Field ''Proto'' (CPrim PUChar),
    Field ''Pad'' (CPrim PUChar)]"

definition go_Service4Value :: ctype where
  [decl_simps]: "go_Service4Value = CStruct [
    Field ''ServiceID'' (CPrim PUShort),
    Field ''Count'' (CPrim PUShort)]"

definition go_Endpoint4Key :: ctype where
  [decl_simps]: "go_Endpoint4Key = CStruct [
    Field ''EndpointID'' (CPrim PUInt)]"

definition go_Endpoint4Value :: ctype where
  [decl_simps]: "go_Endpoint4Value = CStruct [
    Field ''EndpointIP'' (CPrim PUInt),
    Field ''EndpointPort'' (CPrim PUShort),
    Field ''Proto'' (CPrim PUChar),
    Field ''Pad'' (CPrim PUChar)]"

definition Service4Key_bytes :: "Service4Key \<Rightarrow> u8 list" where
  "Service4Key_bytes k = le32 (ServiceIP k) @ le16 (ServicePort k) @ [SK_Proto k, SK_Pad k]"

definition Service4Value_bytes :: "Service4Value \<Rightarrow> u8 list" where
  "Service4Value_bytes v = le16 (ServiceID v) @ le16 (Count v)"

definition Endpoint4Key_bytes :: "Endpoint4Key \<Rightarrow> u8 list" where
  "Endpoint4Key_bytes k = le32 (EndpointID k)"

definition Endpoint4Value_bytes :: "Endpoint4Value \<Rightarrow> u8 list" where
  "Endpoint4Value_bytes v = le32 (EndpointIP v) @ le16 (EndpointPort v) @ [EV_Proto v, EV_Pad v]"

text \<open>Offset and size of each member.\<close>

definition layout_shape :: "ctype \<Rightarrow> (nat \<times> nat) list" where
  "layout_shape t = map (\<lambda>(pos, f). (pos div 8, sizeof vmlinux_typedefs (field_type f))) (members vmlinux_typedefs t)"

section \<open>Map declarations\<close>

definition CILIUM_LB_SERVICE_MAP_MAX_ENTRIES :: nat where
  [decl_simps]: "CILIUM_LB_SERVICE_MAP_MAX_ENTRIES = 65536"

definition CILIUM_LB_BACKENDS_MAP_MAX_ENTRIES :: nat where
  [decl_simps]: "CILIUM_LB_BACKENDS_MAP_MAX_ENTRIES = 65536"

text \<open>A constant of an enum used as a map attribute.\<close>

definition enum_nat :: "c_enum \<Rightarrow> string \<Rightarrow> nat" where
  "enum_nat e n = (case enum_value e n of Some v \<Rightarrow> nat v | None \<Rightarrow> 0)"

definition eproxy_lb4_services :: "cfield list" where
  "eproxy_lb4_services = [
    uint_attr ''type'' (enum_nat bpf_map_type ''BPF_MAP_TYPE_HASH''),
    type_attr ''key'' struct_lb4_key,
    type_attr ''value'' struct_lb4_service,
    uint_attr ''pinning'' (enum_nat libbpf_pin_type ''LIBBPF_PIN_BY_NAME''),
    uint_attr ''max_entries'' CILIUM_LB_SERVICE_MAP_MAX_ENTRIES]"

definition eproxy_lb4_backends :: "cfield list" where
  "eproxy_lb4_backends = [
    uint_attr ''type'' (enum_nat bpf_map_type ''BPF_MAP_TYPE_HASH''),
    type_attr ''key'' (CName ''__u32''),
    type_attr ''value'' struct_lb4_backend,
    uint_attr ''pinning'' (enum_nat libbpf_pin_type ''LIBBPF_PIN_BY_NAME''),
    uint_attr ''max_entries'' CILIUM_LB_BACKENDS_MAP_MAX_ENTRIES]"

text \<open>What a loader reads from such a declaration.\<close>

definition map_uint :: "cfield list \<Rightarrow> string \<Rightarrow> nat option" where
  "map_uint m n = Option.bind (find_field n m) uint_of"

definition map_size :: "cfield list \<Rightarrow> string \<Rightarrow> nat option" where
  "map_size m n = map_option (sizeof vmlinux_typedefs) (Option.bind (find_field n m) type_of)"

section \<open>Lemmas\<close>

lemma lb4_key_bytes_inject [simp]: "lb4_key_bytes a = lb4_key_bytes b \<longleftrightarrow> a = b"
proof -
  have "a = b \<longleftrightarrow> k_address a = k_address b \<and> k_dport a = k_dport b \<and> k_proto a = k_proto b
      \<and> k_pad a = k_pad b"
    by (cases a; cases b) simp
  then show ?thesis
    by (simp add: lb4_key_bytes_def)
qed

lemma lb4_service_roundtrip [simp]: "lb4_service_of_bytes (lb4_service_bytes s) = Some s"
  by (simp add: lb4_service_bytes_def le16_def)

lemma lb4_backend_roundtrip [simp]: "lb4_backend_of_bytes (lb4_backend_bytes b) = Some b"
  by (simp add: lb4_backend_bytes_def le16_def le32_def)

lemma Service4Key_bytes_eq:
  "Service4Key_bytes k =
     lb4_key_bytes \<lparr>k_address = ServiceIP k, k_dport = ServicePort k, k_proto = SK_Proto k, k_pad = SK_Pad k\<rparr>"
  by (simp add: Service4Key_bytes_def lb4_key_bytes_def)

lemma Service4Value_bytes_eq:
  "Service4Value_bytes v = lb4_service_bytes \<lparr>s_service_id = ServiceID v, s_count = Count v\<rparr>"
  by (simp add: Service4Value_bytes_def lb4_service_bytes_def)

lemma Endpoint4Value_bytes_eq:
  "Endpoint4Value_bytes v =
     lb4_backend_bytes \<lparr>b_address = EndpointIP v, b_port = EndpointPort v, b_proto = EV_Proto v, b_pad = EV_Pad v\<rparr>"
  by (simp add: Endpoint4Value_bytes_def lb4_backend_bytes_def)

lemmas go_bytes_eq = Service4Key_bytes_eq Service4Value_bytes_eq Endpoint4Value_bytes_eq

lemma lb4_sizes:
  "sizeof vmlinux_typedefs struct_lb4_key = 8"
  "sizeof vmlinux_typedefs struct_lb4_service = 4"
  "sizeof vmlinux_typedefs struct_lb4_backend = 8"
  by (simp_all add: decl_simps layout_simps numeral_2_eq_2 [symmetric])

lemma enum_nat_map_attrs:
  "enum_nat bpf_map_type ''BPF_MAP_TYPE_HASH'' = 1"
  "enum_nat libbpf_pin_type ''LIBBPF_PIN_BY_NAME'' = 1"
  by (simp_all add: enum_nat_def enum_value_def decl_simps)

section \<open>Properties\<close>

text \<open>C31. The Go structs and the C structs of the maps have the same members at the same offsets and
  the same sizes, without padding, so that the bytes the control plane writes are read back by the
  program as the same fields: decoding the image of a Go value yields its fields, and two keys have
  the same image exactly when they are equal.\<close>

theorem go_and_c_structs_agree:
  "layout_shape go_Service4Key = layout_shape struct_lb4_key \<and> sizeof vmlinux_typedefs go_Service4Key = sizeof vmlinux_typedefs struct_lb4_key \<and>
   layout_shape go_Service4Value = layout_shape struct_lb4_service \<and> sizeof vmlinux_typedefs go_Service4Value = sizeof vmlinux_typedefs struct_lb4_service \<and>
   layout_shape go_Endpoint4Value = layout_shape struct_lb4_backend \<and> sizeof vmlinux_typedefs go_Endpoint4Value = sizeof vmlinux_typedefs struct_lb4_backend \<and>
   lb4_service_of_bytes (Service4Value_bytes v) = Some \<lparr>s_service_id = ServiceID v, s_count = Count v\<rparr> \<and>
   lb4_backend_of_bytes (Endpoint4Value_bytes e) =
     Some \<lparr>b_address = EndpointIP e, b_port = EndpointPort e, b_proto = EV_Proto e, b_pad = EV_Pad e\<rparr> \<and>
   (Service4Key_bytes k = lb4_key_bytes c \<longleftrightarrow>
     ServiceIP k = k_address c \<and> ServicePort k = k_dport c \<and> SK_Proto k = k_proto c \<and> SK_Pad k = k_pad c)"
proof -
  have "Service4Key_bytes k = lb4_key_bytes c \<longleftrightarrow>
     ServiceIP k = k_address c \<and> ServicePort k = k_dport c \<and> SK_Proto k = k_proto c \<and> SK_Pad k = k_pad c"
    by (simp add: Service4Key_bytes_def lb4_key_bytes_def)
  then show ?thesis
    by (simp add: layout_shape_def decl_simps layout_simps Service4Value_bytes_eq Endpoint4Value_bytes_eq)
qed

text \<open>Both maps are declared as pinned hash maps of 65536 entries whose key and value sizes are
  the lengths of the images the two sides exchange.\<close>

theorem map_declarations_match:
  "map (map_uint eproxy_lb4_services) [''type'', ''pinning'', ''max_entries''] = [Some 1, Some 1, Some 65536] \<and>
   map (map_uint eproxy_lb4_backends) [''type'', ''pinning'', ''max_entries''] = [Some 1, Some 1, Some 65536] \<and>
   map_size eproxy_lb4_services ''key'' = Some (length (Service4Key_bytes sk)) \<and>
   map_size eproxy_lb4_services ''value'' = Some (length (Service4Value_bytes sv)) \<and>
   map_size eproxy_lb4_backends ''key'' = Some (length (Endpoint4Key_bytes ek)) \<and>
   map_size eproxy_lb4_backends ''value'' = Some (length (Endpoint4Value_bytes ev))"
  by (simp add: eproxy_lb4_services_def eproxy_lb4_backends_def uint_attr_def type_attr_def
      enum_nat_map_attrs map_uint_def map_size_def CILIUM_LB_SERVICE_MAP_MAX_ENTRIES_def
      CILIUM_LB_BACKENDS_MAP_MAX_ENTRIES_def lb4_sizes layout_simps Service4Key_bytes_def
      Service4Value_bytes_def Endpoint4Key_bytes_def Endpoint4Value_bytes_def)

end
