(* ===== verification/Connect4.thy ===== *)
theory Connect4
  imports Lb_Types
begin

unbundle bit_operations_syntax

text \<open>
  The program \<^verbatim>\<open>connect4\<close> of \<^verbatim>\<open>src/ebpf/src/service.c\<close>, attached to the \<^verbatim>\<open>connect\<close> hook of a control
  group: it looks the destination up in the service map, picks one of the service's backends at random
  and rewrites the destination. The contents of the two maps and the random number are arguments; the
  result carries the return value, the context and the helper calls in the order they are made. The
  maps are read at one moment: a call does not see an update made while it runs.
\<close>

section \<open>Context\<close>

record bpf_sock_addr =
  user_family :: u32
  user_ip4 :: u32
  user_ip6 :: "u32 list"
  user_port :: u32
  sa_family :: u32
  sa_type :: u32
  protocol :: u32
  msg_src_ip4 :: u32
  msg_src_ip6 :: "u32 list"
  sa_sk :: u64

definition SOCK_STREAM :: u32 where
  "SOCK_STREAM = 1"

definition SOCK_DGRAM :: u32 where
  "SOCK_DGRAM = 2"

type_synonym map_contents = "u8 list \<Rightarrow> u8 list option"

text \<open>\<^verbatim>\<open>bpf_map_lookup_elem\<close> on each map, with the value read through the pointer it returns.\<close>

definition lookup_service :: "map_contents \<Rightarrow> lb4_key \<Rightarrow> lb4_service option" where
  "lookup_service m key = Option.bind (m (lb4_key_bytes key)) lb4_service_of_bytes"

definition lookup_backend :: "map_contents \<Rightarrow> u32 \<Rightarrow> lb4_backend option" where
  "lookup_backend m bid = Option.bind (m (le32 bid)) lb4_backend_of_bytes"

text \<open>A \<^verbatim>\<open>bpf_printk\<close>; the array it fills for many arguments starts uninitialised.\<close>

definition printk :: "string \<Rightarrow> u64 list \<Rightarrow> helper_call list" where
  "printk fmt args = (case bpf_printk fmt (replicate 12 0) args of Some c \<Rightarrow> [c] | None \<Rightarrow> [])"

definition newline :: string where
  "newline = [CHR 0x0A]"

section \<open>Program\<close>

record connect4_result =
  c4_ret :: int
  c4_ctx :: bpf_sock_addr
  c4_calls :: "helper_call list"

text \<open>\<^verbatim>\<open>__u16 index = (bpf_get_prandom_u32() % count)+1\<close> and \<^verbatim>\<open>value->service_id << 16 | index\<close>. The shift
  is made on \<^verbatim>\<open>int\<close>; its bits are those of the 32-bit shift.\<close>

definition pick_index :: "u32 \<Rightarrow> u16 \<Rightarrow> u16" where
  "pick_index rnd count = ucast ((rnd mod ucast count) + 1)"

definition backend_id :: "u16 \<Rightarrow> u16 \<Rightarrow> u32" where
  "backend_id service_id index = push_bit 16 (ucast service_id) OR ucast index"

definition key_of_ctx :: "bpf_sock_addr \<Rightarrow> lb4_key" where
  "key_of_ctx ctx =
     \<lparr>k_address = user_ip4 ctx, k_dport = ucast (user_port ctx), k_proto = ucast (protocol ctx), k_pad = 0\<rparr>"

definition connect4 :: "map_contents \<Rightarrow> map_contents \<Rightarrow> u32 \<Rightarrow> bpf_sock_addr \<Rightarrow> connect4_result" where
  "connect4 services backends rnd ctx =
     (if sa_type ctx \<noteq> SOCK_STREAM \<and> sa_type ctx \<noteq> SOCK_DGRAM then
        \<lparr>c4_ret = 1, c4_ctx = ctx, c4_calls = printk ''unkonw socket type'' []\<rparr>
      else
        let key = key_of_ctx ctx;
            calls1 = printk (''before user ip %lu, port:%d,protocol: %d, '' @ newline)
                [ucast (user_ip4 ctx), ucast (user_port ctx), ucast (protocol ctx)] @
              [Call bpf_map_lookup_elem [A_Map ''eproxy_lb4_services'', A_Bytes (lb4_key_bytes key)]]
        in case lookup_service services key of
             None \<Rightarrow> \<lparr>c4_ret = 1, c4_ctx = ctx, c4_calls = calls1\<rparr>
           | Some value \<Rightarrow>
               let count = s_count value
               in if count = 0 then \<lparr>c4_ret = 1, c4_ctx = ctx, c4_calls = calls1\<rparr>
                  else
                    let index = pick_index rnd count;
                        blackend_id = backend_id (s_service_id value) index;
                        calls2 = calls1 @ [Call bpf_get_prandom_u32 []] @
                          printk ''query endpoint id: %d'' [ucast blackend_id] @
                          [Call bpf_map_lookup_elem [A_Map ''eproxy_lb4_backends'', A_Bytes (le32 blackend_id)]]
                    in case lookup_backend backends blackend_id of
                         None \<Rightarrow> \<lparr>c4_ret = 1, c4_ctx = ctx, c4_calls = calls2\<rparr>
                       | Some end_value \<Rightarrow>
                           let ctx1 = ctx\<lparr>user_ip4 := b_address end_value\<rparr>;
                               ctx2 = ctx1\<lparr>user_port := ucast (b_port end_value)\<rparr>
                           in \<lparr>c4_ret = 1, c4_ctx = ctx2,
                               c4_calls = calls2 @ printk (''after user ip %lu, port:%d'' @ newline)
                                 [ucast (user_ip4 ctx2), ucast (user_port ctx2)]\<rparr>)"

section \<open>Specification\<close>

text \<open>
  What the program promises, without maps and ids: a load balancer is a finite choice of backends per
  frontend. A connection to a frontend with backends goes to one of them, picked by the random number;
  every other connection is left alone.
\<close>

type_synonym balancer = "lb4_key \<Rightarrow> (u32 \<times> u16) list"

definition balance :: "balancer \<Rightarrow> u32 \<Rightarrow> bpf_sock_addr \<Rightarrow> bpf_sock_addr" where
  "balance lb rnd ctx =
     (let bs = lb (key_of_ctx ctx)
      in if sa_type ctx \<noteq> SOCK_STREAM \<and> sa_type ctx \<noteq> SOCK_DGRAM \<or> bs = [] then ctx
         else let (ip, port) = bs ! (unat rnd mod length bs)
              in ctx\<lparr>user_ip4 := ip, user_port := ucast port\<rparr>)"

text \<open>The maps implement a balancer: a frontend with backends has a service entry that counts them,
  and the backend map holds the i-th one under the service's id and i + 1.\<close>

definition implements :: "map_contents \<Rightarrow> map_contents \<Rightarrow> balancer \<Rightarrow> bool" where
  "implements services backends lb \<longleftrightarrow>
     (\<forall>key. case lookup_service services key of
        None \<Rightarrow> lb key = []
      | Some v \<Rightarrow> length (lb key) = unat (s_count v) \<and>
          (\<forall>i < length (lb key). \<exists>b. lookup_backend backends (backend_id (s_service_id v) (of_nat (i + 1))) = Some b \<and>
             (b_address b, b_port b) = lb key ! i))"

text \<open>One service, port 80 of 10.0.0.1 over TCP, with two backends.\<close>

definition demo_key :: lb4_key where
  "demo_key = \<lparr>k_address = 0x0100000A, k_dport = 0x5000, k_proto = 6, k_pad = 0\<rparr>"

definition demo_services :: map_contents where
  "demo_services = [lb4_key_bytes demo_key \<mapsto> lb4_service_bytes \<lparr>s_service_id = 7, s_count = 2\<rparr>]"

definition demo_backends :: map_contents where
  "demo_backends = [
     le32 (backend_id 7 1) \<mapsto> lb4_backend_bytes \<lparr>b_address = 0x0200000A, b_port = 0x901F, b_proto = 0, b_pad = 0\<rparr>,
     le32 (backend_id 7 2) \<mapsto> lb4_backend_bytes \<lparr>b_address = 0x0300000A, b_port = 0x901F, b_proto = 0, b_pad = 0\<rparr>]"

definition demo_balancer :: balancer where
  "demo_balancer key = (if key = demo_key then [(0x0200000A, 0x901F), (0x0300000A, 0x901F)] else [])"

definition demo_ctx :: bpf_sock_addr where
  "demo_ctx = \<lparr>user_family = 2, user_ip4 = 0x0100000A, user_ip6 = [0, 0, 0, 0], user_port = 0x5000, sa_family = 2,
     sa_type = 1, protocol = 6, msg_src_ip4 = 0, msg_src_ip6 = [0, 0, 0, 0], sa_sk = 0\<rparr>"

text \<open>A print with as many values as its format has conversions.\<close>

definition prints :: "helper_call \<Rightarrow> bool" where
  "prints c \<longleftrightarrow> (\<exists>fmt vs. c = do_bpf_printk fmt vs \<and> count_list fmt (CHR ''%'') = length vs \<and> length vs \<le> 3)"

section \<open>Lemmas\<close>

lemma pick_index_unat:
  assumes "count \<noteq> 0"
  shows "unat (pick_index rnd count) = unat rnd mod unat count + 1"
proof -
  have c: "0 < unat count" "unat count < 2 ^ 16"
    using assms unsigned_less [of count] by (simp_all add: unat_gt_0)
  have u: "unat (ucast count :: u32) = unat count"
    using c by (simp add: unsigned_ucast_eq take_bit_nat_eq_self)
  have m: "unat (rnd mod ucast count) = unat rnd mod unat count"
    by (simp add: unat_mod u)
  have "unat rnd mod unat count < unat count"
    using c(1) by (rule mod_less_divisor)
  then have lt: "unat rnd mod unat count + 1 < 2 ^ 16"
    using c(2) by linarith
  have "unat (rnd mod ucast count + 1) = unat rnd mod unat count + 1"
    unfolding unat_word_ariths(1) m using lt by simp
  then show ?thesis
    using lt by (simp add: pick_index_def unsigned_ucast_eq take_bit_nat_eq_self)
qed

lemma pick_index_of_nat:
  "count \<noteq> 0 \<Longrightarrow> pick_index rnd count = of_nat (unat rnd mod unat count + 1)"
  by (metis pick_index_unat of_nat_unat ucast_id)

lemma bit_backend_id:
  "bit (backend_id sid i) n \<longleftrightarrow> (if n < 16 then bit i n else bit sid (n - 16))"
  by (auto simp: backend_id_def bit_simps dest: bit_imp_le_length)

lemma backend_id_high: "ucast (drop_bit 16 (backend_id sid i)) = sid"
  by (rule bit_word_eqI) (auto simp: bit_simps bit_backend_id)

lemma backend_id_low: "ucast (backend_id sid i) = i"
  by (rule bit_word_eqI) (auto simp: bit_simps bit_backend_id)

lemma backend_id_inject: "backend_id sid i = backend_id sid' i' \<longleftrightarrow> sid = sid' \<and> i = i'"
  by (metis backend_id_high backend_id_low)

lemma card_mod_eq:
  fixes c :: nat
  assumes "i < c"
  shows "card {n. n < N \<and> n mod c = i} = N div c + (if i < N mod c then 1 else 0)"
proof (induction N)
  case (Suc N)
  have "{n. n < Suc N \<and> n mod c = i} =
      (if N mod c = i then insert N {n. n < N \<and> n mod c = i} else {n. n < N \<and> n mod c = i})"
    by (auto simp: less_Suc_eq)
  then have "card {n. n < Suc N \<and> n mod c = i} =
      card {n. n < N \<and> n mod c = i} + (if N mod c = i then 1 else 0)"
    by simp
  then show ?case
    using Suc.IH assms by (auto simp: mod_Suc div_Suc)
qed simp

lemma card_word_mod_eq:
  assumes "i < c"
  shows "card {r :: u32. unat r mod c = i} = 2 ^ 32 div c + (if i < 2 ^ 32 mod c then 1 else 0)"
proof -
  have "{n. n < 2 ^ 32 \<and> n mod c = i} = unat ` {r :: u32. unat r mod c = i}"
  proof (intro set_eqI iffI)
    fix n
    assume n: "n \<in> {n. n < 2 ^ 32 \<and> n mod c = i}"
    then have "n = unat (of_nat n :: u32)"
      by (simp add: unsigned_of_nat take_bit_nat_eq_self)
    with n show "n \<in> unat ` {r :: u32. unat r mod c = i}"
      by (intro image_eqI [where x = "of_nat n"]) auto
  next
    fix n
    assume "n \<in> unat ` {r :: u32. unat r mod c = i}"
    then show "n \<in> {n. n < 2 ^ 32 \<and> n mod c = i}"
      using unsigned_less [where 'b = 32 and ?'a = nat] by auto
  qed
  then have "card {n. n < 2 ^ 32 \<and> n mod c = i} = card {r :: u32. unat r mod c = i}"
    by (simp add: card_image inj_on_def unsigned_word_eqI)
  then show ?thesis
    using card_mod_eq [OF assms, of "2 ^ 32"] by simp
qed

lemmas connect4_splits = if_splits option.splits

lemma printk_calls: "length args \<le> 3 \<Longrightarrow> printk fmt args = [do_bpf_printk fmt args]"
  by (simp add: printk_def bpf_printk_def printk_eval)

lemma connect4_helpers_in_kernel:
  "kernel_has bpf_map_lookup_elem" "kernel_has bpf_get_prandom_u32" "kernel_has bpf_trace_printk"
proof -
  have "bpf_map_lookup_elem = helper_table ! 0" "bpf_trace_printk = helper_table ! 5"
    "bpf_get_prandom_u32 = helper_table ! 6"
    by (simp_all add: helper_table_def)
  then show "kernel_has bpf_map_lookup_elem" "kernel_has bpf_get_prandom_u32" "kernel_has bpf_trace_printk"
    using kernel_has_nth [of 0] kernel_has_nth [of 5] kernel_has_nth [of 6] by simp_all
qed

text \<open>The outcome of a run, by the entries it finds.\<close>

lemma connect4_cases:
  "c4_ctx (connect4 services backends rnd ctx) =
     (if sa_type ctx \<noteq> SOCK_STREAM \<and> sa_type ctx \<noteq> SOCK_DGRAM then ctx
      else case lookup_service services (key_of_ctx ctx) of
        None \<Rightarrow> ctx
      | Some v \<Rightarrow>
          if s_count v = 0 then ctx
          else case lookup_backend backends (backend_id (s_service_id v) (pick_index rnd (s_count v))) of
            None \<Rightarrow> ctx
          | Some b \<Rightarrow> ctx\<lparr>user_ip4 := b_address b, user_port := ucast (b_port b)\<rparr>)"
  by (simp add: connect4_def Let_def split: option.split)

lemma connect4_ret: "c4_ret (connect4 services backends rnd ctx) = 1"
  by (simp add: connect4_def Let_def split: option.split)

lemma connect4_call_decls:
  "\<exists>n \<in> {1, 2, 5, 6}. map call_decl (c4_calls (connect4 services backends rnd ctx)) =
     take n [bpf_trace_printk, bpf_map_lookup_elem, bpf_get_prandom_u32, bpf_trace_printk,
       bpf_map_lookup_elem, bpf_trace_printk]"
  by (auto simp: connect4_def Let_def printk_calls do_bpf_printk_def numeral_eq_Suc split: option.split)

lemma prints_do_bpf_printk:
  "count_list fmt (CHR ''%'') = length vs \<Longrightarrow> length vs \<le> 3 \<Longrightarrow> prints (do_bpf_printk fmt vs)"
  by (auto simp: prints_def)

lemma connect4_calls_cases:
  assumes "c \<in> set (c4_calls (connect4 services backends rnd ctx))"
  shows "prints c \<or> c = Call bpf_get_prandom_u32 [] \<or>
    c = Call bpf_map_lookup_elem [A_Map ''eproxy_lb4_services'', A_Bytes (lb4_key_bytes (key_of_ctx ctx))] \<or>
    (\<exists>v. lookup_service services (key_of_ctx ctx) = Some v \<and>
      c = Call bpf_map_lookup_elem
        [A_Map ''eproxy_lb4_backends'', A_Bytes (le32 (backend_id (s_service_id v) (pick_index rnd (s_count v))))])"
proof -
  have "prints (do_bpf_printk ''unkonw socket type'' [])"
    "prints (do_bpf_printk (''before user ip %lu, port:%d,protocol: %d, '' @ newline) [u, v, w])"
    "prints (do_bpf_printk ''query endpoint id: %d'' [u])"
    "prints (do_bpf_printk (''after user ip %lu, port:%d'' @ newline) [u, v])" for u v w
    by (rule prints_do_bpf_printk; simp add: newline_def)+
  then show ?thesis
    using assms by (auto simp: connect4_def Let_def printk_calls simp del: append.simps split: option.splits if_splits)
qed

lemma prints_ok: "prints c \<Longrightarrow> call_ok c"
  by (auto simp: prints_def do_bpf_printk_def call_ok_printk)

lemma connect4_calls_ok: "list_all call_ok (c4_calls (connect4 services backends rnd ctx))"
  unfolding list_all_iff using connect4_calls_cases prints_ok call_ok_lookup call_ok_prandom by blast

section \<open>Properties\<close>

text \<open>C3. The program implements the load balancer its maps describe: if the maps implement a balancer,
  the context it leaves is the balancer's, for every random number and every connection.\<close>

theorem connect4_refines_balance:
  assumes "implements services backends lb"
  shows "c4_ctx (connect4 services backends rnd ctx) = balance lb rnd ctx"
proof (cases "lookup_service services (key_of_ctx ctx)")
  case None
  then have "lb (key_of_ctx ctx) = []"
    using assms by (auto simp: implements_def split: option.splits dest: spec [of _ "key_of_ctx ctx"])
  with None show ?thesis
    by (simp add: connect4_cases balance_def)
next
  case (Some v)
  let ?bs = "lb (key_of_ctx ctx)"
  have bs: "length ?bs = unat (s_count v)"
    "\<And>i. i < length ?bs \<Longrightarrow> \<exists>b. lookup_backend backends (backend_id (s_service_id v) (of_nat (i + 1))) = Some b \<and>
       (b_address b, b_port b) = ?bs ! i"
    using assms Some by (auto simp: implements_def dest: spec [of _ "key_of_ctx ctx"])
  show ?thesis
  proof (cases "s_count v = 0")
    case True
    with Some bs(1) show ?thesis
      by (simp add: connect4_cases balance_def)
  next
    case False
    then have "unat rnd mod length ?bs < length ?bs"
      by (simp add: bs(1) unat_gt_0)
    from bs(2) [OF this] obtain b where
      "lookup_backend backends (backend_id (s_service_id v) (pick_index rnd (s_count v))) = Some b"
      "?bs ! (unat rnd mod length ?bs) = (b_address b, b_port b)"
      using False by (auto simp: bs(1) pick_index_of_nat)
    then show ?thesis
      using Some False bs(1) by (auto simp: connect4_cases balance_def Let_def unat_eq_0)
  qed
qed

theorem connect4_refines_balance_witness:
  "implements demo_services demo_backends demo_balancer \<and>
   c4_ctx (connect4 demo_services demo_backends 5 demo_ctx) = balance demo_balancer 5 demo_ctx \<and>
   balance demo_balancer 5 demo_ctx = demo_ctx\<lparr>user_ip4 := 0x0300000A, user_port := 0x901F\<rparr>"
proof -
  have "implements demo_services demo_backends demo_balancer"
    by (auto simp: implements_def lookup_service_def lookup_backend_def demo_services_def demo_backends_def
        demo_balancer_def backend_id_inject less_Suc_eq)
  moreover have "balance demo_balancer 5 demo_ctx = demo_ctx\<lparr>user_ip4 := 0x0300000A, user_port := 0x901F\<rparr>"
    by (simp add: balance_def demo_balancer_def demo_ctx_def key_of_ctx_def demo_key_def SOCK_STREAM_def numeral_2_eq_2 [symmetric])
  ultimately show ?thesis
    using connect4_refines_balance [of demo_services demo_backends demo_balancer 5 demo_ctx] by blast
qed

text \<open>C13. The program always lets the connection proceed, and the context it leaves is either the one
  it was given or that context with the address and port of a backend which the maps hold for the
  destination, under the service's id and an index between 1 and the service's count.\<close>

theorem connect4_allows_and_frames:
  "c4_ret (connect4 services backends rnd ctx) = 1 \<and>
   (c4_ctx (connect4 services backends rnd ctx) = ctx \<or>
    (\<exists>v b i. lookup_service services (key_of_ctx ctx) = Some v \<and> 1 \<le> unat i \<and> unat i \<le> unat (s_count v) \<and>
       lookup_backend backends (backend_id (s_service_id v) i) = Some b \<and>
       c4_ctx (connect4 services backends rnd ctx) = ctx\<lparr>user_ip4 := b_address b, user_port := ucast (b_port b)\<rparr>))"
proof -
  let ?r = "connect4 services backends rnd ctx"
  have range: "1 \<le> unat (pick_index rnd n) \<and> unat (pick_index rnd n) \<le> unat n" if "n \<noteq> 0" for n
    using that by (simp add: pick_index_unat Suc_le_eq unat_gt_0)
  have "\<exists>v b. lookup_service services (key_of_ctx ctx) = Some v \<and> s_count v \<noteq> 0 \<and>
      lookup_backend backends (backend_id (s_service_id v) (pick_index rnd (s_count v))) = Some b \<and>
      c4_ctx ?r = ctx\<lparr>user_ip4 := b_address b, user_port := ucast (b_port b)\<rparr>" if "c4_ctx ?r \<noteq> ctx"
    using that unfolding connect4_cases by (auto split: if_splits option.splits)
  then show ?thesis
    using range connect4_ret by blast
qed

text \<open>C35. The choice is as even as 32 random bits allow: of the 2 ^ 32 random numbers, each of the
  count indices is picked by 2 ^ 32 div count of them, and the first 2 ^ 32 mod count indices by one
  more.\<close>

theorem pick_index_even:
  assumes "1 \<le> unat i" and "unat i \<le> unat count"
  shows "card {rnd. pick_index rnd count = i} =
    2 ^ 32 div unat count + (if unat i \<le> 2 ^ 32 mod unat count then 1 else 0)"
proof -
  have count: "count \<noteq> 0"
    using assms by auto
  obtain j where j: "unat i = Suc j"
    using assms(1) by (cases "unat i") simp_all
  have "pick_index rnd count = i \<longleftrightarrow> unat rnd mod unat count = j" for rnd
  proof -
    have "pick_index rnd count = i \<longleftrightarrow> unat (pick_index rnd count) = unat i"
      using unsigned_word_eqI by blast
    then show ?thesis
      by (simp only: pick_index_unat [OF count] j) simp
  qed
  moreover have "j < unat count"
    using assms(2) j by simp
  ultimately show ?thesis
    using card_word_mod_eq [of j "unat count"] by (simp only: j Suc_le_eq)
qed

theorem pick_index_even_witness:
  "1 \<le> unat (2 :: u16) \<and> unat (2 :: u16) \<le> unat (3 :: u16) \<and> card {rnd. pick_index rnd 3 = 2} = 1431655765"
  using pick_index_even [of 2 3] by simp

text \<open>A backend id carries its two halves: the service's id in the upper 16 bits, the index in the
  lower ones, so that different services or indices never share an id.\<close>

theorem backend_id_halves:
  "ucast (drop_bit 16 (backend_id sid i)) = sid \<and> ucast (backend_id sid i) = i \<and>
   (backend_id sid i = backend_id sid' i' \<longleftrightarrow> sid = sid' \<and> i = i')"
  by (simp add: backend_id_high backend_id_low backend_id_inject)

end
