(* ===== verification/Kernel_Layout.thy ===== *)
theory Kernel_Layout
  imports Kernel_Net Connect4
begin

text \<open>
  What the layouts of the kernel's structures guarantee. No layout rests on an unknown type. In the bytes of its context \<^verbatim>\<open>connect4\<close> writes nothing but the
  destination, which fits the socket address of the kernel. The socket types that the \<^verbatim>\<open>bpf_skc_to_*\<close>
  helpers convert between begin with the same header; the protocol headers and the instruction format
  have no padding, so their members are at the bits of the wire format; the types that helper prototypes
  point to are the ones their header declares.
\<close>

section \<open>Definitions\<close>

text \<open>Name, bit position and width of each direct member.\<close>

definition bit_map :: "ctype \<Rightarrow> (string \<times> nat \<times> nat) list" where
  "bit_map t = map (\<lambda>(p, f). (field_name f, p, field_bits vmlinux_typedefs f)) (members vmlinux_typedefs t)"

text \<open>Each member starts where the one before ends, and the last one ends the struct.\<close>

fun adjacent :: "nat \<Rightarrow> (string \<times> nat \<times> nat) list \<Rightarrow> nat \<Rightarrow> bool" where
  "adjacent pos [] end_pos \<longleftrightarrow> pos = end_pos"
| "adjacent pos ((n, p, w) # ms) end_pos \<longleftrightarrow> p = pos \<and> adjacent (p + w) ms end_pos"

definition unpadded :: "ctype \<Rightarrow> bool" where
  "unpadded t \<longleftrightarrow> adjacent 0 (bit_map t) (8 * sizeof vmlinux_typedefs t)"

text \<open>
  The socket types that \<^verbatim>\<open>vmlinux.h\<close> defines, in its order: every struct of the header that embeds the
  common socket header, directly or through another socket type, with the members that lead to it.
\<close>

definition socket_types :: "(ctype \<times> string list) list" where
  "socket_types = [
    (struct_sock, [''__sk_common'']),
    (struct_request_sock, [''__req_common'']),
    (struct_xdp_sock, [''sk'', ''__sk_common'']),
    (struct_unix_sock, [''sk'', ''__sk_common'']),
    (struct_inet_sock, [''sk'', ''__sk_common'']),
    (struct_inet_connection_sock, [''icsk_inet'', ''sk'', ''__sk_common'']),
    (struct_tcp_sock, [''inet_conn'', ''icsk_inet'', ''sk'', ''__sk_common'']),
    (struct_inet_request_sock, [''req'', ''__req_common'']),
    (struct_tcp_request_sock, [''req'', ''req'', ''__req_common'']),
    (struct_netlink_sock, [''sk'', ''__sk_common'']),
    (struct_inet_timewait_sock, [''__tw_common'']),
    (struct_tcp_timewait_sock, [''tw_sk'', ''__tw_common'']),
    (struct_raw_sock, [''inet'', ''sk'', ''__sk_common'']),
    (struct_udp_sock, [''inet'', ''sk'', ''__sk_common'']),
    (struct_raw6_sock, [''inet'', ''sk'', ''__sk_common'']),
    (struct_packet_sock, [''sk'', ''__sk_common''])]"

text \<open>The bytes of the context that the program is given, member after member, with the padding that
  aligns the pointer at the end.\<close>

definition sock_addr_bytes :: "u8 list \<Rightarrow> bpf_sock_addr \<Rightarrow> u8 list" where
  "sock_addr_bytes pad ctx =
     le32 (user_family ctx) @ le32 (user_ip4 ctx) @ concat (map le32 (user_ip6 ctx)) @
     le32 (user_port ctx) @ le32 (sa_family ctx) @ le32 (sa_type ctx) @ le32 (protocol ctx) @
     le32 (msg_src_ip4 ctx) @ concat (map le32 (msg_src_ip6 ctx)) @ pad @ le64 (sa_sk ctx)"

definition in_member :: "ctype \<Rightarrow> string \<Rightarrow> nat \<Rightarrow> bool" where
  "in_member t m i \<longleftrightarrow>
     (case offset_in vmlinux_typedefs m t of
        Some (off, u) \<Rightarrow> off \<le> i \<and> i < off + sizeof vmlinux_typedefs u
      | None \<Rightarrow> False)"

text \<open>All structs and unions of the dump that are modelled.\<close>

definition kernel_structs :: "(string \<times> ctype) list" where
  "kernel_structs = uapi_structs @ core_structs @ net_structs"

text \<open>The forward declarations at the top of \<^verbatim>\<open>bpf_helper_defs.h\<close>, and the tags that a prototype names.\<close>

definition forward_declared :: "string list" where
  "forward_declared =
    [''bpf_fib_lookup'', ''bpf_sk_lookup'', ''bpf_perf_event_data'', ''bpf_perf_event_value'',
     ''bpf_pidns_info'', ''bpf_redir_neigh'', ''bpf_sock'', ''bpf_sock_addr'', ''bpf_sock_ops'',
     ''bpf_sock_tuple'', ''bpf_spin_lock'', ''bpf_sysctl'', ''bpf_tcp_sock'',
     ''bpf_tunnel_key'', ''bpf_xfrm_state'', ''linux_binprm'', ''pt_regs'', ''sk_reuseport_md'',
     ''sockaddr'', ''tcphdr'', ''seq_file'', ''tcp6_sock'', ''tcp_sock'', ''tcp_timewait_sock'',
     ''tcp_request_sock'', ''udp6_sock'', ''unix_sock'', ''task_struct'', ''__sk_buff'',
     ''sk_msg_md'', ''xdp_md'', ''path'', ''btf_ptr'', ''inode'', ''socket'', ''file'',
     ''bpf_timer'']"

fun tags_of :: "ctype \<Rightarrow> string list" where
  "tags_of (CTag n) = [n]"
| "tags_of (CConst t) = tags_of t"
| "tags_of (CVolatile t) = tags_of t"
| "tags_of (CPtr t) = tags_of t"
| "tags_of _ = []"

definition helper_tags :: "helper_decl \<Rightarrow> string list" where
  "helper_tags d = tags_of (hd_ret d) @ concat (map (\<lambda>(n, t). tags_of t) (hd_params d))"

definition prototype_tags :: "string list" where
  "prototype_tags = concat (map helper_tags helper_table)"

section \<open>Evaluation\<close>

lemma place_struct_Cons:
  "place_struct ds pos (f # fs) =
     (field_start ds pos f, f) # place_struct ds (field_start ds pos f + field_bits ds f) fs"
  by (simp add: Let_def)

lemmas place_simps = bit_map_def place_struct_Cons layout_simps

lemma bit_map_iphdr [layout_simps]:
  "bit_map struct_iphdr =
     [(''ihl'', 0, 4), (''version'', 4, 4), (''tos'', 8, 8), (''tot_len'', 16, 16),
      (''id'', 32, 16), (''frag_off'', 48, 16), (''ttl'', 64, 8), (''protocol'', 72, 8),
      (''check'', 80, 16), (''saddr'', 96, 32), (''daddr'', 128, 32)]"
  by (simp add: place_simps struct_iphdr_def del: place_struct.simps(2) One_nat_def)

lemma bit_map_ipv6hdr [layout_simps]:
  "bit_map struct_ipv6hdr =
     [(''priority'', 0, 4), (''version'', 4, 4), (''flow_lbl'', 8, 24),
      (''payload_len'', 32, 16), (''nexthdr'', 48, 8), (''hop_limit'', 56, 8),
      (''saddr'', 64, 128), (''daddr'', 192, 128)]"
  by (simp add: place_simps struct_ipv6hdr_def del: place_struct.simps(2) One_nat_def)

lemma bit_map_udphdr [layout_simps]:
  "bit_map struct_udphdr =
     [(''source'', 0, 16), (''dest'', 16, 16), (''len'', 32, 16), (''check'', 48, 16)]"
  by (simp add: place_simps struct_udphdr_def del: place_struct.simps(2) One_nat_def)

lemma bit_map_tcphdr [layout_simps]:
  "bit_map struct_tcphdr =
     [(''source'', 0, 16), (''dest'', 16, 16), (''seq'', 32, 32), (''ack_seq'', 64, 32),
      (''res1'', 96, 4), (''doff'', 100, 4), (''fin'', 104, 1), (''syn'', 105, 1),
      (''rst'', 106, 1), (''psh'', 107, 1), (''ack'', 108, 1), (''urg'', 109, 1),
      (''ece'', 110, 1), (''cwr'', 111, 1), (''window'', 112, 16), (''check'', 128, 16),
      (''urg_ptr'', 144, 16)]"
  by (simp add: place_simps struct_tcphdr_def del: place_struct.simps(2) One_nat_def)

lemma bit_map_bpf_insn [layout_simps]:
  "bit_map struct_bpf_insn =
     [(''code'', 0, 8), (''dst_reg'', 8, 4), (''src_reg'', 12, 4), (''off'', 16, 16),
      (''imm'', 32, 32)]"
  by (simp add: place_simps struct_bpf_insn_def del: place_struct.simps(2) One_nat_def)

lemma socket_headers:
  "list_all (\<lambda>(t, path). member_path vmlinux_typedefs path t = Some (0, struct_sock_common)) socket_types"
  by (simp add: socket_types_def layout_simps
      struct_sock_def struct_request_sock_def struct_xdp_sock_def struct_unix_sock_def
      struct_inet_sock_def struct_inet_connection_sock_def struct_tcp_sock_def
      struct_inet_request_sock_def struct_tcp_request_sock_def struct_netlink_sock_def
      struct_inet_timewait_sock_def struct_tcp_timewait_sock_def struct_raw_sock_def
      struct_udp_sock_def struct_raw6_sock_def struct_packet_sock_def)

lemma member_path_header:
  "member_path ds path t = Some (0, u) \<Longrightarrow> member_path ds (path @ ms) t = member_path ds ms u"
  by (simp add: member_path_append option.map_ident split_def)

lemmas kernel_structs_defs = kernel_structs_def uapi_structs_def core_structs_def net_structs_def

lemma kernel_structs_complete: "list_all (\<lambda>(tag, t). complete_type vmlinux_typedefs t) kernel_structs"
  by (simp add: kernel_structs_defs layout_simps struct_pt_regs_def union_bpf_attr_def
      struct_bpf_cgroup_storage_key_def
      struct_bpf_map_info_def struct_bpf_btf_info_def struct_bpf_spin_lock_def struct_bpf_sock_def
      struct___sk_buff_def struct_bpf_cgroup_dev_ctx_def struct_bpf_sysctl_def
      struct_bpf_tunnel_key_def struct_bpf_xfrm_state_def struct_bpf_tcp_sock_def
      struct_bpf_sock_tuple_def struct_sk_msg_md_def struct_sk_reuseport_md_def
      struct_bpf_sock_addr_def struct_bpf_sock_ops_def struct_bpf_fib_lookup_def
      struct_bpf_redir_neigh_def)

lemma prototype_tags_eq: "prototype_tags =
    [''__sk_buff'', ''__sk_buff'', ''__sk_buff'', ''__sk_buff'', ''__sk_buff'', ''__sk_buff'',
     ''__sk_buff'', ''__sk_buff'', ''bpf_tunnel_key'', ''__sk_buff'', ''bpf_tunnel_key'',
     ''__sk_buff'', ''__sk_buff'', ''__sk_buff'', ''__sk_buff'', ''__sk_buff'', ''__sk_buff'',
     ''__sk_buff'', ''__sk_buff'', ''__sk_buff'', ''__sk_buff'', ''__sk_buff'', ''__sk_buff'',
     ''xdp_md'', ''__sk_buff'', ''__sk_buff'', ''__sk_buff'', ''__sk_buff'', ''bpf_sock_ops'',
     ''xdp_md'', ''bpf_perf_event_value'', ''bpf_perf_event_data'', ''bpf_perf_event_value'',
     ''pt_regs'', ''bpf_sock_ops'', ''sk_msg_md'', ''sk_msg_md'', ''sk_msg_md'', ''sk_msg_md'',
     ''bpf_sock_addr'', ''sockaddr'', ''xdp_md'', ''__sk_buff'', ''bpf_xfrm_state'',
     ''bpf_fib_lookup'', ''bpf_sock_ops'', ''sk_msg_md'', ''__sk_buff'', ''__sk_buff'',
     ''__sk_buff'', ''__sk_buff'', ''__sk_buff'', ''__sk_buff'', ''sk_reuseport_md'',
     ''__sk_buff'', ''bpf_sock'', ''bpf_sock_tuple'', ''bpf_sock'', ''bpf_sock_tuple'',
     ''sk_msg_md'', ''sk_msg_md'', ''bpf_spin_lock'', ''bpf_spin_lock'', ''bpf_sock'',
     ''bpf_sock'', ''bpf_tcp_sock'', ''bpf_sock'', ''__sk_buff'', ''bpf_sock'', ''bpf_sock'',
     ''bpf_sock'', ''bpf_sock_tuple'', ''tcphdr'', ''bpf_sysctl'', ''bpf_sysctl'',
     ''bpf_sysctl'', ''bpf_sysctl'', ''tcphdr'', ''bpf_perf_event_data'', ''bpf_pidns_info'',
     ''seq_file'', ''seq_file'', ''__sk_buff'', ''tcp6_sock'', ''tcp_sock'',
     ''tcp_timewait_sock'', ''tcp_request_sock'', ''udp6_sock'', ''task_struct'',
     ''bpf_sock_ops'', ''bpf_sock_ops'', ''bpf_sock_ops'', ''path'', ''btf_ptr'', ''seq_file'',
     ''btf_ptr'', ''__sk_buff'', ''bpf_redir_neigh'', ''task_struct'', ''task_struct'',
     ''task_struct'', ''linux_binprm'', ''inode'', ''socket'', ''file'', ''bpf_timer'',
     ''bpf_timer'', ''bpf_timer'', ''bpf_timer'', ''task_struct'', ''unix_sock'',
     ''task_struct'']"
  by (simp add: prototype_tags_def helper_table_def helper_tags_def decl_simps)

lemma prototype_tags_declared: "list_all (\<lambda>n. n \<in> set forward_declared) prototype_tags"
  unfolding prototype_tags_eq forward_declared_def by code_simp

lemma declared_tags_unused:
  "filter (\<lambda>n. n \<notin> set prototype_tags) forward_declared = [''bpf_sk_lookup'']"
  unfolding prototype_tags_eq forward_declared_def by code_simp

lemma connect4_ctx_update:
  "\<exists>ip port. c4_ctx (connect4 services backends rnd ctx) = ctx\<lparr>user_ip4 := ip, user_port := port\<rparr>"
proof -
  have "\<exists>ip port. ctx = ctx\<lparr>user_ip4 := ip, user_port := port\<rparr>"
    by (metis bpf_sock_addr.surjective bpf_sock_addr.update_convs(2) bpf_sock_addr.update_convs(4))
  then show ?thesis
    unfolding connect4_cases by (auto split: option.split)
qed

lemma length_le [simp]: "length (le32 w) = 4" "length (le64 v) = 8"
  by (simp_all add: le32_def le64_def)

lemma length_concat_le32: "length (concat (map le32 ws)) = 4 * length ws"
  by (induction ws) simp_all

lemma length_sock_addr_bytes:
  "length (user_ip6 ctx) = 4 \<Longrightarrow> length (msg_src_ip6 ctx) = 4 \<Longrightarrow> length pad = 4 \<Longrightarrow>
     length (sock_addr_bytes pad ctx) = 72"
  by (simp add: sock_addr_bytes_def length_concat_le32)

lemma sock_addr_bytes_update:
  assumes "length (user_ip6 ctx) = 4" and "i < 4 \<or> 8 \<le> i" and "i < 24 \<or> 28 \<le> i"
  shows "sock_addr_bytes pad (ctx\<lparr>user_ip4 := ip, user_port := port\<rparr>) ! i = sock_addr_bytes pad ctx ! i"
proof -
  have "length (concat (map le32 (user_ip6 ctx))) = 16"
    using assms(1) by (simp add: length_concat_le32)
  then show ?thesis
    using assms(2,3) by (auto simp: sock_addr_bytes_def nth_append)
qed

section \<open>Properties\<close>

text \<open>C14. In memory, the program writes nothing but the two words of the destination: the context is
  the struct \<^verbatim>\<open>bpf_sock_addr\<close> of \<^verbatim>\<open>vmlinux.h\<close>, byte by byte, and every byte that differs after a run lies
  inside the member \<^verbatim>\<open>user_ip4\<close> or \<^verbatim>\<open>user_port\<close> at the offset the header gives it.\<close>

theorem connect4_writes_destination_only:
  assumes "length (user_ip6 ctx) = 4" and "length (msg_src_ip6 ctx) = 4" and "length pad = 4"
  shows "length (sock_addr_bytes pad ctx) = sizeof vmlinux_typedefs struct_bpf_sock_addr \<and>
    length (sock_addr_bytes pad (c4_ctx (connect4 services backends rnd ctx))) = length (sock_addr_bytes pad ctx) \<and>
    (\<forall>i. sock_addr_bytes pad (c4_ctx (connect4 services backends rnd ctx)) ! i \<noteq> sock_addr_bytes pad ctx ! i \<longrightarrow>
       in_member struct_bpf_sock_addr ''user_ip4'' i \<or> in_member struct_bpf_sock_addr ''user_port'' i)"
proof -
  obtain ip port where run:
    "c4_ctx (connect4 services backends rnd ctx) = ctx\<lparr>user_ip4 := ip, user_port := port\<rparr>"
    using connect4_ctx_update by blast
  have members: "in_member struct_bpf_sock_addr ''user_ip4'' i \<longleftrightarrow> 4 \<le> i \<and> i < 8"
    "in_member struct_bpf_sock_addr ''user_port'' i \<longleftrightarrow> 24 \<le> i \<and> i < 28" for i
    by (simp_all add: in_member_def struct_bpf_sock_addr_def layout_simps)
  have "sizeof vmlinux_typedefs struct_bpf_sock_addr = 72"
    by (simp add: struct_bpf_sock_addr_def layout_simps)
  moreover have "length (sock_addr_bytes pad (ctx\<lparr>user_ip4 := ip, user_port := port\<rparr>)) = 72"
    using assms by (intro length_sock_addr_bytes) simp_all
  moreover have "sock_addr_bytes pad (ctx\<lparr>user_ip4 := ip, user_port := port\<rparr>) ! i = sock_addr_bytes pad ctx ! i"
    if "\<not> (4 \<le> i \<and> i < 8)" "\<not> (24 \<le> i \<and> i < 28)" for i
    using that assms(1) by (intro sock_addr_bytes_update) auto
  ultimately show ?thesis
    unfolding run members using assms length_sock_addr_bytes by auto
qed

theorem connect4_writes_destination_only_witness:
  "sock_addr_bytes [0, 0, 0, 0] (c4_ctx (connect4 demo_services demo_backends 5 demo_ctx)) ! 0 = 2 \<and>
   sock_addr_bytes [0, 0, 0, 0] (c4_ctx (connect4 demo_services demo_backends 5 demo_ctx)) ! 36 = 6"
proof -
  have "\<not> in_member struct_bpf_sock_addr ''user_ip4'' i \<and> \<not> in_member struct_bpf_sock_addr ''user_port'' i"
    if "i \<in> {0, 36}" for i
    using that by (auto simp: in_member_def struct_bpf_sock_addr_def layout_simps)
  then have kept: "sock_addr_bytes [0, 0, 0, 0] (c4_ctx (connect4 demo_services demo_backends 5 demo_ctx)) ! i =
      sock_addr_bytes [0, 0, 0, 0] demo_ctx ! i" if "i \<in> {0, 36}" for i
    using connect4_writes_destination_only [of demo_ctx "[0, 0, 0, 0]" demo_services demo_backends 5] that
    by (auto simp: demo_ctx_def)
  have "sock_addr_bytes [0, 0, 0, 0] demo_ctx ! 0 = 2" "sock_addr_bytes [0, 0, 0, 0] demo_ctx ! 36 = 6"
    by (simp_all add: sock_addr_bytes_def demo_ctx_def le32_def)
  then show ?thesis
    using kept [of 0] kept [of 36] by simp
qed

text \<open>C33. Each of the sixteen socket types that vmlinux.h defines begins with the common socket header:
  whatever member of the header a program names, it is found at the same offset and with the same type
  in all of them. After a helper has converted a pointer from one socket type to another, the header can
  be read through either type.\<close>

theorem socket_types_share_header:
  "list_all (\<lambda>(t, path). \<forall>ms. member_path vmlinux_typedefs (path @ ms) t =
      member_path vmlinux_typedefs ms struct_sock_common) socket_types"
  using socket_headers by (auto simp: list_all_iff member_path_header)

text \<open>The destination that \<^verbatim>\<open>connect4\<close> writes fits the address the kernel connects to. An IPv4 socket
  address has the size of a generic one, its port is the two bytes at offset 2 and its address the
  four bytes at offset 4. The port the program leaves in the 32-bit context field is the one it was
  given or a number that the two bytes of the kernel's port hold without loss.\<close>

theorem rewritten_destination_fits_sockaddr:
  "sizeof vmlinux_typedefs struct_sockaddr_in = sizeof vmlinux_typedefs struct_sockaddr \<and>
   member_path vmlinux_typedefs [''sin_port''] struct_sockaddr_in = Some (2, CName ''__be16'') \<and>
   member_path vmlinux_typedefs [''sin_addr'', ''s_addr''] struct_sockaddr_in = Some (4, CName ''__be32'') \<and>
   (let ctx' = c4_ctx (connect4 services backends rnd ctx) in
      user_port ctx' = user_port ctx \<or>
      unat (user_port ctx') < 2 ^ (8 * sizeof vmlinux_typedefs (CName ''__be16'')))"
proof -
  have "unat (ucast p :: 32 word) < 2 ^ 16" for p :: "16 word"
    using unsigned_less [of p, where ?'a = nat]
    by (simp add: unsigned_ucast_eq take_bit_nat_eq_self)
  then have "let ctx' = c4_ctx (connect4 services backends rnd ctx) in
      user_port ctx' = user_port ctx \<or>
      unat (user_port ctx') < 2 ^ (8 * sizeof vmlinux_typedefs (CName ''__be16''))"
    by (simp add: connect4_cases layout_simps Let_def split: option.split)
  then show ?thesis
    by (simp add: layout_simps struct_sockaddr_in_def struct_in_addr_def)
qed

text \<open>The protocol headers and the instruction format of the kernel have no padding: each member
  starts at the bit where the one before ends and the last ends the struct, so the members lie at the
  bits of the wire format. The flags of a TCP segment are the eight bits of its byte 13, and an
  instruction is eight bytes with the two register numbers in its second.\<close>

theorem wire_formats_unpadded:
  "map (\<lambda>t. (unpadded t, sizeof vmlinux_typedefs t))
     [struct_iphdr, struct_ipv6hdr, struct_udphdr, struct_tcphdr, struct_bpf_insn] =
   [(True, 20), (True, 40), (True, 8), (True, 20), (True, 8)] \<and>
   map fst (filter (\<lambda>(n, p, w). p div 8 = 13 \<and> w = 1) (bit_map struct_tcphdr)) =
     [''fin'', ''syn'', ''rst'', ''psh'', ''ack'', ''urg'', ''ece'', ''cwr''] \<and>
   map fst (filter (\<lambda>(n, p, w). p div 8 = 1) (bit_map struct_bpf_insn)) = [''dst_reg'', ''src_reg'']"
  by (simp add: unpadded_def layout_simps)

text \<open>The prototypes of the helpers name exactly the types declared at the top of their header, but for
  \<^verbatim>\<open>bpf_sk_lookup\<close>, which no prototype takes.\<close>

theorem helper_types_declared:
  "list_all (\<lambda>n. n \<in> set forward_declared) prototype_tags \<and>
   filter (\<lambda>n. n \<notin> set prototype_tags) forward_declared = [''bpf_sk_lookup'']"
  using prototype_tags_declared declared_tags_unused by blast

end
