(* ===== verification/Bpf_Map.thy ===== *)
theory Bpf_Map
  imports Lb_Types
begin

text \<open>
  The maps the control plane writes and the program reads. The map itself belongs to the kernel and to
  \<^verbatim>\<open>github.com/cilium/ebpf\<close>; its operations are a parameter, a record of the three calls the code makes,
  and the locale \<^verbatim>\<open>ebpf_map\<close> states what the code relies on: \<^verbatim>\<open>Update\<close> with \<^verbatim>\<open>UpdateAny\<close> inserts or
  replaces and fails only for want of room, \<^verbatim>\<open>Delete\<close> of a missing key is \<^verbatim>\<open>ErrKeyNotExist\<close>. A bounded
  association list is an instance. The wrapper types of \<^verbatim>\<open>src/pkg/bpf/map.go\<close> follow.
\<close>

section \<open>Map operations\<close>

datatype map_error = ErrKeyNotExist | ErrMapFull

record 'm map_ops =
  op_lookup :: "'m \<Rightarrow> u8 list \<Rightarrow> u8 list option"
  op_update :: "'m \<Rightarrow> u8 list \<Rightarrow> u8 list \<Rightarrow> map_error option \<times> 'm"
  op_delete :: "'m \<Rightarrow> u8 list \<Rightarrow> map_error option \<times> 'm"

locale ebpf_map =
  fixes ops :: "'m map_ops"
    and cap :: nat
    and ok :: "'m \<Rightarrow> bool"
  assumes finite_lookup: "ok m \<Longrightarrow> finite (dom (op_lookup ops m))"
    and update_ok: "ok m \<Longrightarrow> ok (snd (op_update ops m k v))"
    and delete_ok: "ok m \<Longrightarrow> ok (snd (op_delete ops m k))"
    and update_stores: "ok m \<Longrightarrow> fst (op_update ops m k v) = None \<Longrightarrow>
      op_lookup ops (snd (op_update ops m k v)) = (op_lookup ops m)(k \<mapsto> v)"
    and update_fails: "ok m \<Longrightarrow> fst (op_update ops m k v) \<noteq> None \<Longrightarrow>
      op_lookup ops (snd (op_update ops m k v)) = op_lookup ops m"
    and update_room: "ok m \<Longrightarrow> op_lookup ops m k \<noteq> None \<or> card (dom (op_lookup ops m)) < cap \<Longrightarrow>
      fst (op_update ops m k v) = None"
    and update_full: "ok m \<Longrightarrow> op_lookup ops m k = None \<Longrightarrow> cap \<le> card (dom (op_lookup ops m)) \<Longrightarrow>
      fst (op_update ops m k v) = Some ErrMapFull"
    and delete_present: "ok m \<Longrightarrow> op_lookup ops m k \<noteq> None \<Longrightarrow> fst (op_delete ops m k) = None"
    and delete_missing: "ok m \<Longrightarrow> op_lookup ops m k = None \<Longrightarrow>
      fst (op_delete ops m k) = Some ErrKeyNotExist"
    and delete_removes: "ok m \<Longrightarrow> op_lookup ops (snd (op_delete ops m k)) = (op_lookup ops m)(k := None)"
begin

text \<open>Writing a run of entries: with room for all of them every write succeeds and the map holds the
  writes, the later over the earlier.\<close>

primrec update_all :: "'m \<Rightarrow> (u8 list \<times> u8 list) list \<Rightarrow> 'm" where
  "update_all m [] = m"
| "update_all m (e # es) = update_all (snd (op_update ops m (fst e) (snd e))) es"

lemma card_dom_update:
  assumes "finite (dom f)"
  shows "card (dom (f(k \<mapsto> v))) \<le> Suc (card (dom f))"
  using assms by (simp add: card_insert_if)

lemma update_fits:
  assumes "ok m" and "card (dom (op_lookup ops m)) + n < cap"
  shows "fst (op_update ops m k v) = None \<and>
    op_lookup ops (snd (op_update ops m k v)) = (op_lookup ops m)(k \<mapsto> v) \<and>
    card (dom (op_lookup ops (snd (op_update ops m k v)))) + n \<le> cap"
proof -
  have none: "fst (op_update ops m k v) = None"
    using assms by (intro update_room) auto
  with assms(1) have "op_lookup ops (snd (op_update ops m k v)) = (op_lookup ops m)(k \<mapsto> v)"
    by (rule update_stores)
  with none show ?thesis
    using card_dom_update [OF finite_lookup [OF assms(1)], of k v] assms(2) by simp
qed

lemma update_all_holds:
  assumes "ok m" and "card (dom (op_lookup ops m)) + length es \<le> cap"
  shows "ok (update_all m es) \<and> op_lookup ops (update_all m es) = op_lookup ops m ++ map_of (rev es)"
  using assms
proof (induction es arbitrary: m)
  case (Cons e es)
  let ?m = "snd (op_update ops m (fst e) (snd e))"
  have fits: "op_lookup ops ?m = (op_lookup ops m)(fst e \<mapsto> snd e)"
    "card (dom (op_lookup ops ?m)) + length es \<le> cap"
    using update_fits [of m "length es" "fst e" "snd e"] Cons.prems by auto
  have "ok (update_all ?m es) \<and> op_lookup ops (update_all ?m es) = op_lookup ops ?m ++ map_of (rev es)"
    using Cons.IH [OF update_ok [OF Cons.prems(1)]] fits(2) by blast
  then show ?case
    using fits(1) by (simp add: map_add_assoc)
qed simp

end

section \<open>A bounded hash map\<close>

text \<open>\<^verbatim>\<open>BPF_MAP_TYPE_HASH\<close> with \<^verbatim>\<open>max_entries\<close> as a duplicate-free list of entries.\<close>

type_synonym hash_map = "(u8 list \<times> u8 list) list"

definition hash_update :: "nat \<Rightarrow> hash_map \<Rightarrow> u8 list \<Rightarrow> u8 list \<Rightarrow> map_error option \<times> hash_map" where
  "hash_update n m k v =
     (if map_of m k = None \<and> n \<le> length m then (Some ErrMapFull, m)
      else (None, (k, v) # filter (\<lambda>e. fst e \<noteq> k) m))"

definition hash_delete :: "hash_map \<Rightarrow> u8 list \<Rightarrow> map_error option \<times> hash_map" where
  "hash_delete m k =
     (if map_of m k = None then (Some ErrKeyNotExist, m) else (None, filter (\<lambda>e. fst e \<noteq> k) m))"

definition hash_ops :: "nat \<Rightarrow> hash_map map_ops" where
  "hash_ops n = \<lparr>op_lookup = map_of, op_update = hash_update n, op_delete = hash_delete\<rparr>"

definition hash_ok :: "hash_map \<Rightarrow> bool" where
  "hash_ok m \<longleftrightarrow> distinct (map fst m)"

section \<open>Wrappers of map.go\<close>

record 'm map_Service =
  ipv6 :: bool
  service_map :: "'m option"

definition IsIpv6 :: "'m map_Service \<Rightarrow> bool" where
  "IsIpv6 s = ipv6 s"

definition Service4Value_of_bytes :: "u8 list \<Rightarrow> Service4Value option" where
  "Service4Value_of_bytes bs =
     map_option (\<lambda>s. \<lparr>ServiceID = s_service_id s, Count = s_count s\<rparr>) (lb4_service_of_bytes bs)"

text \<open>The error of the lookup is dropped: a missing key reads as the zero value. A method of a nil
  map panics.\<close>

definition nil_map :: string where
  "nil_map = ''invalid memory address or nil pointer dereference''"

definition LookUpElemSerivceMap ::
  "'m map_ops \<Rightarrow> Service4Key \<Rightarrow> 'm map_Service \<Rightarrow> (Service4Value, 'm map_Service) go_result" where
  "LookUpElemSerivceMap ops key s =
     (case service_map s of
        None \<Rightarrow> Panics nil_map s
      | Some m \<Rightarrow>
          Returns (case Option.bind (op_lookup ops m (Service4Key_bytes key)) Service4Value_of_bytes of
              Some v \<Rightarrow> v
            | None \<Rightarrow> \<lparr>ServiceID = 0, Count = 0\<rparr>) s)"

definition DeleteElemSerivceMap ::
  "'m map_ops \<Rightarrow> Service4Key \<Rightarrow> 'm map_Service \<Rightarrow> (map_error option, 'm map_Service) go_result" where
  "DeleteElemSerivceMap ops key s =
     (case service_map s of
        None \<Rightarrow> Panics nil_map s
      | Some m \<Rightarrow>
          (let (err, m') = op_delete ops m (Service4Key_bytes key)
           in Returns err (s\<lparr>service_map := Some m'\<rparr>)))"

definition UpdateElemSerivceMap ::
  "'m map_ops \<Rightarrow> Service4Key \<Rightarrow> Service4Value \<Rightarrow> 'm map_Service \<Rightarrow>
     (map_error option, 'm map_Service) go_result" where
  "UpdateElemSerivceMap ops key value s =
     (case service_map s of
        None \<Rightarrow> Panics nil_map s
      | Some m \<Rightarrow>
          (let (err, m') = op_update ops m (Service4Key_bytes key) (Service4Value_bytes value)
           in Returns err (s\<lparr>service_map := Some m'\<rparr>)))"

text \<open>The endpoint wrapper answers nil and leaves its map alone.\<close>

record 'm map_Endpoint =
  ep_ipv6 :: bool
  endpoint_map :: "'m option"

definition LookUpElemEndpointMap ::
  "Endpoint4Key \<Rightarrow> 'm map_Endpoint \<Rightarrow> (Endpoint4Value option, 'm map_Endpoint) go_result" where
  "LookUpElemEndpointMap key e = Returns None e"

definition DeleteElemEndpointMap ::
  "Endpoint4Key \<Rightarrow> 'm map_Endpoint \<Rightarrow> (map_error option, 'm map_Endpoint) go_result" where
  "DeleteElemEndpointMap key e = Returns None e"

definition UpdateElemEndpointMap ::
  "Endpoint4Key \<Rightarrow> Endpoint4Value \<Rightarrow> 'm map_Endpoint \<Rightarrow> (map_error option, 'm map_Endpoint) go_result" where
  "UpdateElemEndpointMap key value e = Returns None e"

text \<open>
  The empty map has no contents; its methods write an error to the log and answer nil. The messages are
  the same for both interfaces it implements.
\<close>

type_synonym error_log = "string list"

definition emptyMap_LookUpElemSerivceMap :: "Service4Key \<Rightarrow> error_log \<Rightarrow> (Service4Value option, error_log) go_result" where
  "emptyMap_LookUpElemSerivceMap key log = Returns None (log @ [''EndpointMap looks up empty map''])"

definition emptyMap_DeleteElemSerivceMap :: "Service4Key \<Rightarrow> error_log \<Rightarrow> (map_error option, error_log) go_result" where
  "emptyMap_DeleteElemSerivceMap key log = Returns None (log @ [''EndpointMap deletes empty map''])"

definition emptyMap_UpdateElemSerivceMap :: "Service4Key \<Rightarrow> Service4Value \<Rightarrow> error_log \<Rightarrow> (map_error option, error_log) go_result" where
  "emptyMap_UpdateElemSerivceMap key value log = Returns None (log @ [''EndpointMap updates empty map''])"

definition emptyMap_LookUpElemEndpointMap :: "Endpoint4Key \<Rightarrow> error_log \<Rightarrow> (Endpoint4Value option, error_log) go_result" where
  "emptyMap_LookUpElemEndpointMap key log = Returns None (log @ [''EndpointMap looks up empty map''])"

definition emptyMap_DeleteElemEndpointMap :: "Endpoint4Key \<Rightarrow> error_log \<Rightarrow> (map_error option, error_log) go_result" where
  "emptyMap_DeleteElemEndpointMap key log = Returns None (log @ [''EndpointMap deletes empty map''])"

definition emptyMap_UpdateElemEndpointMap :: "Endpoint4Key \<Rightarrow> Endpoint4Value \<Rightarrow> error_log \<Rightarrow> (map_error option, error_log) go_result" where
  "emptyMap_UpdateElemEndpointMap key value log = Returns None (log @ [''EndpointMap updates empty map''])"

section \<open>Lemmas\<close>

lemma map_of_filter_neq: "map_of (filter (\<lambda>e. fst e \<noteq> k) m) = (map_of m)(k := None)"
  by (induction m) (auto simp: fun_eq_iff)

lemma card_dom_distinct: "distinct (map fst m) \<Longrightarrow> card (dom (map_of m)) = length m"
  by (metis distinct_card dom_map_of_conv_image_fst length_map list.set_map)

lemma hash_filter_ok: "hash_ok m \<Longrightarrow> hash_ok (filter P m)"
  by (auto simp: hash_ok_def distinct_map_filter)

interpretation hm: ebpf_map "hash_ops n" n hash_ok for n
proof unfold_locales
  fix m k v
  assume m: "hash_ok m"
  show "finite (dom (op_lookup (hash_ops n) m))"
    by (simp add: hash_ops_def finite_dom_map_of)
  show "hash_ok (snd (op_update (hash_ops n) m k v))"
    using m by (auto simp: hash_ops_def hash_update_def hash_ok_def distinct_map_filter)
  show "hash_ok (snd (op_delete (hash_ops n) m k))"
    using m by (auto simp: hash_ops_def hash_delete_def hash_filter_ok)
  show "op_lookup (hash_ops n) (snd (op_update (hash_ops n) m k v)) = (op_lookup (hash_ops n) m)(k \<mapsto> v)"
    if "fst (op_update (hash_ops n) m k v) = None"
    using that by (auto simp: hash_ops_def hash_update_def map_of_filter_neq split: if_splits)
  show "op_lookup (hash_ops n) (snd (op_update (hash_ops n) m k v)) = op_lookup (hash_ops n) m"
    if "fst (op_update (hash_ops n) m k v) \<noteq> None"
    using that by (auto simp: hash_ops_def hash_update_def split: if_splits)
  show "fst (op_update (hash_ops n) m k v) = None"
    if "op_lookup (hash_ops n) m k \<noteq> None \<or> card (dom (op_lookup (hash_ops n) m)) < n"
    using that m by (auto simp: hash_ops_def hash_update_def hash_ok_def card_dom_distinct)
  show "fst (op_update (hash_ops n) m k v) = Some ErrMapFull"
    if "op_lookup (hash_ops n) m k = None" "n \<le> card (dom (op_lookup (hash_ops n) m))"
    using that m by (simp add: hash_ops_def hash_update_def hash_ok_def card_dom_distinct)
  show "fst (op_delete (hash_ops n) m k) = None" if "op_lookup (hash_ops n) m k \<noteq> None"
    using that by (auto simp: hash_ops_def hash_delete_def)
  show "fst (op_delete (hash_ops n) m k) = Some ErrKeyNotExist" if "op_lookup (hash_ops n) m k = None"
    using that by (auto simp: hash_ops_def hash_delete_def)
  show "op_lookup (hash_ops n) (snd (op_delete (hash_ops n) m k)) = (op_lookup (hash_ops n) m)(k := None)"
    by (auto simp: hash_ops_def hash_delete_def map_of_filter_neq)
qed

lemma Service4Value_of_bytes_bytes [simp]: "Service4Value_of_bytes (Service4Value_bytes v) = Some v"
  by (simp add: Service4Value_of_bytes_def Service4Value_bytes_eq)

lemma Service4Key_bytes_inject [simp]: "Service4Key_bytes a = Service4Key_bytes b \<longleftrightarrow> a = b"
  by (cases a; cases b) (simp add: Service4Key_bytes_eq)

section \<open>Properties\<close>

text \<open>A service written through the wrapper is read back by it: on a map that keeps the documented
  contract and has room, the update reports no error, a lookup of its key then returns the value
  written and a lookup of any other key what it returned before.\<close>

theorem UpdateElem_LookUpElem:
  assumes "ebpf_map ops cap ok" and "service_map s = Some m" and "ok m"
    and "card (dom (op_lookup ops m)) < cap"
  shows "\<exists>s'. UpdateElemSerivceMap ops key value s = Returns None s' \<and>
     LookUpElemSerivceMap ops key s' = Returns value s' \<and>
     (\<forall>key2. key2 \<noteq> key \<longrightarrow>
        (\<exists>v. LookUpElemSerivceMap ops key2 s = Returns v s \<and> LookUpElemSerivceMap ops key2 s' = Returns v s'))"
proof -
  obtain m' where m': "op_update ops m (Service4Key_bytes key) (Service4Value_bytes value) = (None, m')"
    "op_lookup ops m' = (op_lookup ops m)(Service4Key_bytes key \<mapsto> Service4Value_bytes value)"
    using ebpf_map.update_fits [OF assms(1,3), of 0] assms(4)
    by (metis add_0_right prod.collapse)
  then show ?thesis
    using assms(2)
    by (intro exI [of _ "s\<lparr>service_map := Some m'\<rparr>"])
      (simp add: UpdateElemSerivceMap_def LookUpElemSerivceMap_def)
qed

theorem UpdateElem_LookUpElem_witness:
  "\<exists>s'. UpdateElemSerivceMap (hash_ops 65536)
       \<lparr>ServiceIP = 1, ServicePort = 2, SK_Proto = 6, SK_Pad = 0\<rparr> \<lparr>ServiceID = 1, Count = 2\<rparr>
       \<lparr>ipv6 = False, service_map = Some []\<rparr> = Returns None s' \<and>
     LookUpElemSerivceMap (hash_ops 65536)
       \<lparr>ServiceIP = 1, ServicePort = 2, SK_Proto = 6, SK_Pad = 0\<rparr> s' = Returns \<lparr>ServiceID = 1, Count = 2\<rparr> s'"
proof -
  have "hash_ok []" and "card (dom (op_lookup (hash_ops 65536) [])) < 65536"
    by (simp_all add: hash_ok_def hash_ops_def)
  then show ?thesis
    using UpdateElem_LookUpElem [OF hm.ebpf_map_axioms, of "\<lparr>ipv6 = False, service_map = Some []\<rparr>" "[]" 65536
        "\<lparr>ServiceIP = 1, ServicePort = 2, SK_Proto = 6, SK_Pad = 0\<rparr>" "\<lparr>ServiceID = 1, Count = 2\<rparr>"]
    by auto
qed

text \<open>The endpoint wrapper and the empty map lose what is written to them: an update reports no error,
  and a lookup of its key afterwards finds nothing. Only the empty map leaves a trace, in the log.\<close>

theorem unsupported_maps_lose_updates:
  "go_bind (UpdateElemEndpointMap ekey evalue e) (\<lambda>err s. LookUpElemEndpointMap ekey s) = Returns None e"
  "go_bind (emptyMap_UpdateElemEndpointMap ekey evalue log) (\<lambda>err s. emptyMap_LookUpElemEndpointMap ekey s) =
     Returns None (log @ [''EndpointMap updates empty map'', ''EndpointMap looks up empty map''])"
  "go_bind (emptyMap_UpdateElemSerivceMap skey svalue log) (\<lambda>err s. emptyMap_LookUpElemSerivceMap skey s) =
     Returns None (log @ [''EndpointMap updates empty map'', ''EndpointMap looks up empty map''])"
  by (simp_all add: UpdateElemEndpointMap_def LookUpElemEndpointMap_def emptyMap_UpdateElemEndpointMap_def
      emptyMap_LookUpElemEndpointMap_def emptyMap_UpdateElemSerivceMap_def emptyMap_LookUpElemSerivceMap_def)

end
