(* ===== verification/Go_Set.thy ===== *)
theory Go_Set
  imports Eproxy_Prelude
begin

text \<open>
  The generic set of \<^verbatim>\<open>src/pkg/utils/set\<close>: the map-backed \<^verbatim>\<open>Typed\<close>, its methods and \<^verbatim>\<open>IterUnion\<close>. A \<^verbatim>\<open>Typed\<close>
  is a Go map and may be nil. Go leaves the order of a \<^verbatim>\<open>range\<close> over a map open, so every method that
  ranges over a set takes the order as an argument, an enumeration of the members without repetition;
  a visitor is a function on the state it captures and does not itself change the set ranged over.
\<close>

section \<open>Typed\<close>

type_synonym 'a Typed = "'a set option"

definition typed_members :: "'a Typed \<Rightarrow> 'a set" where
  "typed_members t = (case t of None \<Rightarrow> {} | Some S \<Rightarrow> S)"

definition enumerates :: "'a list \<Rightarrow> 'a Typed \<Rightarrow> bool" where
  "enumerates order t \<longleftrightarrow> distinct order \<and> set order = typed_members t"

definition New :: "'a Typed" where
  "New = Some {}"

definition Empty :: "'a Typed" where
  "Empty = None"

definition Len :: "'a Typed \<Rightarrow> nat" where
  "Len t = card (typed_members t)"

definition nil_map_write :: string where
  "nil_map_write = ''assignment to entry in nil map''"

definition Add :: "'a \<Rightarrow> 'a Typed \<Rightarrow> (unit, 'a Typed) go_result" where
  "Add item t = (case t of None \<Rightarrow> Panics nil_map_write t | Some S \<Rightarrow> Returns () (Some (insert item S)))"

fun AddAll :: "'a list \<Rightarrow> 'a Typed \<Rightarrow> (unit, 'a Typed) go_result" where
  "AddAll [] t = Returns () t"
| "AddAll (v # vs) t = (case Add v t of Panics p t' \<Rightarrow> Panics p t' | Returns _ t' \<Rightarrow> AddAll vs t')"

definition From :: "'a list \<Rightarrow> (unit, 'a Typed) go_result" where
  "From members = AddAll members New"

definition FromArray :: "'a list \<Rightarrow> (unit, 'a Typed) go_result" where
  "FromArray membersArray = AddAll membersArray New"

definition Discard :: "'a \<Rightarrow> 'a Typed \<Rightarrow> 'a Typed" where
  "Discard item t = map_option (\<lambda>S. S - {item}) t"

definition Clear :: "'a Typed \<Rightarrow> 'a Typed" where
  "Clear t = map_option (\<lambda>S. {}) t"

definition Contains :: "'a Typed \<Rightarrow> 'a \<Rightarrow> bool" where
  "Contains t item \<longleftrightarrow> item \<in> typed_members t"

text \<open>What a visitor answers: nil, one of the two sentinels, or another error.\<close>

datatype visit = Continue | StopIteration | RemoveItem | Failure string

type_synonym ('a, 's) visitor = "'a \<Rightarrow> 's \<Rightarrow> (visit, 's) go_result"

definition unexpected :: string where
  "unexpected = ''Unexpected iteration error''"

fun Iter :: "'a list \<Rightarrow> ('a, 's) visitor \<Rightarrow> 'a Typed \<Rightarrow> 's \<Rightarrow> (unit, 'a Typed \<times> 's) go_result" where
  "Iter [] visitor t s = Returns () (t, s)"
| "Iter (item # rest) visitor t s =
     (case visitor item s of
        Panics p s' \<Rightarrow> Panics p (t, s')
      | Returns err s' \<Rightarrow>
          (case err of
             StopIteration \<Rightarrow> Returns () (t, s')
           | RemoveItem \<Rightarrow> Iter rest visitor (Discard item t) s'
           | Continue \<Rightarrow> Iter rest visitor t s'
           | Failure e \<Rightarrow> Panics unexpected (t, s')))"

definition AddSet :: "'a list \<Rightarrow> 'a Typed \<Rightarrow> 'a Typed \<Rightarrow> (unit, 'a Typed \<times> 'a Typed) go_result" where
  "AddSet order other t =
     Iter order (\<lambda>item t. case Add item t of Panics p t' \<Rightarrow> Panics p t' | Returns _ t' \<Rightarrow> Returns Continue t') other t"

definition Copy :: "'a list \<Rightarrow> 'a Typed \<Rightarrow> (unit, 'a Typed) go_result" where
  "Copy order t = AddAll order New"

definition Slice :: "'a list \<Rightarrow> 'a Typed \<Rightarrow> 'a list" where
  "Slice order t = fold (\<lambda>item s. s @ [item]) order []"

definition Equals :: "'a list \<Rightarrow> 'a Typed \<Rightarrow> 'a Typed \<Rightarrow> bool" where
  "Equals order t other \<longleftrightarrow> Len t = Len other \<and> list_all (Contains other) order"

definition ContainsAll :: "'a list \<Rightarrow> 'a Typed \<Rightarrow> 'a Typed \<Rightarrow> (unit, 'a Typed \<times> bool) go_result" where
  "ContainsAll order other t =
     Iter order (\<lambda>item result. if \<not> Contains t item then Returns StopIteration False
       else Returns Continue result) other True"

definition String :: "('a \<Rightarrow> string) \<Rightarrow> 'a list \<Rightarrow> 'a Typed \<Rightarrow> (unit, 'a Typed \<times> bool \<times> string) go_result" where
  "String fprint order t =
     (case Iter order (\<lambda>item (first, buf). Returns Continue
         (if \<not> first then (first, (buf @ '','') @ fprint item) else (False, buf @ fprint item)))
       t (True, ''set.Set{'') of
        Panics p s \<Rightarrow> Panics p s
      | Returns _ (t', first, buf) \<Rightarrow> Returns () (t', first, buf @ ''}''))"

section \<open>IterUnion\<close>

text \<open>A set of the slice together with the order in which a range over it runs. \<^verbatim>\<open>sort.Slice\<close> does not
  say how it orders equal elements: it is the argument \<^verbatim>\<open>sorter\<close>.\<close>

type_synonym 'a ranged = "'a Typed \<times> 'a list"

text \<open>The two closures: skip what an earlier set holds, or what \<^verbatim>\<open>seen\<close> holds.\<close>

definition few_visitor :: "'a ranged list \<Rightarrow> ('a \<Rightarrow> 's \<Rightarrow> (bool, 's) go_result) \<Rightarrow> ('a, bool \<times> 's) visitor" where
  "few_visitor scanned f item st =
     (let (stop, s) = st
      in if list_ex (\<lambda>r. Contains (fst r) item) scanned then Returns Continue (stop, s)
         else case f item s of
           Panics p s' \<Rightarrow> Panics p (stop, s')
         | Returns more s' \<Rightarrow> if \<not> more then Returns StopIteration (True, s') else Returns Continue (stop, s'))"

fun few_loop :: "('a \<Rightarrow> 's \<Rightarrow> (bool, 's) go_result) \<Rightarrow> 'a ranged list \<Rightarrow> 'a ranged list \<Rightarrow> 's \<Rightarrow> (unit, 's) go_result" where
  "few_loop f scanned [] s = Returns () s"
| "few_loop f scanned (r # rs) s =
     (case Iter (snd r) (few_visitor scanned f) (fst r) (False, s) of
        Panics p (_, _, s') \<Rightarrow> Panics p s'
      | Returns _ (_, stop, s') \<Rightarrow> if stop then Returns () s' else few_loop f (scanned @ [r]) rs s')"

definition many_visitor ::
  "bool \<Rightarrow> bool \<Rightarrow> ('a \<Rightarrow> 's \<Rightarrow> (bool, 's) go_result) \<Rightarrow> ('a, bool \<times> 'a set \<times> 's) visitor" where
  "many_visitor is_first is_last f item st =
     (let (stop, seen, s) = st
      in if \<not> is_first \<and> item \<in> seen then Returns Continue (stop, seen, s)
         else case f item s of
           Panics p s' \<Rightarrow> Panics p (stop, seen, s')
         | Returns more s' \<Rightarrow>
             if \<not> more then Returns StopIteration (True, seen, s')
             else Returns Continue (stop, if \<not> is_last then insert item seen else seen, s'))"

fun many_loop ::
  "('a \<Rightarrow> 's \<Rightarrow> (bool, 's) go_result) \<Rightarrow> bool \<Rightarrow> 'a ranged list \<Rightarrow> 'a set \<Rightarrow> 's \<Rightarrow> (unit, 's) go_result" where
  "many_loop f is_first [] seen s = Returns () s"
| "many_loop f is_first (r # rs) seen s =
     (case Iter (snd r) (many_visitor is_first (rs = []) f) (fst r) (False, seen, s) of
        Panics p (_, _, _, s') \<Rightarrow> Panics p s'
      | Returns _ (_, stop, seen', s') \<Rightarrow> if stop then Returns () s' else many_loop f False rs seen' s')"

definition one_visitor :: "('a \<Rightarrow> 's \<Rightarrow> (bool, 's) go_result) \<Rightarrow> ('a, 's) visitor" where
  "one_visitor f item s =
     (case f item s of
        Panics p s' \<Rightarrow> Panics p s'
      | Returns more s' \<Rightarrow> Returns (if \<not> more then StopIteration else Continue) s')"

definition IterUnion ::
  "('a ranged list \<Rightarrow> 'a ranged list) \<Rightarrow> 'a ranged list \<Rightarrow> ('a \<Rightarrow> 's \<Rightarrow> (bool, 's) go_result) \<Rightarrow> 's \<Rightarrow>
     (unit, 's) go_result" where
  "IterUnion sorter sets f s =
     (if length sets = 0 then Returns () s
      else if length sets = 1 then
        (case Iter (snd (hd sets)) (one_visitor f) (fst (hd sets)) s of
           Panics p (_, s') \<Rightarrow> Panics p s'
         | Returns _ (_, s') \<Rightarrow> Returns () s')
      else if length sets < 5 then few_loop f [] (sorter sets) s
      else many_loop f True sets {} s)"

text \<open>The specification: run \<^verbatim>\<open>f\<close> along a list until it answers false or panics. The result tells
  whether the end was reached.\<close>

fun run_until :: "('a \<Rightarrow> 's \<Rightarrow> (bool, 's) go_result) \<Rightarrow> 'a list \<Rightarrow> 's \<Rightarrow> (bool, 's) go_result" where
  "run_until f [] s = Returns True s"
| "run_until f (x # xs) s =
     (case f x s of
        Panics p s' \<Rightarrow> Panics p s'
      | Returns more s' \<Rightarrow> if more then run_until f xs s' else Returns False s')"

fun discard_result :: "('r, 's) go_result \<Rightarrow> (unit, 's) go_result" where
  "discard_result (Returns r s) = Returns () s"
| "discard_result (Panics p s) = Panics p s"

text \<open>The order in which the two loops call \<^verbatim>\<open>f\<close>: each set's order without what earlier sets hold.\<close>

fun fresh_order :: "'a set \<Rightarrow> 'a ranged list \<Rightarrow> 'a list" where
  "fresh_order seen [] = []"
| "fresh_order seen (r # rs) = filter (\<lambda>x. x \<notin> seen) (snd r) @ fresh_order (seen \<union> typed_members (fst r)) rs"

section \<open>Interface of a set\<close>

text \<open>What code that holds a \<^verbatim>\<open>Set[T]\<close> relies on, and the comparison it gives.\<close>

locale set_interface =
  fixes contains :: "'t \<Rightarrow> 'a \<Rightarrow> bool"
    and len :: "'t \<Rightarrow> nat"
    and elems :: "'t \<Rightarrow> 'a set"
    and valid :: "'t \<Rightarrow> bool"
  assumes contains_iff: "contains t x \<longleftrightarrow> x \<in> elems t"
    and len_card: "len t = card (elems t)"
    and finite_elems: "valid t \<Longrightarrow> finite (elems t)"
begin

lemma same_elems:
  assumes "valid u" and "set xs = elems t"
  shows "len t = len u \<and> list_all (contains u) xs \<longleftrightarrow> elems t = elems u"
proof
  assume "len t = len u \<and> list_all (contains u) xs"
  then show "elems t = elems u"
    using assms card_subset_eq [OF finite_elems, of u "elems t"]
    by (auto simp: len_card contains_iff list_all_iff)
next
  assume "elems t = elems u"
  then show "len t = len u \<and> list_all (contains u) xs"
    using assms by (auto simp: len_card contains_iff list_all_iff)
qed

lemma all_contained: "set xs = elems t \<Longrightarrow> list_all (contains u) xs \<longleftrightarrow> elems t \<subseteq> elems u"
  by (auto simp: contains_iff list_all_iff)

end

interpretation typed: set_interface Contains Len typed_members "\<lambda>t. finite (typed_members t)"
  by unfold_locales (auto simp: Contains_def Len_def)

section \<open>Lemmas\<close>

lemma typed_members_simps [simp]:
  "typed_members None = {}" "typed_members (Some S) = S" "typed_members New = {}" "typed_members Empty = {}"
  by (simp_all add: typed_members_def New_def Empty_def)

lemma typed_members_Discard [simp]: "typed_members (Discard x t) = typed_members t - {x}"
  by (cases t) (simp_all add: Discard_def)

lemma AddAll_Some: "AddAll xs (Some S) = Returns () (Some (S \<union> set xs))"
  by (induction xs arbitrary: S) (simp_all add: Add_def)

lemma AddAll_nil: "xs \<noteq> [] \<Longrightarrow> AddAll xs None = Panics nil_map_write None"
  by (cases xs) (simp_all add: Add_def)

lemma enumerates_finite: "enumerates order t \<Longrightarrow> finite (typed_members t)"
  by (metis List.finite_set enumerates_def)

text \<open>A visitor that always answers nil is folded over the order.\<close>

lemma Iter_all:
  assumes "\<And>x s. visitor x s = Returns Continue (step x s)"
  shows "Iter order visitor t s = Returns () (t, fold step order s)"
  using assms by (induction order arbitrary: s) simp_all

lemma run_until_append:
  "run_until f (xs @ ys) s =
     (case run_until f xs s of
        Panics p s' \<Rightarrow> Panics p s'
      | Returns more s' \<Rightarrow> if more then run_until f ys s' else Returns False s')"
  by (induction xs arbitrary: s) (auto split: go_result.split)

lemma Iter_one_visitor:
  "Iter order (one_visitor f) t s =
     (case run_until f order s of Panics p s' \<Rightarrow> Panics p (t, s') | Returns more s' \<Rightarrow> Returns () (t, s'))"
  by (induction order arbitrary: s) (auto simp: one_visitor_def split: go_result.split)

lemma Iter_few_visitor:
  "Iter order (few_visitor scanned f) t (False, s) =
     (case run_until f (filter (\<lambda>x. \<not> list_ex (\<lambda>r. Contains (fst r) x) scanned) order) s of
        Panics p s' \<Rightarrow> Panics p (t, False, s')
      | Returns more s' \<Rightarrow> Returns () (t, \<not> more, s'))"
  by (induction order arbitrary: s) (auto simp: few_visitor_def split: go_result.split)

lemma few_loop_run:
  "few_loop f scanned rs s =
     discard_result (run_until f (fresh_order (\<Union>r \<in> set scanned. typed_members (fst r)) rs) s)"
proof (induction f scanned rs s rule: few_loop.induct)
  case (2 f scanned r rs s)
  have fresh: "filter (\<lambda>x. \<not> list_ex (\<lambda>r. Contains (fst r) x) scanned) (snd r) =
      filter (\<lambda>x. x \<notin> (\<Union>r \<in> set scanned. typed_members (fst r))) (snd r)"
    by (auto simp: list_ex_iff Contains_def intro!: filter_cong)
  show ?case
    using "2.IH" by (simp add: Iter_few_visitor fresh run_until_append Un_commute split: go_result.split)
qed simp

lemma Iter_many_visitor:
  assumes "distinct order" and "is_first \<Longrightarrow> seen \<inter> set order = {}"
  shows "case run_until f (filter (\<lambda>x. x \<notin> seen) order) s of
      Panics p s' \<Rightarrow> \<exists>sn. Iter order (many_visitor is_first is_last f) t (False, seen, s) = Panics p (t, False, sn, s')
    | Returns more s' \<Rightarrow> \<exists>sn. Iter order (many_visitor is_first is_last f) t (False, seen, s) = Returns () (t, \<not> more, sn, s') \<and>
        (more \<and> \<not> is_last \<longrightarrow> sn = seen \<union> set order)"
  using assms
proof (induction order arbitrary: seen s)
  case (Cons x order)
  show ?case
  proof (cases "x \<in> seen")
    case True
    then have "\<not> is_first"
      using Cons.prems by auto
    with True show ?thesis
      using Cons.IH [of seen s] Cons.prems
      by (auto simp: many_visitor_def insert_absorb split: go_result.split_asm go_result.split)
  next
    case False
    define seen' where "seen' = (if \<not> is_last then insert x seen else seen)"
    have seen': "filter (\<lambda>y. y \<notin> seen') order = filter (\<lambda>y. y \<notin> seen) order"
      "is_first \<Longrightarrow> seen' \<inter> set order = {}" "\<not> is_last \<Longrightarrow> seen' \<union> set order = seen \<union> set (x # order)"
      using Cons.prems by (auto simp: seen'_def intro!: filter_cong)
    have *: "Iter (x # order) (many_visitor is_first is_last f) t (False, seen, s) =
        (case f x s of Panics p s' \<Rightarrow> Panics p (t, False, seen, s')
         | Returns more s' \<Rightarrow> if \<not> more then Returns () (t, True, seen, s')
             else Iter order (many_visitor is_first is_last f) t (False, seen', s'))"
      using False by (simp add: many_visitor_def seen'_def split: go_result.split)
    show ?thesis
    proof (cases "f x s")
      case (Returns more s')
      show ?thesis
        using Cons.IH [of seen' s'] Cons.prems(1) Returns False seen'
        by (cases more) (auto simp: * simp del: Iter.simps split: go_result.split_asm)
    qed (use False in \<open>simp add: * del: Iter.simps\<close>)
  qed
qed simp

lemma many_loop_run:
  assumes "list_all (\<lambda>r. enumerates (snd r) (fst r)) rs" and "is_first \<Longrightarrow> seen = {}"
  shows "many_loop f is_first rs seen s = discard_result (run_until f (fresh_order seen rs) s)"
  using assms
proof (induction rs arbitrary: is_first seen s)
  case (Cons r rs)
  have r: "distinct (snd r)" "set (snd r) = typed_members (fst r)"
    using Cons.prems(1) by (simp_all add: enumerates_def)
  have many: "case run_until f (filter (\<lambda>x. x \<notin> seen) (snd r)) s of
      Panics p s' \<Rightarrow> \<exists>sn. Iter (snd r) (many_visitor is_first (rs = []) f) (fst r) (False, seen, s) = Panics p (fst r, False, sn, s')
    | Returns more s' \<Rightarrow> \<exists>sn. Iter (snd r) (many_visitor is_first (rs = []) f) (fst r) (False, seen, s) = Returns () (fst r, \<not> more, sn, s') \<and>
        (more \<and> rs \<noteq> [] \<longrightarrow> sn = seen \<union> set (snd r))"
    using Iter_many_visitor [OF r(1), where is_first = is_first and seen = seen and is_last = "rs = []"] Cons.prems(2) by auto
  have IH: "many_loop f False rs sn s' = discard_result (run_until f (fresh_order sn rs) s')" for sn s'
    using Cons.IH [of False] Cons.prems(1) by simp
  show ?case
    using many r(2) by (cases "rs = []") (auto simp: run_until_append IH split: go_result.split_asm)
qed simp

lemma fresh_order_enumerates:
  assumes "list_all (\<lambda>r. enumerates (snd r) (fst r)) rs"
  shows "distinct (fresh_order seen rs) \<and>
    set (fresh_order seen rs) = (\<Union>r \<in> set rs. typed_members (fst r)) - seen"
  using assms by (induction rs arbitrary: seen) (auto simp: enumerates_def)

section \<open>Properties\<close>

text \<open>C21. \<^verbatim>\<open>IterUnion\<close> visits the union of its sets: whichever of its four strategies the number of sets
  selects, and however the sort orders sets of equal size, it calls the function once for each member
  of the union, along one enumeration of it, until the function answers false or panics.\<close>

theorem IterUnion_visits_union:
  assumes "list_all (\<lambda>r. enumerates (snd r) (fst r)) sets" and "set (sorter sets) = set sets"
  shows "\<exists>order. distinct order \<and> set order = (\<Union>r \<in> set sets. typed_members (fst r)) \<and>
    (\<forall>f s. IterUnion sorter sets f (s :: 's) = discard_result (run_until f order s))"
proof -
  consider "sets = []" | r where "sets = [r]" | "2 \<le> length sets" "length sets < 5" | "5 \<le> length sets"
    by (cases sets; cases "tl sets"; cases "length sets < 5") auto
  then show ?thesis
  proof cases
    case 2
    then show ?thesis
      using assms(1) by (intro exI [of _ "snd r"])
        (auto simp: IterUnion_def Iter_one_visitor enumerates_def split: go_result.split)
  next
    case 3
    have "list_all (\<lambda>r. enumerates (snd r) (fst r)) (sorter sets)"
      using assms by (simp add: list_all_iff)
    then show ?thesis
      using 3 fresh_order_enumerates [of "sorter sets" "{}"] assms(2)
      by (intro exI [of _ "fresh_order {} (sorter sets)"]) (auto simp: IterUnion_def few_loop_run)
  next
    case 4
    then show ?thesis
      using assms(1) fresh_order_enumerates [of sets "{}"]
      by (intro exI [of _ "fresh_order {} sets"]) (auto simp: IterUnion_def many_loop_run)
  qed (simp add: IterUnion_def)
qed

theorem IterUnion_visits_union_witness:
  "\<exists>order. distinct order \<and> set order = {1, 2, 3 :: nat} \<and>
    (\<forall>f s. IterUnion rev [(Some {1, 2}, [2, 1]), (Some {2, 3}, [2, 3])] f (s :: nat) =
       discard_result (run_until f order s))"
  using IterUnion_visits_union [of "[(Some {1, 2}, [2, 1]), (Some {2, 3}, [2, 3 :: nat])]" rev, where 's = nat]
  by (simp add: enumerates_def insert_commute)

text \<open>C38. The methods of \<^verbatim>\<open>Typed\<close> are those of a mathematical set, for every order of iteration: a set
  built from members contains exactly them and counts each once, copies and slices keep the members,
  and comparison and inclusion hold exactly when they do for the sets.\<close>

theorem Typed_behaves_as_set:
  assumes "enumerates order t" and "enumerates order' u"
  shows "From xs = Returns () (Some (set xs)) \<and> Len (Some (set xs)) = card (set xs) \<and>
    Copy order t = Returns () (Some (typed_members t)) \<and>
    Slice order t = order \<and>
    (Equals order t u \<longleftrightarrow> typed_members t = typed_members u) \<and>
    ContainsAll order' u t = Returns () (u, typed_members u \<subseteq> typed_members t) \<and>
    AddSet order' u (Some S) = Returns () (u, Some (S \<union> typed_members u)) \<and>
    (Contains (Discard x t) y \<longleftrightarrow> y \<noteq> x \<and> Contains t y)"
proof -
  have "fold (\<lambda>item s. s @ [item]) xs ys = ys @ xs" for xs ys :: "'a list"
    by (induction xs arbitrary: ys) simp_all
  then have "Slice order t = order"
    by (simp add: Slice_def)
  moreover have "Equals order t u \<longleftrightarrow> typed_members t = typed_members u"
    using typed.same_elems [of u order t] enumerates_finite [OF assms(2)] assms(1)
    by (simp add: Equals_def enumerates_def)
  moreover have "Iter zs (\<lambda>item result. if \<not> Contains t item then Returns StopIteration False
      else Returns Continue result) u True = Returns () (u, list_all (Contains t) zs)" for zs
    by (induction zs) simp_all
  then have "ContainsAll order' u t = Returns () (u, typed_members u \<subseteq> typed_members t)"
    using typed.all_contained [of order' u t] assms(2) by (simp add: ContainsAll_def enumerates_def)
  moreover have "Iter zs (\<lambda>item t. case Add item t of Panics p t' \<Rightarrow> Panics p t' | Returns _ t' \<Rightarrow> Returns Continue t')
      u (Some S) = Returns () (u, Some (S \<union> set zs))" for zs S
    by (induction zs arbitrary: S) (simp_all add: Add_def)
  then have "AddSet order' u (Some S) = Returns () (u, Some (S \<union> typed_members u))"
    using assms(2) by (simp add: AddSet_def enumerates_def)
  ultimately show ?thesis
    using assms(1) by (auto simp: From_def Copy_def New_def AddAll_Some Len_def enumerates_def Contains_def)
qed

theorem Typed_behaves_as_set_witness:
  "enumerates [2, 1 :: nat] (Some {1, 2}) \<and> Equals [2, 1 :: nat] (Some {1, 2}) (Some {2, 1}) \<and>
   ContainsAll [1, 2] (Some {1, 2 :: nat}) (Some {1, 2}) = Returns () (Some {1, 2}, True)"
  using Typed_behaves_as_set [of "[2, 1 :: nat]" "Some {1, 2}" "[1, 2]" "Some {1, 2}" "[]" "{}" 0 0]
  by (auto simp: enumerates_def insert_commute)

end
