(* ===== verification/Go_Net.thy ===== *)
theory Go_Net
  imports Bpf_Endian Kernel_Uapi
begin

unbundle bit_operations_syntax

text \<open>
  Addresses, ports and protocols on the way from Kubernetes objects into the maps: the parts of Go's
  \<^verbatim>\<open>net\<close> and \<^verbatim>\<open>encoding/binary\<close> that the code calls (\<^verbatim>\<open>ParseIP\<close>, \<^verbatim>\<open>To4\<close>, \<^verbatim>\<open>Uint32\<close>), \<^verbatim>\<open>src/pkg/utils/utils.go\<close> and
  \<^verbatim>\<open>ParseProto\<close> of \<^verbatim>\<open>src/pkg/bpf/types.go\<close>. A \<^verbatim>\<open>net.IP\<close> is its byte slice; nil is the empty slice.
\<close>

section \<open>net and encoding/binary\<close>

type_synonym IP = "u8 list"

definition digit_value :: "char \<Rightarrow> nat option" where
  "digit_value c = (if 48 \<le> (of_char c :: nat) \<and> (of_char c :: nat) \<le> 57 then Some (of_char c - 48) else None)"

definition hex_value :: "char \<Rightarrow> nat option" where
  "hex_value c =
     (let n = of_char c :: nat
      in if 48 \<le> n \<and> n \<le> 57 then Some (n - 48)
         else if 97 \<le> n \<and> n \<le> 102 then Some (n - 97 + 10)
         else if 65 \<le> n \<and> n \<le> 70 then Some (n - 65 + 10)
         else None)"

text \<open>Dotted decimal, character by character: \<^verbatim>\<open>prev\<close> is the character before the current one.\<close>

fun v4_loop :: "char option \<Rightarrow> nat \<Rightarrow> nat \<Rightarrow> u8 list \<Rightarrow> string \<Rightarrow> u8 list option" where
  "v4_loop prev val digLen fields [] =
     (if length fields < 3 then None else Some (fields @ [of_nat val]))"
| "v4_loop prev val digLen fields (c # s) =
     (case digit_value c of
        Some d \<Rightarrow>
          if digLen = 1 \<and> val = 0 then None
          else if 255 < val * 10 + d then None
          else v4_loop (Some c) (val * 10 + d) (digLen + 1) fields s
      | None \<Rightarrow>
          if c = CHR ''.'' then
            if prev = None \<or> s = [] \<or> prev = Some (CHR ''.'') then None
            else if length fields = 3 then None
            else v4_loop (Some c) 0 0 (fields @ [of_nat val]) s
          else None)"

definition parseIPv4 :: "string \<Rightarrow> u8 list option" where
  "parseIPv4 s = v4_loop None 0 0 [] s"

text \<open>A group of hexadecimal digits: value, number of digits, rest of the input.\<close>

fun hex_group :: "nat \<Rightarrow> nat \<Rightarrow> string \<Rightarrow> (nat \<times> nat \<times> string) option" where
  "hex_group off acc [] = Some (acc, off, [])"
| "hex_group off acc (c # s) =
     (case hex_value c of
        None \<Rightarrow> Some (acc, off, c # s)
      | Some d \<Rightarrow> if 3 < off \<or> 65535 < acc * 16 + d then None else hex_group (off + 1) (acc * 16 + d) s)"

text \<open>The loop over the groups, at most \<^verbatim>\<open>n\<close> of them; \<^verbatim>\<open>ip\<close> is what has been parsed, \<^verbatim>\<open>ellipsis\<close> the
  position of \<^verbatim>\<open>::\<close>. It ends with the rest of the input.\<close>

fun v6_loop :: "nat \<Rightarrow> u8 list \<Rightarrow> nat option \<Rightarrow> string \<Rightarrow> (u8 list \<times> nat option \<times> string) option" where
  "v6_loop 0 ip ellipsis s = Some (ip, ellipsis, s)"
| "v6_loop (Suc n) ip ellipsis s =
     (case hex_group 0 0 s of
        None \<Rightarrow> None
      | Some (acc, off, rest) \<Rightarrow>
          if off = 0 then None
          else if rest \<noteq> [] \<and> hd rest = CHR ''.'' then
            if ellipsis = None \<and> length ip \<noteq> 12 then None
            else if 16 < length ip + 4 then None
            else map_option (\<lambda>v4. (ip @ v4, ellipsis, [])) (parseIPv4 s)
          else
            let ip' = ip @ [of_nat (acc div 256), of_nat acc]
            in if rest = [] then Some (ip', ellipsis, [])
               else if hd rest \<noteq> CHR '':'' \<or> tl rest = [] then None
               else if hd (tl rest) = CHR '':'' then
                 if ellipsis \<noteq> None then None
                 else if tl (tl rest) = [] then Some (ip', Some (length ip'), [])
                 else v6_loop n ip' (Some (length ip')) (tl (tl rest))
               else v6_loop n ip' ellipsis (tl rest))"

definition v6_finish :: "u8 list \<Rightarrow> nat option \<Rightarrow> string \<Rightarrow> u8 list option" where
  "v6_finish ip ellipsis s =
     (if s \<noteq> [] then None
      else if length ip < 16 then
        (case ellipsis of
           None \<Rightarrow> None
         | Some e \<Rightarrow> Some (take e ip @ replicate (16 - length ip) 0 @ drop e ip))
      else if ellipsis \<noteq> None then None
      else Some ip)"

definition parseIPv6 :: "string \<Rightarrow> u8 list option" where
  "parseIPv6 s =
     (if CHR ''%'' \<in> set s then None
      else if take 2 s = '':'' @ '':'' then
        if drop 2 s = [] then Some (replicate 16 0)
        else Option.bind (v6_loop 8 [] (Some 0) (drop 2 s)) (\<lambda>(ip, e, r). v6_finish ip e r)
      else Option.bind (v6_loop 8 [] None s) (\<lambda>(ip, e, r). v6_finish ip e r))"

definition v4_in_v6 :: "u8 list" where
  "v4_in_v6 = [0, 0, 0, 0, 0, 0, 0, 0, 0, 0, 0xFF, 0xFF]"

text \<open>The first of the characters . : % decides; an address with a zone is refused by \<^verbatim>\<open>ParseIP\<close>.\<close>

definition ParseIP :: "string \<Rightarrow> IP" where
  "ParseIP s =
     (case find (\<lambda>c. c \<in> {CHR ''.'', CHR '':'', CHR ''%''}) s of
        None \<Rightarrow> []
      | Some c \<Rightarrow>
          if c = CHR ''.'' then (case parseIPv4 s of Some v4 \<Rightarrow> v4_in_v6 @ v4 | None \<Rightarrow> [])
          else if c = CHR '':'' then (case parseIPv6 s of Some v6 \<Rightarrow> v6 | None \<Rightarrow> [])
          else [])"

definition To4 :: "IP \<Rightarrow> IP" where
  "To4 ip =
     (if length ip = 4 then ip
      else if length ip = 16 \<and> take 12 ip = v4_in_v6 then drop 12 ip
      else [])"

text \<open>\<^verbatim>\<open>binary.LittleEndian.Uint32\<close> and \<^verbatim>\<open>binary.Read\<close> of a big-endian \<^verbatim>\<open>uint32\<close>. A short slice makes the first
  panic and the second return an error.\<close>

fun LittleEndian_Uint32 :: "u8 list \<Rightarrow> u32 option" where
  "LittleEndian_Uint32 (a # b # c # d # _) = Some (of_le32 a b c d)"
| "LittleEndian_Uint32 _ = None"

fun read_BigEndian_Uint32 :: "u8 list \<Rightarrow> u32 option" where
  "read_BigEndian_Uint32 (a # b # c # d # _) = Some (of_le32 d c b a)"
| "read_BigEndian_Uint32 _ = None"

section \<open>utils.go and ParseProto\<close>

definition IPString2Int32 :: "string \<Rightarrow> u32" where
  "IPString2Int32 ip =
     (let IP = ParseIP ip
      in if IP = [] then 0
         else case read_BigEndian_Uint32 (To4 IP) of None \<Rightarrow> 0 | Some ipret \<Rightarrow> ipret)"

definition LittleEndianPort :: "u16 \<Rightarrow> u16" where
  "LittleEndianPort port =
     (let h = port AND 0xff; l = drop_bit 8 port in push_bit 8 h OR l)"

definition ParseProto :: "string \<Rightarrow> u8" where
  "ParseProto proto =
     (if proto = ''TCP'' then 6
      else if proto = ''UDP'' then 17
      else if proto = ''SCTP'' then 132
      else 0)"

text \<open>The address that a client of \<^verbatim>\<open>ParseIP\<close> stores in a map.\<close>

definition address_of :: "string \<Rightarrow> u32 option" where
  "address_of s = LittleEndian_Uint32 (To4 (ParseIP s))"

text \<open>Dotted decimal of four octets.\<close>

definition digit_char :: "nat \<Rightarrow> char" where
  "digit_char d = char_of (48 + d)"

definition octet :: "u8 \<Rightarrow> string" where
  "octet a =
     (let n = unat a
      in if n < 10 then [digit_char n]
         else if n < 100 then [digit_char (n div 10), digit_char (n mod 10)]
         else [digit_char (n div 100), digit_char (n div 10 mod 10), digit_char (n mod 10)])"

definition dotted :: "u8 \<Rightarrow> u8 \<Rightarrow> u8 \<Rightarrow> u8 \<Rightarrow> string" where
  "dotted a b c d = octet a @ ''.'' @ octet b @ ''.'' @ octet c @ ''.'' @ octet d"

section \<open>Lemmas\<close>

lemma digit_char_not_special:
  "d < 10 \<Longrightarrow> digit_char d \<noteq> CHR ''.''" "d < 10 \<Longrightarrow> digit_char d \<noteq> CHR '':''" "d < 10 \<Longrightarrow> digit_char d \<noteq> CHR ''%''"
proof -
  have "digit_char d \<noteq> c" if "d < 10" and "(of_char c :: nat) < 48 \<or> 57 < (of_char c :: nat)" for c d
  proof
    assume "digit_char d = c"
    then have "(of_char c :: nat) = 48 + d"
      using that(1) by (auto simp: digit_char_def)
    with that show False
      by auto
  qed
  then show "d < 10 \<Longrightarrow> digit_char d \<noteq> CHR ''.''" "d < 10 \<Longrightarrow> digit_char d \<noteq> CHR '':''"
    "d < 10 \<Longrightarrow> digit_char d \<noteq> CHR ''%''"
    by simp_all
qed

lemma digit_value_digit_char [simp]: "d < 10 \<Longrightarrow> digit_value (digit_char d) = Some d"
  by (simp add: digit_value_def digit_char_def)

lemma digit_value_dot [simp]: "digit_value (CHR ''.'') = None"
  by (simp add: digit_value_def)

lemma octet_nonempty: "octet a \<noteq> []"
  by (simp add: octet_def Let_def)

text \<open>The loop reads an octet that stands at the start of a field.\<close>

lemma v4_loop_octet:
  "\<exists>c. v4_loop prev 0 0 fields (octet a @ s) = v4_loop (Some c) (unat a) (length (octet a)) fields s \<and>
     c \<noteq> CHR ''.''"
proof -
  have n: "unat a < 256"
    using unsigned_less [of a, where ?'a = nat] by simp
  consider "unat a < 10" | "10 \<le> unat a" "unat a < 100" | "100 \<le> unat a"
    by linarith
  then show ?thesis
  proof cases
    case 1
    then show ?thesis
      by (intro exI [of _ "digit_char (unat a)"]) (simp add: octet_def digit_char_not_special)
  next
    case 2
    then have "unat a div 10 \<noteq> 0" "\<not> 255 < unat a div 10"
      by (auto simp: div_eq_0_iff)
    then show ?thesis
      using 2 n by (intro exI [of _ "digit_char (unat a mod 10)"])
        (simp add: octet_def Let_def digit_char_not_special)
  next
    case 3
    let ?h = "unat a div 100" and ?m = "unat a div 10 mod 10" and ?l = "unat a mod 10"
    have "?h = unat a div 10 div 10"
      by (simp add: div_mult2_eq [symmetric])
    then have "?h * 10 + ?m = unat a div 10"
      by (metis div_mult_mod_eq)
    moreover have "?h < 10" "0 < ?h" "\<not> 255 < unat a div 10"
      using 3 n by (simp_all add: div_greater_zero_iff)
    ultimately show ?thesis
      using 3 n by (intro exI [of _ "digit_char ?l"]) (simp add: octet_def Let_def digit_char_not_special)
  qed
qed

lemma parseIPv4_dotted: "parseIPv4 (dotted a b c d) = Some [a, b, c, d]"
proof -
  have step: "v4_loop prev 0 0 fields (octet x @ CHR ''.'' # s) = v4_loop (Some (CHR ''.'')) 0 0 (fields @ [x]) s"
    if "s \<noteq> []" "length fields < 3" for prev fields x s
    using v4_loop_octet [of prev fields x "CHR ''.'' # s"] that by auto
  have last: "v4_loop prev 0 0 fields (octet x) = Some (fields @ [x])" if "length fields = 3" for prev fields x
    using v4_loop_octet [of prev fields x "[]"] that by auto
  show ?thesis
    by (simp add: parseIPv4_def dotted_def step last octet_nonempty)
qed

lemma octet_digits: "x \<in> set (octet a) \<Longrightarrow> x \<notin> {CHR ''.'', CHR '':'', CHR ''%''}"
proof -
  have "unat a < 256"
    using unsigned_less [of a, where ?'a = nat] by simp
  then have "unat a div 100 < 10"
    by simp
  then show "x \<in> set (octet a) \<Longrightarrow> x \<notin> {CHR ''.'', CHR '':'', CHR ''%''}"
    by (auto simp: octet_def digit_char_not_special Let_def split: if_splits)
qed

lemma find_append_none: "(\<And>x. x \<in> set xs \<Longrightarrow> \<not> P x) \<Longrightarrow> find P (xs @ ys) = find P ys"
  by (induction xs) auto

lemma ParseIP_dotted: "ParseIP (dotted a b c d) = v4_in_v6 @ [a, b, c, d]"
proof -
  have "find (\<lambda>c. c \<in> {CHR ''.'', CHR '':'', CHR ''%''}) (dotted a b c d) = Some (CHR ''.'')"
    unfolding dotted_def using octet_digits by (subst find_append_none) auto
  then show ?thesis
    by (simp add: ParseIP_def parseIPv4_dotted)
qed

lemma To4_v4: "To4 (v4_in_v6 @ [a, b, c, d]) = [a, b, c, d]"
  by (simp add: To4_def v4_in_v6_def)

lemma address_of_dotted: "address_of (dotted a b c d) = Some (of_le32 a b c d)"
  by (simp add: address_of_def ParseIP_dotted To4_v4)

lemma LittleEndianPort_swab: "LittleEndianPort p = bpf_swab16 p"
proof -
  have "(0xff :: u16) = mask 8"
    by (simp add: mask_eq_exp_minus_1)
  then have "LittleEndianPort p = push_bit 8 (take_bit 8 p) OR drop_bit 8 p"
    by (simp only: LittleEndianPort_def Let_def take_bit_eq_mask)
  then show ?thesis
    by (intro bit_word_eqI) (auto simp: bit_simps bit_swab16 add.commute)
qed

section \<open>Properties\<close>

text \<open>C32. An IPv4 address written in dotted decimal enters a map as its four octets in network order:
  the control plane's parsing and little-endian load store, on the little-endian machine, the bytes
  that the socket address holds; the other routine of the package yields the same number in host
  order.\<close>

theorem address_in_network_order:
  "\<exists>w. address_of (dotted a b c d) = Some w \<and> le32 w = [a, b, c, d] \<and>
     IPString2Int32 (dotted a b c d) = builtin_bswap32 w \<and>
     be32 (IPString2Int32 (dotted a b c d)) = [a, b, c, d]"
proof -
  have bytes: "IPString2Int32 (dotted a b c d) = of_le32 d c b a"
    by (simp add: IPString2Int32_def ParseIP_dotted To4_v4)
  have "le32 (of_le32 d c b a) = le32 (builtin_bswap32 (of_le32 a b c d))"
    by (simp only: le_bswap be32_def le32_of_le32 rev.simps append.simps)
  then have "of_le32 d c b a = builtin_bswap32 (of_le32 a b c d)"
    by (simp only: le32_inject)
  moreover have "be32 (of_le32 d c b a) = [a, b, c, d]"
    by (simp add: be32_def le32_of_le32)
  ultimately show ?thesis
    using le32_of_le32 [of a b c d] by (auto simp: address_of_dotted bytes)
qed

text \<open>Ports enter the maps in network order too, and converting twice gives the port back.\<close>

theorem port_in_network_order:
  "le16 (LittleEndianPort p) = be16 p \<and> LittleEndianPort (LittleEndianPort p) = p \<and>
   LittleEndianPort p = bpf_htons Little_Endian is_const p"
  by (simp add: LittleEndianPort_swab swab_eq_bswap bswap_involution le_bswap)

text \<open>The protocol numbers the control plane stores are the kernel's numbers of the three
  protocols a service port may have; every other protocol name is stored as 0.\<close>

theorem ParseProto_matches_kernel:
  "map (\<lambda>n. Some (uint (ParseProto n))) [''TCP'', ''UDP'', ''SCTP''] =
     map (enum_value ipproto) [''IPPROTO_TCP'', ''IPPROTO_UDP'', ''IPPROTO_SCTP''] \<and>
   (ParseProto n = 0 \<longleftrightarrow> n \<notin> {''TCP'', ''UDP'', ''SCTP''})"
  by (simp add: ParseProto_def enum_value_def decl_simps)

end
