(* ===== verification/Service_Manager.thy ===== *)
theory Service_Manager
  imports Bpf_Map Connect4 Go_Set Go_Net
begin

unbundle bit_operations_syntax

text \<open>
  The service manager of \<^verbatim>\<open>src/pkg/manager\<close>: it holds the known services and writes them into the two maps.
  Services are Go objects behind pointers, and \<^verbatim>\<open>OnUpdateEndpointSlice\<close> changes one in place and files it
  under two names, so the state has the objects by address and the table \<^verbatim>\<open>services\<close> of addresses. Each
  operation takes the operations of the maps and, for every range over a set of ports, the order in
  which it runs; a panic ends it with the state reached. The lock only brackets writes to \<^verbatim>\<open>services\<close>:
  the operations run one at a time here.
\<close>

section \<open>Services\<close>

record Ports =
  Protocol :: string
  Port :: u16
  TargetPort :: u16

record Service =
  Name :: string
  Namespace :: string
  ServiceId :: u16
  IpAddress :: IP
  Service_Ports :: "Ports Typed option"
  Endpoints :: "u32 list"

definition ServiceKey :: "Service \<Rightarrow> string" where
  "ServiceKey s = Namespace s @ ''/'' @ Name s"

text \<open>The parts of the Kubernetes objects that the code reads. The target port has a library type; its
  \<^verbatim>\<open>IntValue\<close> is a parameter.\<close>

record 'p ServicePort =
  sp_Protocol :: string
  sp_Port :: "32 word"
  sp_TargetPort :: 'p

record 'p v1_Service =
  sv_Name :: string
  sv_Namespace :: string
  sv_ClusterIP :: string
  sv_Ports :: "'p ServicePort list"

record slice_endpoint =
  Ready :: "bool option"
  Addresses :: "string list"

record EndpointSlice =
  es_Name :: string
  es_Namespace :: string
  es_Labels :: "(string \<times> string) list"
  es_DeletionTimestamp :: "nat option"
  es_Endpoints :: "slice_endpoint list"

definition index_panic :: string where
  "index_panic = ''index out of range [3] with length 0''"

text \<open>The addresses of one ready endpoint, appended to the list so far; \<^verbatim>\<open>keep\<close> is the test on the
  parsed address.\<close>

fun append_addresses :: "(u32 \<Rightarrow> bool) \<Rightarrow> string list \<Rightarrow> u32 list \<Rightarrow> (unit, u32 list) go_result" where
  "append_addresses keep [] eps = Returns () eps"
| "append_addresses keep (ip # ips) eps =
     (case LittleEndian_Uint32 (To4 (ParseIP ip)) of
        None \<Rightarrow> Panics index_panic eps
      | Some ret \<Rightarrow> append_addresses keep ips (if keep ret then eps @ [ret] else eps))"

fun NewService_endpoints :: "slice_endpoint list \<Rightarrow> u32 list \<Rightarrow> (unit, u32 list) go_result" where
  "NewService_endpoints [] eps = Returns () eps"
| "NewService_endpoints (endpoint # rest) eps =
     (case Ready endpoint of
        None \<Rightarrow> Panics nil_map eps
      | Some ready \<Rightarrow>
          if ready then go_bind (append_addresses (\<lambda>a. a \<noteq> 0) (Addresses endpoint) eps) (\<lambda>_. NewService_endpoints rest)
          else NewService_endpoints rest eps)"

definition NewService_port :: "('p \<Rightarrow> int) \<Rightarrow> 'p ServicePort \<Rightarrow> Ports" where
  "NewService_port IntValue port =
     \<lparr>Protocol = sp_Protocol port, Port = ucast (sp_Port port), TargetPort = of_int (IntValue (sp_TargetPort port))\<rparr>"

definition NewService :: "('p \<Rightarrow> int) \<Rightarrow> 'p v1_Service \<Rightarrow> EndpointSlice \<Rightarrow> (Service, unit) go_result" where
  "NewService IntValue service endpointSlice =
     (case AddAll (map (NewService_port IntValue) (sv_Ports service)) New of
        Panics p _ \<Rightarrow> Panics p ()
      | Returns _ ports \<Rightarrow>
          (case NewService_endpoints (es_Endpoints endpointSlice) [] of
             Panics p _ \<Rightarrow> Panics p ()
           | Returns _ eps \<Rightarrow>
               Returns \<lparr>Name = sv_Name service, Namespace = sv_Namespace service, ServiceId = 0,
                 IpAddress = To4 (ParseIP (sv_ClusterIP service)), Service_Ports = Some ports,
                 Endpoints = eps\<rparr> ()))"

section \<open>Manager\<close>

record 'm ServiceManager =
  objects :: "Service list"
  services :: "string \<rightharpoonup> nat"
  cacheSerivceId :: "u16 \<rightharpoonup> bool"
  serviceMap :: "'m option"
  endpointsMap :: "'m option"

definition NewServiceManager :: "'m option \<Rightarrow> 'm option \<Rightarrow> 'm ServiceManager" where
  "NewServiceManager service endpoint =
     \<lparr>objects = [], services = Map.empty, cacheSerivceId = Map.empty, serviceMap = service, endpointsMap = endpoint\<rparr>"

definition service_key :: "u32 \<Rightarrow> Ports \<Rightarrow> Service4Key" where
  "service_key ip port =
     \<lparr>ServiceIP = ip, ServicePort = LittleEndianPort (Port port), SK_Proto = ParseProto (Protocol port), SK_Pad = 0\<rparr>"

definition endpoint_key :: "u16 \<Rightarrow> nat \<Rightarrow> Endpoint4Key" where
  "endpoint_key sid index = \<lparr>EndpointID = push_bit 16 (ucast sid) OR of_nat index\<rparr>"

definition endpoint_value :: "u32 \<Rightarrow> Ports \<Rightarrow> Endpoint4Value" where
  "endpoint_value Eip port =
     \<lparr>EndpointIP = Eip, EndpointPort = LittleEndianPort (TargetPort port), EV_Proto = 0, EV_Pad = 0\<rparr>"

text \<open>The message of a failed map operation: the text of the error that the map library wraps, without the
  name of the operation that it puts in front. The code logs it and ends the iteration with it, and nothing reads the text.\<close>

definition map_failure :: "map_error \<Rightarrow> visit" where
  "map_failure err = Failure (case err of ErrKeyNotExist \<Rightarrow> ''key does not exist'' | ErrMapFull \<Rightarrow> ''argument list too long'')"

subsection \<open>AppendService\<close>

text \<open>The search for a free id. The id that is then marked as used is the one the service had before.\<close>

function alloc_id :: "(u16 \<rightharpoonup> bool) \<Rightarrow> nat \<Rightarrow> nat option" where
  "alloc_id cache i =
     (if i < 65535 then if cache (of_nat i) = None then Some i else alloc_id cache (i + 1) else None)"
  by pat_completeness auto
termination
  by (relation "measure (\<lambda>(cache, i). 65535 - i)") auto

declare alloc_id.simps [simp del]

definition assign_id :: "nat \<Rightarrow> 'm ServiceManager \<Rightarrow> 'm ServiceManager" where
  "assign_id addr st =
     (let svc = objects st ! addr
      in case alloc_id (cacheSerivceId st) 1 of
           None \<Rightarrow> st
         | Some i \<Rightarrow> st\<lparr>cacheSerivceId := (cacheSerivceId st)(ServiceId svc \<mapsto> True),
             objects := (objects st)[addr := svc\<lparr>ServiceId := of_nat i\<rparr>]\<rparr>)"

fun append_endpoints ::
  "'m map_ops \<Rightarrow> Service \<Rightarrow> Ports \<Rightarrow> nat \<Rightarrow> u32 list \<Rightarrow> 'm ServiceManager \<Rightarrow> (visit, 'm ServiceManager) go_result" where
  "append_endpoints ops svc port index [] st = Returns Continue st"
| "append_endpoints ops svc port index (Eip # rest) st =
     (case endpointsMap st of
        None \<Rightarrow> Returns Continue st
      | Some m \<Rightarrow>
          (case op_update ops m (Endpoint4Key_bytes (endpoint_key (ServiceId svc) (index + 1)))
              (Endpoint4Value_bytes (endpoint_value Eip port)) of
             (Some err, m') \<Rightarrow> Returns (map_failure err) (st\<lparr>endpointsMap := Some m'\<rparr>)
           | (None, m') \<Rightarrow> append_endpoints ops svc port (index + 1) rest (st\<lparr>endpointsMap := Some m'\<rparr>)))"

definition append_visitor :: "'m map_ops \<Rightarrow> Service \<Rightarrow> (Ports, 'm ServiceManager) visitor" where
  "append_visitor ops svc port st =
     (case LittleEndian_Uint32 (To4 (IpAddress svc)) of
        None \<Rightarrow> Panics index_panic st
      | Some ip \<Rightarrow>
          (case serviceMap st of
             None \<Rightarrow> Returns Continue st
           | Some m \<Rightarrow>
               (case op_update ops m (Service4Key_bytes (service_key ip port))
                   (Service4Value_bytes \<lparr>ServiceID = ServiceId svc, Count = of_nat (length (Endpoints svc))\<rparr>) of
                  (Some err, m') \<Rightarrow> Returns (map_failure err) (st\<lparr>serviceMap := Some m'\<rparr>)
                | (None, m') \<Rightarrow> append_endpoints ops svc port 0 (Endpoints svc) (st\<lparr>serviceMap := Some m'\<rparr>))))"

definition AppendService ::
  "'m map_ops \<Rightarrow> Ports list \<Rightarrow> nat \<Rightarrow> 'm ServiceManager \<Rightarrow> (unit, 'm ServiceManager) go_result" where
  "AppendService ops order addr st =
     (let st1 = assign_id addr st; svc = objects st1 ! addr
      in case Service_Ports svc of
           None \<Rightarrow> Panics nil_map st1
         | Some ports \<Rightarrow>
             (case Iter order (append_visitor ops svc) ports st1 of
                Panics p (_, st2) \<Rightarrow> Panics p st2
              | Returns _ (_, st2) \<Rightarrow> Returns () (st2\<lparr>services := (services st2)(ServiceKey svc \<mapsto> addr)\<rparr>)))"

subsection \<open>DeleteService\<close>

fun delete_endpoints ::
  "'m map_ops \<Rightarrow> Service \<Rightarrow> nat \<Rightarrow> u32 list \<Rightarrow> 'm ServiceManager \<Rightarrow> (visit, 'm ServiceManager) go_result" where
  "delete_endpoints ops svc index [] st = Returns Continue st"
| "delete_endpoints ops svc index (_ # rest) st =
     (case endpointsMap st of
        None \<Rightarrow> Panics nil_map st
      | Some m \<Rightarrow>
          (case op_delete ops m (Endpoint4Key_bytes (endpoint_key (ServiceId svc) index)) of
             (Some err, m') \<Rightarrow> Returns (map_failure err) (st\<lparr>endpointsMap := Some m'\<rparr>)
           | (None, m') \<Rightarrow> delete_endpoints ops svc (index + 1) rest (st\<lparr>endpointsMap := Some m'\<rparr>)))"

definition delete_visitor :: "'m map_ops \<Rightarrow> Service \<Rightarrow> (Ports, 'm ServiceManager) visitor" where
  "delete_visitor ops svc port st =
     (case LittleEndian_Uint32 (To4 (IpAddress svc)) of
        None \<Rightarrow> Panics index_panic st
      | Some ip \<Rightarrow>
          (case serviceMap st of
             None \<Rightarrow> Panics nil_map st
           | Some m \<Rightarrow>
               (case op_delete ops m (Service4Key_bytes (service_key ip port)) of
                  (Some err, m') \<Rightarrow> Returns (map_failure err) (st\<lparr>serviceMap := Some m'\<rparr>)
                | (None, m') \<Rightarrow> delete_endpoints ops svc 0 (Endpoints svc) (st\<lparr>serviceMap := Some m'\<rparr>))))"

definition DeleteService ::
  "'m map_ops \<Rightarrow> Ports list \<Rightarrow> string \<Rightarrow> 'm ServiceManager \<Rightarrow> (map_error option, 'm ServiceManager) go_result" where
  "DeleteService ops order serviceKey st =
     (case services st serviceKey of
        None \<Rightarrow> Returns None st
      | Some addr \<Rightarrow>
          (let svc = objects st ! addr
           in case Service_Ports svc of
                None \<Rightarrow> Panics nil_map st
              | Some ports \<Rightarrow>
                  (case Iter order (delete_visitor ops svc) ports st of
                     Panics p (_, st1) \<Rightarrow> Panics p st1
                   | Returns _ (_, st1) \<Rightarrow> Returns None (st1\<lparr>services := (services st1)(serviceKey := None)\<rparr>))))"

subsection \<open>UpdateService and the endpoint slice handlers\<close>

definition UpdateService ::
  "'m map_ops \<Rightarrow> Ports list \<Rightarrow> Ports list \<Rightarrow> nat \<Rightarrow> 'm ServiceManager \<Rightarrow>
     (map_error option, 'm ServiceManager) go_result" where
  "UpdateService ops old_order new_order addr st =
     (case services st (ServiceKey (objects st ! addr)) of
        None \<Rightarrow> go_bind (AppendService ops new_order addr st) (\<lambda>_. Returns None)
      | Some old \<Rightarrow>
          go_bind (DeleteService ops old_order (ServiceKey (objects st ! old)) st)
            (\<lambda>err st1. go_bind (AppendService ops new_order addr st1) (\<lambda>_. Returns err)))"

definition LabelServiceName :: string where
  "LabelServiceName = ''kubernetes.io/service-name''"

definition label :: "EndpointSlice \<Rightarrow> string \<Rightarrow> string" where
  "label es l = (case map_of (es_Labels es) l of Some v \<Rightarrow> v | None \<Rightarrow> '''')"

definition slice_key :: "EndpointSlice \<Rightarrow> string" where
  "slice_key es = label es LabelServiceName @ ''/'' @ es_Namespace es"

fun OnUpdate_endpoints :: "slice_endpoint list \<Rightarrow> u32 list \<Rightarrow> (unit, u32 list) go_result" where
  "OnUpdate_endpoints [] eps = Returns () eps"
| "OnUpdate_endpoints (ep # rest) eps =
     (if Ready ep = Some True then go_bind (append_addresses (\<lambda>a. a = 0) (Addresses ep) eps) (\<lambda>_. OnUpdate_endpoints rest)
      else OnUpdate_endpoints rest eps)"

definition OnUpdateEndpointSlice ::
  "'m map_ops \<Rightarrow> Ports list \<Rightarrow> Ports list \<Rightarrow> EndpointSlice \<Rightarrow> 'm ServiceManager \<Rightarrow>
     (unit, 'm ServiceManager) go_result" where
  "OnUpdateEndpointSlice ops old_order new_order new st =
     (if es_Labels new = [] then Returns () st
      else
        let svcname = label new LabelServiceName;
            fresh = \<lparr>Name = svcname, Namespace = es_Namespace new, ServiceId = 0, IpAddress = [],
              Service_Ports = None, Endpoints = []\<rparr>;
            (needDelete, addr, st1) = (case services st (slice_key new) of
                Some addr \<Rightarrow> (True, addr, st)
              | None \<Rightarrow> (False, length (objects st), st\<lparr>objects := objects st @ [fresh]\<rparr>))
        in case OnUpdate_endpoints (es_Endpoints new) [] of
             Panics p _ \<Rightarrow> Panics p st1
           | Returns _ eps \<Rightarrow>
               go_bind (if needDelete then DeleteService ops old_order (ServiceKey (objects st1 ! addr)) st1
                        else Returns None st1)
                 (\<lambda>_ st2.
                    let st3 = st2\<lparr>objects := (objects st2)[addr := (objects st2 ! addr)\<lparr>Endpoints := eps\<rparr>]\<rparr>
                    in go_bind (AppendService ops new_order addr st3)
                         (\<lambda>_ st4. Returns () (st4\<lparr>services := (services st4)(slice_key new \<mapsto> addr)\<rparr>))))"

definition OnDeleteEndpointSlice ::
  "'m map_ops \<Rightarrow> Ports list \<Rightarrow> EndpointSlice \<Rightarrow> 'm ServiceManager \<Rightarrow> (unit, 'm ServiceManager) go_result" where
  "OnDeleteEndpointSlice ops order endpointSlice st =
     (case services st (slice_key endpointSlice) of
        None \<Rightarrow> Returns () st
      | Some addr \<Rightarrow>
          go_bind (DeleteService ops order (ServiceKey (objects st ! addr)) st)
            (\<lambda>_ st1. Returns () (st1\<lparr>services := (services st1)(slice_key endpointSlice := None)\<rparr>)))"

section \<open>Entries of a service\<close>

text \<open>What \<^verbatim>\<open>AppendService\<close> writes into the two maps, in the order of the writes.\<close>

definition service_entries :: "u32 \<Rightarrow> Service \<Rightarrow> Ports list \<Rightarrow> (u8 list \<times> u8 list) list" where
  "service_entries ip svc order =
     map (\<lambda>port. (Service4Key_bytes (service_key ip port),
       Service4Value_bytes \<lparr>ServiceID = ServiceId svc, Count = of_nat (length (Endpoints svc))\<rparr>)) order"

fun endpoint_entries :: "u16 \<Rightarrow> Ports \<Rightarrow> nat \<Rightarrow> u32 list \<Rightarrow> (u8 list \<times> u8 list) list" where
  "endpoint_entries sid port index [] = []"
| "endpoint_entries sid port index (Eip # rest) =
     (Endpoint4Key_bytes (endpoint_key sid (index + 1)), Endpoint4Value_bytes (endpoint_value Eip port)) #
     endpoint_entries sid port (index + 1) rest"

definition all_endpoint_entries :: "Service \<Rightarrow> Ports list \<Rightarrow> (u8 list \<times> u8 list) list" where
  "all_endpoint_entries svc order =
     concat (map (\<lambda>port. endpoint_entries (ServiceId svc) port 0 (Endpoints svc)) order)"

text \<open>The maps before and after the writes of a service: what is written, and that nothing else is.\<close>

definition published :: "'m map_ops \<Rightarrow> u32 \<Rightarrow> Service \<Rightarrow> Ports list \<Rightarrow> 'm \<Rightarrow> 'm \<Rightarrow> 'm \<Rightarrow> 'm \<Rightarrow> bool" where
  "published ops ip svc order sm sm' em em' \<longleftrightarrow>
     (\<forall>k. op_lookup ops sm' k =
       (if k \<in> (\<lambda>port. Service4Key_bytes (service_key ip port)) ` set order
        then Some (Service4Value_bytes \<lparr>ServiceID = ServiceId svc, Count = of_nat (length (Endpoints svc))\<rparr>)
        else op_lookup ops sm k)) \<and>
     (\<forall>j < length (Endpoints svc). op_lookup ops em' (Endpoint4Key_bytes (endpoint_key (ServiceId svc) (j + 1))) =
       Some (Endpoint4Value_bytes (endpoint_value (Endpoints svc ! j) (last order)))) \<and>
     (\<forall>k. (\<forall>j < length (Endpoints svc). k \<noteq> Endpoint4Key_bytes (endpoint_key (ServiceId svc) (j + 1))) \<longrightarrow>
       op_lookup ops em' k = op_lookup ops em k)"

text \<open>A service with one port and two endpoints in an otherwise empty manager.\<close>

definition demo_port :: Ports where
  "demo_port = \<lparr>Protocol = ''TCP'', Port = 80, TargetPort = 8080\<rparr>"

definition demo_service :: Service where
  "demo_service = \<lparr>Name = ''web'', Namespace = ''default'', ServiceId = 0, IpAddress = [10, 0, 0, 1],
     Service_Ports = Some (Some {demo_port}), Endpoints = [0x0200000A, 0x0300000A]\<rparr>"

definition demo_manager :: "hash_map ServiceManager" where
  "demo_manager = (NewServiceManager (Some []) (Some []))\<lparr>objects := [demo_service]\<rparr>"

definition bare_manager :: "hash_map ServiceManager" where
  "bare_manager = \<lparr>objects = [demo_service\<lparr>Endpoints := []\<rparr>], services = [''default/web'' \<mapsto> 0],
     cacheSerivceId = Map.empty,
     serviceMap = Some [(Service4Key_bytes (service_key (of_le32 10 0 0 1) demo_port), [0, 0, 0, 0])],
     endpointsMap = Some []\<rparr>"

section \<open>Lemmas\<close>

lemma length_endpoint_entries [simp]: "length (endpoint_entries sid port index eps) = length eps"
  by (induction eps arbitrary: index) simp_all

lemma endpoint_entries_nth:
  "j < length eps \<Longrightarrow> endpoint_entries sid port index eps ! j =
     (Endpoint4Key_bytes (endpoint_key sid (index + j + 1)), Endpoint4Value_bytes (endpoint_value (eps ! j) port))"
  by (induction eps arbitrary: index j) (auto simp: nth_Cons split: nat.split)

lemma endpoint_key_backend_id:
  assumes "index < 65536"
  shows "EndpointID (endpoint_key sid index) = backend_id sid (of_nat index)"
proof -
  have "(of_nat index :: u32) = ucast (of_nat index :: u16)"
    using assms by (simp add: unsigned_of_nat take_bit_nat_eq_self)
  then show ?thesis
    by (simp add: endpoint_key_def backend_id_def)
qed

lemma endpoint_key_inject:
  assumes "i < 65536" and "j < 65536"
  shows "endpoint_key sid i = endpoint_key sid' j \<longleftrightarrow> sid = sid' \<and> i = j"
proof -
  have "(of_nat i :: u16) = of_nat j \<longleftrightarrow> i = j"
    using assms by (simp add: word_of_nat_eq_iff take_bit_nat_eq_self)
  moreover have "endpoint_key sid i = endpoint_key sid' j \<longleftrightarrow>
      EndpointID (endpoint_key sid i) = EndpointID (endpoint_key sid' j)"
    by (simp add: endpoint_key_def)
  ultimately show ?thesis
    using assms by (simp add: endpoint_key_backend_id backend_id_inject)
qed

lemma Endpoint4Key_bytes_inject [simp]: "Endpoint4Key_bytes a = Endpoint4Key_bytes b \<longleftrightarrow> a = b"
  by (cases a; cases b) (simp add: Endpoint4Key_bytes_def)

text \<open>The maps after the writes: the runs of writes succeed while there is room for them.\<close>

context ebpf_map
begin

definition has_room :: "'m \<Rightarrow> nat \<Rightarrow> bool" where
  "has_room m n \<longleftrightarrow> ok m \<and> card (dom (op_lookup ops m)) + n \<le> cap"

lemma has_room_update:
  assumes "has_room m (Suc n)"
  shows "\<exists>m'. op_update ops m k v = (None, m') \<and> has_room m' n"
  using assms update_fits [of m n k v] update_ok [of m k v]
  by (metis add_Suc_right has_room_def less_eq_Suc_le prod.collapse)

lemma append_endpoints_writes:
  assumes "endpointsMap st = Some m" and "has_room m (length eps + n)"
  shows "append_endpoints ops svc port index eps st =
      Returns Continue (st\<lparr>endpointsMap := Some (update_all m (endpoint_entries (ServiceId svc) port index eps))\<rparr>) \<and>
    has_room (update_all m (endpoint_entries (ServiceId svc) port index eps)) n"
  using assms
proof (induction eps arbitrary: st m index)
  case (Cons e eps)
  from has_room_update [of m "length eps + n"] Cons.prems(2) obtain m' where
    "op_update ops m (Endpoint4Key_bytes (endpoint_key (ServiceId svc) (index + 1)))
       (Endpoint4Value_bytes (endpoint_value e port)) = (None, m')" "has_room m' (length eps + n)"
    by auto
  then show ?case
    using Cons.IH [of "st\<lparr>endpointsMap := Some m'\<rparr>" m' "index + 1"] Cons.prems(1) by simp
qed simp

lemma update_all_append: "update_all m (xs @ ys) = update_all (update_all m xs) ys"
  by (induction xs arbitrary: m) simp_all

lemma append_Iter_writes:
  assumes "LittleEndian_Uint32 (To4 (IpAddress svc)) = Some ip"
    and "serviceMap st = Some sm" and "has_room sm (length order)"
    and "endpointsMap st = Some em" and "has_room em (length order * length (Endpoints svc))"
  shows "Iter order (append_visitor ops svc) ports st =
      Returns () (ports, st\<lparr>serviceMap := Some (update_all sm (service_entries ip svc order)),
        endpointsMap := Some (update_all em (all_endpoint_entries svc order))\<rparr>)"
  using assms(2-)
proof (induction order arbitrary: st sm em)
  case Nil
  then show ?case
    by (cases st) (simp add: service_entries_def all_endpoint_entries_def)
next
  case (Cons port order)
  let ?entry = "Service4Value_bytes \<lparr>ServiceID = ServiceId svc, Count = of_nat (length (Endpoints svc))\<rparr>"
  let ?em = "update_all em (endpoint_entries (ServiceId svc) port 0 (Endpoints svc))"
  from has_room_update [of sm "length order"] Cons.prems(2) obtain sm' where
    sm': "op_update ops sm (Service4Key_bytes (service_key ip port)) ?entry = (None, sm')" "has_room sm' (length order)"
    by auto
  let ?st = "st\<lparr>serviceMap := Some sm', endpointsMap := Some ?em\<rparr>"
  have "append_visitor ops svc port st = Returns Continue ?st \<and> has_room ?em (length order * length (Endpoints svc))"
    using append_endpoints_writes [of "st\<lparr>serviceMap := Some sm'\<rparr>" em "Endpoints svc" _ svc port 0] Cons.prems sm'(1) assms(1)
    by (simp add: append_visitor_def)
  then show ?case
    using Cons.IH [of ?st sm' ?em] sm' by (simp add: service_entries_def all_endpoint_entries_def update_all_append)
qed

end

lemma map_of_const:
  assumes "\<And>k v. (k, v) \<in> set es \<Longrightarrow> v = c"
  shows "map_of es k = (if k \<in> fst ` set es then Some c else None)"
proof (cases "map_of es k")
  case None
  then show ?thesis
    by (simp add: map_of_eq_None_iff)
next
  case (Some v)
  then have "(k, v) \<in> set es"
    by (rule map_of_SomeD)
  with Some assms show ?thesis
    by force
qed

lemma service_entries_lookup:
  "map_of (rev (service_entries ip svc order)) k =
     (if k \<in> (\<lambda>port. Service4Key_bytes (service_key ip port)) ` set order
      then Some (Service4Value_bytes \<lparr>ServiceID = ServiceId svc, Count = of_nat (length (Endpoints svc))\<rparr>)
      else None)"
  by (subst map_of_const
      [where c = "Service4Value_bytes \<lparr>ServiceID = ServiceId svc, Count = of_nat (length (Endpoints svc))\<rparr>"])
    (auto simp: service_entries_def image_image)

lemma endpoint_entries_keys:
  "map fst (endpoint_entries sid port index eps) =
     map (\<lambda>j. Endpoint4Key_bytes (endpoint_key sid (index + j + 1))) [0..<length eps]"
  by (rule nth_equalityI) (simp_all add: endpoint_entries_nth)

lemma endpoint_entries_distinct:
  "length eps < 65536 \<Longrightarrow> distinct (map fst (endpoint_entries sid port 0 eps))"
  by (auto simp: endpoint_entries_keys distinct_map inj_on_def endpoint_key_inject)

lemma all_endpoint_entries_lookup:
  assumes "order \<noteq> []" and "length (Endpoints svc) < 65536"
  shows "j < length (Endpoints svc) \<Longrightarrow>
      map_of (rev (all_endpoint_entries svc order)) (Endpoint4Key_bytes (endpoint_key (ServiceId svc) (j + 1))) =
        Some (Endpoint4Value_bytes (endpoint_value (Endpoints svc ! j) (last order)))"
    and "(\<And>j. j < length (Endpoints svc) \<Longrightarrow> k \<noteq> Endpoint4Key_bytes (endpoint_key (ServiceId svc) (j + 1))) \<Longrightarrow>
      map_of (rev (all_endpoint_entries svc order)) k = None"
proof -
  obtain os p where order: "order = os @ [p]"
    using assms(1) by (cases order rule: rev_cases) auto
  let ?E = "\<lambda>port. endpoint_entries (ServiceId svc) port 0 (Endpoints svc)"
  have rev: "rev (all_endpoint_entries svc order) = rev (?E p) @ rev (all_endpoint_entries svc os)"
    by (simp add: all_endpoint_entries_def order)
  have dist: "distinct (map fst (rev (?E p)))"
    using endpoint_entries_distinct [OF assms(2)] by (simp add: rev_map [symmetric])
  show "map_of (rev (all_endpoint_entries svc order)) (Endpoint4Key_bytes (endpoint_key (ServiceId svc) (j + 1))) =
        Some (Endpoint4Value_bytes (endpoint_value (Endpoints svc ! j) (last order)))"
    if j: "j < length (Endpoints svc)"
  proof -
    have "?E p ! j \<in> set (rev (?E p))"
      using j by simp
    then have "map_of (rev (?E p)) (Endpoint4Key_bytes (endpoint_key (ServiceId svc) (j + 1))) =
        Some (Endpoint4Value_bytes (endpoint_value (Endpoints svc ! j) p))"
      using j dist by (intro map_of_is_SomeI) (simp_all add: endpoint_entries_nth)
    then show ?thesis
      by (simp add: rev [unfolded order] order map_add_def)
  qed
  show "map_of (rev (all_endpoint_entries svc order)) k = None"
    if k: "\<And>j. j < length (Endpoints svc) \<Longrightarrow> k \<noteq> Endpoint4Key_bytes (endpoint_key (ServiceId svc) (j + 1))"
  proof -
    have "k \<notin> set (map fst (?E port))" for port
      unfolding endpoint_entries_keys using k by (metis (no_types, lifting) add_0 atLeastLessThan_iff
          imageE set_map set_upt)
    then show ?thesis
      by (auto simp: map_of_eq_None_iff all_endpoint_entries_def)
  qed
qed

lemma length_all_endpoint_entries [simp]:
  "length (all_endpoint_entries svc order) = length order * length (Endpoints svc)"
  by (induction order) (simp_all add: all_endpoint_entries_def)

lemma length_service_entries [simp]: "length (service_entries ip svc order) = length order"
  by (simp add: service_entries_def)

text \<open>The manager after a successful \<^verbatim>\<open>AppendService\<close> that found the id \<^verbatim>\<open>i\<close>, but for the maps.\<close>

definition appended :: "nat \<Rightarrow> nat \<Rightarrow> 'm ServiceManager \<Rightarrow> 'm ServiceManager" where
  "appended addr i st =
     st\<lparr>objects := (objects st)[addr := (objects st ! addr)\<lparr>ServiceId := of_nat i\<rparr>],
       cacheSerivceId := (cacheSerivceId st)(ServiceId (objects st ! addr) \<mapsto> True),
       services := (services st)(ServiceKey (objects st ! addr) \<mapsto> addr)\<rparr>"

lemma appended_simps [simp]:
  "serviceMap (appended addr i st) = serviceMap st" "endpointsMap (appended addr i st) = endpointsMap st"
  "services (appended addr i st) = (services st)(ServiceKey (objects st ! addr) \<mapsto> addr)"
  "cacheSerivceId (appended addr i st) = (cacheSerivceId st)(ServiceId (objects st ! addr) \<mapsto> True)"
  "objects (appended addr i st) = (objects st)[addr := (objects st ! addr)\<lparr>ServiceId := of_nat i\<rparr>]"
  by (simp_all add: appended_def)

context ebpf_map
begin

lemma AppendService_effect:
  assumes "addr < length (objects st)" and "Service_Ports (objects st ! addr) = Some ports"
    and "LittleEndian_Uint32 (To4 (IpAddress (objects st ! addr))) = Some ip"
    and "alloc_id (cacheSerivceId st) 1 = Some i"
    and "serviceMap st = Some sm" and "has_room sm (length order)"
    and "endpointsMap st = Some em" and "has_room em (length order * length (Endpoints (objects st ! addr)))"
  shows "AppendService ops order addr st =
    Returns () ((appended addr i st)\<lparr>
      serviceMap := Some (update_all sm (service_entries ip ((objects st ! addr)\<lparr>ServiceId := of_nat i\<rparr>) order)),
      endpointsMap := Some (update_all em (all_endpoint_entries ((objects st ! addr)\<lparr>ServiceId := of_nat i\<rparr>) order))\<rparr>)"
proof -
  let ?svc = "(objects st ! addr)\<lparr>ServiceId := of_nat i\<rparr>"
  have "Iter order (append_visitor ops ?svc) ports (assign_id addr st) =
      Returns () (ports, (assign_id addr st)\<lparr>serviceMap := Some (update_all sm (service_entries ip ?svc order)),
        endpointsMap := Some (update_all em (all_endpoint_entries ?svc order))\<rparr>)"
    using assms(3-) by (intro append_Iter_writes) (simp_all add: assign_id_def Let_def)
  moreover have "objects (assign_id addr st) ! addr = ?svc"
    using assms(1,4) by (simp add: assign_id_def Let_def)
  ultimately show ?thesis
    using assms(2,4) by (simp add: AppendService_def Let_def ServiceKey_def appended_def) (simp add: assign_id_def Let_def)
qed

lemma update_all_room:
  assumes "has_room m (length es + n)"
  shows "op_lookup ops (update_all m es) = op_lookup ops m ++ map_of (rev es)" "has_room (update_all m es) n"
proof -
  show "op_lookup ops (update_all m es) = op_lookup ops m ++ map_of (rev es)"
    using assms update_all_holds [of m es] by (auto simp: has_room_def)
  show "has_room (update_all m es) n"
    using assms
  proof (induction es arbitrary: m)
    case (Cons e es)
    then show ?case
      using has_room_update [of m "length es + n" "fst e" "snd e"] by auto
  qed simp
qed

lemma AppendService_published:
  assumes svc: "addr < length (objects st)" "svc = objects st ! addr" "Service_Ports svc = Some ports"
      "LittleEndian_Uint32 (To4 (IpAddress svc)) = Some ip" "length (Endpoints svc) < 65536"
    and order: "order \<noteq> []" and alloc: "alloc_id (cacheSerivceId st) 1 = Some i"
    and sm: "serviceMap st = Some sm" "has_room sm (length order + n)"
    and em: "endpointsMap st = Some em" "has_room em (length order * length (Endpoints svc) + l)"
  shows "\<exists>sm' em'. AppendService ops order addr st =
      Returns () ((appended addr i st)\<lparr>serviceMap := Some sm', endpointsMap := Some em'\<rparr>) \<and>
    has_room sm' n \<and> has_room em' l \<and> published ops ip (svc\<lparr>ServiceId := of_nat i\<rparr>) order sm sm' em em'"
proof -
  let ?svc = "svc\<lparr>ServiceId := of_nat i\<rparr>"
  let ?sm = "update_all sm (service_entries ip ?svc order)" and ?em = "update_all em (all_endpoint_entries ?svc order)"
  have room: "has_room sm (length order)" "has_room em (length order * length (Endpoints svc))"
    using sm(2) em(2) by (simp_all add: has_room_def)
  have run: "AppendService ops order addr st =
      Returns () ((appended addr i st)\<lparr>serviceMap := Some ?sm, endpointsMap := Some ?em\<rparr>)"
    using AppendService_effect [OF svc(1) _ _ alloc sm(1) _ em(1)] room svc by simp
  have sm': "op_lookup ops ?sm = op_lookup ops sm ++ map_of (rev (service_entries ip ?svc order))" "has_room ?sm n"
    using update_all_room [of sm "service_entries ip ?svc order" n] sm(2) by (simp_all add: service_entries_def)
  have em': "op_lookup ops ?em = op_lookup ops em ++ map_of (rev (all_endpoint_entries ?svc order))" "has_room ?em l"
    using update_all_room [of em "all_endpoint_entries ?svc order" l] em(2) by simp_all
  have "published ops ip ?svc order sm ?sm em ?em"
    unfolding published_def sm'(1) em'(1)
    using all_endpoint_entries_lookup [OF order, of ?svc] svc(5)
    by (auto simp: map_add_def service_entries_lookup)
  then show ?thesis
    using run sm'(2) em'(2) by blast
qed

end

subsection \<open>Allocation of ids\<close>

lemma alloc_id_Some:
  "alloc_id cache i = Some j \<Longrightarrow>
     i \<le> j \<and> j < 65535 \<and> cache (of_nat j) = None \<and> (\<forall>k. i \<le> k \<and> k < j \<longrightarrow> cache (of_nat k) \<noteq> None)"
proof (induction cache i rule: alloc_id.induct)
  case (1 cache i)
  show ?case
  proof (cases "i < 65535 \<and> cache (of_nat i) \<noteq> None")
    case True
    then have "alloc_id cache (i + 1) = Some j"
      using "1.prems" by (subst (asm) alloc_id.simps) auto
    with True "1.IH" have "i + 1 \<le> j \<and> j < 65535 \<and> cache (of_nat j) = None \<and>
        (\<forall>k. i + 1 \<le> k \<and> k < j \<longrightarrow> cache (of_nat k) \<noteq> None)"
      by blast
    with True show ?thesis
      by (metis Suc_eq_plus1 Suc_leI le_less Suc_leD)
  next
    case False
    then show ?thesis
      using "1.prems" by (subst (asm) alloc_id.simps) (auto split: if_splits)
  qed
qed

lemma alloc_id_None:
  "alloc_id cache i = None \<Longrightarrow> i \<le> k \<Longrightarrow> k < 65535 \<Longrightarrow> cache (of_nat k) \<noteq> None"
proof (induction cache i rule: alloc_id.induct)
  case (1 cache i)
  have "i < 65535" "cache (of_nat i) \<noteq> None" "alloc_id cache (i + 1) = None"
    using "1.prems" alloc_id.simps [of cache i] by (auto split: if_splits)
  then show ?case
    using "1.IH" "1.prems" by (cases "k = i") auto
qed

lemma alloc_id_first: "cache 1 = None \<Longrightarrow> alloc_id cache 1 = Some 1"
  by (subst alloc_id.simps) simp

subsection \<open>Frames\<close>

lemma Iter_preserves:
  assumes "\<And>x s. P s \<Longrightarrow> P (go_state (visitor x s))" and "P s"
  shows "P (snd (go_state (Iter order visitor t s)))"
  using assms(2)
proof (induction order arbitrary: t s)
  case (Cons x order)
  show ?case
    using assms(1) [OF Cons.prems, of x] Cons.IH
    by (cases "visitor x s") (auto split: visit.split)
qed simp

text \<open>Writing maps leaves the rest of the manager alone, whatever the map operations do.\<close>

definition same_tables :: "'m ServiceManager \<Rightarrow> 'm ServiceManager \<Rightarrow> bool" where
  "same_tables st st' \<longleftrightarrow> objects st' = objects st \<and> services st' = services st \<and> cacheSerivceId st' = cacheSerivceId st"

lemma same_tables_refl [simp]: "same_tables st st"
  by (simp add: same_tables_def)

lemma same_tables_maps [simp]:
  "same_tables st (st'\<lparr>serviceMap := m\<rparr>) = same_tables st st'"
  "same_tables st (st'\<lparr>endpointsMap := m\<rparr>) = same_tables st st'"
  "same_tables (st\<lparr>serviceMap := m\<rparr>) st' = same_tables st st'"
  "same_tables (st\<lparr>endpointsMap := m\<rparr>) st' = same_tables st st'"
  by (simp_all add: same_tables_def)

lemma append_endpoints_frame: "same_tables st (go_state (append_endpoints ops svc port index eps st))"
  by (induction ops svc port index eps st rule: append_endpoints.induct)
    (auto split: option.split prod.split)

lemma delete_endpoints_frame: "same_tables st (go_state (delete_endpoints ops svc index eps st))"
  by (induction ops svc index eps st rule: delete_endpoints.induct)
    (auto split: option.split prod.split)

lemma same_tables_trans: "same_tables a b \<Longrightarrow> same_tables b c \<Longrightarrow> same_tables a c"
  by (simp add: same_tables_def)

lemma append_visitor_frame: "same_tables st (go_state (append_visitor ops svc port st))"
proof -
  have "same_tables st (go_state (append_endpoints ops svc port 0 eps (st\<lparr>serviceMap := m\<rparr>)))" for eps m
    using append_endpoints_frame [of "st\<lparr>serviceMap := m\<rparr>"] by simp
  then show ?thesis
    by (auto simp: append_visitor_def split: option.split prod.split)
qed

lemma delete_visitor_frame: "same_tables st (go_state (delete_visitor ops svc port st))"
proof -
  have "same_tables st (go_state (delete_endpoints ops svc 0 eps (st\<lparr>serviceMap := m\<rparr>)))" for eps m
    using delete_endpoints_frame [of "st\<lparr>serviceMap := m\<rparr>"] by simp
  then show ?thesis
    by (auto simp: delete_visitor_def split: option.split prod.split)
qed

lemma append_Iter_frame: "same_tables st (snd (go_state (Iter order (append_visitor ops svc) t st)))"
  by (rule Iter_preserves) (auto intro: same_tables_trans append_visitor_frame)

lemma delete_Iter_frame: "same_tables st (snd (go_state (Iter order (delete_visitor ops svc) t st)))"
  by (rule Iter_preserves) (auto intro: same_tables_trans delete_visitor_frame)

subsection \<open>Deletion\<close>

context ebpf_map
begin

lemma op_deleteE:
  assumes "ok m" and "op_lookup ops m k \<noteq> None"
  obtains m' where "op_delete ops m k = (None, m')" "ok m'" "op_lookup ops m' = (op_lookup ops m)(k := None)"
  using assms delete_present delete_ok delete_removes by (metis prod.collapse)

lemma op_delete_missingE:
  assumes "ok m" and "op_lookup ops m k = None"
  obtains m' where "op_delete ops m k = (Some ErrKeyNotExist, m')" "ok m'" "op_lookup ops m' = op_lookup ops m"
proof -
  have "op_lookup ops (snd (op_delete ops m k)) = op_lookup ops m"
    using delete_removes [OF assms(1), of k] assms(2) by (simp add: fun_upd_idem)
  then show ?thesis
    using that assms delete_missing delete_ok by (metis prod.collapse)
qed

text \<open>The first endpoint deleted has index 0, which no endpoint was given: the visitor never answers
  nil.\<close>

lemma delete_visitor_fails:
  assumes "Endpoints svc \<noteq> []"
    and "\<And>em. endpointsMap st = Some em \<Longrightarrow>
      ok em \<and> op_lookup ops em (Endpoint4Key_bytes (endpoint_key (ServiceId svc) 0)) = None"
  shows "(\<exists>p s. delete_visitor ops svc port st = Panics p s) \<or>
    (\<exists>e s. delete_visitor ops svc port st = Returns (Failure e) s)"
proof -
  obtain e es where eps: "Endpoints svc = e # es"
    using assms(1) by (cases "Endpoints svc") auto
  have "(\<exists>p s. delete_endpoints ops svc 0 (Endpoints svc) (st\<lparr>serviceMap := m\<rparr>) = Panics p s) \<or>
      (\<exists>e s. delete_endpoints ops svc 0 (Endpoints svc) (st\<lparr>serviceMap := m\<rparr>) = Returns (Failure e) s)" for m
    using assms(2) by (cases "endpointsMap st") (auto simp: eps map_failure_def elim: op_delete_missingE)
  then show ?thesis
    by (auto simp: delete_visitor_def map_failure_def split: option.split prod.split)
qed

lemma DeleteService_never_returns:
  assumes "services st key = Some addr" and "order \<noteq> []" and "Endpoints (objects st ! addr) \<noteq> []"
    and "\<And>em. endpointsMap st = Some em \<Longrightarrow>
      ok em \<and> op_lookup ops em (Endpoint4Key_bytes (endpoint_key (ServiceId (objects st ! addr)) 0)) = None"
  shows "\<not> go_returns (DeleteService ops order key st)"
proof -
  obtain p ps where order: "order = p # ps"
    using assms(2) by (cases order) auto
  show ?thesis
    using delete_visitor_fails [of "objects st ! addr" st p, OF assms(3) assms(4)] assms(1)
    by (auto simp: DeleteService_def order Let_def split: option.split)
qed

text \<open>Without endpoints, each port's entry is removed.\<close>

lemma delete_Iter_removes:
  assumes "LittleEndian_Uint32 (To4 (IpAddress svc)) = Some ip" and "Endpoints svc = []"
    and "serviceMap st = Some sm" and "ok sm" and "distinct (map (service_key ip) order)"
    and "\<forall>port \<in> set order. op_lookup ops sm (Service4Key_bytes (service_key ip port)) \<noteq> None"
  shows "\<exists>sm'. Iter order (delete_visitor ops svc) ports st = Returns () (ports, st\<lparr>serviceMap := Some sm'\<rparr>) \<and>
    ok sm' \<and> op_lookup ops sm' =
      (\<lambda>k. if k \<in> (\<lambda>port. Service4Key_bytes (service_key ip port)) ` set order then None else op_lookup ops sm k)"
  using assms(3-)
proof (induction order arbitrary: st sm)
  case Nil
  then show ?case
    by (cases st) auto
next
  case (Cons port order)
  from Cons.prems(2,4) obtain sm1 where sm1:
    "op_delete ops sm (Service4Key_bytes (service_key ip port)) = (None, sm1)" "ok sm1"
    "op_lookup ops sm1 = (op_lookup ops sm)(Service4Key_bytes (service_key ip port) := None)"
    by (auto elim: op_deleteE)
  have "service_key ip p \<noteq> service_key ip port" if "p \<in> set order" for p
    using Cons.prems(3) that by (metis distinct.simps(2) image_eqI list.set_map list.simps(9))
  then have "\<forall>p \<in> set order. op_lookup ops sm1 (Service4Key_bytes (service_key ip p)) \<noteq> None"
    using Cons.prems(4) by (auto simp: sm1(3))
  from Cons.IH [of "st\<lparr>serviceMap := Some sm1\<rparr>" sm1, OF _ sm1(2) _ this] Cons.prems(3) obtain sm' where sm':
    "Iter order (delete_visitor ops svc) ports (st\<lparr>serviceMap := Some sm1\<rparr>) =
       Returns () (ports, st\<lparr>serviceMap := Some sm'\<rparr>)" "ok sm'"
    "op_lookup ops sm' = (\<lambda>k. if k \<in> (\<lambda>port. Service4Key_bytes (service_key ip port)) ` set order then None
       else op_lookup ops sm1 k)"
    by auto
  have "Iter (port # order) (delete_visitor ops svc) ports st = Returns () (ports, st\<lparr>serviceMap := Some sm'\<rparr>)"
    using Cons.prems(1) sm1(1) sm'(1) assms(1,2) by (simp add: delete_visitor_def)
  moreover have "op_lookup ops sm' = (\<lambda>k. if k \<in> (\<lambda>port. Service4Key_bytes (service_key ip port)) ` set (port # order)
      then None else op_lookup ops sm k)"
    unfolding sm'(3) sm1(3) by (rule ext) simp
  ultimately show ?case
    using sm'(2) by blast
qed

end

subsection \<open>New services\<close>

text \<open>The addresses a list of endpoints yields: those of the ready ones, parsed; none if a readiness is
  missing or an address is not IPv4.\<close>

definition ready_addresses :: "slice_endpoint list \<Rightarrow> u32 option list" where
  "ready_addresses eps = map address_of (concat (map Addresses (filter (\<lambda>e. Ready e = Some True) eps)))"

lemma append_addresses_result:
  "append_addresses keep ips acc = Returns () eps \<longleftrightarrow>
     None \<notin> set (map address_of ips) \<and> eps = acc @ filter keep (map (the \<circ> address_of) ips)"
proof (induction ips arbitrary: acc)
  case (Cons ip ips)
  then show ?case
    by (cases "address_of ip") (auto simp: address_of_def)
qed auto

lemma NewService_endpoints_result:
  "NewService_endpoints es acc = Returns () eps \<longleftrightarrow>
     (\<forall>e \<in> set es. Ready e \<noteq> None) \<and> None \<notin> set (ready_addresses es) \<and>
     eps = acc @ filter (\<lambda>a. a \<noteq> 0) (map the (ready_addresses es))"
proof (induction es arbitrary: acc)
  case (Cons e es)
  show ?case
  proof (cases "Ready e = Some True")
    case True
    then show ?thesis
      by (auto simp: go_bind_Returns_iff append_addresses_result Cons.IH ready_addresses_def)
  next
    case False
    then show ?thesis
      by (cases "Ready e") (auto simp: Cons.IH ready_addresses_def)
  qed
qed (auto simp: ready_addresses_def)

lemma NewService_Returns:
  "NewService IntValue service es = Returns svc () \<longleftrightarrow>
     (\<forall>e \<in> set (es_Endpoints es). Ready e \<noteq> None) \<and> None \<notin> set (ready_addresses (es_Endpoints es)) \<and>
     svc = \<lparr>Name = sv_Name service, Namespace = sv_Namespace service, ServiceId = 0,
       IpAddress = To4 (ParseIP (sv_ClusterIP service)),
       Service_Ports = Some (Some (set (map (NewService_port IntValue) (sv_Ports service)))),
       Endpoints = filter (\<lambda>a. a \<noteq> 0) (map the (ready_addresses (es_Endpoints es)))\<rparr>"
  using NewService_endpoints_result [of "es_Endpoints es" "[]"]
  by (cases "NewService_endpoints (es_Endpoints es) []") (auto simp: NewService_def New_def AddAll_Some)

lemma NewService_shape:
  assumes "NewService IntValue service es = Returns svc ()"
  shows "ServiceId svc = 0 \<and> Endpoints svc = filter (\<lambda>a. a \<noteq> 0) (map the (ready_addresses (es_Endpoints es)))"
  using assms by (simp add: NewService_Returns)

section \<open>Properties\<close>

text \<open>C5. \<^verbatim>\<open>AppendService\<close> publishes a service: with an IPv4 cluster address, a free id and room in both
  maps it returns, the service is registered under its key with the id found, every one of its ports
  has a service entry with that id and the number of endpoints, every endpoint has an entry under that
  id and its position from 1 with the target port of the last port visited, and no other entry of
  either map changes.\<close>

theorem AppendService_publishes:
  assumes maps: "ebpf_map ops cap ok"
    and svc: "addr < length (objects st)" "svc = objects st ! addr" "Service_Ports svc = Some ports"
      "LittleEndian_Uint32 (To4 (IpAddress svc)) = Some ip" "length (Endpoints svc) < 65536"
    and order: "enumerates order ports" "order \<noteq> []"
    and alloc: "alloc_id (cacheSerivceId st) 1 = Some i"
    and sm: "serviceMap st = Some sm" "ok sm" "card (dom (op_lookup ops sm)) + length order \<le> cap"
    and em: "endpointsMap st = Some em" "ok em"
      "card (dom (op_lookup ops em)) + length order * length (Endpoints svc) \<le> cap"
  shows "\<exists>st' sm' em'. AppendService ops order addr st = Returns () st' \<and>
    services st' = (services st)(ServiceKey svc \<mapsto> addr) \<and> objects st' ! addr = svc\<lparr>ServiceId := of_nat i\<rparr> \<and>
    serviceMap st' = Some sm' \<and> ok sm' \<and> endpointsMap st' = Some em' \<and> ok em' \<and>
    (\<forall>k. op_lookup ops sm' k =
      (if k \<in> (\<lambda>port. Service4Key_bytes (service_key ip port)) ` typed_members ports
       then Some (Service4Value_bytes \<lparr>ServiceID = of_nat i, Count = of_nat (length (Endpoints svc))\<rparr>)
       else op_lookup ops sm k)) \<and>
    (\<forall>j < length (Endpoints svc). op_lookup ops em' (Endpoint4Key_bytes (endpoint_key (of_nat i) (j + 1))) =
      Some (Endpoint4Value_bytes (endpoint_value (Endpoints svc ! j) (last order)))) \<and>
    (\<forall>k. (\<forall>j < length (Endpoints svc). k \<noteq> Endpoint4Key_bytes (endpoint_key (of_nat i) (j + 1))) \<longrightarrow>
      op_lookup ops em' k = op_lookup ops em k)"
proof -
  have room: "ebpf_map.has_room ops cap ok sm (length order + 0)"
    "ebpf_map.has_room ops cap ok em (length order * length (Endpoints svc) + 0)"
    using sm em by (simp_all add: ebpf_map.has_room_def [OF maps])
  obtain sm' em' where "AppendService ops order addr st =
      Returns () ((appended addr i st)\<lparr>serviceMap := Some sm', endpointsMap := Some em'\<rparr>)"
    "ebpf_map.has_room ops cap ok sm' 0" "ebpf_map.has_room ops cap ok em' 0"
    "published ops ip (svc\<lparr>ServiceId := of_nat i\<rparr>) order sm sm' em em'"
    using ebpf_map.AppendService_published [OF maps svc order(2) alloc sm(1) room(1) em(1) room(2)] by blast
  then show ?thesis
    using svc(1,2) order(1) unfolding published_def enumerates_def ebpf_map.has_room_def [OF maps]
    by (intro exI [of _ "(appended addr i st)\<lparr>serviceMap := Some sm', endpointsMap := Some em'\<rparr>"]
        exI [of _ sm'] exI [of _ em']) simp
qed

theorem AppendService_publishes_witness:
  "\<exists>st' sm' em'. AppendService (hash_ops 65536) [demo_port] 0 demo_manager = Returns () st' \<and>
    services st' = [''default/web'' \<mapsto> 0] \<and> serviceMap st' = Some sm' \<and> endpointsMap st' = Some em' \<and>
    op_lookup (hash_ops 65536) em' (Endpoint4Key_bytes (endpoint_key 1 2)) =
      Some (Endpoint4Value_bytes (endpoint_value 0x0300000A demo_port))"
proof -
  have alloc: "alloc_id (cacheSerivceId demo_manager) 1 = Some 1"
    by (rule alloc_id_first) (simp add: demo_manager_def NewServiceManager_def)
  have hyps: "enumerates [demo_port] (Some {demo_port})"
    "hash_ok []" "card (dom (op_lookup (hash_ops 65536) [])) = 0"
    by (simp_all add: enumerates_def hash_ok_def hash_ops_def)
  show ?thesis
    using AppendService_publishes [OF hm.ebpf_map_axioms [of 65536], of 0 demo_manager demo_service "Some {demo_port}"
        "of_le32 10 0 0 1" "[demo_port]" 1 "[]" "[]"] alloc hyps
    by (fastforce simp: demo_manager_def NewServiceManager_def demo_service_def ServiceKey_def To4_def
        less_Suc_eq numeral_2_eq_2)
qed

text \<open>The search for an id returns the least free id from 1 below 65535, and gives up only when none
  of them is free.\<close>

theorem alloc_id_least:
  "(alloc_id cache 1 = Some i \<longleftrightarrow>
      1 \<le> i \<and> i < 65535 \<and> cache (of_nat i) = None \<and> (\<forall>k. 1 \<le> k \<and> k < i \<longrightarrow> cache (of_nat k) \<noteq> None)) \<and>
   (alloc_id cache 1 = None \<longleftrightarrow> (\<forall>k. 1 \<le> k \<and> k < 65535 \<longrightarrow> cache (of_nat k) \<noteq> None))"
proof -
  have none: "alloc_id cache 1 = None \<longleftrightarrow> (\<forall>k. 1 \<le> k \<and> k < 65535 \<longrightarrow> cache (of_nat k) \<noteq> None)"
    using alloc_id_None [of cache 1] alloc_id_Some [of cache 1] by (cases "alloc_id cache 1") blast+
  have "alloc_id cache 1 = Some i" if "1 \<le> i" "i < 65535" "cache (of_nat i) = None"
    "\<forall>k. 1 \<le> k \<and> k < i \<longrightarrow> cache (of_nat k) \<noteq> None"
  proof (cases "alloc_id cache 1")
    case None
    then show ?thesis
      using none that by blast
  next
    case (Some j)
    then show ?thesis
      using alloc_id_Some [OF Some] that by (metis linorder_neqE_nat)
  qed
  then show ?thesis
    using alloc_id_Some [of cache 1 i] none by blast
qed

theorem alloc_id_least_witness:
  "alloc_id [1 \<mapsto> True] 1 = Some 2"
proof -
  have "[1 :: u16 \<mapsto> True] (of_nat k) \<noteq> None" if "1 \<le> k" "k < 2" for k
    using that by (cases "k = 1") auto
  then show ?thesis
    using alloc_id_least [of "[1 \<mapsto> True]" 2] by simp
qed

text \<open>C25. \<^verbatim>\<open>NewService\<close> returns exactly when every endpoint of the slice states its readiness and every
  address of a ready endpoint is IPv4; it panics otherwise. The service then has the converted ports,
  and as endpoints the addresses of the ready endpoints in their order, without 0.0.0.0.\<close>

theorem NewService_result:
  "NewService IntValue service es = Returns svc () \<longleftrightarrow>
     (\<forall>e \<in> set (es_Endpoints es). Ready e \<noteq> None) \<and> None \<notin> set (ready_addresses (es_Endpoints es)) \<and>
     svc = \<lparr>Name = sv_Name service, Namespace = sv_Namespace service, ServiceId = 0,
       IpAddress = To4 (ParseIP (sv_ClusterIP service)),
       Service_Ports = Some (Some (set (map (NewService_port IntValue) (sv_Ports service)))),
       Endpoints = filter (\<lambda>a. a \<noteq> 0) (map the (ready_addresses (es_Endpoints es)))\<rparr>"
  by (rule NewService_Returns)

theorem NewService_result_witness:
  "NewService (\<lambda>p. p) \<lparr>sv_Name = ''web'', sv_Namespace = ''default'', sv_ClusterIP = ''10.0.0.1'',
       sv_Ports = [\<lparr>sp_Protocol = ''TCP'', sp_Port = 80, sp_TargetPort = 8080\<rparr>]\<rparr>
     \<lparr>es_Name = ''web-1'', es_Namespace = ''default'', es_Labels = [], es_DeletionTimestamp = None,
       es_Endpoints = [\<lparr>Ready = Some True, Addresses = [dotted 10 0 0 2]\<rparr>, \<lparr>Ready = Some False, Addresses = [''x'']\<rparr>]\<rparr> =
   Returns \<lparr>Name = ''web'', Namespace = ''default'', ServiceId = 0, IpAddress = To4 (ParseIP ''10.0.0.1''),
     Service_Ports = Some (Some {\<lparr>Protocol = ''TCP'', Port = 80, TargetPort = 8080\<rparr>}),
     Endpoints = [of_le32 10 0 0 2]\<rparr> ()"
proof -
  have "of_le32 10 0 0 2 \<noteq> 0"
    by (simp add: of_le32_def)
  then show ?thesis
    by (subst NewService_result) (auto simp: ready_addresses_def address_of_dotted NewService_port_def)
qed

text \<open>C22. \<^verbatim>\<open>DeleteService\<close> withdraws a service that has no endpoints: when its ports have different keys
  and each has its entry, the operation returns without error, exactly those entries are gone from the
  service map, the endpoint map is untouched and the service is no longer registered. An unknown key
  changes nothing.\<close>

theorem DeleteService_withdraws:
  assumes maps: "ebpf_map ops cap ok"
    and svc: "services st key = Some addr" "svc = objects st ! addr" "Service_Ports svc = Some ports"
      "LittleEndian_Uint32 (To4 (IpAddress svc)) = Some ip" "Endpoints svc = []"
    and order: "enumerates order ports" "distinct (map (service_key ip) order)"
    and sm: "serviceMap st = Some sm" "ok sm"
      "\<forall>port \<in> typed_members ports. op_lookup ops sm (Service4Key_bytes (service_key ip port)) \<noteq> None"
  shows "\<exists>st' sm'. DeleteService ops order key st = Returns None st' \<and>
    services st' = (services st)(key := None) \<and> objects st' = objects st \<and>
    endpointsMap st' = endpointsMap st \<and> serviceMap st' = Some sm' \<and> ok sm' \<and>
    op_lookup ops sm' =
      (\<lambda>k. if k \<in> (\<lambda>port. Service4Key_bytes (service_key ip port)) ` typed_members ports then None else op_lookup ops sm k) \<and>
    DeleteService ops order key st' = Returns None st'"
proof -
  have members: "set order = typed_members ports"
    using order(1) by (simp add: enumerates_def)
  obtain sm' where
    "Iter order (delete_visitor ops svc) ports st = Returns () (ports, st\<lparr>serviceMap := Some sm'\<rparr>)" "ok sm'"
    "op_lookup ops sm' =
      (\<lambda>k. if k \<in> (\<lambda>port. Service4Key_bytes (service_key ip port)) ` typed_members ports then None else op_lookup ops sm k)"
    using ebpf_map.delete_Iter_removes [OF maps svc(4,5) sm(1,2) order(2), of ports, unfolded members] sm(3) by blast
  then show ?thesis
    using svc(1-3) by (simp add: DeleteService_def Let_def)
qed

theorem DeleteService_withdraws_witness:
  "\<exists>st' sm'. DeleteService (hash_ops 65536) [demo_port] ''default/web'' bare_manager = Returns None st' \<and>
    services st' = Map.empty \<and> serviceMap st' = Some sm' \<and> op_lookup (hash_ops 65536) sm' = Map.empty"
proof -
  let ?sm = "[(Service4Key_bytes (service_key (of_le32 10 0 0 1) demo_port), [0, 0, 0, 0])]"
  have hyps: "enumerates [demo_port] (Some {demo_port})" "hash_ok ?sm"
    "distinct (map (service_key (of_le32 10 0 0 1)) [demo_port])"
    "\<forall>port \<in> typed_members (Some {demo_port}).
       op_lookup (hash_ops 65536) ?sm (Service4Key_bytes (service_key (of_le32 10 0 0 1) port)) \<noteq> None"
    by (simp_all add: enumerates_def hash_ok_def hash_ops_def)
  have st: "services bare_manager ''default/web'' = Some 0" "serviceMap bare_manager = Some ?sm"
    "demo_service\<lparr>Endpoints := []\<rparr> = objects bare_manager ! 0"
    "services bare_manager = [''default/web'' \<mapsto> 0]"
    by (simp_all add: bare_manager_def)
  have svc: "Service_Ports (demo_service\<lparr>Endpoints := []\<rparr>) = Some (Some {demo_port})"
    "LittleEndian_Uint32 (To4 (IpAddress (demo_service\<lparr>Endpoints := []\<rparr>))) = Some (of_le32 10 0 0 1)"
    "Endpoints (demo_service\<lparr>Endpoints := []\<rparr>) = []"
    by (simp_all add: demo_service_def To4_def)
  obtain st' sm' where "DeleteService (hash_ops 65536) [demo_port] ''default/web'' bare_manager = Returns None st'"
    "services st' = (services bare_manager)(''default/web'' := None)" "serviceMap st' = Some sm'"
    "op_lookup (hash_ops 65536) sm' = (\<lambda>k. if k \<in> (\<lambda>port. Service4Key_bytes (service_key (of_le32 10 0 0 1) port)) `
       typed_members (Some {demo_port}) then None else op_lookup (hash_ops 65536) ?sm k)"
    using DeleteService_withdraws [OF hm.ebpf_map_axioms st(1,3) svc hyps(1,3) st(2) hyps(2,4)] by blast
  moreover have "(\<lambda>k. if k \<in> (\<lambda>port. Service4Key_bytes (service_key (of_le32 10 0 0 1) port)) `
       typed_members (Some {demo_port}) then None else op_lookup (hash_ops 65536) ?sm k) = Map.empty"
    by (auto simp: hash_ops_def)
  ultimately show ?thesis
    using st(4) by (intro exI [of _ st'] exI [of _ sm']) simp
qed

text \<open>C23. A full service map ends the process: when the map has no room and the port visited first has no entry yet,
  \<^verbatim>\<open>AppendService\<close> panics in the iteration over the ports; neither map has changed and the service is not registered, but the id
  it had before is marked as used.\<close>

theorem append_to_full_map_panics:
  assumes maps: "ebpf_map ops cap ok"
    and svc: "addr < length (objects st)" "svc = objects st ! addr" "Service_Ports svc = Some ports"
      "LittleEndian_Uint32 (To4 (IpAddress svc)) = Some ip"
    and alloc: "alloc_id (cacheSerivceId st) 1 = Some i"
    and sm: "serviceMap st = Some sm" "ok sm" "cap \<le> card (dom (op_lookup ops sm))"
      "op_lookup ops sm (Service4Key_bytes (service_key ip port)) = None"
  shows "\<exists>st' sm'. AppendService ops (port # order) addr st = Panics unexpected st' \<and> serviceMap st' = Some sm' \<and>
    op_lookup ops sm' = op_lookup ops sm \<and> endpointsMap st' = endpointsMap st \<and> services st' = services st \<and>
    cacheSerivceId st' = (cacheSerivceId st)(ServiceId svc \<mapsto> True)"
proof -
  let ?svc = "svc\<lparr>ServiceId := of_nat i\<rparr>" and ?st = "assign_id addr st"
  have st: "objects ?st ! addr = ?svc" "serviceMap ?st = Some sm" "endpointsMap ?st = endpointsMap st" "services ?st = services st"
    "cacheSerivceId ?st = (cacheSerivceId st)(ServiceId svc \<mapsto> True)"
    using svc(1,2) alloc sm(1) by (simp_all add: assign_id_def Let_def)
  let ?v = "Service4Value_bytes \<lparr>ServiceID = of_nat i, Count = of_nat (length (Endpoints svc))\<rparr>"
  obtain sm' where full: "op_update ops sm (Service4Key_bytes (service_key ip port)) ?v = (Some ErrMapFull, sm')"
    using ebpf_map.update_full [OF maps sm(2,4,3), of ?v] by (metis prod.collapse)
  then have "op_lookup ops sm' = op_lookup ops sm"
    using ebpf_map.update_fails [OF maps sm(2), of "Service4Key_bytes (service_key ip port)" ?v] by simp
  moreover have "append_visitor ops ?svc port ?st = Returns (map_failure ErrMapFull) (?st\<lparr>serviceMap := Some sm'\<rparr>)"
    using svc(4) full by (simp add: append_visitor_def st)
  ultimately show ?thesis
    using svc(3) st by (intro exI [of _ "?st\<lparr>serviceMap := Some sm'\<rparr>"] exI [of _ sm']) (simp add: AppendService_def Let_def map_failure_def)
qed

theorem append_to_full_map_panics_witness:
  "\<exists>st'. AppendService (hash_ops 0) [demo_port] 0 demo_manager = Panics unexpected st' \<and> services st' = Map.empty"
proof -
  have alloc: "alloc_id (cacheSerivceId demo_manager) 1 = Some 1"
    by (rule alloc_id_first) (simp add: demo_manager_def NewServiceManager_def)
  have hyps: "0 < length (objects demo_manager)" "demo_service = objects demo_manager ! 0" "Service_Ports demo_service = Some (Some {demo_port})"
    "LittleEndian_Uint32 (To4 (IpAddress demo_service)) = Some (of_le32 10 0 0 1)" "serviceMap demo_manager = Some []" "hash_ok []"
    "0 \<le> card (dom (op_lookup (hash_ops 0) []))" "op_lookup (hash_ops 0) [] (Service4Key_bytes (service_key (of_le32 10 0 0 1) demo_port)) = None"
    "services demo_manager = Map.empty"
    by (simp_all add: demo_manager_def NewServiceManager_def demo_service_def To4_def hash_ok_def hash_ops_def)
  from append_to_full_map_panics [OF hm.ebpf_map_axioms hyps(1-4) alloc hyps(5-8), of "[]"] hyps(9) show ?thesis
    by auto
qed

end
