(* ===== verification/Data_Path.thy ===== *)
theory Data_Path
  imports Connect4 Service_Manager
begin

text \<open>
  The data path: what \<^verbatim>\<open>connect4\<close> does with a connection, given what the service manager has written into the
  two maps, and the races between the two. The writes of \<^verbatim>\<open>AppendService\<close> for one port are a sequence of map
  updates; a connection looks the service up at one moment and the backend at a later one, and any number
  of writes may fall before, between and after.
\<close>

section \<open>Connections\<close>

text \<open>The key under which the program looks a port of a service up.\<close>

definition frontend :: "u32 \<Rightarrow> Ports \<Rightarrow> lb4_key" where
  "frontend ip port =
     \<lparr>k_address = ip, k_dport = LittleEndianPort (Port port), k_proto = ParseProto (Protocol port), k_pad = 0\<rparr>"

text \<open>A connection that goes to a frontend over a stream or datagram socket.\<close>

definition connects_to :: "lb4_key \<Rightarrow> bpf_sock_addr \<Rightarrow> bool" where
  "connects_to key ctx \<longleftrightarrow> key_of_ctx ctx = key \<and> (sa_type ctx = SOCK_STREAM \<or> sa_type ctx = SOCK_DGRAM)"

definition redirected :: "u32 \<Rightarrow> Ports \<Rightarrow> bpf_sock_addr \<Rightarrow> bpf_sock_addr" where
  "redirected ip port ctx = ctx\<lparr>user_ip4 := ip, user_port := ucast (LittleEndianPort (TargetPort port))\<rparr>"

section \<open>Races\<close>

text \<open>The writes for one port, in the order in which \<^verbatim>\<open>AppendService\<close> issues them: the service entry, then the
  endpoints. The first write that fails, or finds no map, ends the sequence.\<close>

datatype map_write = To_Services "u8 list" "u8 list" | To_Endpoints "u8 list" "u8 list"

definition append_writes :: "u32 \<Rightarrow> Service \<Rightarrow> Ports \<Rightarrow> map_write list" where
  "append_writes ip svc port =
     To_Services (Service4Key_bytes (service_key ip port))
       (Service4Value_bytes \<lparr>ServiceID = ServiceId svc, Count = of_nat (length (Endpoints svc))\<rparr>) #
     map (\<lambda>(k, v). To_Endpoints k v) (endpoint_entries (ServiceId svc) port 0 (Endpoints svc))"

definition do_write :: "'m map_ops \<Rightarrow> map_write \<Rightarrow> 'm ServiceManager \<Rightarrow> map_error option \<times> 'm ServiceManager option" where
  "do_write ops w st =
     (case w of
        To_Services k v \<Rightarrow>
          (case serviceMap st of None \<Rightarrow> (None, None)
           | Some m \<Rightarrow> (let (err, m') = op_update ops m k v in (err, Some (st\<lparr>serviceMap := Some m'\<rparr>))))
      | To_Endpoints k v \<Rightarrow>
          (case endpointsMap st of None \<Rightarrow> (None, None)
           | Some m \<Rightarrow> (let (err, m') = op_update ops m k v in (err, Some (st\<lparr>endpointsMap := Some m'\<rparr>)))))"

fun run_writes :: "'m map_ops \<Rightarrow> map_write list \<Rightarrow> 'm ServiceManager \<Rightarrow> (visit, 'm ServiceManager) go_result" where
  "run_writes ops [] st = Returns Continue st"
| "run_writes ops (w # ws) st =
     (case do_write ops w st of
        (_, None) \<Rightarrow> Returns Continue st
      | (Some err, Some st') \<Rightarrow> Returns (map_failure err) st'
      | (None, Some st') \<Rightarrow> run_writes ops ws st')"

text \<open>A connection has not started, has looked the service up, or is done; the number is that of the writes
  that were still to come when it looked the service up.\<close>

datatype connection =
  Waiting
| Looked "u8 list \<rightharpoonup> u8 list" nat
| Done bpf_sock_addr nat

inductive race ::
  "'m map_ops \<Rightarrow> u32 \<Rightarrow> bpf_sock_addr \<Rightarrow>
     map_write list \<times> 'm ServiceManager \<times> connection \<Rightarrow> map_write list \<times> 'm ServiceManager \<times> connection \<Rightarrow> bool"
  for ops rnd ctx where
  written: "do_write ops w st = (None, Some st') \<Longrightarrow> race ops rnd ctx (w # ws, st, c) (ws, st', c)"
| look: "serviceMap st = Some sm \<Longrightarrow> race ops rnd ctx (ws, st, Waiting) (ws, st, Looked (op_lookup ops sm) (length ws))"
| pick: "endpointsMap st = Some em \<Longrightarrow>
    race ops rnd ctx (ws, st, Looked sc left) (ws, st, Done (c4_ctx (connect4 sc (op_lookup ops em) rnd ctx)) left)"

text \<open>The contents of the maps after the first writes, and the invariant of a race.\<close>

definition services_after :: "u32 \<Rightarrow> Service \<Rightarrow> Ports \<Rightarrow> (u8 list \<rightharpoonup> u8 list) \<Rightarrow> nat \<Rightarrow> (u8 list \<rightharpoonup> u8 list)" where
  "services_after ip svc port sc k =
     (if k = 0 then sc
      else sc(Service4Key_bytes (service_key ip port) \<mapsto>
        Service4Value_bytes \<lparr>ServiceID = ServiceId svc, Count = of_nat (length (Endpoints svc))\<rparr>))"

definition endpoints_after :: "Service \<Rightarrow> Ports \<Rightarrow> (u8 list \<rightharpoonup> u8 list) \<Rightarrow> nat \<Rightarrow> (u8 list \<rightharpoonup> u8 list)" where
  "endpoints_after svc port ec k =
     ec ++ map_of (rev (take (k - 1) (endpoint_entries (ServiceId svc) port 0 (Endpoints svc))))"

fun connection_ok ::
  "u32 \<Rightarrow> Service \<Rightarrow> Ports \<Rightarrow> (u8 list \<rightharpoonup> u8 list) \<Rightarrow> (u8 list \<rightharpoonup> u8 list) \<Rightarrow> u32 \<Rightarrow> bpf_sock_addr \<Rightarrow> nat \<Rightarrow> connection \<Rightarrow> bool" where
  "connection_ok ip svc port sc ec rnd ctx k Waiting \<longleftrightarrow> True"
| "connection_ok ip svc port sc ec rnd ctx k (Looked s left) \<longleftrightarrow>
     (\<exists>j \<le> k. s = services_after ip svc port sc j \<and> left = Suc (length (Endpoints svc)) - j)"
| "connection_ok ip svc port sc ec rnd ctx k (Done ctx' left) \<longleftrightarrow>
     (\<exists>j m. j \<le> m \<and> m \<le> k \<and> left = Suc (length (Endpoints svc)) - j \<and>
       ctx' = c4_ctx (connect4 (services_after ip svc port sc j) (endpoints_after svc port ec m) rnd ctx))"

section \<open>Lemmas\<close>

lemma service_key_frontend: "Service4Key_bytes (service_key ip port) = lb4_key_bytes (frontend ip port)"
  by (simp add: Service4Key_bytes_eq service_key_def frontend_def)

lemma lookup_endpoint:
  assumes "index < 65536"
    and "m (Endpoint4Key_bytes (endpoint_key sid index)) = Some (Endpoint4Value_bytes (endpoint_value ip port))"
  shows "lookup_backend m (backend_id sid (of_nat index)) =
    Some \<lparr>b_address = ip, b_port = LittleEndianPort (TargetPort port), b_proto = 0, b_pad = 0\<rparr>"
  using assms by (simp add: lookup_backend_def Endpoint4Key_bytes_def endpoint_key_backend_id
      Endpoint4Value_bytes_eq endpoint_value_def)

text \<open>A connection to a frontend, from what the two maps hold for it.\<close>

lemma connect4_found:
  assumes "connects_to key ctx" and "0 < n" and "n < 65536"
    and "sc (lb4_key_bytes key) = Some (Service4Value_bytes \<lparr>ServiceID = sid, Count = of_nat n\<rparr>)"
    and "bc (Endpoint4Key_bytes (endpoint_key sid (unat rnd mod n + 1))) =
      Some (Endpoint4Value_bytes (endpoint_value ip port))"
  shows "c4_ctx (connect4 sc bc rnd ctx) = redirected ip port ctx"
proof -
  have n: "unat (of_nat n :: u16) = n" "(of_nat n :: u16) \<noteq> 0"
    using assms(2,3) by (auto simp: unsigned_of_nat take_bit_nat_eq_self word_of_nat_eq_0_iff dvd_imp_le
        elim!: dvdE)
  have "unat rnd mod n + 1 < 65536"
    using mod_less_divisor [OF assms(2), of "unat rnd"] assms(3) by linarith
  then have "lookup_backend bc (backend_id sid (pick_index rnd (of_nat n))) =
      Some \<lparr>b_address = ip, b_port = LittleEndianPort (TargetPort port), b_proto = 0, b_pad = 0\<rparr>"
    using lookup_endpoint assms(5) by (simp only: pick_index_of_nat [OF n(2)] n(1))
  moreover have "lookup_service sc key = Some \<lparr>s_service_id = sid, s_count = of_nat n\<rparr>"
    by (simp add: lookup_service_def assms(4) Service4Value_bytes_eq)
  ultimately show ?thesis
    using assms(1) n(2) by (auto simp: connect4_cases connects_to_def redirected_def)
qed

lemma demo_connects: "connects_to (frontend (of_le32 10 0 0 1) demo_port) demo_ctx"
  by (simp add: connects_to_def frontend_def key_of_ctx_def demo_ctx_def demo_port_def LittleEndianPort_def
      ParseProto_def SOCK_STREAM_def of_le32_def)

text \<open>The sequence of writes is what \<^verbatim>\<open>AppendService\<close> does for a port.\<close>

lemma append_endpoints_run_writes:
  "append_endpoints ops svc port index eps st =
     run_writes ops (map (\<lambda>(k, v). To_Endpoints k v) (endpoint_entries (ServiceId svc) port index eps)) st"
  by (induction eps arbitrary: index st) (auto simp: do_write_def split: option.split prod.split)

lemma append_visitor_run_writes:
  "LittleEndian_Uint32 (To4 (IpAddress svc)) = Some ip \<Longrightarrow>
     append_visitor ops svc port st = run_writes ops (append_writes ip svc port) st"
  by (auto simp: append_visitor_def append_writes_def do_write_def append_endpoints_run_writes split: option.split prod.split)

lemma endpoints_written:
  assumes "r < length (Endpoints svc)" and "length (Endpoints svc) < 65536" and "m \<le> length (Endpoints svc)"
  shows "map_of (rev (take m (endpoint_entries (ServiceId svc) port 0 (Endpoints svc))))
      (Endpoint4Key_bytes (endpoint_key (ServiceId svc) (r + 1))) =
    (if r < m then Some (Endpoint4Value_bytes (endpoint_value (Endpoints svc ! r) port)) else None)"
  using assms(3)
proof (induction m)
  case (Suc m)
  have "r + 1 < 65536" "m + 1 < 65536"
    using assms(1,2) Suc.prems by auto
  from endpoint_key_inject [OF this] show ?case
    using Suc by (auto simp: take_Suc_conv_app_nth endpoint_entries_nth)
qed simp

lemma drop_eq_ConsD: "drop k xs = x # ys \<Longrightarrow> k < length xs \<and> x = xs ! k \<and> ys = drop (Suc k) xs"
  by (metis Cons_nth_drop_Suc drop_all leI list.distinct(1) list.inject)

lemma length_append_writes [simp]: "length (append_writes ip svc port) = Suc (length (Endpoints svc))"
  by (simp add: append_writes_def)

lemma append_writes_0: "append_writes ip svc port ! 0 = To_Services (Service4Key_bytes (service_key ip port))
    (Service4Value_bytes \<lparr>ServiceID = ServiceId svc, Count = of_nat (length (Endpoints svc))\<rparr>)"
  by (simp add: append_writes_def)

lemma append_writes_Suc:
  "k < length (Endpoints svc) \<Longrightarrow> append_writes ip svc port ! Suc k =
     To_Endpoints (Endpoint4Key_bytes (endpoint_key (ServiceId svc) (k + 1))) (Endpoint4Value_bytes (endpoint_value (Endpoints svc ! k) port))"
  by (simp add: append_writes_def endpoint_entries_nth)

lemma endpoints_after_Suc:
  "k < length (Endpoints svc) \<Longrightarrow> endpoints_after svc port ec (Suc (Suc k)) =
     (endpoints_after svc port ec (Suc k))(Endpoint4Key_bytes (endpoint_key (ServiceId svc) (k + 1)) \<mapsto>
        Endpoint4Value_bytes (endpoint_value (Endpoints svc ! k) port))"
  by (simp add: endpoints_after_def take_Suc_conv_app_nth endpoint_entries_nth)

text \<open>What a connection gets that looked the service up after \<^verbatim>\<open>j\<close> writes and the backend after \<^verbatim>\<open>m\<close>.\<close>

lemma connect4_between:
  assumes "connects_to (frontend ip port) ctx" and "Endpoints svc \<noteq> []" and "length (Endpoints svc) < 65536"
    and "sc (Service4Key_bytes (service_key ip port)) = None"
    and "\<forall>r < length (Endpoints svc). ec (Endpoint4Key_bytes (endpoint_key (ServiceId svc) (r + 1))) = None"
    and "m \<le> Suc (length (Endpoints svc))"
  shows "c4_ctx (connect4 (services_after ip svc port sc j) (endpoints_after svc port ec m) rnd ctx) =
    (if 0 < j \<and> unat rnd mod length (Endpoints svc) < m - 1
     then redirected (Endpoints svc ! (unat rnd mod length (Endpoints svc))) port ctx else ctx)"
proof (cases "0 < j")
  case False
  then have "lookup_service (services_after ip svc port sc j) (key_of_ctx ctx) = None"
    using assms(1,4) by (simp add: services_after_def lookup_service_def connects_to_def service_key_frontend)
  then show ?thesis
    using False by (simp add: connect4_cases)
next
  case True
  let ?n = "length (Endpoints svc)" and ?r = "unat rnd mod length (Endpoints svc)"
  let ?key = "Endpoint4Key_bytes (endpoint_key (ServiceId svc) (?r + 1))"
  have r: "?r < ?n"
    using assms(2) by simp
  have n: "(of_nat ?n :: u16) \<noteq> 0" "unat (of_nat ?n :: u16) = ?n"
    using assms(2,3) by (auto simp: unsigned_of_nat take_bit_nat_eq_self word_of_nat_eq_0_iff dvd_imp_le elim!: dvdE)
  have service: "services_after ip svc port sc j (lb4_key_bytes (frontend ip port)) =
      Some (Service4Value_bytes \<lparr>ServiceID = ServiceId svc, Count = of_nat ?n\<rparr>)"
    using True by (simp add: services_after_def service_key_frontend)
  have backend: "endpoints_after svc port ec m ?key =
      (if ?r < m - 1 then Some (Endpoint4Value_bytes (endpoint_value (Endpoints svc ! ?r) port)) else None)"
    using endpoints_written [OF r assms(3), of "m - 1" port] assms(5,6) r
    by (auto simp: endpoints_after_def map_add_def)
  show ?thesis
  proof (cases "?r < m - 1")
    case True
    then have "c4_ctx (connect4 (services_after ip svc port sc j) (endpoints_after svc port ec m) rnd ctx) =
        redirected (Endpoints svc ! ?r) port ctx"
      using assms(1-3) service backend by (intro connect4_found [where n = "length (Endpoints svc)"]) simp_all
    then show ?thesis
      using True \<open>0 < j\<close> by simp
  next
    case False
    have "lookup_service (services_after ip svc port sc j) (key_of_ctx ctx) = Some \<lparr>s_service_id = ServiceId svc, s_count = of_nat ?n\<rparr>"
      using assms(1) service by (simp add: lookup_service_def connects_to_def Service4Value_bytes_eq)
    moreover have "lookup_backend (endpoints_after svc port ec m) (backend_id (ServiceId svc) (pick_index rnd (of_nat ?n))) = None"
      using backend False endpoint_key_backend_id [of "?r + 1" "ServiceId svc"] r assms(3)
      by (simp add: lookup_backend_def pick_index_of_nat [OF n(1)] n(2) Endpoint4Key_bytes_def)
    ultimately show ?thesis
      using False n(1) by (auto simp: connect4_cases)
  qed
qed

context ebpf_map
begin

definition race_inv ::
  "u32 \<Rightarrow> Service \<Rightarrow> Ports \<Rightarrow> (u8 list \<rightharpoonup> u8 list) \<Rightarrow> (u8 list \<rightharpoonup> u8 list) \<Rightarrow> u32 \<Rightarrow> bpf_sock_addr \<Rightarrow>
     map_write list \<times> 'm ServiceManager \<times> connection \<Rightarrow> bool" where
  "race_inv ip svc port sc ec rnd ctx s \<longleftrightarrow>
     (\<exists>k sm em. k \<le> Suc (length (Endpoints svc)) \<and> fst s = drop k (append_writes ip svc port) \<and>
       serviceMap (fst (snd s)) = Some sm \<and> endpointsMap (fst (snd s)) = Some em \<and> ok sm \<and> ok em \<and>
       op_lookup ops sm = services_after ip svc port sc k \<and> op_lookup ops em = endpoints_after svc port ec k \<and>
       connection_ok ip svc port sc ec rnd ctx k (snd (snd s)))"

lemma connection_ok_mono:
  "connection_ok ip svc port sc ec rnd ctx k c \<Longrightarrow> connection_ok ip svc port sc ec rnd ctx (Suc k) c"
  by (cases c) (auto intro: le_SucI)

lemma race_inv_step:
  assumes "race_inv ip svc port sc ec rnd ctx s" and "race ops rnd ctx s s'"
  shows "race_inv ip svc port sc ec rnd ctx s'"
proof -
  obtain ws st c k sm em where s: "s = (ws, st, c)" and k: "k \<le> Suc (length (Endpoints svc))" "ws = drop k (append_writes ip svc port)"
    and maps: "serviceMap st = Some sm" "endpointsMap st = Some em" "ok sm" "ok em"
      "op_lookup ops sm = services_after ip svc port sc k" "op_lookup ops em = endpoints_after svc port ec k"
    and c: "connection_ok ip svc port sc ec rnd ctx k c"
    using assms(1) by (cases s) (auto simp: race_inv_def)
  from assms(2) show ?thesis
  proof (cases rule: race.cases)
    case (written w st0 st' ws' c0)
    then have c0: "st0 = st" "c0 = c" "ws = w # ws'"
      using s by simp_all
    then have k': "k < Suc (length (Endpoints svc))" "w = append_writes ip svc port ! k" "ws' = drop (Suc k) (append_writes ip svc port)"
      using k(2) drop_eq_ConsD [of k "append_writes ip svc port"] by auto
    show ?thesis
    proof (cases k)
      case 0
      let ?entry = "Service4Value_bytes \<lparr>ServiceID = ServiceId svc, Count = of_nat (length (Endpoints svc))\<rparr>"
      obtain m' where up: "op_update ops sm (Service4Key_bytes (service_key ip port)) ?entry = (None, m')"
        and st': "st' = st\<lparr>serviceMap := Some m'\<rparr>"
        using written c0 maps(1) k'(2) by (auto simp: 0 append_writes_0 do_write_def split: prod.splits)
      have "ok m'" "op_lookup ops m' = services_after ip svc port sc 1"
        using update_stores [OF maps(3), of "Service4Key_bytes (service_key ip port)" ?entry]
          update_ok [OF maps(3), of "Service4Key_bytes (service_key ip port)" ?entry]
          up maps(5) by (simp_all add: 0 services_after_def)
      then have "race_inv ip svc port sc ec rnd ctx (ws', st', c)"
        using k' maps connection_ok_mono [OF c] unfolding race_inv_def
        by (intro exI [of _ "Suc 0"] exI [of _ m'] exI [of _ em]) (simp add: 0 st' endpoints_after_def)
      then show ?thesis
        using written c0 by simp
    next
      case (Suc i)
      let ?entry = "Endpoint4Value_bytes (endpoint_value (Endpoints svc ! i) port)"
      obtain m' where up: "op_update ops em (Endpoint4Key_bytes (endpoint_key (ServiceId svc) (i + 1))) ?entry = (None, m')"
        and st': "st' = st\<lparr>endpointsMap := Some m'\<rparr>"
        using written c0 maps(2) k'(1,2) by (auto simp: Suc append_writes_Suc do_write_def split: prod.splits)
      have "ok m'" "op_lookup ops m' = endpoints_after svc port ec (Suc k)"
        using update_stores [OF maps(4), of "Endpoint4Key_bytes (endpoint_key (ServiceId svc) (i + 1))" ?entry]
          update_ok [OF maps(4), of "Endpoint4Key_bytes (endpoint_key (ServiceId svc) (i + 1))" ?entry]
          up maps(6) k'(1) by (simp_all add: Suc endpoints_after_Suc)
      then have "race_inv ip svc port sc ec rnd ctx (ws', st', c)"
        using k' maps connection_ok_mono [OF c] unfolding race_inv_def
        by (intro exI [of _ "Suc k"] exI [of _ sm] exI [of _ m']) (simp add: Suc st' services_after_def)
      then show ?thesis
        using written c0 by simp
    qed
  next
    case (look st0 sm' ws')
    then show ?thesis
      using s k maps by (auto simp: race_inv_def intro!: exI [of _ k])
  next
    case (pick st0 em' ws' sc' left)
    then have s': "s' = (ws, st, Done (c4_ctx (connect4 sc' (op_lookup ops em) rnd ctx)) left)" "c = Looked sc' left"
      using s maps(2) by simp_all
    then obtain j where "j \<le> k" "sc' = services_after ip svc port sc j" "left = Suc (length (Endpoints svc)) - j"
      using c by auto
    then have "connection_ok ip svc port sc ec rnd ctx k (snd (snd s'))"
      using maps(6) by (auto simp: s')
    then show ?thesis
      using k maps unfolding race_inv_def s'(1) by auto
  qed
qed

lemma race_reachable:
  assumes "(race ops rnd ctx)\<^sup>*\<^sup>* s s'" and "race_inv ip svc port sc ec rnd ctx s"
  shows "race_inv ip svc port sc ec rnd ctx s'"
  using assms by (induction rule: rtranclp_induct) (auto intro: race_inv_step)

lemma race_done:
  assumes "(race ops rnd ctx)\<^sup>*\<^sup>* (append_writes ip svc port, st, Waiting) (ws, st', Done ctx' left)"
    and "serviceMap st = Some sm" "ok sm" "endpointsMap st = Some em" "ok em"
  shows "\<exists>j m. j \<le> m \<and> m \<le> Suc (length (Endpoints svc)) \<and> left = Suc (length (Endpoints svc)) - j \<and>
    ctx' = c4_ctx (connect4 (services_after ip svc port (op_lookup ops sm) j) (endpoints_after svc port (op_lookup ops em) m) rnd ctx)"
proof -
  have "race_inv ip svc port (op_lookup ops sm) (op_lookup ops em) rnd ctx (append_writes ip svc port, st, Waiting)"
    using assms(2-) unfolding race_inv_def
    by (intro exI [of _ 0] exI [of _ sm] exI [of _ em]) (simp add: services_after_def endpoints_after_def)
  from race_reachable [OF assms(1) this] obtain k j m where "k \<le> Suc (length (Endpoints svc))" "j \<le> m" "m \<le> k"
    "left = Suc (length (Endpoints svc)) - j" "ctx' = c4_ctx (connect4 (services_after ip svc port (op_lookup ops sm) j)
      (endpoints_after svc port (op_lookup ops em) m) rnd ctx)"
    by (auto simp: race_inv_def)
  then show ?thesis
    by (intro exI [of _ j] exI [of _ m]) simp
qed

end

section \<open>Properties\<close>

text \<open>C6. A connection that races with the writes for a port is safe: wherever its two lookups fall among
  the writes that \<^verbatim>\<open>AppendService\<close> does, it goes either to the endpoint that was picked, at the target
  port, or to the address it had; once the last endpoint is written, every connection is redirected. The
  frontend and the endpoint keys are new, and the writes are those of the code.\<close>

theorem concurrent_connection_safe:
  assumes maps: "ebpf_map ops cap ok"
    and svc: "Endpoints svc \<noteq> []" "length (Endpoints svc) < 65536" "LittleEndian_Uint32 (To4 (IpAddress svc)) = Some ip"
    and sm: "serviceMap st = Some sm" "ok sm" "op_lookup ops sm (Service4Key_bytes (service_key ip port)) = None"
    and em: "endpointsMap st = Some em" "ok em"
      "\<forall>r < length (Endpoints svc). op_lookup ops em (Endpoint4Key_bytes (endpoint_key (ServiceId svc) (r + 1))) = None"
    and ctx: "connects_to (frontend ip port) ctx"
    and race: "(race ops rnd ctx)\<^sup>*\<^sup>* (append_writes ip svc port, st, Waiting) (ws, st', Done ctx' left)"
  shows "(ctx' = ctx \<or> ctx' = redirected (Endpoints svc ! (unat rnd mod length (Endpoints svc))) port ctx) \<and>
    (left = 0 \<longrightarrow> ctx' = redirected (Endpoints svc ! (unat rnd mod length (Endpoints svc))) port ctx) \<and>
    append_visitor ops svc port st = run_writes ops (append_writes ip svc port) st"
proof -
  obtain j m where jm: "j \<le> m" "m \<le> Suc (length (Endpoints svc))" "left = Suc (length (Endpoints svc)) - j"
    and ctx': "ctx' = c4_ctx (connect4 (services_after ip svc port (op_lookup ops sm) j)
      (endpoints_after svc port (op_lookup ops em) m) rnd ctx)"
    using ebpf_map.race_done [OF maps race sm(1,2) em(1,2)] by blast
  have "unat rnd mod length (Endpoints svc) < length (Endpoints svc)"
    using svc(1) by simp
  then have "0 < j \<and> unat rnd mod length (Endpoints svc) < m - 1" if "left = 0"
    using that jm by linarith
  then show ?thesis
    using connect4_between [of ip port ctx svc "op_lookup ops sm" "op_lookup ops em" m j rnd] ctx ctx' svc sm(3) em(3) jm(2)
      append_visitor_run_writes [OF svc(3)] by auto
qed

theorem concurrent_connection_safe_witness:
  "\<exists>ws st' ctx'. (race (hash_ops 65536) 5 demo_ctx)\<^sup>*\<^sup>*
      (append_writes (of_le32 10 0 0 1) (demo_service\<lparr>ServiceId := 1\<rparr>) demo_port, demo_manager, Waiting) (ws, st', Done ctx' 2) \<and>
    (ctx' = demo_ctx \<or> ctx' = redirected 0x0300000A demo_port demo_ctx)"
proof -
  let ?svc = "demo_service\<lparr>ServiceId := 1\<rparr>" and ?race = "race (hash_ops 65536) 5 demo_ctx"
  obtain k v ws where ws: "append_writes (of_le32 10 0 0 1) ?svc demo_port = To_Services k v # ws" "length ws = 2"
    by (simp add: append_writes_def demo_service_def)
  define st1 where "st1 = demo_manager\<lparr>serviceMap := Some [(k, v)]\<rparr>"
  have maps: "serviceMap demo_manager = Some []" "endpointsMap demo_manager = Some []" "serviceMap st1 = Some [(k, v)]" "endpointsMap st1 = Some []"
    by (simp_all add: st1_def demo_manager_def NewServiceManager_def)
  define sc where "sc = op_lookup (hash_ops 65536) [(k, v)]"
  define ctx' where "ctx' = c4_ctx (connect4 sc (op_lookup (hash_ops 65536) []) 5 demo_ctx)"
  have "do_write (hash_ops 65536) (To_Services k v) demo_manager = (None, Some st1)"
    by (simp add: do_write_def maps st1_def hash_ops_def hash_update_def)
  then have s1: "?race (To_Services k v # ws, demo_manager, Waiting) (ws, st1, Waiting)"
    by (rule race.written)
  have s2: "?race (ws, st1, Waiting) (ws, st1, Looked sc 2)"
    using race.look [OF maps(3), of "hash_ops 65536" 5 demo_ctx ws] ws(2) by (simp add: sc_def)
  have s3: "?race (ws, st1, Looked sc 2) (ws, st1, Done ctx' 2)"
    unfolding ctx'_def by (rule race.pick [OF maps(4)])
  have run: "?race\<^sup>*\<^sup>* (append_writes (of_le32 10 0 0 1) ?svc demo_port, demo_manager, Waiting) (ws, st1, Done ctx' 2)"
    unfolding ws(1) by (rule converse_rtranclp_into_rtranclp [OF s1 converse_rtranclp_into_rtranclp [OF s2 r_into_rtranclp [of ?race, OF s3]]])
  have svc: "Endpoints ?svc \<noteq> []" "length (Endpoints ?svc) < 65536" "LittleEndian_Uint32 (To4 (IpAddress ?svc)) = Some (of_le32 10 0 0 1)"
    by (simp_all add: demo_service_def To4_def)
  have empty: "hash_ok []" "op_lookup (hash_ops 65536) [] = Map.empty"
    by (simp_all add: hash_ok_def hash_ops_def fun_eq_iff)
  have "ctx' = demo_ctx \<or> ctx' = redirected (Endpoints ?svc ! (unat (5 :: u32) mod length (Endpoints ?svc))) demo_port demo_ctx"
    using concurrent_connection_safe [OF hm.ebpf_map_axioms svc maps(1) empty(1) _ maps(2) empty(1) _ demo_connects run] empty(2)
    by simp
  moreover have "Endpoints ?svc ! (unat (5 :: u32) mod length (Endpoints ?svc)) = 0x0300000A"
    by (simp add: demo_service_def numeral_2_eq_2 [symmetric])
  ultimately show ?thesis
    using run by auto
qed

text \<open>C24. A service without ready endpoints is left alone, and so is one with too many: the count in its entry is the number of
  endpoints in 16 bits, so when that number is a multiple of 65536 the connections to its ports pass \<^verbatim>\<open>connect4\<close> unchanged,
  whatever the backend map holds.\<close>

theorem endpoint_count_wraps:
  assumes maps: "ebpf_map ops cap ok"
    and svc: "addr < length (objects st)" "svc = objects st ! addr" "Service_Ports svc = Some ports"
      "LittleEndian_Uint32 (To4 (IpAddress svc)) = Some ip" "65536 dvd length (Endpoints svc)"
    and order: "enumerates order ports" "port \<in> typed_members ports"
    and alloc: "alloc_id (cacheSerivceId st) 1 = Some i"
    and sm: "serviceMap st = Some sm" "ok sm" "card (dom (op_lookup ops sm)) + length order \<le> cap"
    and em: "endpointsMap st = Some em" "ok em"
      "card (dom (op_lookup ops em)) + length order * length (Endpoints svc) \<le> cap"
    and ctx: "connects_to (frontend ip port) ctx"
  shows "\<exists>st' sm'. AppendService ops order addr st = Returns () st' \<and> serviceMap st' = Some sm' \<and>
    services st' (ServiceKey svc) = Some addr \<and> c4_ctx (connect4 (op_lookup ops sm') backends rnd ctx) = ctx"
proof -
  let ?svc = "svc\<lparr>ServiceId := of_nat i\<rparr>"
  let ?sm = "ebpf_map.update_all ops sm (service_entries ip ?svc order)"
  have room: "ebpf_map.has_room ops cap ok sm (length order)" "ebpf_map.has_room ops cap ok em (length order * length (Endpoints svc))"
    using sm em by (simp_all add: ebpf_map.has_room_def [OF maps])
  have "(of_nat (length (Endpoints svc)) :: u16) = 0"
    using svc(5) by (simp add: word_of_nat_eq_0_iff)
  moreover have "op_lookup ops ?sm (lb4_key_bytes (frontend ip port)) =
      Some (Service4Value_bytes \<lparr>ServiceID = of_nat i, Count = of_nat (length (Endpoints svc))\<rparr>)"
    using ebpf_map.update_all_room(1) [OF maps, of sm "service_entries ip ?svc order" 0] room(1) order
    by (simp add: map_add_def service_entries_lookup service_key_frontend [symmetric] enumerates_def)
  ultimately have "c4_ctx (connect4 (op_lookup ops ?sm) backends rnd ctx) = ctx"
    using ctx by (simp add: connect4_cases connects_to_def lookup_service_def Service4Value_bytes_eq)
  moreover note ebpf_map.AppendService_effect [OF maps svc(1) _ _ alloc sm(1) room(1) em(1)] room(2) svc
  ultimately show ?thesis
    by auto
qed

theorem endpoint_count_wraps_witness:
  "\<exists>st' sm'. AppendService (hash_ops 65536) [demo_port] 0
       (demo_manager\<lparr>objects := [demo_service\<lparr>Endpoints := replicate 65536 1\<rparr>]\<rparr>) = Returns () st' \<and> serviceMap st' = Some sm' \<and>
     c4_ctx (connect4 (op_lookup (hash_ops 65536) sm') (\<lambda>_. None) 5 demo_ctx) = demo_ctx"
proof -
  define eps :: "u32 list" where "eps = replicate 65536 1"
  have eps: "length eps = 65536"
    unfolding eps_def by (rule length_replicate)
  define svc where "svc = demo_service\<lparr>Endpoints := eps\<rparr>"
  define st where "st = demo_manager\<lparr>objects := [svc]\<rparr>"
  have hyps: "0 < length (objects st)" "svc = objects st ! 0" "Service_Ports svc = Some (Some {demo_port})"
    "LittleEndian_Uint32 (To4 (IpAddress svc)) = Some (of_le32 10 0 0 1)" "65536 dvd length (Endpoints svc)"
    "enumerates [demo_port] (Some {demo_port})" "demo_port \<in> typed_members (Some {demo_port})"
    "serviceMap st = Some []" "hash_ok []" "card (dom (op_lookup (hash_ops 65536) [])) + length [demo_port] \<le> 65536" "endpointsMap st = Some []"
    "card (dom (op_lookup (hash_ops 65536) [])) + length [demo_port] * length (Endpoints svc) \<le> 65536"
    by (simp_all add: st_def svc_def demo_manager_def NewServiceManager_def demo_service_def To4_def hash_ok_def hash_ops_def eps enumerates_def)
  have alloc: "alloc_id (cacheSerivceId st) 1 = Some 1"
    by (rule alloc_id_first) (simp add: st_def demo_manager_def NewServiceManager_def)
  from endpoint_count_wraps [OF hm.ebpf_map_axioms hyps(1-7) alloc hyps(8-11) hyps(9,12) demo_connects, of "\<lambda>_. None" 5] show ?thesis
    unfolding st_def svc_def eps_def by blast
qed

end
