(* ===== verification/Manager_Runs.thy ===== *)
theory Manager_Runs
  imports Service_Manager
begin

text \<open>
  Runs of the service manager: the states that a sequence of the calls made by the controller reaches,
  each call a new service object handed to \<^verbatim>\<open>UpdateService\<close> or a key handed to \<^verbatim>\<open>DeleteService\<close>. A call that
  panics ends the process, so a run consists of calls that return. Two invariants hold along every run;
  they show that all registered services have the same id and that a service with endpoints can be
  neither deleted nor updated.
\<close>

section \<open>Runs\<close>

text \<open>A new service has id 0 (see \<^verbatim>\<open>NewService\<close>); endpoint lists are shorter than the index space.\<close>

inductive manager_run :: "'m map_ops \<Rightarrow> 'm ServiceManager \<Rightarrow> 'm ServiceManager \<Rightarrow> bool"
  for ops :: "'m map_ops" and st0 :: "'m ServiceManager" where
  start: "manager_run ops st0 st0"
| update: "manager_run ops st0 st \<Longrightarrow> ServiceId svc = 0 \<Longrightarrow> length (Endpoints svc) < 65536 \<Longrightarrow>
    UpdateService ops old_order new_order (length (objects st)) (st\<lparr>objects := objects st @ [svc]\<rparr>) = Returns err st' \<Longrightarrow>
    manager_run ops st0 st'"
| delete: "manager_run ops st0 st \<Longrightarrow> DeleteService ops order key st = Returns err st' \<Longrightarrow> manager_run ops st0 st'"

section \<open>Ids\<close>

definition ids_inv :: "'m ServiceManager \<Rightarrow> bool" where
  "ids_inv st \<longleftrightarrow> dom (cacheSerivceId st) \<subseteq> {0} \<and>
     (\<forall>key addr. services st key = Some addr \<longrightarrow>
        addr < length (objects st) \<and> ServiceId (objects st ! addr) = 1 \<and> ServiceKey (objects st ! addr) = key)"

lemma DeleteService_tables:
  assumes "DeleteService ops order key st = Returns err st'"
  shows "objects st' = objects st \<and> cacheSerivceId st' = cacheSerivceId st \<and> services st' = (services st)(key := None)"
proof (cases "services st key")
  case None
  with assms show ?thesis
    by (auto simp: DeleteService_def)
next
  case (Some addr)
  obtain ports where ports: "Service_Ports (objects st ! addr) = Some ports"
    using assms Some by (auto simp: DeleteService_def Let_def split: option.splits)
  show ?thesis
    using assms Some ports delete_Iter_frame [of st order ops "objects st ! addr" ports]
    by (auto simp: DeleteService_def Let_def same_tables_def split: go_result.splits)
qed

lemma AppendService_tables:
  assumes "AppendService ops order addr st = Returns r st'" and "alloc_id (cacheSerivceId st) 1 = Some i"
    and "addr < length (objects st)"
  shows "objects st' = (objects st)[addr := (objects st ! addr)\<lparr>ServiceId := of_nat i\<rparr>] \<and>
    cacheSerivceId st' = (cacheSerivceId st)(ServiceId (objects st ! addr) \<mapsto> True) \<and>
    services st' = (services st)(ServiceKey (objects st ! addr) \<mapsto> addr)"
proof -
  let ?svc = "(objects st ! addr)\<lparr>ServiceId := of_nat i\<rparr>"
  have st1: "objects (assign_id addr st) = (objects st)[addr := ?svc]" "services (assign_id addr st) = services st"
    "cacheSerivceId (assign_id addr st) = (cacheSerivceId st)(ServiceId (objects st ! addr) \<mapsto> True)"
    using assms(2) by (simp_all add: assign_id_def Let_def)
  obtain ports where "Service_Ports ?svc = Some ports"
    using assms st1 by (auto simp: AppendService_def Let_def split: option.splits)
  then show ?thesis
    using assms st1 append_Iter_frame [of "assign_id addr st" order ops ?svc ports]
    by (auto simp: AppendService_def Let_def same_tables_def ServiceKey_def split: go_result.splits)
qed

lemma ids_inv_delete:
  assumes "ids_inv st" and "DeleteService ops order key st = Returns err st'"
  shows "ids_inv st'"
  using assms(1) DeleteService_tables [OF assms(2)] by (auto simp: ids_inv_def)

lemma ids_inv_append:
  assumes "ids_inv st" and "AppendService ops order addr st = Returns r st'"
    and "addr < length (objects st)" and "ServiceId (objects st ! addr) = 0"
  shows "ids_inv st'"
proof -
  have "cacheSerivceId st 1 = None"
    using assms(1) by (auto simp: ids_inv_def dom_def)
  then have "alloc_id (cacheSerivceId st) 1 = Some 1"
    by (rule alloc_id_first)
  note st' = AppendService_tables [OF assms(2) this assms(3)]
  have "services st key \<noteq> Some addr" for key
    using assms(1,4) by (auto simp: ids_inv_def)
  then show ?thesis
    using assms(1,3,4) st' by (auto simp: ids_inv_def ServiceKey_def nth_list_update split: if_splits)
qed

lemma ids_inv_new_object: "ids_inv st \<Longrightarrow> ids_inv (st\<lparr>objects := objects st @ [svc]\<rparr>)"
  by (fastforce simp: ids_inv_def nth_append)

lemma ids_inv_update:
  assumes "ids_inv st" and "addr < length (objects st)" and "ServiceId (objects st ! addr) = 0"
    and "UpdateService ops old_order new_order addr st = Returns err st'"
  shows "ids_inv st'"
proof (cases "services st (ServiceKey (objects st ! addr))")
  case None
  then show ?thesis
    using assms ids_inv_append [OF assms(1) _ assms(2,3)] by (auto simp: UpdateService_def go_bind_Returns_iff)
next
  case (Some old)
  then obtain e r st1 where st1: "DeleteService ops old_order (ServiceKey (objects st ! old)) st = Returns e st1"
    "AppendService ops new_order addr st1 = Returns r st'"
    using assms(4) by (auto simp: UpdateService_def go_bind_Returns_iff)
  have "ids_inv st1" "objects st1 = objects st"
    using ids_inv_delete [OF assms(1) st1(1)] DeleteService_tables [OF st1(1)] by simp_all
  then show ?thesis
    using ids_inv_append [OF _ st1(2)] assms(2,3) by simp
qed

lemma manager_run_ids:
  assumes "manager_run ops st0 st" and "ids_inv st0"
  shows "ids_inv st"
  using assms
proof induction
  case (update st svc old_order new_order err st')
  then show ?case
    using ids_inv_update [OF ids_inv_new_object, of st "length (objects st)" svc] by simp
qed (auto intro: ids_inv_delete)

lemma ids_inv_NewServiceManager: "ids_inv (NewServiceManager sm em)"
  by (simp add: ids_inv_def NewServiceManager_def)

section \<open>Indices\<close>

text \<open>No endpoint entry has index 0: \<^verbatim>\<open>AppendService\<close> counts from 1.\<close>

context ebpf_map
begin

definition no_zero :: "'m option \<Rightarrow> bool" where
  "no_zero em \<longleftrightarrow> (\<forall>m. em = Some m \<longrightarrow>
     ok m \<and> (\<forall>sid. op_lookup ops m (Endpoint4Key_bytes (endpoint_key sid 0)) = None))"

lemma op_update_no_zero:
  assumes "no_zero (Some m)" and "i < 65535"
  shows "no_zero (Some (snd (op_update ops m (Endpoint4Key_bytes (endpoint_key sid (i + 1))) v)))"
proof (cases "fst (op_update ops m (Endpoint4Key_bytes (endpoint_key sid (i + 1))) v)")
  case None
  then show ?thesis
    using assms update_ok update_stores by (auto simp: no_zero_def endpoint_key_inject)
next
  case (Some e)
  then show ?thesis
    using assms update_ok update_fails by (auto simp: no_zero_def)
qed

lemma op_delete_no_zero:
  assumes "no_zero (Some m)"
  shows "no_zero (Some (snd (op_delete ops m k)))"
  using assms delete_ok delete_removes by (auto simp: no_zero_def)

lemma append_endpoints_no_zero:
  assumes "no_zero (endpointsMap st)" and "index + length eps < 65536"
  shows "no_zero (endpointsMap (go_state (append_endpoints ops svc port index eps st)))"
  using assms
proof (induction eps arbitrary: index st)
  case (Cons e eps)
  show ?case
  proof (cases "endpointsMap st")
    case (Some m)
    let ?u = "op_update ops m (Endpoint4Key_bytes (endpoint_key (ServiceId svc) (index + 1)))
      (Endpoint4Value_bytes (endpoint_value e port))"
    have "no_zero (Some (snd ?u))"
      using Cons.prems Some by (intro op_update_no_zero) auto
    then show ?thesis
      using Some Cons.prems(2) Cons.IH [of "st\<lparr>endpointsMap := Some (snd ?u)\<rparr>" "index + 1"]
      by (cases ?u) (auto split: option.split)
  qed (use Cons.prems in simp)
qed simp

lemma delete_endpoints_no_zero:
  assumes "no_zero (endpointsMap st)"
  shows "no_zero (endpointsMap (go_state (delete_endpoints ops svc index eps st)))"
  using assms
proof (induction eps arbitrary: index st)
  case (Cons e eps)
  show ?case
  proof (cases "endpointsMap st")
    case (Some m)
    let ?d = "op_delete ops m (Endpoint4Key_bytes (endpoint_key (ServiceId svc) index))"
    have "no_zero (Some (snd ?d))"
      using Cons.prems Some by (intro op_delete_no_zero) simp
    then show ?thesis
      using Some Cons.IH [of "st\<lparr>endpointsMap := Some (snd ?d)\<rparr>" "index + 1"]
      by (cases ?d) (auto split: option.split)
  qed (use Cons.prems in simp)
qed simp

lemma append_visitor_no_zero:
  assumes "no_zero (endpointsMap st)" and "length (Endpoints svc) < 65536"
  shows "no_zero (endpointsMap (go_state (append_visitor ops svc port st)))"
proof -
  have "no_zero (endpointsMap (go_state (append_endpoints ops svc port 0 (Endpoints svc) (st\<lparr>serviceMap := m\<rparr>))))" for m
    using assms by (intro append_endpoints_no_zero) simp_all
  then show ?thesis
    using assms(1) by (auto simp: append_visitor_def split: option.split prod.split)
qed

lemma delete_visitor_no_zero:
  assumes "no_zero (endpointsMap st)"
  shows "no_zero (endpointsMap (go_state (delete_visitor ops svc port st)))"
proof -
  have "no_zero (endpointsMap (go_state (delete_endpoints ops svc 0 (Endpoints svc) (st\<lparr>serviceMap := m\<rparr>))))" for m
    using assms by (intro delete_endpoints_no_zero) simp_all
  then show ?thesis
    using assms by (auto simp: delete_visitor_def split: option.split prod.split)
qed

lemma AppendService_no_zero:
  assumes "no_zero (endpointsMap st)" and "addr < length (objects st)" and "length (Endpoints (objects st ! addr)) < 65536"
  shows "no_zero (endpointsMap (go_state (AppendService ops order addr st)))"
proof -
  let ?st = "assign_id addr st"
  have "length (Endpoints (objects ?st ! addr)) < 65536" "no_zero (endpointsMap ?st)"
    using assms by (auto simp: assign_id_def Let_def split: option.split)
  then have "no_zero (endpointsMap (snd (go_state (Iter order (append_visitor ops (objects ?st ! addr)) ports ?st))))" for ports
    by (intro Iter_preserves [where P = "\<lambda>s. no_zero (endpointsMap s)"]) (auto intro: append_visitor_no_zero)
  from this [of "the (Service_Ports (objects ?st ! addr))"] show ?thesis
    using \<open>no_zero (endpointsMap ?st)\<close>
    by (auto simp: AppendService_def Let_def split: option.split go_result.splits)
qed

lemma DeleteService_no_zero:
  assumes "no_zero (endpointsMap st)"
  shows "no_zero (endpointsMap (go_state (DeleteService ops order key st)))"
proof -
  have "no_zero (endpointsMap (snd (go_state (Iter order (delete_visitor ops svc) ports st))))" for svc ports
    using assms by (intro Iter_preserves [where P = "\<lambda>s. no_zero (endpointsMap s)"]) (auto intro: delete_visitor_no_zero)
  from this [of "objects st ! the (services st key)" "the (Service_Ports (objects st ! the (services st key)))"]
  show ?thesis
    using assms by (auto simp: DeleteService_def Let_def split: option.split go_result.splits)
qed

lemma UpdateService_no_zero:
  assumes "no_zero (endpointsMap st)" and "addr < length (objects st)" and "length (Endpoints (objects st ! addr)) < 65536"
    and "UpdateService ops old_order new_order addr st = Returns err st'"
  shows "no_zero (endpointsMap st')"
proof (cases "services st (ServiceKey (objects st ! addr))")
  case None
  then show ?thesis
    using assms(4) AppendService_no_zero [OF assms(1-3), of new_order] by (auto simp: UpdateService_def go_bind_Returns_iff)
next
  case (Some old)
  then obtain e r st1 where st1: "DeleteService ops old_order (ServiceKey (objects st ! old)) st = Returns e st1"
    "AppendService ops new_order addr st1 = Returns r st'"
    using assms(4) by (auto simp: UpdateService_def go_bind_Returns_iff)
  have "no_zero (endpointsMap st1)" "objects st1 = objects st"
    using DeleteService_no_zero [OF assms(1)] DeleteService_tables [OF st1(1)] st1(1) by (metis go_state.simps(1))+
  then show ?thesis
    using AppendService_no_zero [of st1 addr new_order] st1(2) assms(2,3) by simp
qed

lemma manager_run_no_zero:
  assumes "manager_run ops st0 st" and "no_zero (endpointsMap st0)"
  shows "no_zero (endpointsMap st)"
  using assms
proof induction
  case (update st svc old_order new_order err st')
  then show ?case
    using UpdateService_no_zero [of "st\<lparr>objects := objects st @ [svc]\<rparr>" "length (objects st)"] by simp
next
  case (delete st order key err st')
  then show ?case
    using DeleteService_no_zero [of st order key] by simp
qed simp

end

text \<open>A deletion starts at index 0, where no entry is.\<close>

lemma registered_service_panics:
  assumes maps: "ebpf_map ops cap ok"
    and run: "manager_run ops (NewServiceManager sm (Some em)) st"
    and em: "ok em" "\<forall>sid. op_lookup ops em (Endpoint4Key_bytes (endpoint_key sid 0)) = None"
    and svc: "services st key = Some addr" "Endpoints (objects st ! addr) \<noteq> []" "order \<noteq> []" "ServiceKey svc = key"
  shows "(\<exists>p st'. DeleteService ops order key st = Panics p st') \<and>
    (\<exists>p st'. UpdateService ops order new_order (length (objects st)) (st\<lparr>objects := objects st @ [svc]\<rparr>) = Panics p st')"
proof -
  have "ebpf_map.no_zero ops ok (endpointsMap (NewServiceManager sm (Some em)))"
    using em by (simp add: ebpf_map.no_zero_def [OF maps] NewServiceManager_def)
  from ebpf_map.manager_run_no_zero [OF maps run this]
  have zero: "ok m \<and> op_lookup ops m (Endpoint4Key_bytes (endpoint_key sid 0)) = None"
    if "endpointsMap st = Some m" for m sid
    using that by (simp add: ebpf_map.no_zero_def [OF maps])
  have addr: "addr < length (objects st)" "ServiceKey (objects st ! addr) = key"
    using manager_run_ids [OF run ids_inv_NewServiceManager] svc(1) by (auto simp: ids_inv_def)
  let ?st = "st\<lparr>objects := objects st @ [svc]\<rparr>"
  have "\<not> go_returns (DeleteService ops order key st)"
    using ebpf_map.DeleteService_never_returns [OF maps svc(1,3,2)] zero by blast
  moreover have "\<not> go_returns (DeleteService ops order key ?st)"
    using svc addr(1) zero by (intro ebpf_map.DeleteService_never_returns [OF maps, where addr = addr])
      (simp_all add: nth_append)
  moreover have "\<exists>p s. r = Panics p s" if "\<not> go_returns r" for r :: "('r, 's) go_result"
    using that by (cases r) auto
  ultimately obtain p s p' s' where "DeleteService ops order key st = Panics p s"
    "DeleteService ops order key ?st = Panics p' s'"
    by metis
  then show ?thesis
    using svc(1,4) addr by (simp add: UpdateService_def nth_append)
qed

section \<open>A run\<close>

lemma demo_first_update:
  "\<exists>st. UpdateService (hash_ops 65536) [] [demo_port] 0 demo_manager = Returns None st \<and>
     services st = [''default/web'' \<mapsto> 0] \<and> objects st = [demo_service\<lparr>ServiceId := 1\<rparr>]"
proof -
  have alloc: "alloc_id (cacheSerivceId demo_manager) 1 = Some 1"
    by (rule alloc_id_first) (simp add: demo_manager_def NewServiceManager_def)
  have room: "hm.has_room 65536 [] n" if "n \<le> 65536" for n
    unfolding hm.has_room_def using that by (simp add: hash_ok_def hash_ops_def)
  have "\<exists>st. AppendService (hash_ops 65536) [demo_port] 0 demo_manager = Returns () st"
    using hm.AppendService_effect [of 0 demo_manager "Some {demo_port}" "of_le32 10 0 0 1" 1 "[]" 65536 "[demo_port]" "[]", OF _ _ _ alloc] room
    by (simp add: demo_manager_def NewServiceManager_def demo_service_def To4_def)
  then obtain st where st: "AppendService (hash_ops 65536) [demo_port] 0 demo_manager = Returns () st"
    by blast
  from AppendService_tables [OF st alloc] show ?thesis
    using st by (auto simp: UpdateService_def demo_manager_def NewServiceManager_def demo_service_def ServiceKey_def)
qed

section \<open>Properties\<close>

text \<open>In every state that a run reaches, whatever the maps do, all registered services have the id 1:
  the allocation marks the id the service had before, 0, and so 1 is always the first free id.\<close>

theorem registered_services_share_id:
  assumes "manager_run ops (NewServiceManager sm em) st"
    and "services st key = Some addr" and "services st key' = Some addr'"
  shows "ServiceId (objects st ! addr) = 1 \<and> ServiceId (objects st ! addr') = 1 \<and>
    (ServiceId (objects st ! addr) = ServiceId (objects st ! addr'))"
  using manager_run_ids [OF assms(1) ids_inv_NewServiceManager] assms(2,3) by (auto simp: ids_inv_def)

theorem registered_services_share_id_witness:
  "\<exists>st. manager_run (hash_ops 65536) (NewServiceManager None None) st \<and>
     services st ''default/web'' = Some 0 \<and> services st ''default/api'' = Some 1 \<and>
     ServiceId (objects st ! 0) = ServiceId (objects st ! 1)"
proof -
  let ?st0 = "NewServiceManager None None :: hash_map ServiceManager"
  let ?api = "demo_service\<lparr>Name := ''api''\<rparr>"
  define st1 where "st1 = (appended 0 1 (?st0\<lparr>objects := [demo_service]\<rparr>))"
  define st2 where "st2 = (appended 1 1 (st1\<lparr>objects := objects st1 @ [?api]\<rparr>))"
  have alloc: "alloc_id [0 \<mapsto> True] 1 = Some 1" "alloc_id Map.empty 1 = Some 1"
    by (rule alloc_id_first, simp)+
  have "UpdateService (hash_ops 65536) [] [demo_port] 0 (?st0\<lparr>objects := [demo_service]\<rparr>) = Returns None st1"
    using alloc(2) by (simp add: st1_def appended_def UpdateService_def AppendService_def assign_id_def NewServiceManager_def
        Let_def demo_service_def append_visitor_def To4_def ServiceKey_def)
  then have run1: "manager_run (hash_ops 65536) ?st0 st1"
    using manager_run.update [OF manager_run.start, of demo_service "hash_ops 65536" "[]" "[demo_port]" ?st0 None st1]
    by (simp add: demo_service_def NewServiceManager_def)
  have "UpdateService (hash_ops 65536) [] [demo_port] 1 (st1\<lparr>objects := objects st1 @ [?api]\<rparr>) = Returns None st2"
    using alloc(1) by (simp add: st1_def st2_def appended_def UpdateService_def AppendService_def assign_id_def NewServiceManager_def
        Let_def demo_service_def append_visitor_def To4_def ServiceKey_def)
  then have run2: "manager_run (hash_ops 65536) ?st0 st2"
    using manager_run.update [OF run1, of ?api "[]" "[demo_port]" None st2]
    by (simp add: st1_def demo_service_def NewServiceManager_def)
  have "services st2 ''default/web'' = Some 0" "services st2 ''default/api'' = Some 1"
    by (simp_all add: st2_def st1_def demo_service_def ServiceKey_def NewServiceManager_def)
  with registered_services_share_id [OF run2 this] run2 show ?thesis
    by blast
qed

text \<open>C10. In every state that a run from maps without index-0 endpoint entries reaches, \<^verbatim>\<open>DeleteService\<close> of a
  registered service with at least one port and one endpoint panics, and so does \<^verbatim>\<open>UpdateService\<close> of a new
  version of it: the deletion starts at index 0 while the entries start at 1.\<close>

theorem delete_and_update_panic:
  assumes maps: "ebpf_map ops cap ok"
    and run: "manager_run ops (NewServiceManager sm (Some em)) st"
    and em: "ok em" "\<forall>sid. op_lookup ops em (Endpoint4Key_bytes (endpoint_key sid 0)) = None"
    and svc: "services st key = Some addr" "Endpoints (objects st ! addr) \<noteq> []" "order \<noteq> []" "ServiceKey svc = key"
  shows "(\<exists>p st'. DeleteService ops order key st = Panics p st') \<and>
    (\<exists>p st'. UpdateService ops order new_order (length (objects st)) (st\<lparr>objects := objects st @ [svc]\<rparr>) = Panics p st')"
  by (rule registered_service_panics [OF assms])

theorem delete_and_update_panic_witness:
  "\<exists>st p st'. manager_run (hash_ops 65536) (NewServiceManager (Some []) (Some [])) st \<and>
     services st ''default/web'' = Some 0 \<and> DeleteService (hash_ops 65536) [demo_port] ''default/web'' st = Panics p st'"
proof -
  let ?st0 = "NewServiceManager (Some []) (Some []) :: hash_map ServiceManager"
  obtain st where st: "UpdateService (hash_ops 65536) [] [demo_port] 0 demo_manager = Returns None st"
    "services st = [''default/web'' \<mapsto> 0]" "objects st = [demo_service\<lparr>ServiceId := 1\<rparr>]"
    using demo_first_update by blast
  have run: "manager_run (hash_ops 65536) ?st0 st"
    using manager_run.update [OF manager_run.start, of demo_service "hash_ops 65536" "[]" "[demo_port]" ?st0 None st] st(1)
    by (simp add: demo_service_def demo_manager_def NewServiceManager_def)
  have "services st ''default/web'' = Some 0" "Endpoints (objects st ! 0) \<noteq> []" "[demo_port] \<noteq> []"
    "ServiceKey demo_service = ''default/web''" "hash_ok []"
    "\<forall>sid. op_lookup (hash_ops 65536) [] (Endpoint4Key_bytes (endpoint_key sid 0)) = None"
    by (simp_all add: st demo_service_def ServiceKey_def hash_ok_def hash_ops_def)
  with delete_and_update_panic [OF hm.ebpf_map_axioms run this(5,6,1-4)] run show ?thesis
    by blast
qed

text \<open>C37. \<^verbatim>\<open>OnUpdateEndpointSlice\<close> of a labelled slice whose service it does not find panics and registers
  nothing: the service it makes up has no set of ports.\<close>

theorem OnUpdateEndpointSlice_unknown_panics:
  assumes "es_Labels es \<noteq> []" and "services st (slice_key es) = None"
  shows "\<exists>p st'. OnUpdateEndpointSlice ops old_order new_order es st = Panics p st' \<and> services st' = services st \<and>
    serviceMap st' = serviceMap st \<and> endpointsMap st' = endpointsMap st"
  using assms
  by (cases "OnUpdate_endpoints (es_Endpoints es) []"; cases "alloc_id (cacheSerivceId st) 1")
    (auto simp: OnUpdateEndpointSlice_def Let_def AppendService_def assign_id_def nth_append)

theorem OnUpdateEndpointSlice_unknown_panics_witness:
  "\<exists>p st'. OnUpdateEndpointSlice (hash_ops 65536) [] []
     \<lparr>es_Name = ''web-1'', es_Namespace = ''default'', es_Labels = [(LabelServiceName, ''web'')], es_DeletionTimestamp = None, es_Endpoints = []\<rparr>
     demo_manager = Panics p st' \<and> services st' = Map.empty"
  using OnUpdateEndpointSlice_unknown_panics
    [of "\<lparr>es_Name = ''web-1'', es_Namespace = ''default'', es_Labels = [(LabelServiceName, ''web'')], es_DeletionTimestamp = None, es_Endpoints = []\<rparr>"
      demo_manager "hash_ops 65536" "[]" "[]"]
  by (fastforce simp: demo_manager_def NewServiceManager_def)

text \<open>The endpoint list that \<^verbatim>\<open>OnUpdateEndpointSlice\<close> collects holds only the address 0.0.0.0: its test
  keeps the zero addresses, where \<^verbatim>\<open>NewService\<close> keeps the others.\<close>

theorem OnUpdate_endpoints_only_zero:
  "OnUpdate_endpoints es [] = Returns () eps \<Longrightarrow> set eps \<subseteq> {0}"
proof -
  have "set eps \<subseteq> {0}" if "OnUpdate_endpoints es acc = Returns () eps" "set acc \<subseteq> {0}" for acc
    using that
  proof (induction es arbitrary: acc)
    case (Cons e es)
    show ?case
    proof (cases "Ready e = Some True")
      case True
      then have "OnUpdate_endpoints es (acc @ filter (\<lambda>a. a = 0) (map (the \<circ> address_of) (Addresses e))) = Returns () eps"
        using Cons.prems(1) by (auto simp: go_bind_Returns_iff append_addresses_result)
      from Cons.IH [OF this] show ?thesis
        using Cons.prems(2) by auto
    qed (use Cons in simp)
  qed simp
  then show "OnUpdate_endpoints es [] = Returns () eps \<Longrightarrow> set eps \<subseteq> {0}"
    by simp
qed

theorem OnUpdate_endpoints_only_zero_witness:
  "OnUpdate_endpoints [\<lparr>Ready = Some True, Addresses = [dotted 10 0 0 2, dotted 0 0 0 0]\<rparr>] [] = Returns () [0] \<and>
   set [0 :: u32] \<subseteq> {0}"
proof -
  have zero: "of_le32 0 0 0 0 = 0" "of_le32 10 0 0 2 \<noteq> 0"
    by (simp_all add: of_le32_def)
  have "OnUpdate_endpoints [\<lparr>Ready = Some True, Addresses = [dotted 10 0 0 2, dotted 0 0 0 0]\<rparr>] [] = Returns () [0]"
    using zero by (simp add: address_of_dotted [unfolded address_of_def])
  with OnUpdate_endpoints_only_zero [OF this] show ?thesis
    by simp
qed

end
