(* ===== verification/Go_Strings.thy ===== *)
theory Go_Strings
  imports Eproxy_Prelude
begin

text \<open>
  The parts of Go's \<^verbatim>\<open>strings\<close>, \<^verbatim>\<open>strconv\<close>, \<^verbatim>\<open>bufio\<close> and \<^verbatim>\<open>path/filepath\<close> that the code calls: splitting at a
  separator, decimal integers of 64 bits, lines of a reader, and cleaned paths. Each comes with the laws
  its clients use.
\<close>

section \<open>strings.Split\<close>

fun strip_prefix :: "string \<Rightarrow> string \<Rightarrow> string option" where
  "strip_prefix [] s = Some s"
| "strip_prefix (p # ps) [] = None"
| "strip_prefix (p # ps) (c # s) = (if p = c then strip_prefix ps s else None)"

text \<open>The separator is not empty: it is given by its first character and the others.\<close>

lemma strip_prefix_length: "strip_prefix p s = Some r \<Longrightarrow> length r \<le> length s"
  by (induction p s rule: strip_prefix.induct) (auto split: if_splits)

fun cons_head :: "char \<Rightarrow> string list \<Rightarrow> string list" where
  "cons_head c [] = [[c]]"
| "cons_head c (w # ws) = (c # w) # ws"

function Split :: "char \<Rightarrow> string \<Rightarrow> string \<Rightarrow> string list" where
  "Split d ds [] = [[]]"
| "Split d ds (c # s) =
     (case strip_prefix (d # ds) (c # s) of
        Some rest \<Rightarrow> [] # Split d ds rest
      | None \<Rightarrow> cons_head c (Split d ds s))"
  by pat_completeness auto
termination
  by (relation "measure (\<lambda>(d, ds, s). length s)") (auto dest: strip_prefix_length split: if_splits)

text \<open>Joining with a one-character separator.\<close>

fun join_with :: "char \<Rightarrow> string list \<Rightarrow> string" where
  "join_with d [] = []"
| "join_with d [w] = w"
| "join_with d (w # v # ws) = w @ d # join_with d (v # ws)"

section \<open>strconv.ParseInt\<close>

datatype num_error = ErrSyntax | ErrRange

definition decimal_digit :: "char \<Rightarrow> nat option" where
  "decimal_digit c = (if 48 \<le> (of_char c :: nat) \<and> (of_char c :: nat) \<le> 57 then Some (of_char c - 48) else None)"

text \<open>\<^verbatim>\<open>ParseUint\<close> in base 10 with 64 bits: the first character that is no digit, or the first digit that
  overflows, ends it.\<close>

fun parse_digits :: "nat \<Rightarrow> string \<Rightarrow> num_error + nat" where
  "parse_digits n [] = Inr n"
| "parse_digits n (c # s) =
     (case decimal_digit c of
        None \<Rightarrow> Inl ErrSyntax
      | Some d \<Rightarrow> if 2 ^ 64 \<le> n * 10 + d then Inl ErrRange else parse_digits (n * 10 + d) s)"

definition ParseUint :: "string \<Rightarrow> num_error + nat" where
  "ParseUint s = (if s = [] then Inl ErrSyntax else parse_digits 0 s)"

definition ParseInt :: "string \<Rightarrow> num_error + int" where
  "ParseInt s =
     (case s of
        [] \<Rightarrow> Inl ErrSyntax
      | c # rest \<Rightarrow>
          let neg = (c = CHR ''-''); digits = (if c = CHR ''+'' \<or> c = CHR ''-'' then rest else s)
          in case ParseUint digits of
               Inl err \<Rightarrow> Inl err
             | Inr un \<Rightarrow>
                 if \<not> neg \<and> 2 ^ 63 \<le> un then Inl ErrRange
                 else if neg \<and> 2 ^ 63 < un then Inl ErrRange
                 else Inr (if neg then - int un else int un))"

text \<open>The decimal numeral of a number.\<close>

fun decimal :: "nat \<Rightarrow> string" where
  "decimal n = (if n < 10 then [char_of (48 + n)] else decimal (n div 10) @ [char_of (48 + n mod 10)])"

declare decimal.simps [simp del]

definition show_int :: "int \<Rightarrow> string" where
  "show_int i = (if i < 0 then CHR ''-'' # decimal (nat (- i)) else decimal (nat i))"

section \<open>bufio.Scanner with ScanLines\<close>

text \<open>The text up to each newline, a final line without newline if it is not empty, without a carriage
  return at the end. A line that does not fit the scanner's buffer ends the scan with an error.\<close>

definition max_line :: nat where
  "max_line = 65535"

definition drop_cr :: "string \<Rightarrow> string" where
  "drop_cr l = (if l \<noteq> [] \<and> last l = CHR 0x0D then butlast l else l)"

definition raw_lines :: "string \<Rightarrow> string list" where
  "raw_lines s = (let ls = Split (CHR 0x0A) [] s in if last ls = [] then butlast ls else ls)"

definition ScanLines :: "string \<Rightarrow> string list \<times> bool" where
  "ScanLines s =
     (let ls = raw_lines s; ok = takeWhile (\<lambda>l. length l \<le> max_line) ls
      in (map drop_cr ok, length ok = length ls))"

section \<open>path/filepath\<close>

text \<open>\<^verbatim>\<open>Clean\<close> on the components: empty ones and dots go, a double dot takes the component before it, and
  is dropped at the root.\<close>

fun clean_step :: "bool \<Rightarrow> string list \<Rightarrow> string list \<Rightarrow> string list" where
  "clean_step rooted acc [] = rev acc"
| "clean_step rooted acc (w # ws) =
     (if w = [] \<or> w = ''.'' then clean_step rooted acc ws
      else if w = ''..'' then
        (case acc of
           [] \<Rightarrow> clean_step rooted (if rooted then [] else [w]) ws
         | v # vs \<Rightarrow> if v = ''..'' then clean_step rooted (w # acc) ws else clean_step rooted vs ws)
      else clean_step rooted (w # acc) ws)"

definition Clean :: "string \<Rightarrow> string" where
  "Clean path =
     (let rooted = (path \<noteq> [] \<and> hd path = CHR ''/'');
          body = join_with (CHR ''/'') (clean_step rooted [] (Split (CHR ''/'') [] path))
      in if rooted then CHR ''/'' # body else if body = [] then ''.'' else body)"

text \<open>\<^verbatim>\<open>Dir\<close>: what stands before the last slash, the slash included, cleaned.\<close>

definition Dir :: "string \<Rightarrow> string" where
  "Dir path = Clean (rev (dropWhile (\<lambda>c. c \<noteq> CHR ''/'') (rev path)))"

definition path_Join :: "string list \<Rightarrow> string" where
  "path_Join elems =
     (let ws = dropWhile (\<lambda>e. e = []) elems
      in if ws = [] then [] else Clean (join_with (CHR ''/'') ws))"

section \<open>Lemmas\<close>

lemma Split_nonempty [simp]: "Split d ds s \<noteq> []"
proof (induction d ds s rule: Split.induct)
  case (2 d ds c s)
  then show ?case
    by (cases "Split d ds s") (auto split: option.split)
qed simp

lemma Split_char_Cons: "Split d [] (c # s) = (if c = d then [] # Split d [] s else cons_head c (Split d [] s))"
  by simp

declare Split.simps [simp del]

lemmas Split_simps [simp] = Split.simps(1) Split_char_Cons

lemma Split_plain: "d \<notin> set s \<Longrightarrow> Split d [] s = [s]"
  by (induction s) auto

lemma Split_append: "d \<notin> set w \<Longrightarrow> Split d [] (w @ d # s) = w # Split d [] s"
  by (induction w) auto

lemma Split_join:
  "ws \<noteq> [] \<Longrightarrow> list_all (\<lambda>w. d \<notin> set w) ws \<Longrightarrow> Split d [] (join_with d ws) = ws"
  by (induction d ws rule: join_with.induct) (auto simp: Split_plain Split_append)

lemma join_Split: "join_with d (Split d [] s) = s"
proof (induction s)
  case (Cons c s)
  obtain w ws where split: "Split d [] s = w # ws"
    by (meson Split_nonempty list.exhaust)
  then show ?case
    using Cons by (cases ws) auto
qed simp

lemma decimal_digit_char: "d < 10 \<Longrightarrow> decimal_digit (char_of (48 + d)) = Some d"
  by (simp add: decimal_digit_def)

lemma parse_digits_append:
  "parse_digits n (s @ t) = (case parse_digits n s of Inl e \<Rightarrow> Inl e | Inr m \<Rightarrow> parse_digits m t)"
  by (induction n s rule: parse_digits.induct) (auto split: option.split)

lemma parse_digits_decimal: "n < 2 ^ 64 \<Longrightarrow> parse_digits 0 (decimal n) = Inr n"
proof (induction n rule: decimal.induct)
  case (1 n)
  show ?case
  proof (cases "n < 10")
    case True
    then show ?thesis
      by (simp add: decimal.simps [of n] decimal_digit_char)
  next
    case False
    then have "parse_digits 0 (decimal (n div 10)) = Inr (n div 10)"
      using 1 by simp
    moreover have "n div 10 * 10 + n mod 10 = n"
      by simp
    ultimately show ?thesis
      using False "1.prems" by (simp add: decimal.simps [of n] parse_digits_append decimal_digit_char)
  qed
qed

lemma decimal_chars: "c \<in> set (decimal n) \<Longrightarrow> 48 \<le> (of_char c :: nat) \<and> (of_char c :: nat) \<le> 57"
proof (induction n rule: decimal.induct)
  case (1 n)
  have digit: "(of_char (char_of (48 + d) :: char) :: nat) = 48 + d" if "d < 10" for d
    using that by simp
  show ?case
    using 1 digit by (cases "n < 10") (auto simp: decimal.simps [of n])
qed

lemma decimal_nonempty [simp]: "decimal n \<noteq> []"
  by (simp add: decimal.simps [of n])

lemma decimal_no_char: "(of_char c :: nat) < 48 \<or> 57 < (of_char c :: nat) \<Longrightarrow> c \<notin> set (decimal n)"
  using decimal_chars by fastforce

lemma ParseInt_show_int:
  assumes "- (2 ^ 63) \<le> i" and "i < 2 ^ 63"
  shows "ParseInt (show_int i) = Inr i"
proof -
  have hd: "hd (decimal n) \<noteq> CHR ''-''" "hd (decimal n) \<noteq> CHR ''+''" for n
    using decimal_no_char [of "CHR ''-''" n] decimal_no_char [of "CHR ''+''" n]
      list.set_sel(1) [OF decimal_nonempty, of n] by (simp_all, metis+)
  show ?thesis
  proof (cases "i < 0")
    case True
    moreover have "nat (- i) < 2 ^ 64" "\<not> 2 ^ 63 < nat (- i)"
      using assms True by (simp_all add: nat_less_iff)
    ultimately show ?thesis
      by (simp add: show_int_def ParseInt_def ParseUint_def parse_digits_decimal)
  next
    case False
    moreover have "nat i < 2 ^ 64" "\<not> 2 ^ 63 \<le> nat i"
      using assms False by (simp_all add: nat_less_iff)
    ultimately show ?thesis
      using hd [of "nat i"] parse_digits_decimal [of "nat i"]
      by (cases "decimal (nat i)") (auto simp: show_int_def ParseInt_def ParseUint_def)
  qed
qed

end
