(* ===== verification/Controller.thy ===== *)
theory Controller
  imports Manager_Runs Go_Strings
begin

text \<open>
  The controller of \<^verbatim>\<open>src/pkg/kubernetes/controller\<close>: events put keys on a work queue, a worker takes them
  off and calls the handler, which reads the listers and drives the service manager. The work queue and
  the listers belong to client-go: the queue is a record of operations with the laws of the locale
  \<^verbatim>\<open>work_queue\<close>, an instance of which follows the documented behaviour of the rate-limited queue; a lister
  is a function from namespace and name. One worker runs (\<^verbatim>\<open>main\<close> starts one), an item at a time.
\<close>

section \<open>Keys\<close>

definition ServiceType :: string where
  "ServiceType = ''Service''"

definition EndpointSliceType :: string where
  "EndpointSliceType = ''EndpointSlice''"

datatype obj_kind = Is_Service | Is_EndpointSlice | Is_Other

definition kind_name :: "obj_kind \<Rightarrow> string" where
  "kind_name k = (case k of Is_Service \<Rightarrow> ServiceType | Is_EndpointSlice \<Rightarrow> EndpointSliceType | Is_Other \<Rightarrow> ''Unknown'')"

section \<open>Work queue\<close>

datatype queue_item = Key string | Foreign

record 'q queue_ops =
  q_Add :: "queue_item \<Rightarrow> 'q \<Rightarrow> 'q"
  q_Get :: "'q \<Rightarrow> queue_item option \<times> 'q"
  q_Done :: "queue_item \<Rightarrow> 'q \<Rightarrow> 'q"
  q_Forget :: "queue_item \<Rightarrow> 'q \<Rightarrow> 'q"
  q_AddRateLimited :: "queue_item \<Rightarrow> 'q \<Rightarrow> 'q"
  q_NumRequeues :: "'q \<Rightarrow> queue_item \<Rightarrow> nat"
  q_ShutDown :: "'q \<Rightarrow> 'q"

text \<open>\<^verbatim>\<open>pending\<close> are the items that some later \<^verbatim>\<open>Get\<close> returns, those waiting out a delay included; \<^verbatim>\<open>down\<close>
  tells that the queue was shut down, from when on it takes no items; \<^verbatim>\<open>waiting\<close> counts what is still to be
  taken off a queue that is down. An item taken and failed is not waiting there again. \<^verbatim>\<open>Get\<close> takes the item
  it returns off the queue proper; a copy that waits out a delay stays and is returned once more.\<close>

locale work_queue =
  fixes qops :: "'q queue_ops"
    and pending :: "'q \<Rightarrow> queue_item set"
    and down :: "'q \<Rightarrow> bool"
    and waiting :: "'q \<Rightarrow> nat"
  assumes pending_Add: "\<not> down q \<Longrightarrow> pending (q_Add qops i q) = insert i (pending q)"
    and pending_Get: "q_Get qops q = (Some i, q') \<Longrightarrow> i \<in> pending q \<and> pending q - {i} \<subseteq> pending q' \<and> pending q' \<subseteq> pending q"
    and pending_Done: "pending (q_Done qops i q) = pending q"
    and pending_Forget: "pending (q_Forget qops i q) = pending q"
    and pending_AddRateLimited: "\<not> down q \<Longrightarrow> pending (q_AddRateLimited qops i q) = insert i (pending q)"
    and down_Get: "q_Get qops q = (r, q') \<Longrightarrow> down q' = down q"
    and down_keep: "down (q_Add qops i q) = down q" "down (q_Done qops i q) = down q" "down (q_Forget qops i q) = down q"
      "down (q_AddRateLimited qops i q) = down q"
    and down_ShutDown: "down (q_ShutDown qops q)"
    and waiting_Get: "down q \<Longrightarrow> q_Get qops q = (Some i, q') \<Longrightarrow> waiting q' < waiting q"
    and waiting_keep: "waiting (q_Done qops i q) = waiting q" "waiting (q_Forget qops i q) = waiting q"
      "down q \<Longrightarrow> waiting (q_AddRateLimited qops i q) = waiting q"

section \<open>Base controller\<close>

definition Enqueue :: "'q queue_ops \<Rightarrow> ('o \<Rightarrow> string option) \<Rightarrow> ('o \<Rightarrow> obj_kind) \<Rightarrow> 'o \<Rightarrow> 'q \<Rightarrow> 'q" where
  "Enqueue qops MetaNamespaceKeyFunc kind obj q =
     (let typep = kind_name (kind obj)
      in case MetaNamespaceKeyFunc obj of
           None \<Rightarrow> q
         | Some key \<Rightarrow> q_Add qops (Key (typep @ ''/'' @ key)) q)"

text \<open>The deferred \<^verbatim>\<open>Done\<close> runs on every way out, a panic of the handler included.\<close>

definition processNextWorkItem ::
  "'q queue_ops \<Rightarrow> nat \<Rightarrow> (string \<Rightarrow> 's \<Rightarrow> (string option, 's) go_result) \<Rightarrow> 'q \<times> 's \<Rightarrow> (bool, 'q \<times> 's) go_result" where
  "processNextWorkItem qops MaxRetries Handler st =
     (let (q, s) = st
      in case q_Get qops q of
           (None, q1) \<Rightarrow> Returns False (q1, s)
         | (Some obj, q1) \<Rightarrow>
             (case obj of
                Foreign \<Rightarrow> Returns True (q_Done qops obj (q_Forget qops obj q1), s)
              | Key key \<Rightarrow>
                  (case Handler key s of
                     Panics p s1 \<Rightarrow> Panics p (q_Done qops obj q1, s1)
                   | Returns (Some err) s1 \<Rightarrow>
                       if MaxRetries = 0 \<or> q_NumRequeues qops q1 obj < MaxRetries
                       then Returns True (q_Done qops obj (q_AddRateLimited qops obj q1), s1)
                       else Returns True (q_Done qops obj q1, s1)
                   | Returns None s1 \<Rightarrow> Returns True (q_Done qops obj (q_Forget qops obj q1), s1))))"

text \<open>The worker's loop ends when the queue says it is shut down, or by a panic of the handler.\<close>

partial_function (option) runWorker ::
  "'q queue_ops \<Rightarrow> nat \<Rightarrow> (string \<Rightarrow> 's \<Rightarrow> (string option, 's) go_result) \<Rightarrow> 'q \<times> 's \<Rightarrow> (unit, 'q \<times> 's) go_result option" where
  "runWorker qops MaxRetries Handler st =
     (case processNextWorkItem qops MaxRetries Handler st of
        Panics p st' \<Rightarrow> Some (Panics p st')
      | Returns busy st' \<Rightarrow> if busy then runWorker qops MaxRetries Handler st' else Some (Returns () st'))"

text \<open>\<^verbatim>\<open>Run\<close> returns when the caches fail to sync or the stop channel is closed, and shuts the queue down in both
  cases; \<^verbatim>\<open>q1\<close> is the queue as the workers have left it when the channel closes.\<close>

definition Run :: "'q queue_ops \<Rightarrow> string \<Rightarrow> bool list \<Rightarrow> 'q \<Rightarrow> 'q \<Rightarrow> string option \<times> 'q" where
  "Run qops ctl Synced q0 q1 =
     (if \<not> list_all (\<lambda>ok. ok) Synced
      then (Some (''failed to wait for caches to sync for: '' @ ctl), q_ShutDown qops q0)
      else (None, q_ShutDown qops q1))"

section \<open>Handlers\<close>

text \<open>What a handler reads: the two listers and \<^verbatim>\<open>IntValue\<close> of the library, and the orders in which the
  two ranges over port sets run.\<close>

record 'p cluster =
  slice_lister :: "string \<Rightarrow> string \<Rightarrow> EndpointSlice option"
  service_lister :: "string \<Rightarrow> string \<Rightarrow> 'p v1_Service option"
  int_value :: "'p \<Rightarrow> int"
  delete_order :: "Ports list"
  append_order :: "Ports list"

text \<open>\<^verbatim>\<open>IsZero\<close> of a timestamp that may be absent; 0 is the zero time.\<close>

definition Time_IsZero :: "nat option \<Rightarrow> bool" where
  "Time_IsZero t \<longleftrightarrow> (case t of None \<Rightarrow> True | Some s \<Rightarrow> s = 0)"

definition ServiceHandler :: "string \<Rightarrow> string \<Rightarrow> 'm ServiceManager \<Rightarrow> (string option, 'm ServiceManager) go_result" where
  "ServiceHandler name namespace st = Returns None st"

definition EndpointHandler ::
  "'m map_ops \<Rightarrow> 'p cluster \<Rightarrow> string \<Rightarrow> string \<Rightarrow> 'm ServiceManager \<Rightarrow> (string option, 'm ServiceManager) go_result" where
  "EndpointHandler ops k8s namespace name st =
     (case slice_lister k8s namespace name of
        None \<Rightarrow> Returns (Some ''not found'') st
      | Some endpointSlice \<Rightarrow>
          (let svcname = label endpointSlice LabelServiceName
           in case service_lister k8s namespace svcname of
                None \<Rightarrow> Returns (Some ''not found'') st
              | Some svc \<Rightarrow>
                  (case NewService (int_value k8s) svc endpointSlice of
                     Panics p _ \<Rightarrow> Panics p st
                   | Returns bsvc _ \<Rightarrow>
                       if \<not> Time_IsZero (es_DeletionTimestamp endpointSlice) then
                         go_bind (DeleteService ops (delete_order k8s) (ServiceKey bsvc) st) (\<lambda>_. Returns None)
                       else
                         go_bind (UpdateService ops (delete_order k8s) (append_order k8s) (length (objects st))
                             (st\<lparr>objects := objects st @ [bsvc]\<rparr>))
                           (\<lambda>_. Returns None))))"

definition handler ::
  "'m map_ops \<Rightarrow> 'p cluster \<Rightarrow> string \<Rightarrow> 'm ServiceManager \<Rightarrow> (string option, 'm ServiceManager) go_result" where
  "handler ops k8s key st =
     (let keyArr = Split (CHR ''/'') [] key
      in if length keyArr \<noteq> 3 then Returns None st
         else if keyArr ! 0 = ServiceType then ServiceHandler (keyArr ! 1) (keyArr ! 2) st
         else if keyArr ! 0 = EndpointSliceType then EndpointHandler ops k8s (keyArr ! 1) (keyArr ! 2) st
         else Returns None st)"

text \<open>\<^verbatim>\<open>NewController\<close> leaves \<^verbatim>\<open>MaxRetries\<close> at its zero value.\<close>

definition controller_MaxRetries :: nat where
  "controller_MaxRetries = 0"

text \<open>The work of the controller: a worker processes an item while the listers show one of the given
  clusters, or an event is enqueued.\<close>

inductive controller_run ::
  "'m map_ops \<Rightarrow> 'q queue_ops \<Rightarrow> 'p cluster set \<Rightarrow> ('o \<Rightarrow> string option) \<Rightarrow> ('o \<Rightarrow> obj_kind) \<Rightarrow>
     'q \<times> 'm ServiceManager \<Rightarrow> 'q \<times> 'm ServiceManager \<Rightarrow> bool"
  for ops qops clusters key_func kind st0 where
  init: "controller_run ops qops clusters key_func kind st0 st0"
| work: "controller_run ops qops clusters key_func kind st0 st \<Longrightarrow> k8s \<in> clusters \<Longrightarrow>
    processNextWorkItem qops controller_MaxRetries (handler ops k8s) st = Returns busy st' \<Longrightarrow>
    controller_run ops qops clusters key_func kind st0 st'"
| event: "controller_run ops qops clusters key_func kind st0 (q, st) \<Longrightarrow>
    controller_run ops qops clusters key_func kind st0 (Enqueue qops key_func kind obj q, st)"

text \<open>No slice of the clusters yields more endpoints than there are indices.\<close>

definition bounded_slices :: "'p cluster \<Rightarrow> bool" where
  "bounded_slices k8s \<longleftrightarrow>
     (\<forall>ns name es. slice_lister k8s ns name = Some es \<longrightarrow> length (ready_addresses (es_Endpoints es)) < 65536)"

section \<open>An instance of the work queue\<close>

text \<open>Items waiting in order, items added and not yet taken, items being processed, items whose delay
  runs, each at most once, and the number of failures of each. \<^verbatim>\<open>Get\<close> waits for a delayed item when nothing
  else is there, unless the queue is shut down. Where the library would block, on an empty queue that is
  up, this queue has nothing to give.\<close>

record wq =
  wq_queue :: "queue_item list"
  wq_dirty :: "queue_item list"
  wq_processing :: "queue_item list"
  wq_delayed :: "queue_item list"
  wq_failures :: "queue_item \<Rightarrow> nat"
  wq_down :: bool

definition wq_Add :: "queue_item \<Rightarrow> wq \<Rightarrow> wq" where
  "wq_Add i q =
     (if wq_down q \<or> i \<in> set (wq_dirty q) then q
      else let q1 = q\<lparr>wq_dirty := i # wq_dirty q\<rparr>
           in if i \<in> set (wq_processing q) then q1 else q1\<lparr>wq_queue := wq_queue q @ [i]\<rparr>)"

definition wq_take :: "queue_item \<Rightarrow> wq \<Rightarrow> queue_item option \<times> wq" where
  "wq_take i q = (Some i, q\<lparr>wq_queue := filter (\<lambda>j. j \<noteq> i) (wq_queue q), wq_dirty := filter (\<lambda>j. j \<noteq> i) (wq_dirty q),
     wq_processing := i # wq_processing q\<rparr>)"

definition wq_Get :: "wq \<Rightarrow> queue_item option \<times> wq" where
  "wq_Get q =
     (case filter (\<lambda>i. i \<in> set (wq_dirty q)) (wq_queue q) of
        i # _ \<Rightarrow> wq_take i q
      | [] \<Rightarrow> (case wq_delayed q of
                 i # rest \<Rightarrow> if wq_down q then (None, q) else wq_take i (q\<lparr>wq_delayed := rest\<rparr>)
               | [] \<Rightarrow> (None, q)))"

definition wq_Done :: "queue_item \<Rightarrow> wq \<Rightarrow> wq" where
  "wq_Done i q =
     (let q1 = q\<lparr>wq_processing := filter (\<lambda>j. j \<noteq> i) (wq_processing q)\<rparr>
      in if i \<in> set (wq_dirty q) then q1\<lparr>wq_queue := wq_queue q @ [i]\<rparr> else q1)"

definition wq_Forget :: "queue_item \<Rightarrow> wq \<Rightarrow> wq" where
  "wq_Forget i q = q\<lparr>wq_failures := (wq_failures q)(i := 0)\<rparr>"

definition wq_AddRateLimited :: "queue_item \<Rightarrow> wq \<Rightarrow> wq" where
  "wq_AddRateLimited i q =
     (let q1 = q\<lparr>wq_failures := (wq_failures q)(i := wq_failures q i + 1)\<rparr>
      in if wq_down q \<or> i \<in> set (wq_delayed q) then q1 else q1\<lparr>wq_delayed := wq_delayed q @ [i]\<rparr>)"

definition wq_ShutDown :: "wq \<Rightarrow> wq" where
  "wq_ShutDown q = q\<lparr>wq_down := True\<rparr>"

definition wq_waiting :: "wq \<Rightarrow> nat" where
  "wq_waiting q = length (wq_dirty q)"

definition wq_ops :: "wq queue_ops" where
  "wq_ops = \<lparr>q_Add = wq_Add, q_Get = wq_Get, q_Done = wq_Done, q_Forget = wq_Forget,
     q_AddRateLimited = wq_AddRateLimited, q_NumRequeues = wq_failures, q_ShutDown = wq_ShutDown\<rparr>"

definition wq_pending :: "wq \<Rightarrow> queue_item set" where
  "wq_pending q = set (wq_dirty q) \<union> set (wq_delayed q)"

definition wq_empty :: wq where
  "wq_empty = \<lparr>wq_queue = [], wq_dirty = [], wq_processing = [], wq_delayed = [], wq_failures = (\<lambda>_. 0), wq_down = False\<rparr>"

text \<open>A cluster with one service and its slice, and the keys of its two objects.\<close>

definition demo_slice :: EndpointSlice where
  "demo_slice = \<lparr>es_Name = ''web-1'', es_Namespace = ''default'', es_Labels = [(LabelServiceName, ''web'')],
     es_DeletionTimestamp = None, es_Endpoints = []\<rparr>"

definition demo_cluster :: "int cluster" where
  "demo_cluster = \<lparr>slice_lister = (\<lambda>ns name. if ns = ''default'' \<and> name = ''web-1'' then Some demo_slice else None),
     service_lister = (\<lambda>ns name. if ns = ''default'' \<and> name = ''web'' then
       Some \<lparr>sv_Name = ''web'', sv_Namespace = ''default'', sv_ClusterIP = ''10.0.0.1'', sv_Ports = []\<rparr> else None),
     int_value = (\<lambda>i. i), delete_order = [], append_order = []\<rparr>"

definition demo_kind :: "string \<Rightarrow> obj_kind" where
  "demo_kind name = (if name = ''default/web'' then Is_Service else Is_EndpointSlice)"

section \<open>Lemmas\<close>

lemma wq_Get_Some:
  assumes "wq_Get q = (Some i, q')"
  shows "i \<in> wq_pending q \<and> wq_pending q - {i} \<subseteq> wq_pending q' \<and> wq_pending q' \<subseteq> wq_pending q"
proof (cases "filter (\<lambda>i. i \<in> set (wq_dirty q)) (wq_queue q)")
  case (Cons j js)
  then have "j \<in> set (wq_dirty q)"
    by (auto simp: filter_eq_Cons_iff)
  then show ?thesis
    using assms Cons by (auto simp: wq_Get_def wq_take_def wq_pending_def)
next
  case Nil
  then show ?thesis
    using assms by (auto simp: wq_Get_def wq_take_def wq_pending_def split: list.splits if_splits)
qed

lemma wq_Get_down:
  assumes "wq_Get q = (r, q')"
  shows "wq_down q' = wq_down q"
  using assms by (auto simp: wq_Get_def wq_take_def split: list.splits if_splits)

lemma wq_Get_waiting:
  assumes "wq_down q" and "wq_Get q = (Some i, q')"
  shows "wq_waiting q' < wq_waiting q"
proof (cases "filter (\<lambda>i. i \<in> set (wq_dirty q)) (wq_queue q)")
  case (Cons j js)
  then have "j \<in> set (wq_dirty q)"
    by (auto simp: filter_eq_Cons_iff)
  then show ?thesis
    using assms Cons by (auto simp: wq_Get_def wq_take_def wq_waiting_def intro: length_filter_less)
next
  case Nil
  then show ?thesis
    using assms by (auto simp: wq_Get_def split: list.splits)
qed

interpretation wq: work_queue wq_ops wq_pending wq_down wq_waiting
proof unfold_locales
  show "q_Get wq_ops q = (Some i, q') \<Longrightarrow> i \<in> wq_pending q \<and> wq_pending q - {i} \<subseteq> wq_pending q' \<and> wq_pending q' \<subseteq> wq_pending q" for q i q'
    using wq_Get_Some by (simp add: wq_ops_def)
  show "q_Get wq_ops q = (r, q') \<Longrightarrow> wq_down q' = wq_down q" for q r q'
    using wq_Get_down by (simp add: wq_ops_def)
  show "wq_down q \<Longrightarrow> q_Get wq_ops q = (Some i, q') \<Longrightarrow> wq_waiting q' < wq_waiting q" for q i q'
    using wq_Get_waiting by (simp add: wq_ops_def)
qed (auto simp: wq_ops_def wq_pending_def wq_waiting_def wq_Add_def wq_Done_def wq_Forget_def wq_AddRateLimited_def
    wq_ShutDown_def Let_def)

context work_queue
begin

text \<open>On a queue that is down an item that is processed brings the end nearer, so the worker's loop ends,
  with a queue that had nothing more to give unless the handler panicked.\<close>

lemma processNextWorkItem_down:
  assumes "down q" and "processNextWorkItem qops n h (q, s) = Returns True (q', s')"
  shows "down q' \<and> waiting q' < waiting q"
proof -
  obtain i q1 where get: "q_Get qops q = (Some i, q1)"
    using assms(2) by (auto simp: processNextWorkItem_def split: option.splits prod.splits)
  then have q1: "down q1" "waiting q1 < waiting q"
    using assms(1) down_Get [OF get] waiting_Get [OF assms(1) get] by auto
  have "q' \<in> {q_Done qops i q1, q_Done qops i (q_Forget qops i q1), q_Done qops i (q_AddRateLimited qops i q1)}"
    using assms(2) get by (auto simp: processNextWorkItem_def split: queue_item.splits go_result.splits option.splits if_splits)
  then show ?thesis
    using q1 by (auto simp: down_keep waiting_keep)
qed

lemma runWorker_down:
  "down q \<Longrightarrow> \<exists>r. runWorker qops n h (q, s) = Some r \<and>
     (go_returns r \<longrightarrow> (\<exists>q2. q_Get qops q2 = (None, fst (go_state r))))"
proof (induction "waiting q" arbitrary: q s rule: less_induct)
  case less
  show ?case
  proof (cases "processNextWorkItem qops n h (q, s)")
    case (Panics p st')
    then show ?thesis
      by (subst runWorker.simps) simp
  next
    case (Returns busy st')
    obtain q' s' where st': "st' = (q', s')"
      by fastforce
    show ?thesis
    proof (cases busy)
      case True
      then have "down q' \<and> waiting q' < waiting q"
        using processNextWorkItem_down [OF less.prems] Returns st' by simp
      then show ?thesis
        using less.hyps [of q' s'] Returns True st' by (subst runWorker.simps) simp
    next
      case False
      then have "q_Get qops q = (None, q')"
        using Returns st' by (auto simp: processNextWorkItem_def split: option.splits prod.splits queue_item.splits
            go_result.splits if_splits)
      then show ?thesis
        using Returns False st' by (subst runWorker.simps) auto
    qed
  qed
qed

end

lemma EndpointHandler_manager_run:
  assumes "manager_run ops st0 st" and "bounded_slices k8s" and "EndpointHandler ops k8s ns name st = Returns err st'"
  shows "manager_run ops st0 st'"
proof (cases "slice_lister k8s ns name")
  case None
  then show ?thesis
    using assms by (simp add: EndpointHandler_def)
next
  case (Some es)
  show ?thesis
  proof (cases "service_lister k8s ns (label es LabelServiceName)")
    case None
    then show ?thesis
      using assms Some by (simp add: EndpointHandler_def Let_def)
  next
    case (Some svc)
    with \<open>slice_lister k8s ns name = Some es\<close> assms(3) obtain bsvc where
      bsvc: "NewService (int_value k8s) svc es = Returns bsvc ()"
      by (auto simp: EndpointHandler_def Let_def split: go_result.splits)
    have "length (ready_addresses (es_Endpoints es)) < 65536"
      using assms(2) \<open>slice_lister k8s ns name = Some es\<close> by (auto simp: bounded_slices_def)
    then have new: "ServiceId bsvc = 0" "length (Endpoints bsvc) < 65536"
      using NewService_shape [OF bsvc] by (auto intro: le_less_trans [OF length_filter_le])
    show ?thesis
      using assms(1,3) \<open>slice_lister k8s ns name = Some es\<close> Some bsvc new
      by (auto simp: EndpointHandler_def Let_def go_bind_Returns_iff split: if_splits
          intro: manager_run.delete manager_run.update)
  qed
qed

lemma handler_manager_run:
  assumes "manager_run ops st0 st" and "bounded_slices k8s" and "handler ops k8s key st = Returns err st'"
  shows "manager_run ops st0 st'"
  using assms by (auto simp: handler_def ServiceHandler_def Let_def split: if_splits intro: EndpointHandler_manager_run)

lemma processNextWorkItem_handler:
  assumes "processNextWorkItem qops n h (q, s) = Returns busy (q', s')"
  shows "s' = s \<or> (\<exists>key err. h key s = Returns err s')"
  using assms by (auto simp: processNextWorkItem_def split: option.splits prod.splits queue_item.splits
      go_result.splits if_splits)

lemma handler_slice_key:
  assumes "CHR ''/'' \<notin> set ns" and "CHR ''/'' \<notin> set name"
  shows "handler ops k8s (EndpointSliceType @ ''/'' @ ns @ ''/'' @ name) st = EndpointHandler ops k8s ns name st"
proof -
  have "Split (CHR ''/'') [] (EndpointSliceType @ CHR ''/'' # ns @ CHR ''/'' # name) = [EndpointSliceType, ns, name]"
    using assms by (subst Split_append) (simp_all add: Split_append Split_plain EndpointSliceType_def)
  then show ?thesis
    by (simp add: handler_def EndpointSliceType_def ServiceType_def)
qed

section \<open>Properties\<close>

text \<open>Whatever events arrive and whatever the listers show, the controller only ever drives the
  manager through its runs; so in every state it reaches, all registered services have the id 1.\<close>

theorem controller_drives_manager_runs:
  assumes "controller_run ops qops clusters key_func kind (q0, NewServiceManager sm em) (q, st)"
    and "\<forall>k8s \<in> clusters. bounded_slices k8s"
  shows "manager_run ops (NewServiceManager sm em) st \<and>
    (\<forall>key addr. services st key = Some addr \<longrightarrow> ServiceId (objects st ! addr) = 1)"
proof -
  have "manager_run ops (NewServiceManager sm em) (snd st')"
    if "controller_run ops qops clusters key_func kind (q0, NewServiceManager sm em) st'" for st'
    using that
  proof induction
    case (work st k8s busy st')
    then obtain q s q' s' where st: "st = (q, s)" "st' = (q', s')"
      by (cases st; cases st') auto
    have "bounded_slices k8s"
      using work.hyps assms(2) by blast
    then show ?case
      using processNextWorkItem_handler [of qops controller_MaxRetries "handler ops k8s" q s busy q' s']
        work.hyps(3) work.IH handler_manager_run [of ops _ s k8s] by (auto simp: st)
  qed (auto intro: manager_run.start)
  from this [OF assms(1)] have run: "manager_run ops (NewServiceManager sm em) st"
    by simp
  from manager_run_ids [OF run ids_inv_NewServiceManager] run show ?thesis
    by (auto simp: ids_inv_def)
qed

theorem controller_drives_manager_runs_witness:
  "\<exists>q st. controller_run (hash_ops 65536) wq_ops {demo_cluster} Some demo_kind
       (wq_empty, NewServiceManager None None) (q, st) \<and>
     services st ''default/web'' = Some 0 \<and> ServiceId (objects st ! 0) = 1"
proof -
  let ?run = "controller_run (hash_ops 65536) wq_ops {demo_cluster} Some demo_kind
    (wq_empty, NewServiceManager None None)"
  define key where "key = EndpointSliceType @ ''/'' @ ''default'' @ ''/'' @ ''web-1''"
  define q where "q = Enqueue wq_ops Some demo_kind ''default/web-1'' wq_empty"
  obtain q1 where q1: "q_Get wq_ops q = (Some (Key key), q1)"
    by (simp add: q_def key_def Enqueue_def wq_ops_def wq_Add_def wq_empty_def demo_kind_def kind_name_def
        EndpointSliceType_def wq_Get_def wq_take_def)
  have bsvc: "NewService (int_value demo_cluster) (the (service_lister demo_cluster ''default'' ''web'')) demo_slice =
      Returns (demo_service\<lparr>IpAddress := To4 (ParseIP ''10.0.0.1''), Service_Ports := Some (Some {}), Endpoints := []\<rparr>) ()"
    by (simp add: NewService_def demo_cluster_def demo_slice_def New_def demo_service_def)
  have alloc: "alloc_id Map.empty 1 = Some 1"
    by (rule alloc_id_first) simp
  have "\<exists>st. EndpointHandler (hash_ops 65536) demo_cluster ''default'' ''web-1'' (NewServiceManager None None) = Returns None st \<and>
      services st ''default/web'' = Some 0"
    using bsvc alloc by (simp add: EndpointHandler_def Time_IsZero_def demo_cluster_def demo_slice_def label_def UpdateService_def AppendService_def
        assign_id_def NewServiceManager_def Let_def demo_service_def ServiceKey_def)
  then obtain st where st: "handler (hash_ops 65536) demo_cluster key (NewServiceManager None None) = Returns None st"
    "services st ''default/web'' = Some 0"
    by (subst (asm) handler_slice_key [symmetric]) (auto simp: key_def)
  have run0: "?run (q, NewServiceManager None None)"
    unfolding q_def by (intro controller_run.event controller_run.init)
  have step: "processNextWorkItem wq_ops controller_MaxRetries (handler (hash_ops 65536) demo_cluster)
      (q, NewServiceManager None None) = Returns True (q_Done wq_ops (Key key) (q_Forget wq_ops (Key key) q1), st)"
    by (simp add: processNextWorkItem_def q1 st(1))
  have run: "?run (q_Done wq_ops (Key key) (q_Forget wq_ops (Key key) q1), st)"
    by (rule controller_run.work [OF run0 _ step]) simp
  have "\<forall>k8s \<in> {demo_cluster}. bounded_slices k8s"
    by (auto simp: bounded_slices_def demo_cluster_def demo_slice_def ready_addresses_def split: if_splits)
  with controller_drives_manager_runs [OF run this] run st(2) show ?thesis
    by blast
qed

text \<open>C17. A deleted slice is retried forever and its service never withdrawn: once the lister no longer has
  the slice, processing its key leaves the manager as it is and the key is pending again, whatever the
  number of failures.\<close>

theorem deleted_slice_stays_queued:
  assumes "work_queue qops pending down waiting" and "slice_lister k8s ns name = None"
    and "CHR ''/'' \<notin> set ns" and "CHR ''/'' \<notin> set name"
    and "q_Get qops q = (Some (Key (EndpointSliceType @ ''/'' @ ns @ ''/'' @ name)), q1)" and "\<not> down q"
  shows "\<exists>q'. processNextWorkItem qops controller_MaxRetries (handler ops k8s) (q, st) = Returns True (q', st) \<and>
    pending q' = pending q \<and> Key (EndpointSliceType @ ''/'' @ ns @ ''/'' @ name) \<in> pending q'"
proof -
  let ?key = "EndpointSliceType @ ''/'' @ ns @ ''/'' @ name"
  have "handler ops k8s ?key st = Returns (Some ''not found'') st"
    using assms(2) by (subst handler_slice_key [OF assms(3,4)]) (simp add: EndpointHandler_def)
  then have "processNextWorkItem qops controller_MaxRetries (handler ops k8s) (q, st) =
      Returns True (q_Done qops (Key ?key) (q_AddRateLimited qops (Key ?key) q1), st)"
    using assms(5) by (simp only: processNextWorkItem_def controller_MaxRetries_def) simp
  moreover have "pending (q_Done qops (Key ?key) (q_AddRateLimited qops (Key ?key) q1)) = pending q" "Key ?key \<in> pending q"
    using work_queue.pending_Get [OF assms(1,5)] work_queue.pending_Done [OF assms(1)] work_queue.down_Get [OF assms(1,5)]
      work_queue.pending_AddRateLimited [OF assms(1)] assms(6) by auto
  ultimately show ?thesis
    by blast
qed

theorem deleted_slice_stays_queued_witness:
  "\<exists>q'. processNextWorkItem wq_ops controller_MaxRetries (handler (hash_ops 65536) demo_cluster)
      (Enqueue wq_ops Some demo_kind ''default/gone'' wq_empty, demo_manager) = Returns True (q', demo_manager) \<and>
    Key (EndpointSliceType @ ''/'' @ ''default'' @ ''/'' @ ''gone'') \<in> wq_pending q'"
proof -
  define q where "q = Enqueue wq_ops Some demo_kind ''default/gone'' wq_empty"
  obtain q1 where "q_Get wq_ops q = (Some (Key (EndpointSliceType @ ''/'' @ ''default'' @ ''/'' @ ''gone'')), q1)"
    by (simp add: q_def Enqueue_def wq_ops_def wq_Add_def wq_empty_def demo_kind_def kind_name_def
        EndpointSliceType_def wq_Get_def wq_take_def)
  moreover have "slice_lister demo_cluster ''default'' ''gone'' = None" "CHR ''/'' \<notin> set ''default''" "CHR ''/'' \<notin> set ''gone''"
    by (simp_all add: demo_cluster_def)
  moreover have "\<not> wq_down q"
    by (simp add: q_def Enqueue_def wq_ops_def wq_Add_def wq_empty_def Let_def)
  ultimately show ?thesis
    using deleted_slice_stays_queued [OF wq.work_queue_axioms, of demo_cluster "''default''" "''gone''" q q1 "hash_ops 65536" demo_manager]
    unfolding q_def by blast
qed

text \<open>An event reaches its handler: the key that \<^verbatim>\<open>Enqueue\<close> queues for an object with a namespaced key is
  taken apart into the same namespace and name, and the endpoint handler runs for a slice, while for a
  service nothing changes. An object without a key, such as the tombstone of a missed deletion, is
  dropped.\<close>

theorem enqueued_event_is_handled:
  assumes "work_queue qops pending down waiting" and "CHR ''/'' \<notin> set ns" and "CHR ''/'' \<notin> set name"
    and "key_func obj = Some (ns @ ''/'' @ name)" and "key_func tombstone = None" and "\<not> down q"
  shows "pending (Enqueue qops key_func kind obj q) = insert (Key (kind_name (kind obj) @ ''/'' @ ns @ ''/'' @ name)) (pending q) \<and>
    handler ops k8s (kind_name (kind obj) @ ''/'' @ ns @ ''/'' @ name) st =
      (if kind obj = Is_EndpointSlice then EndpointHandler ops k8s ns name st else Returns None st) \<and>
    Enqueue qops key_func kind tombstone q = q"
proof -
  have "Split (CHR ''/'') [] (kind_name k @ CHR ''/'' # ns @ CHR ''/'' # name) = [kind_name k, ns, name]" for k
    using assms(2,3) by (subst Split_append) (simp_all add: Split_append Split_plain kind_name_def
        EndpointSliceType_def ServiceType_def split: obj_kind.split)
  then have "handler ops k8s (kind_name (kind obj) @ ''/'' @ ns @ ''/'' @ name) st =
      (if kind obj = Is_EndpointSlice then EndpointHandler ops k8s ns name st else Returns None st)"
    by (simp add: handler_def ServiceHandler_def kind_name_def EndpointSliceType_def ServiceType_def split: obj_kind.split)
  then show ?thesis
    using assms(4,5) work_queue.pending_Add [OF assms(1,6)] by (simp add: Enqueue_def)
qed

theorem enqueued_event_is_handled_witness:
  "Key ''EndpointSlice/default/web-1'' \<in> wq_pending (Enqueue wq_ops Some (\<lambda>_. Is_EndpointSlice) ''default/web-1'' wq_empty) \<and>
   handler (hash_ops 65536) demo_cluster ''EndpointSlice/default/web-1'' demo_manager =
     EndpointHandler (hash_ops 65536) demo_cluster ''default'' ''web-1'' demo_manager"
  using enqueued_event_is_handled [OF wq.work_queue_axioms, of "''default''" "''web-1''"
      "\<lambda>k. if k = ''tombstone'' then None else Some k" "''default/web-1''" "''tombstone''" wq_empty "\<lambda>_. Is_EndpointSlice"
      "hash_ops 65536" demo_cluster demo_manager]
  by (simp add: kind_name_def EndpointSliceType_def Enqueue_def wq_empty_def)

text \<open>C16. The worker ends: once \<^verbatim>\<open>Run\<close> has returned, for whatever reason, the queue is shut down and the
  worker's loop comes to its end, whatever is left in the queue, whatever the handler does with it and
  however often it fails; unless the handler panics, the loop ends because the queue had nothing more.\<close>

theorem worker_ends_after_shutdown:
  assumes "work_queue qops pending down waiting"
  shows "\<exists>r. runWorker qops n h (snd (Run qops ctl Synced q0 q1), s) = Some r \<and>
    (go_returns r \<longrightarrow> (\<exists>q2. q_Get qops q2 = (None, fst (go_state r)))) \<and>
    (fst (Run qops ctl Synced q0 q1) = None \<longleftrightarrow> list_all (\<lambda>ok. ok) Synced)"
proof -
  have "down (snd (Run qops ctl Synced q0 q1))"
    using work_queue.down_ShutDown [OF assms] by (simp add: Run_def)
  from work_queue.runWorker_down [OF assms this, of n h s] show ?thesis
    by (auto simp: Run_def)
qed

theorem worker_ends_after_shutdown_witness:
  "\<exists>r. runWorker wq_ops controller_MaxRetries (handler (hash_ops 65536) demo_cluster)
      (snd (Run wq_ops ''svc-controller'' [True, True] wq_empty (Enqueue wq_ops Some demo_kind ''default/gone'' wq_empty)), demo_manager) = Some r"
  using worker_ends_after_shutdown [OF wq.work_queue_axioms, of controller_MaxRetries "handler (hash_ops 65536) demo_cluster"
      "''svc-controller''" "[True, True]" wq_empty "Enqueue wq_ops Some demo_kind ''default/gone'' wq_empty" demo_manager]
  by blast

end
