(* ===== verification/Informers.thy ===== *)
theory Informers
  imports Controller
begin

text \<open>
  \<^verbatim>\<open>src/pkg/kubernetes/informers\<close>: the custom informers for endpoint slices and services, which strip the
  objects of a watch to what the program reads, keep them in an indexer and call the event handler that
  the controller installs. The stripping blanks the object it is given, so objects are kept in a heap and
  named by their address. The indexer and the key function of client-go are parameters, the first with the
  laws of the locale \<^verbatim>\<open>indexer\<close>.
\<close>

section \<open>Objects\<close>

text \<open>The metadata of an object; \<^verbatim>\<open>om_others\<close> stands for the fields the conversion does not copy.\<close>

record ObjectMeta =
  om_Name :: string
  om_Namespace :: string
  om_ResourceVersion :: string
  om_DeletionTimestamp :: "nat option"
  om_Annotations :: "(string \<times> string) list"
  om_OwnerReferences :: "string list"
  om_Labels :: "(string \<times> string) list"
  om_others :: "(string \<times> string) list"

record api_slice =
  as_TypeMeta :: string
  as_ObjectMeta :: ObjectMeta
  as_AddressType :: string
  as_Ports :: "string list"
  as_Endpoints :: "slice_endpoint list"

record 'p api_service =
  av_TypeMeta :: string
  av_ObjectMeta :: ObjectMeta
  av_ClusterIP :: string
  av_Ports :: "'p ServicePort list"
  av_Type :: string
  av_spec_others :: "(string \<times> string) list"
  av_Status :: "(string \<times> string) list"

definition zero_meta :: ObjectMeta where
  "zero_meta = \<lparr>om_Name = [], om_Namespace = [], om_ResourceVersion = [], om_DeletionTimestamp = None,
     om_Annotations = [], om_OwnerReferences = [], om_Labels = [], om_others = []\<rparr>"

definition zero_slice :: api_slice where
  "zero_slice = \<lparr>as_TypeMeta = [], as_ObjectMeta = zero_meta, as_AddressType = [], as_Ports = [], as_Endpoints = []\<rparr>"

definition zero_service :: "'p api_service" where
  "zero_service = \<lparr>av_TypeMeta = [], av_ObjectMeta = zero_meta, av_ClusterIP = [], av_Ports = [], av_Type = [],
     av_spec_others = [], av_Status = []\<rparr>"

text \<open>What the handlers read of an object.\<close>

definition slice_view :: "api_slice \<Rightarrow> EndpointSlice" where
  "slice_view s = \<lparr>es_Name = om_Name (as_ObjectMeta s), es_Namespace = om_Namespace (as_ObjectMeta s),
     es_Labels = om_Labels (as_ObjectMeta s), es_DeletionTimestamp = om_DeletionTimestamp (as_ObjectMeta s),
     es_Endpoints = as_Endpoints s\<rparr>"

definition service_view :: "'p api_service \<Rightarrow> 'p v1_Service" where
  "service_view s = \<lparr>sv_Name = om_Name (av_ObjectMeta s), sv_Namespace = om_Namespace (av_ObjectMeta s),
     sv_ClusterIP = av_ClusterIP s, sv_Ports = av_Ports s\<rparr>"

section \<open>Conversion\<close>

text \<open>A value of the interface type: a pointer to an object of the informer's type, the tombstone of a
  deletion that was not seen, with the last known object if there is one, or something else.\<close>

datatype delta_obj = Obj nat | Tombstone string "nat option" | Other_Obj

definition copy_meta :: "ObjectMeta \<Rightarrow> ObjectMeta" where
  "copy_meta m = zero_meta\<lparr>om_Name := om_Name m, om_Namespace := om_Namespace m, om_ResourceVersion := om_ResourceVersion m,
     om_DeletionTimestamp := om_DeletionTimestamp m, om_Annotations := om_Annotations m,
     om_OwnerReferences := om_OwnerReferences m, om_Labels := om_Labels m\<rparr>"

definition copy_slice :: "api_slice \<Rightarrow> api_slice" where
  "copy_slice s = \<lparr>as_TypeMeta = as_TypeMeta s, as_ObjectMeta = copy_meta (as_ObjectMeta s),
     as_AddressType = as_AddressType s, as_Ports = as_Ports s, as_Endpoints = as_Endpoints s\<rparr>"

definition copy_service :: "'p api_service \<Rightarrow> 'p api_service" where
  "copy_service s = \<lparr>av_TypeMeta = av_TypeMeta s, av_ObjectMeta = copy_meta (av_ObjectMeta s),
     av_ClusterIP = av_ClusterIP s, av_Ports = av_Ports s, av_Type = av_Type s, av_spec_others = [], av_Status = []\<rparr>"

definition convert :: "('o \<Rightarrow> 'o) \<Rightarrow> 'o \<Rightarrow> delta_obj \<Rightarrow> 'o list \<Rightarrow> delta_obj \<times> 'o list" where
  "convert copy zero obj heap =
     (case obj of
        Obj a \<Rightarrow> (Obj (length heap), heap[a := zero] @ [copy (heap ! a)])
      | Tombstone key (Some a) \<Rightarrow> (Tombstone key (Some (length heap)), heap[a := zero] @ [copy (heap ! a)])
      | Tombstone key None \<Rightarrow> (obj, heap)
      | Other_Obj \<Rightarrow> (obj, heap))"

definition convertToCustomEndpointSlice :: "delta_obj \<Rightarrow> api_slice list \<Rightarrow> delta_obj \<times> api_slice list" where
  "convertToCustomEndpointSlice = convert copy_slice zero_slice"

definition convertToCustomService :: "delta_obj \<Rightarrow> 'p api_service list \<Rightarrow> delta_obj \<times> 'p api_service list" where
  "convertToCustomService = convert copy_service zero_service"

definition IsEndpointSliceReady :: "api_slice \<Rightarrow> bool" where
  "IsEndpointSliceReady s = (if om_DeletionTimestamp (as_ObjectMeta s) \<noteq> None then False else False)"

section \<open>Keys\<close>

text \<open>The key of an object is made of its namespace and name by client-go; the indexer also takes the key
  of a tombstone, the event handler does not.\<close>

definition MetaNamespaceKeyFunc ::
  "(string \<Rightarrow> string \<Rightarrow> string) \<Rightarrow> ('o \<Rightarrow> ObjectMeta) \<Rightarrow> 'o list \<Rightarrow> delta_obj \<Rightarrow> string option" where
  "MetaNamespaceKeyFunc meta_key meta heap obj =
     (case obj of
        Obj a \<Rightarrow> Some (meta_key (om_Namespace (meta (heap ! a))) (om_Name (meta (heap ! a))))
      | _ \<Rightarrow> None)"

definition DeletionHandlingMetaNamespaceKeyFunc ::
  "(string \<Rightarrow> string \<Rightarrow> string) \<Rightarrow> ('o \<Rightarrow> ObjectMeta) \<Rightarrow> 'o list \<Rightarrow> delta_obj \<Rightarrow> string option" where
  "DeletionHandlingMetaNamespaceKeyFunc meta_key meta heap obj =
     (case obj of Tombstone key _ \<Rightarrow> Some key | _ \<Rightarrow> MetaNamespaceKeyFunc meta_key meta heap obj)"

section \<open>The indexer\<close>

record ('o, 'x) indexer_ops =
  ix_Get :: "'o list \<Rightarrow> delta_obj \<Rightarrow> 'x \<Rightarrow> string + delta_obj option"
  ix_Add :: "'o list \<Rightarrow> delta_obj \<Rightarrow> 'x \<Rightarrow> string option \<times> 'x"
  ix_Update :: "'o list \<Rightarrow> delta_obj \<Rightarrow> 'x \<Rightarrow> string option \<times> 'x"
  ix_Delete :: "'o list \<Rightarrow> delta_obj \<Rightarrow> 'x \<Rightarrow> string option \<times> 'x"

locale indexer =
  fixes ix :: "('o, 'x) indexer_ops"
    and key :: "'o list \<Rightarrow> delta_obj \<Rightarrow> string option"
    and contents :: "'x \<Rightarrow> string \<rightharpoonup> delta_obj"
  assumes get: "key heap obj = Some k \<Longrightarrow> ix_Get ix heap obj x = Inr (contents x k)"
    and add: "key heap obj = Some k \<Longrightarrow> \<exists>x'. ix_Add ix heap obj x = (None, x') \<and> contents x' = (contents x)(k \<mapsto> obj)"
    and update: "key heap obj = Some k \<Longrightarrow> \<exists>x'. ix_Update ix heap obj x = (None, x') \<and> contents x' = (contents x)(k \<mapsto> obj)"
    and delete: "key heap obj = Some k \<Longrightarrow> \<exists>x'. ix_Delete ix heap obj x = (None, x') \<and> contents x' = (contents x)(k := None)"
    and no_key: "key heap obj = None \<Longrightarrow> (\<exists>e. ix_Get ix heap obj x = Inl e) \<and> (\<exists>e. ix_Add ix heap obj x = (Some e, x)) \<and>
      (\<exists>e. ix_Delete ix heap obj x = (Some e, x))"

section \<open>Processing of deltas\<close>

datatype delta_type = Sync | Added | Updated | Replaced | Deleted

datatype event = OnAdd delta_obj | OnUpdate delta_obj delta_obj | OnDelete delta_obj

text \<open>The state: heap, indexer, and the state the event handler works on. A nil handler panics.\<close>

type_synonym ('o, 'x, 'q) informer_state = "'o list \<times> 'x \<times> 'q"

definition call_handler ::
  "('o list \<Rightarrow> event \<Rightarrow> 'q \<Rightarrow> 'q) option \<Rightarrow> event \<Rightarrow> ('o, 'x, 'q) informer_state \<Rightarrow> (string option, ('o, 'x, 'q) informer_state) go_result" where
  "call_handler eventhandler ev st =
     (case eventhandler of
        None \<Rightarrow> Panics ''invalid memory address or nil pointer dereference'' st
      | Some h \<Rightarrow> (let (heap, x, q) = st in Returns None (heap, x, h heap ev q)))"

definition process_delta ::
  "(delta_obj \<Rightarrow> 'o list \<Rightarrow> delta_obj \<times> 'o list) \<Rightarrow> ('o, 'x) indexer_ops \<Rightarrow> ('o list \<Rightarrow> event \<Rightarrow> 'q \<Rightarrow> 'q) option \<Rightarrow>
     delta_type \<times> delta_obj \<Rightarrow> ('o, 'x, 'q) informer_state \<Rightarrow> (string option, ('o, 'x, 'q) informer_state) go_result" where
  "process_delta conv ix eventhandler d st =
     (let (heap0, x, q) = st; (obj, heap) = conv (snd d) heap0
      in if fst d = Deleted then
           (case ix_Delete ix heap obj x of
              (Some err, x') \<Rightarrow> Returns (Some err) (heap, x', q)
            | (None, x') \<Rightarrow> call_handler eventhandler (OnDelete obj) (heap, x', q))
         else
           (case ix_Get ix heap obj x of
              Inr (Some old) \<Rightarrow>
                (case ix_Update ix heap obj x of
                   (Some err, x') \<Rightarrow> Returns (Some err) (heap, x', q)
                 | (None, x') \<Rightarrow> call_handler eventhandler (OnUpdate old obj) (heap, x', q))
            | _ \<Rightarrow>
                (case ix_Add ix heap obj x of
                   (Some err, x') \<Rightarrow> Returns (Some err) (heap, x', q)
                 | (None, x') \<Rightarrow> call_handler eventhandler (OnAdd obj) (heap, x', q))))"

fun process_deltas ::
  "(delta_obj \<Rightarrow> 'o list \<Rightarrow> delta_obj \<times> 'o list) \<Rightarrow> ('o, 'x) indexer_ops \<Rightarrow> ('o list \<Rightarrow> event \<Rightarrow> 'q \<Rightarrow> 'q) option \<Rightarrow>
     (delta_type \<times> delta_obj) list \<Rightarrow> ('o, 'x, 'q) informer_state \<Rightarrow> (string option, ('o, 'x, 'q) informer_state) go_result" where
  "process_deltas conv ix eventhandler [] st = Returns None st"
| "process_deltas conv ix eventhandler (d # ds) st =
     go_bind (process_delta conv ix eventhandler d st)
       (\<lambda>err st'. case err of Some e \<Rightarrow> Returns (Some e) st' | None \<Rightarrow> process_deltas conv ix eventhandler ds st')"

definition EndpointSlice_Process ::
  "(api_slice, 'x) indexer_ops \<Rightarrow> (api_slice list \<Rightarrow> event \<Rightarrow> 'q \<Rightarrow> 'q) option \<Rightarrow> (delta_type \<times> delta_obj) list \<Rightarrow>
     (api_slice, 'x, 'q) informer_state \<Rightarrow> (string option, (api_slice, 'x, 'q) informer_state) go_result" where
  "EndpointSlice_Process = process_deltas convertToCustomEndpointSlice"

definition Service_Process ::
  "('p api_service, 'x) indexer_ops \<Rightarrow> ('p api_service list \<Rightarrow> event \<Rightarrow> 'q \<Rightarrow> 'q) option \<Rightarrow> (delta_type \<times> delta_obj) list \<Rightarrow>
     ('p api_service, 'x, 'q) informer_state \<Rightarrow> (string option, ('p api_service, 'x, 'q) informer_state) go_result" where
  "Service_Process = process_deltas convertToCustomService"

text \<open>The handler that \<^verbatim>\<open>NewController\<close> installs: every event enqueues the object it is about.\<close>

definition controller_handler ::
  "'q queue_ops \<Rightarrow> (string \<Rightarrow> string \<Rightarrow> string) \<Rightarrow> ('o \<Rightarrow> ObjectMeta) \<Rightarrow> obj_kind \<Rightarrow> 'o list \<Rightarrow> event \<Rightarrow> 'q \<Rightarrow> 'q" where
  "controller_handler qops meta_key meta kind heap ev =
     Enqueue qops (MetaNamespaceKeyFunc meta_key meta heap) (\<lambda>obj. case obj of Obj _ \<Rightarrow> kind | _ \<Rightarrow> Is_Other)
       (case ev of OnAdd obj \<Rightarrow> obj | OnUpdate old new \<Rightarrow> new | OnDelete obj \<Rightarrow> obj)"

section \<open>The informer object\<close>

text \<open>The other fields; \<^verbatim>\<open>controller\<close> is nil until the informer runs, then it knows whether the first list is
  in and the version it has. Both informers have these operations.\<close>

record ('x, 'h) informer =
  selector :: "string \<times> string list"
  indexer_of :: 'x
  controller :: "(bool \<times> string) option"
  eventhandler :: "'h option"
  resyncPeriod :: int
  watchErrorHandler :: "nat option"
  started :: bool
  stopped :: bool

definition LabelServiceProxyName :: string where
  "LabelServiceProxyName = ''service.kubernetes.io/service-proxy-name''"

definition ProxyName :: string where
  "ProxyName = ''eproxy''"

definition defaultCustomInformer :: "(string \<Rightarrow> string list \<Rightarrow> string option) \<Rightarrow> 'x \<Rightarrow> int \<Rightarrow> (('x, 'h) informer, unit) go_result" where
  "defaultCustomInformer NewRequirement ix period =
     (case NewRequirement LabelServiceProxyName [ProxyName] of
        Some err \<Rightarrow> Panics err ()
      | None \<Rightarrow> Returns \<lparr>selector = (LabelServiceProxyName, [ProxyName]), indexer_of = ix, controller = None, eventhandler = None,
          resyncPeriod = period, watchErrorHandler = None, started = False, stopped = False\<rparr> ())"

definition AddEventHandlerWithResyncPeriod :: "'h \<Rightarrow> int \<Rightarrow> ('x, 'h) informer \<Rightarrow> ('x, 'h) informer" where
  "AddEventHandlerWithResyncPeriod handle period i = i\<lparr>eventhandler := Some handle, resyncPeriod := period\<rparr>"

definition AddEventHandler :: "'h \<Rightarrow> ('x, 'h) informer \<Rightarrow> ('x, 'h) informer" where
  "AddEventHandler handle i = i\<lparr>eventhandler := Some handle\<rparr>"

definition SetWatchErrorHandler :: "nat \<Rightarrow> ('x, 'h) informer \<Rightarrow> string option \<times> ('x, 'h) informer" where
  "SetWatchErrorHandler handle i = (None, i\<lparr>watchErrorHandler := Some handle\<rparr>)"

definition HasSynced :: "('x, 'h) informer \<Rightarrow> bool" where
  "HasSynced i = (case controller i of None \<Rightarrow> False | Some (synced, _) \<Rightarrow> synced)"

definition LastSyncResourceVersion :: "('x, 'h) informer \<Rightarrow> (string, unit) go_result" where
  "LastSyncResourceVersion i =
     (case controller i of
        None \<Rightarrow> Panics ''invalid memory address or nil pointer dereference'' ()
      | Some (_, version) \<Rightarrow> Returns version ())"

text \<open>\<^verbatim>\<open>Run\<close> before and after the loop of the library's controller.\<close>

definition Run_started :: "('x, 'h) informer \<Rightarrow> ('x, 'h) informer" where
  "Run_started i = i\<lparr>controller := Some (False, []), started := True\<rparr>"

definition Run_finished :: "('x, 'h) informer \<Rightarrow> ('x, 'h) informer" where
  "Run_finished i = i\<lparr>stopped := True\<rparr>"

section \<open>What the listers show\<close>

text \<open>The object a lister finds under a key, and the deltas of one key that the informer may be given: each
  has an object of its own, which no other key of the indexer shares.\<close>

definition cached :: "'o list \<Rightarrow> (string \<rightharpoonup> delta_obj) \<Rightarrow> string \<Rightarrow> 'o option" where
  "cached heap c k = (case c k of Some (Obj a) \<Rightarrow> Some (heap ! a) | _ \<Rightarrow> None)"

definition valid_entries :: "'o list \<Rightarrow> (string \<rightharpoonup> delta_obj) \<Rightarrow> bool" where
  "valid_entries heap c \<longleftrightarrow> (\<forall>k a. c k = Some (Obj a) \<longrightarrow> a < length heap)"

definition own_objects ::
  "('o list \<Rightarrow> delta_obj \<Rightarrow> string option) \<Rightarrow> 'o list \<Rightarrow> (string \<rightharpoonup> delta_obj) \<Rightarrow> string \<Rightarrow> (delta_type \<times> nat) list \<Rightarrow> bool" where
  "own_objects key heap c k ds \<longleftrightarrow> distinct (map snd ds) \<and>
     (\<forall>(t, a) \<in> set ds. a < length heap \<and> key heap (Obj a) = Some k \<and> (\<forall>k'. k' \<noteq> k \<longrightarrow> c k' \<noteq> Some (Obj a)))"

definition delta_of :: "delta_type \<times> nat \<Rightarrow> delta_type \<times> delta_obj" where
  "delta_of d = (fst d, Obj (snd d))"

text \<open>An indexer that keeps its entries in a map.\<close>

definition store_ops :: "('o list \<Rightarrow> delta_obj \<Rightarrow> string option) \<Rightarrow> ('o, string \<rightharpoonup> delta_obj) indexer_ops" where
  "store_ops key =
     \<lparr>ix_Get = (\<lambda>heap obj x. case key heap obj of None \<Rightarrow> Inl ''no key'' | Some k \<Rightarrow> Inr (x k)),
      ix_Add = (\<lambda>heap obj x. case key heap obj of None \<Rightarrow> (Some ''no key'', x) | Some k \<Rightarrow> (None, x(k \<mapsto> obj))),
      ix_Update = (\<lambda>heap obj x. case key heap obj of None \<Rightarrow> (Some ''no key'', x) | Some k \<Rightarrow> (None, x(k \<mapsto> obj))),
      ix_Delete = (\<lambda>heap obj x. case key heap obj of None \<Rightarrow> (Some ''no key'', x) | Some k \<Rightarrow> (None, x(k := None)))\<rparr>"

definition slash_key :: "string \<Rightarrow> string \<Rightarrow> string" where
  "slash_key ns name = (if ns = [] then name else ns @ ''/'' @ name)"

definition demo_api_slice :: api_slice where
  "demo_api_slice = zero_slice\<lparr>as_ObjectMeta := zero_meta\<lparr>om_Name := ''web-1'', om_Namespace := ''default'',
     om_Labels := [(LabelServiceName, ''web'')], om_others := [(''uid'', ''7'')]\<rparr>\<rparr>"

section \<open>The informer on an indexer\<close>

lemma delta_of_pair: "delta_of (t, a) = (t, Obj a)"
  by (simp add: delta_of_def)

locale informer_on = indexer ix "DeletionHandlingMetaNamespaceKeyFunc meta_key meta" contents
  for ix :: "('o, 'x) indexer_ops" and meta_key :: "string \<Rightarrow> string \<Rightarrow> string" and meta :: "'o \<Rightarrow> ObjectMeta"
    and contents :: "'x \<Rightarrow> string \<rightharpoonup> delta_obj" +
  fixes copy :: "'o \<Rightarrow> 'o" and zero :: 'o
  assumes meta_copy: "om_Namespace (meta (copy obj)) = om_Namespace (meta obj)" "om_Name (meta (copy obj)) = om_Name (meta obj)"
begin

lemma process_one:
  assumes "a < length heap" and "DeletionHandlingMetaNamespaceKeyFunc meta_key meta heap (Obj a) = Some k"
  shows "\<exists>x'. process_delta (convert copy zero) ix (Some (controller_handler qops meta_key meta kind)) (t, Obj a) (heap, x, q) =
      Returns None (heap[a := zero] @ [copy (heap ! a)], x', q_Add qops (Key (kind_name kind @ ''/'' @ k)) q) \<and>
    contents x' = (contents x)(k := if t = Deleted then None else Some (Obj (length heap)))"
proof -
  let ?heap = "heap[a := zero] @ [copy (heap ! a)]" and ?obj = "Obj (length heap)"
  have k: "DeletionHandlingMetaNamespaceKeyFunc meta_key meta ?heap ?obj = Some k"
    "MetaNamespaceKeyFunc meta_key meta ?heap ?obj = Some k"
    using assms by (simp_all add: DeletionHandlingMetaNamespaceKeyFunc_def MetaNamespaceKeyFunc_def nth_append meta_copy)
  then have event: "controller_handler qops meta_key meta kind ?heap ev q = q_Add qops (Key (kind_name kind @ ''/'' @ k)) q"
    if "ev \<in> {OnAdd ?obj, OnUpdate old ?obj, OnDelete ?obj}" for ev old
    using that by (auto simp: controller_handler_def Enqueue_def)
  show ?thesis
  proof (cases "t = Deleted")
    case True
    with delete [OF k(1), of x] event [of "OnDelete ?obj"] show ?thesis
      by (auto simp: process_delta_def convert_def call_handler_def)
  next
    case False
    with get [OF k(1), of x] add [OF k(1), of x] update [OF k(1), of x] event show ?thesis
      by (cases "contents x k") (fastforce simp: process_delta_def convert_def call_handler_def)+
  qed
qed

text \<open>The rest of the deltas still has its own objects after one of them is converted.\<close>

lemma own_objects_step:
  assumes "own_objects (DeletionHandlingMetaNamespaceKeyFunc meta_key meta) heap c k ((t, a) # ds)"
    and "\<forall>k'. k' \<noteq> k \<longrightarrow> c' k' = c k'"
  shows "own_objects (DeletionHandlingMetaNamespaceKeyFunc meta_key meta) (heap[a := zero] @ [copy (heap ! a)]) c' k ds"
proof -
  let ?heap = "heap[a := zero] @ [copy (heap ! a)]"
  have key: "DeletionHandlingMetaNamespaceKeyFunc meta_key meta ?heap (Obj b) = DeletionHandlingMetaNamespaceKeyFunc meta_key meta heap (Obj b)"
    if "b < length heap" "b \<noteq> a" for b
    using that by (simp add: DeletionHandlingMetaNamespaceKeyFunc_def MetaNamespaceKeyFunc_def nth_append)
  have "b < length ?heap \<and> DeletionHandlingMetaNamespaceKeyFunc meta_key meta ?heap (Obj b) = Some k \<and>
      (\<forall>k'. k' \<noteq> k \<longrightarrow> c' k' \<noteq> Some (Obj b))" if "(t', b) \<in> set ds" for t' b
  proof -
    have "b \<noteq> a" "b < length heap" "DeletionHandlingMetaNamespaceKeyFunc meta_key meta heap (Obj b) = Some k"
      "\<forall>k'. k' \<noteq> k \<longrightarrow> c k' \<noteq> Some (Obj b)"
      using assms(1) that by (force simp: own_objects_def)+
    then show ?thesis
      using key [of b] assms(2) by simp
  qed
  then show ?thesis
    using assms(1) by (auto simp: own_objects_def)
qed

lemma process_all:
  assumes "own_objects (DeletionHandlingMetaNamespaceKeyFunc meta_key meta) heap (contents x) k ds"
    and "valid_entries heap (contents x)"
  shows "\<exists>heap' x'. process_deltas (convert copy zero) ix (Some (controller_handler qops meta_key meta kind)) (map delta_of ds) (heap, x, q) =
      Returns None (heap', x', (q_Add qops (Key (kind_name kind @ ''/'' @ k)) ^^ length ds) q) \<and>
    valid_entries heap' (contents x') \<and>
    (\<forall>k'. cached heap' (contents x') k' =
      (if k' = k \<and> ds \<noteq> [] then (if fst (last ds) = Deleted then None else Some (copy (heap ! snd (last ds))))
       else cached heap (contents x) k'))"
  using assms
proof (induction ds arbitrary: heap x q)
  case (Cons d ds)
  obtain t a where d: "d = (t, a)"
    by fastforce
  define heap1 where "heap1 = heap[a := zero] @ [copy (heap ! a)]"
  have a: "a < length heap" "DeletionHandlingMetaNamespaceKeyFunc meta_key meta heap (Obj a) = Some k"
    "\<forall>k'. k' \<noteq> k \<longrightarrow> contents x k' \<noteq> Some (Obj a)"
    using Cons.prems(1) by (auto simp: own_objects_def d)
  from process_one [OF a(1,2), of qops kind t x q] obtain x1 where
    step: "process_delta (convert copy zero) ix (Some (controller_handler qops meta_key meta kind)) (t, Obj a) (heap, x, q) =
      Returns None (heap1, x1, q_Add qops (Key (kind_name kind @ ''/'' @ k)) q)"
    and x1: "contents x1 = (contents x)(k := if t = Deleted then None else Some (Obj (length heap)))"
    unfolding heap1_def by blast
  have own: "own_objects (DeletionHandlingMetaNamespaceKeyFunc meta_key meta) heap1 (contents x1) k ds"
    unfolding heap1_def by (rule own_objects_step [of heap "contents x" k t a]) (use Cons.prems(1) x1 in \<open>simp_all add: d\<close>)
  have valid: "valid_entries heap1 (contents x1)"
    using Cons.prems(2) by (auto simp: valid_entries_def heap1_def x1 less_SucI split: if_splits)
  have entry: "cached heap1 (contents x1) k' = (if k' = k then (if t = Deleted then None else Some (copy (heap ! a)))
      else cached heap (contents x) k')" for k'
  proof -
    have "b < length heap \<and> b \<noteq> a" if "contents x k' = Some (Obj b)" "k' \<noteq> k" for b
      using Cons.prems(2) a(3) that by (auto simp: valid_entries_def)
    then show ?thesis
      by (auto simp: cached_def heap1_def x1 nth_append split: option.split delta_obj.split)
  qed
  have later: "heap1 ! snd (last ds) = heap ! snd (last ds)" if "ds \<noteq> []"
  proof -
    have "snd (last ds) \<in> set (map snd ds)" "\<forall>b \<in> set (map snd ds). b < length heap \<and> b \<noteq> a"
      using Cons.prems(1) last_in_set [OF that] by (auto simp: own_objects_def d)
    then show ?thesis
      by (auto simp: heap1_def nth_append)
  qed
  obtain heap' x' where rest: "process_deltas (convert copy zero) ix (Some (controller_handler qops meta_key meta kind))
        (map delta_of ds) (heap1, x1, q_Add qops (Key (kind_name kind @ ''/'' @ k)) q) =
      Returns None (heap', x', (q_Add qops (Key (kind_name kind @ ''/'' @ k)) ^^ length ds) (q_Add qops (Key (kind_name kind @ ''/'' @ k)) q))"
    "valid_entries heap' (contents x')"
    and final: "cached heap' (contents x') k' =
      (if k' = k \<and> ds \<noteq> [] then (if fst (last ds) = Deleted then None else Some (copy (heap1 ! snd (last ds))))
       else cached heap1 (contents x1) k')" for k'
    using Cons.IH [OF own valid] by metis
  have "cached heap' (contents x') k' = (if k' = k then (if fst (last (d # ds)) = Deleted then None
      else Some (copy (heap ! snd (last (d # ds))))) else cached heap (contents x) k')" for k'
    using later by (simp add: final entry d)
  with rest step show ?case
    by (intro exI [of _ heap'] exI [of _ x']) (simp add: d delta_of_pair funpow_Suc_right del: funpow.simps(2))
qed (simp add: valid_entries_def)

end

section \<open>Lemmas\<close>

lemma store_indexer: "indexer (store_ops key) key (\<lambda>x. x)"
  by unfold_locales (auto simp: store_ops_def)

text \<open>Stripping keeps what the handlers read.\<close>

lemma slice_view_copy [simp]: "slice_view (copy_slice s) = slice_view s"
  by (simp add: slice_view_def copy_slice_def copy_meta_def)

lemma service_view_copy [simp]: "service_view (copy_service s) = service_view s"
  by (simp add: service_view_def copy_service_def copy_meta_def)

lemma slice_informer_on:
  assumes "indexer ix (DeletionHandlingMetaNamespaceKeyFunc meta_key as_ObjectMeta) contents"
  shows "informer_on ix meta_key as_ObjectMeta contents copy_slice"
  using assms by (intro informer_on.intro informer_on_axioms.intro) (simp_all add: copy_slice_def copy_meta_def)

lemma service_informer_on:
  assumes "indexer ix (DeletionHandlingMetaNamespaceKeyFunc meta_key av_ObjectMeta) contents"
  shows "informer_on ix meta_key av_ObjectMeta contents copy_service"
  using assms by (intro informer_on.intro informer_on_axioms.intro) (simp_all add: copy_service_def copy_meta_def)

interpretation store: indexer "store_ops (DeletionHandlingMetaNamespaceKeyFunc slash_key as_ObjectMeta)"
  "DeletionHandlingMetaNamespaceKeyFunc slash_key as_ObjectMeta" "\<lambda>x. x"
  by (rule store_indexer)

interpretation slices: informer_on "store_ops (DeletionHandlingMetaNamespaceKeyFunc slash_key as_ObjectMeta)" slash_key
  as_ObjectMeta "\<lambda>x. x" copy_slice zero_slice
  by (rule slice_informer_on [OF store.indexer_axioms])

interpretation svcs: informer_on "store_ops (DeletionHandlingMetaNamespaceKeyFunc slash_key av_ObjectMeta)" slash_key
  av_ObjectMeta "\<lambda>x. x" copy_service zero_service
  by (rule service_informer_on [OF store_indexer])

section \<open>Properties\<close>

text \<open>The deltas of a slice reach the lister and the queue: after the informer has processed them, the
  lister shows under their key what the handlers read of the object of the last one, or nothing if that
  is a deletion, and under every other key what it showed before; every delta has enqueued the key of the
  slice, and nothing failed.\<close>

theorem slice_deltas_processed:
  assumes "indexer ix (DeletionHandlingMetaNamespaceKeyFunc meta_key as_ObjectMeta) contents"
    and "own_objects (DeletionHandlingMetaNamespaceKeyFunc meta_key as_ObjectMeta) heap (contents x) k ds"
    and "valid_entries heap (contents x)" and "ds \<noteq> []"
  shows "\<exists>heap' x'. EndpointSlice_Process ix (Some (controller_handler qops meta_key as_ObjectMeta Is_EndpointSlice))
        (map delta_of ds) (heap, x, q) =
      Returns None (heap', x', (q_Add qops (Key (EndpointSliceType @ ''/'' @ k)) ^^ length ds) q) \<and>
    valid_entries heap' (contents x') \<and>
    (\<forall>k'. map_option slice_view (cached heap' (contents x') k') =
      (if k' = k then (if fst (last ds) = Deleted then None else Some (slice_view (heap ! snd (last ds))))
       else map_option slice_view (cached heap (contents x) k')))"
proof -
  from informer_on.process_all [OF slice_informer_on [OF assms(1)] assms(2,3), of zero_slice qops Is_EndpointSlice q] show ?thesis
    using assms(4) by (auto simp: EndpointSlice_Process_def convertToCustomEndpointSlice_def kind_name_def)
qed

theorem slice_deltas_processed_witness:
  "\<exists>heap' x'. EndpointSlice_Process (store_ops (DeletionHandlingMetaNamespaceKeyFunc slash_key as_ObjectMeta))
      (Some (controller_handler wq_ops slash_key as_ObjectMeta Is_EndpointSlice)) [(Added, Obj 0), (Updated, Obj 1)]
      ([demo_api_slice, demo_api_slice], Map.empty, wq_empty) =
      Returns None (heap', x', (q_Add wq_ops (Key (EndpointSliceType @ ''/'' @ ''default/web-1'')) ^^ 2) wq_empty) \<and>
    map_option slice_view (cached heap' x' ''default/web-1'') = Some (slice_view demo_api_slice)"
proof -
  have "own_objects (DeletionHandlingMetaNamespaceKeyFunc slash_key as_ObjectMeta) [demo_api_slice, demo_api_slice] Map.empty
      ''default/web-1'' [(Added, 0), (Updated, 1)]"
    by (simp add: own_objects_def DeletionHandlingMetaNamespaceKeyFunc_def MetaNamespaceKeyFunc_def demo_api_slice_def
        zero_slice_def zero_meta_def slash_key_def)
  moreover have "valid_entries [demo_api_slice, demo_api_slice] Map.empty"
    by (simp add: valid_entries_def)
  ultimately obtain heap' x' where "EndpointSlice_Process (store_ops (DeletionHandlingMetaNamespaceKeyFunc slash_key as_ObjectMeta))
      (Some (controller_handler wq_ops slash_key as_ObjectMeta Is_EndpointSlice)) (map delta_of [(Added, 0), (Updated, 1)])
      ([demo_api_slice, demo_api_slice], Map.empty, wq_empty) =
      Returns None (heap', x', (q_Add wq_ops (Key (EndpointSliceType @ ''/'' @ ''default/web-1'')) ^^ length [(Added, 0), (Updated, 1::nat)]) wq_empty)"
    and shown: "map_option slice_view (cached heap' x' k') = (if k' = ''default/web-1'' then
      (if fst (last [(Added, 0), (Updated, 1::nat)]) = Deleted then None
       else Some (slice_view ([demo_api_slice, demo_api_slice] ! snd (last [(Added, 0), (Updated, 1)]))))
      else map_option slice_view (cached [demo_api_slice, demo_api_slice] Map.empty k'))" for k'
    using slice_deltas_processed [OF store.indexer_axioms, of "[demo_api_slice, demo_api_slice]" Map.empty "''default/web-1''"
        "[(Added, 0), (Updated, 1)]" wq_ops wq_empty] by blast
  moreover have "map_option slice_view (cached heap' x' ''default/web-1'') = Some (slice_view demo_api_slice)"
    using shown [of "''default/web-1''"] by simp
  ultimately show ?thesis
    by (intro exI [of _ heap'] exI [of _ x']) (simp add: delta_of_def numeral_2_eq_2)
qed

text \<open>C28. A deletion that the watch missed is lost on the controller: its tombstone removes the slice from
  the indexer but enqueues nothing, so no handler runs for it, and the object it carries, which is the one
  the listers handed out, is blanked under its readers.\<close>

theorem missed_delete_not_enqueued:
  assumes "indexer ix (DeletionHandlingMetaNamespaceKeyFunc meta_key as_ObjectMeta) contents"
    and "contents x k = Some (Obj a)" and "valid_entries heap (contents x)"
  shows "\<exists>heap' x'. EndpointSlice_Process ix (Some (controller_handler qops meta_key as_ObjectMeta Is_EndpointSlice))
        [(Deleted, Tombstone k (Some a))] (heap, x, q) = Returns None (heap', x', q) \<and>
    contents x' = (contents x)(k := None) \<and> heap' ! a = zero_slice"
proof -
  let ?heap = "heap[a := zero_slice] @ [copy_slice (heap ! a)]"
  have "a < length heap"
    using assms(2,3) by (simp add: valid_entries_def)
  have "DeletionHandlingMetaNamespaceKeyFunc meta_key as_ObjectMeta ?heap (Tombstone k (Some (length heap))) = Some k"
    by (simp add: DeletionHandlingMetaNamespaceKeyFunc_def)
  from indexer.delete [OF assms(1) this, of x] obtain x' where
    "ix_Delete ix ?heap (Tombstone k (Some (length heap))) x = (None, x')" "contents x' = (contents x)(k := None)"
    by blast
  then show ?thesis
    using \<open>a < length heap\<close> by (intro exI [of _ ?heap] exI [of _ x'])
      (simp add: EndpointSlice_Process_def process_delta_def convertToCustomEndpointSlice_def convert_def call_handler_def
        controller_handler_def Enqueue_def MetaNamespaceKeyFunc_def nth_append)
qed

theorem missed_delete_not_enqueued_witness:
  "\<exists>heap' x'. EndpointSlice_Process (store_ops (DeletionHandlingMetaNamespaceKeyFunc slash_key as_ObjectMeta))
      (Some (controller_handler wq_ops slash_key as_ObjectMeta Is_EndpointSlice)) [(Deleted, Tombstone ''default/web-1'' (Some 0))]
      ([demo_api_slice], [''default/web-1'' \<mapsto> Obj 0], wq_empty) = Returns None (heap', x', wq_empty) \<and>
    x' ''default/web-1'' = None \<and> heap' ! 0 = zero_slice"
proof -
  have "valid_entries [demo_api_slice] [''default/web-1'' \<mapsto> Obj 0]"
    by (simp add: valid_entries_def)
  then obtain heap' x' where "EndpointSlice_Process (store_ops (DeletionHandlingMetaNamespaceKeyFunc slash_key as_ObjectMeta))
      (Some (controller_handler wq_ops slash_key as_ObjectMeta Is_EndpointSlice)) [(Deleted, Tombstone ''default/web-1'' (Some 0))]
      ([demo_api_slice], [''default/web-1'' \<mapsto> Obj 0], wq_empty) = Returns None (heap', x', wq_empty)"
    "x' = [''default/web-1'' \<mapsto> Obj 0](''default/web-1'' := None)" "heap' ! 0 = zero_slice"
    using missed_delete_not_enqueued [OF store.indexer_axioms, of "[''default/web-1'' \<mapsto> Obj 0]" "''default/web-1''" 0
        "[demo_api_slice]" wq_ops wq_empty] by auto
  then show ?thesis
    by (intro exI [of _ heap'] exI [of _ x']) simp
qed

text \<open>End to end: a slice that the watch adds is the one its handler works on. The informer enqueues its
  key and the endpoint handler, called with that key while the lister shows the informer's cache, finds
  the slice as the API server sent it, all fields it reads included.\<close>

theorem added_slice_reaches_handler:
  assumes "work_queue qops pending down waiting" and "indexer ix (DeletionHandlingMetaNamespaceKeyFunc meta_key as_ObjectMeta) contents"
    and "valid_entries heap (contents x)" and "a < length heap" and "\<forall>k'. contents x k' \<noteq> Some (Obj a)"
    and "ns = om_Namespace (as_ObjectMeta (heap ! a))" and "name = om_Name (as_ObjectMeta (heap ! a))"
    and "CHR ''/'' \<notin> set ns" and "CHR ''/'' \<notin> set name" and "meta_key ns name = ns @ ''/'' @ name" and "\<not> down q"
  shows "\<exists>heap' x' q'. EndpointSlice_Process ix (Some (controller_handler qops meta_key as_ObjectMeta Is_EndpointSlice))
        [(Added, Obj a)] (heap, x, q) = Returns None (heap', x', q') \<and>
    Key (EndpointSliceType @ ''/'' @ ns @ ''/'' @ name) \<in> pending q' \<and>
    (\<forall>k8s. slice_lister k8s = (\<lambda>ns name. map_option slice_view (cached heap' (contents x') (meta_key ns name))) \<longrightarrow>
      handler ops k8s (EndpointSliceType @ ''/'' @ ns @ ''/'' @ name) st = EndpointHandler ops k8s ns name st \<and>
      slice_lister k8s ns name = Some (slice_view (heap ! a)))"
proof -
  have "own_objects (DeletionHandlingMetaNamespaceKeyFunc meta_key as_ObjectMeta) heap (contents x) (ns @ ''/'' @ name) [(Added, a)]"
    using assms by (simp add: own_objects_def DeletionHandlingMetaNamespaceKeyFunc_def MetaNamespaceKeyFunc_def)
  from informer_on.process_all [OF slice_informer_on [OF assms(2)] this assms(3), of zero_slice qops Is_EndpointSlice q]
  obtain heap' x' where process: "EndpointSlice_Process ix (Some (controller_handler qops meta_key as_ObjectMeta Is_EndpointSlice))
      [(Added, Obj a)] (heap, x, q) = Returns None (heap', x', q_Add qops (Key (EndpointSliceType @ ''/'' @ ns @ ''/'' @ name)) q)"
    and "cached heap' (contents x') (ns @ ''/'' @ name) = Some (copy_slice (heap ! a))"
    by (auto simp: EndpointSlice_Process_def convertToCustomEndpointSlice_def kind_name_def delta_of_pair)
  moreover have "Key (EndpointSliceType @ ''/'' @ ns @ ''/'' @ name) \<in>
      pending (q_Add qops (Key (EndpointSliceType @ ''/'' @ ns @ ''/'' @ name)) q)"
    using work_queue.pending_Add [OF assms(1,11)] by simp
  ultimately show ?thesis
    using handler_slice_key [OF assms(8,9)] assms(10) by (intro exI conjI allI impI) (assumption | simp)+
qed

theorem added_slice_reaches_handler_witness:
  "\<exists>heap' x' q'. EndpointSlice_Process (store_ops (DeletionHandlingMetaNamespaceKeyFunc slash_key as_ObjectMeta))
      (Some (controller_handler wq_ops slash_key as_ObjectMeta Is_EndpointSlice)) [(Added, Obj 0)]
      ([demo_api_slice], Map.empty, wq_empty) = Returns None (heap', x', q') \<and>
    Key ''EndpointSlice/default/web-1'' \<in> wq_pending q'"
proof -
  have meta: "om_Namespace (as_ObjectMeta ([demo_api_slice] ! 0)) = ''default''" "om_Name (as_ObjectMeta ([demo_api_slice] ! 0)) = ''web-1''"
    by (simp_all add: demo_api_slice_def zero_slice_def)
  show ?thesis
    using added_slice_reaches_handler [OF wq.work_queue_axioms store.indexer_axioms, of "[demo_api_slice]" Map.empty 0
        "''default''" "''web-1''" wq_empty] meta
    by (simp add: valid_entries_def slash_key_def EndpointSliceType_def wq_empty_def) blast
qed

end
