(* ===== verification/Mount_Info.thy ===== *)
theory Mount_Info
  imports Go_Strings
begin

text \<open>
  \<^verbatim>\<open>src/pkg/mountinfo\<close>: the parser of \<^verbatim>\<open>/proc/self/mountinfo\<close> and the test whether a path is a mount point of
  a file system. The system calls are operations of the record \<^verbatim>\<open>os_ops\<close> over a state of the machine; a
  reader is the text it delivers and the error that ends it, if it is not the end of the file.
\<close>

section \<open>The mount table\<close>

record MountInfo =
  MountID :: int
  ParentID :: int
  StDev :: string
  Root :: string
  MountPoint :: string
  MountOptions :: string
  OptionalFields :: "string list"
  FilesystemType :: string
  MountSource :: string
  SuperOptions :: string

datatype errno = ENOENT | Errno nat

datatype mount_error =
  Separator_Count string
| Field_Count string
| Bad_Number num_error
| Token_Too_Long
| Read_Error errno
| Open_Error errno

type_synonym reader = "string \<times> errno option"

definition mountInfoFilepath :: string where
  "mountInfoFilepath = ''/proc/self/mountinfo''"

text \<open>The body of the loop: one line of the file.\<close>

definition parse_entry :: "string \<Rightarrow> mount_error + MountInfo" where
  "parse_entry mountInfoRaw =
     (let mountInfoSeparated = Split (CHR '' '') ''- '' mountInfoRaw
      in if length mountInfoSeparated \<noteq> 2 then Inl (Separator_Count mountInfoRaw)
         else let mountInfoLeft = Split (CHR '' '') [] (mountInfoSeparated ! 0);
                  mountInfoRight = Split (CHR '' '') [] (mountInfoSeparated ! 1)
              in if length mountInfoLeft < 6 then Inl (Field_Count mountInfoRaw)
                 else if length mountInfoRight \<noteq> 3 then Inl (Field_Count mountInfoRaw)
                 else case ParseInt (mountInfoLeft ! 0) of
                        Inl err \<Rightarrow> Inl (Bad_Number err)
                      | Inr mountID \<Rightarrow>
                          (case ParseInt (mountInfoLeft ! 1) of
                             Inl err \<Rightarrow> Inl (Bad_Number err)
                           | Inr parentID \<Rightarrow>
                               Inr \<lparr>MountID = mountID, ParentID = parentID,
                                 StDev = mountInfoLeft ! 2, Root = mountInfoLeft ! 3,
                                 MountPoint = mountInfoLeft ! 4, MountOptions = mountInfoLeft ! 5,
                                 OptionalFields = drop 6 mountInfoLeft,
                                 FilesystemType = mountInfoRight ! 0, MountSource = mountInfoRight ! 1,
                                 SuperOptions = mountInfoRight ! 2\<rparr>))"

fun parse_entries :: "string list \<Rightarrow> mount_error + MountInfo list" where
  "parse_entries [] = Inr []"
| "parse_entries (l # ls) =
     (case parse_entry l of
        Inl err \<Rightarrow> Inl err
      | Inr m \<Rightarrow> (case parse_entries ls of Inl err \<Rightarrow> Inl err | Inr ms \<Rightarrow> Inr (m # ms)))"

definition parseMountInfoFile :: "reader \<Rightarrow> mount_error + MountInfo list" where
  "parseMountInfoFile r =
     (let (content, fault) = r; (ls, fits) = ScanLines content
      in case parse_entries ls of
           Inl err \<Rightarrow> Inl err
         | Inr result \<Rightarrow>
             if \<not> fits then Inl Token_Too_Long
             else (case fault of Some err \<Rightarrow> Inl (Read_Error err) | None \<Rightarrow> Inr result))"

definition GetMountInfo :: "(string \<Rightarrow> errno + reader) \<Rightarrow> mount_error + MountInfo list" where
  "GetMountInfo os_Open =
     (case os_Open mountInfoFilepath of
        Inl err \<Rightarrow> Inl (Open_Error err)
      | Inr fMounts \<Rightarrow> parseMountInfoFile fMounts)"

text \<open>A line of the table as the kernel prints it.\<close>

definition left_fields :: "MountInfo \<Rightarrow> string list" where
  "left_fields m = [show_int (MountID m), show_int (ParentID m), StDev m, Root m, MountPoint m, MountOptions m] @
     OptionalFields m"

definition right_fields :: "MountInfo \<Rightarrow> string list" where
  "right_fields m = [FilesystemType m, MountSource m, SuperOptions m]"

definition print_entry :: "MountInfo \<Rightarrow> string" where
  "print_entry m = join_with (CHR '' '') (left_fields m) @ '' - '' @ join_with (CHR '' '') (right_fields m)"

definition print_table :: "MountInfo list \<Rightarrow> string" where
  "print_table ms = concat (map (\<lambda>m. print_entry m @ [CHR 0x0A]) ms)"

text \<open>A field without white space (the kernel escapes it) that is not the separator itself.\<close>

definition plain_field :: "string \<Rightarrow> bool" where
  "plain_field w \<longleftrightarrow> list_all (\<lambda>c. c \<notin> {CHR '' '', CHR 0x0A, CHR 0x0D}) w \<and> w \<noteq> ''-''"

definition plain_entry :: "MountInfo \<Rightarrow> bool" where
  "plain_entry m \<longleftrightarrow>
     - (2 ^ 63) \<le> MountID m \<and> MountID m < 2 ^ 63 \<and> - (2 ^ 63) \<le> ParentID m \<and> ParentID m < 2 ^ 63 \<and>
     list_all plain_field ([StDev m, Root m, MountPoint m, MountOptions m] @ OptionalFields m @ right_fields m) \<and>
     length (print_entry m) \<le> max_line"

text \<open>Where a field of the table can end, and a line the scanner delivers as it is.\<close>

definition at_space :: "string \<Rightarrow> bool" where
  "at_space s \<longleftrightarrow> s = [] \<or> hd s = CHR '' ''"

definition scan_line :: "string \<Rightarrow> bool" where
  "scan_line l \<longleftrightarrow> CHR 0x0A \<notin> set l \<and> CHR 0x0D \<notin> set l \<and> length l \<le> max_line"

text \<open>A mount of the BPF file system.\<close>

definition demo_mount :: MountInfo where
  "demo_mount = \<lparr>MountID = 36, ParentID = 35, StDev = ''0:32'', Root = ''/'', MountPoint = ''/sys/fs/bpf'',
     MountOptions = ''rw'', OptionalFields = [''shared:9''], FilesystemType = ''bpf'', MountSource = ''none'',
     SuperOptions = ''rw''\<rparr>"

section \<open>Mount points\<close>

text \<open>What the code asks of the machine: the device of a path, the type of the file system it is on,
  whether it is a directory, directories with their parents, mounts, and the magic number of a type.\<close>

record 'w os_ops =
  os_Lstat :: "string \<Rightarrow> 'w \<Rightarrow> errno + nat"
  os_Statfs :: "string \<Rightarrow> 'w \<Rightarrow> errno + int"
  os_Stat :: "string \<Rightarrow> 'w \<Rightarrow> errno + bool"
  os_MkdirAll :: "string \<Rightarrow> 'w \<Rightarrow> errno option \<times> 'w"
  os_Mount :: "string \<Rightarrow> string \<Rightarrow> string \<Rightarrow> 'w \<Rightarrow> errno option \<times> 'w"
  os_magic :: "string \<Rightarrow> int"

definition FilesystemTypeBPFFS :: "'w os_ops \<Rightarrow> int" where
  "FilesystemTypeBPFFS os = os_magic os ''bpf''"

definition FilesystemTypeCgroup2 :: "'w os_ops \<Rightarrow> int" where
  "FilesystemTypeCgroup2 os = os_magic os ''cgroup2''"

text \<open>The two booleans and the error, as the code returns them together.\<close>

definition IsMountFS :: "'w os_ops \<Rightarrow> int \<Rightarrow> string \<Rightarrow> 'w \<Rightarrow> bool \<times> bool \<times> errno option" where
  "IsMountFS os mntType path w =
     (case os_Lstat os path w of
        Inl err \<Rightarrow> if err = ENOENT then (False, False, None) else (False, False, Some err)
      | Inr st_Dev \<Rightarrow>
          (let parent = Dir path
           in case os_Lstat os parent w of
                Inl err \<Rightarrow> (False, False, Some err)
              | Inr pst_Dev \<Rightarrow>
                  if st_Dev = pst_Dev then (False, False, None)
                  else (case os_Statfs os path w of
                          Inl err \<Rightarrow> (True, False, Some err)
                        | Inr fst_Type \<Rightarrow> (True, fst_Type = mntType, None))))"

section \<open>Lemmas\<close>

lemma plain_fieldD [dest]:
  assumes "plain_field w"
  shows "CHR '' '' \<notin> set w" "CHR 0x0A \<notin> set w" "CHR 0x0D \<notin> set w" "w \<noteq> ''-''"
  using assms by (auto simp: plain_field_def list_all_iff)

lemma show_int_plain: "plain_field (show_int i)"
proof -
  have "decimal n \<noteq> ''-''" "c \<notin> set (decimal n)" if "c \<in> {CHR '' '', CHR 0x0A, CHR 0x0D}" for n c
    using that decimal_no_char [of "CHR ''-''" n] decimal_no_char [of c n] by auto
  then show ?thesis
    by (fastforce simp: plain_field_def show_int_def list_all_iff)
qed

lemma Split_word:
  "d \<notin> set w \<Longrightarrow> Split d ds (w @ s) = (w @ hd (Split d ds s)) # tl (Split d ds s)"
  by (induction w) (auto simp: Split.simps)

lemma Split_space_field:
  assumes "plain_field w" and "at_space s"
  shows "Split (CHR '' '') ''- '' (CHR '' '' # w @ s) =
    (CHR '' '' # w @ hd (Split (CHR '' '') ''- '' s)) # tl (Split (CHR '' '') ''- '' s)"
proof -
  have "strip_prefix ''- '' (w @ s) = None"
  proof (cases w)
    case Nil
    then show ?thesis
      using assms(2) by (cases s) (auto simp: at_space_def)
  next
    case (Cons c w')
    then show ?thesis
      using assms(1) by (cases w') (auto simp: plain_field_def)
  qed
  then show ?thesis
    using assms(1) by (simp add: Split.simps Split_word plain_fieldD)
qed

lemma Split_fields:
  assumes "ws \<noteq> []" and "list_all plain_field ws" and "at_space s"
  shows "Split (CHR '' '') ''- '' (join_with (CHR '' '') ws @ s) =
    (join_with (CHR '' '') ws @ hd (Split (CHR '' '') ''- '' s)) # tl (Split (CHR '' '') ''- '' s)"
proof -
  have tail: "Split (CHR '' '') ''- '' (CHR '' '' # join_with (CHR '' '') (v # ws) @ s) =
    (CHR '' '' # join_with (CHR '' '') (v # ws) @ hd (Split (CHR '' '') ''- '' s)) # tl (Split (CHR '' '') ''- '' s)"
    if "list_all plain_field (v # ws)" for v ws
    using that
  proof (induction ws arbitrary: v)
    case Nil
    then show ?case
      using Split_space_field [OF _ assms(3)] by simp
  next
    case (Cons u ws)
    have "at_space (CHR '' '' # join_with (CHR '' '') (u # ws) @ s)"
      by (simp add: at_space_def)
    from Split_space_field [OF _ this, of v] show ?case
      using Cons by simp
  qed
  obtain w vs where ws: "ws = w # vs"
    using assms(1) by (cases ws) auto
  show ?thesis
  proof (cases vs)
    case Nil
    then show ?thesis
      using assms(2) by (simp add: ws Split_word plain_fieldD)
  next
    case (Cons v us)
    then show ?thesis
      using assms(2) tail [of v us] by (simp add: ws Split_word plain_fieldD)
  qed
qed

lemma entry_fields:
  assumes "plain_entry m"
  shows "list_all plain_field (left_fields m)" "list_all plain_field (right_fields m)"
  using assms show_int_plain by (auto simp: plain_entry_def left_fields_def right_fields_def)

lemma join_with_chars: "c \<noteq> d \<Longrightarrow> list_all (\<lambda>w. c \<notin> set w) ws \<Longrightarrow> c \<notin> set (join_with d ws)"
  by (induction d ws rule: join_with.induct) auto

lemma print_entry_scan_line:
  assumes "list_all (\<lambda>w. CHR 0x0A \<notin> set w \<and> CHR 0x0D \<notin> set w) (left_fields m @ right_fields m)"
    and "length (print_entry m) \<le> max_line"
  shows "scan_line (print_entry m)"
  using assms by (auto simp: scan_line_def print_entry_def list_all_iff join_with_chars)

lemma print_entry_line: "plain_entry m \<Longrightarrow> scan_line (print_entry m)"
  using entry_fields [of m] by (intro print_entry_scan_line) (auto simp: list_all_iff plain_entry_def)

lemma dash_source_line:
  assumes "plain_entry m" and "MountSource m \<noteq> []"
  shows "scan_line (print_entry (m\<lparr>MountSource := ''-''\<rparr>))"
proof (rule print_entry_scan_line)
  show "list_all (\<lambda>w. CHR 0x0A \<notin> set w \<and> CHR 0x0D \<notin> set w)
      (left_fields (m\<lparr>MountSource := ''-''\<rparr>) @ right_fields (m\<lparr>MountSource := ''-''\<rparr>))"
    using entry_fields [OF assms(1)] by (auto simp: list_all_iff left_fields_def right_fields_def)
  have "length (print_entry (m\<lparr>MountSource := ''-''\<rparr>)) \<le> length (print_entry m)"
    using assms(2) by (cases "MountSource m") (auto simp: print_entry_def left_fields_def right_fields_def)
  then show "length (print_entry (m\<lparr>MountSource := ''-''\<rparr>)) \<le> max_line"
    using assms(1) by (simp add: plain_entry_def)
qed

lemma parse_entry_print:
  assumes "plain_entry m"
  shows "parse_entry (print_entry m) = Inr m"
proof -
  let ?l = "join_with (CHR '' '') (left_fields m)" and ?r = "join_with (CHR '' '') (right_fields m)"
  have spaces: "list_all (\<lambda>w. CHR '' '' \<notin> set w) (left_fields m)" "list_all (\<lambda>w. CHR '' '' \<notin> set w) (right_fields m)"
    using entry_fields [OF assms] by (auto simp: list_all_iff)
  have right: "Split (CHR '' '') ''- '' ?r = [?r]"
    using Split_fields [of "right_fields m" "[]"] entry_fields(2) [OF assms] by (simp add: at_space_def right_fields_def)
  have "Split (CHR '' '') ''- '' (print_entry m) = [?l, ?r]"
    using Split_fields [of "left_fields m" "'' - '' @ ?r"] entry_fields(1) [OF assms] right
    by (simp add: print_entry_def at_space_def left_fields_def Split.simps(2) del: join_with.simps)
  moreover have "Split (CHR '' '') [] ?l = left_fields m" "Split (CHR '' '') [] ?r = right_fields m"
    using spaces by (simp_all add: Split_join left_fields_def right_fields_def del: join_with.simps)
  moreover have "ParseInt (show_int (MountID m)) = Inr (MountID m)" "ParseInt (show_int (ParentID m)) = Inr (ParentID m)"
    using assms by (simp_all add: plain_entry_def ParseInt_show_int)
  ultimately show ?thesis
    by (simp add: parse_entry_def left_fields_def right_fields_def Let_def)
qed

lemma drop_cr_plain: "CHR 0x0D \<notin> set l \<Longrightarrow> drop_cr l = l"
  unfolding drop_cr_def by (metis last_in_set)

lemma Split_lines:
  "list_all (\<lambda>l. CHR 0x0A \<notin> set l) ls \<Longrightarrow> Split (CHR 0x0A) [] (concat (map (\<lambda>l. l @ [CHR 0x0A]) ls)) = ls @ [[]]"
  by (induction ls) (simp_all add: Split_append)

lemma ScanLines_lines:
  assumes "list_all scan_line ls"
  shows "ScanLines (concat (map (\<lambda>l. l @ [CHR 0x0A]) ls)) = (ls, True)"
proof -
  have fits: "takeWhile (\<lambda>l. length l \<le> max_line) ls = ls" and plain: "map drop_cr ls = ls"
    using assms by (auto simp: takeWhile_eq_all_conv list_all_iff scan_line_def drop_cr_plain intro: map_idI)
  have "list_all (\<lambda>l. CHR 0x0A \<notin> set l) ls"
    using assms by (simp add: list_all_iff scan_line_def)
  from Split_lines [OF this] show ?thesis
    by (simp add: ScanLines_def raw_lines_def Let_def fits plain)
qed

lemma ScanLines_table:
  assumes "list_all plain_entry ms"
  shows "ScanLines (print_table ms) = (map print_entry ms, True)"
  using ScanLines_lines [of "map print_entry ms"] assms
  by (simp add: print_table_def comp_def list_all_iff print_entry_line)

lemma parse_entries_print: "list_all plain_entry ms \<Longrightarrow> parse_entries (map print_entry ms) = Inr ms"
  by (induction ms) (simp_all add: parse_entry_print)

lemma parse_entries_append:
  "parse_entries (ls @ ls') = (case parse_entries ls of Inl e \<Rightarrow> Inl e
     | Inr ms \<Rightarrow> (case parse_entries ls' of Inl e \<Rightarrow> Inl e | Inr ms' \<Rightarrow> Inr (ms @ ms')))"
  by (induction ls) (auto split: sum.split)

text \<open>The separator inside the right half cuts it once more.\<close>

lemma dash_source_parse:
  assumes "plain_entry m"
  shows "parse_entry (print_entry (m\<lparr>MountSource := ''-''\<rparr>)) = Inl (Separator_Count (print_entry (m\<lparr>MountSource := ''-''\<rparr>)))"
proof -
  let ?l = "join_with (CHR '' '') (left_fields m)"
  have fields: "plain_field (FilesystemType m)" "plain_field (SuperOptions m)"
    using entry_fields(2) [OF assms] by (simp_all add: right_fields_def)
  have super: "Split (CHR '' '') ''- '' (SuperOptions m) = [SuperOptions m]"
    using Split_fields [of "[SuperOptions m]" "[]"] fields by (simp add: at_space_def)
  have "Split (CHR '' '') ''- '' (FilesystemType m @ '' - '' @ SuperOptions m) = [FilesystemType m, SuperOptions m]"
    using Split_fields [of "[FilesystemType m]" "'' - '' @ SuperOptions m"] fields super
    by (simp add: at_space_def Split.simps(2))
  then have "Split (CHR '' '') ''- '' (print_entry (m\<lparr>MountSource := ''-''\<rparr>)) = [?l, FilesystemType m, SuperOptions m]"
    using Split_fields [of "left_fields m" "'' - '' @ FilesystemType m @ '' - '' @ SuperOptions m"] entry_fields(1) [OF assms]
    by (simp add: print_entry_def at_space_def left_fields_def right_fields_def Split.simps(2))
  then show ?thesis
    by (simp add: parse_entry_def)
qed

lemma demo_mount_plain: "plain_entry demo_mount"
  by (simp add: plain_entry_def demo_mount_def plain_field_def right_fields_def print_entry_def left_fields_def
      show_int_def decimal.simps max_line_def)

section \<open>Properties\<close>

text \<open>C26. The mount table reads back: what the kernel prints for a list of mounts whose ids are 64-bit
  integers and whose fields hold no white space and are not a lone dash, the parser returns as that list,
  in order, with the optional fields, of which there may be none.\<close>

theorem mount_table_roundtrip:
  assumes "list_all plain_entry ms"
  shows "parseMountInfoFile (print_table ms, None) = Inr ms"
  using assms by (simp add: parseMountInfoFile_def ScanLines_table parse_entries_print)

theorem mount_table_roundtrip_witness:
  "parseMountInfoFile (print_table [demo_mount, demo_mount\<lparr>OptionalFields := []\<rparr>], None) =
     Inr [demo_mount, demo_mount\<lparr>OptionalFields := []\<rparr>]"
proof (rule mount_table_roundtrip)
  have "plain_entry (demo_mount\<lparr>OptionalFields := []\<rparr>)"
    by (simp add: plain_entry_def demo_mount_def plain_field_def right_fields_def print_entry_def left_fields_def
        show_int_def decimal.simps max_line_def)
  then show "list_all plain_entry [demo_mount, demo_mount\<lparr>OptionalFields := []\<rparr>]"
    by (simp add: demo_mount_plain)
qed

text \<open>C30. One mount whose source is a lone dash, which the kernel prints as it was given, makes the whole
  table unreadable: the line is cut at both dashes and rejected, whatever mounts stand before and after
  it.\<close>

theorem dash_source_rejects_table:
  assumes "list_all plain_entry ms" and "list_all plain_entry ms'" and "plain_entry m" and "MountSource m \<noteq> []"
  shows "parseMountInfoFile (print_table (ms @ m\<lparr>MountSource := ''-''\<rparr> # ms'), None) =
    Inl (Separator_Count (print_entry (m\<lparr>MountSource := ''-''\<rparr>)))"
proof -
  let ?m = "m\<lparr>MountSource := ''-''\<rparr>"
  have "list_all scan_line (map print_entry (ms @ ?m # ms'))"
    using assms dash_source_line [OF assms(3,4)] by (auto simp: list_all_iff print_entry_line)
  then have "ScanLines (print_table (ms @ ?m # ms')) = (map print_entry (ms @ ?m # ms'), True)"
    using ScanLines_lines [of "map print_entry (ms @ ?m # ms')"] by (simp add: print_table_def comp_def)
  then show ?thesis
    using assms(1) dash_source_parse [OF assms(3)]
    by (simp add: parseMountInfoFile_def parse_entries_append parse_entries_print)
qed

theorem dash_source_rejects_table_witness:
  "parseMountInfoFile (print_table [demo_mount, demo_mount\<lparr>MountSource := ''-''\<rparr>], None) =
     Inl (Separator_Count ''36 35 0:32 / /sys/fs/bpf rw shared:9 - bpf - rw'')"
proof -
  have "print_entry (demo_mount\<lparr>MountSource := ''-''\<rparr>) = ''36 35 0:32 / /sys/fs/bpf rw shared:9 - bpf - rw''"
    by (simp add: demo_mount_def right_fields_def print_entry_def left_fields_def show_int_def decimal.simps char_of_def bit_Suc_0_iff)
  then show ?thesis
    using dash_source_rejects_table [of "[demo_mount]" "[]" demo_mount] by (simp add: demo_mount_plain)
      (simp add: demo_mount_def)
qed

end
