(* ===== verification/Mounts.thy ===== *)
theory Mounts
  imports Mount_Info "HOL-Library.Sublist"
begin

text \<open>
  The mounts the program needs: \<^verbatim>\<open>src/pkg/cgroups\<close> (the cgroup v2 file system the program is attached to)
  and \<^verbatim>\<open>src/pkg/bpf/bpffs_linux.go\<close> (the BPF file system the maps are pinned in). The package variables of
  cgroups are part of the state. The machine is reached through \<^verbatim>\<open>os_ops\<close>; the locale \<^verbatim>\<open>mount_os\<close> states what
  the code relies on of the system calls, and a machine of directories and stacked mounts meets it.
\<close>

section \<open>Paths\<close>

definition BPFFSRoot :: string where
  "BPFFSRoot = ''/sys/fs/bpf''"

definition BPFFSRootFallback :: string where
  "BPFFSRootFallback = ''/run/eproxy/bpffs''"

definition DefaultCgroupRoot :: string where
  "DefaultCgroupRoot = ''/run/eproxy/cgroupv2''"

definition EProxyPath :: string where
  "EProxyPath = path_Join [BPFFSRoot, ''eproxy'']"

datatype fs_error =
  Sys_Error errno
| Mkdir_Error errno
| Stat_Error errno
| Mount_Error errno
| Not_A_Directory
| Different_Filesystem

text \<open>A fatal log message ends the process.\<close>

datatype 'r outcome = Continues 'r | Exits

section \<open>Control groups\<close>

record 'w host =
  world :: 'w
  cgroupRoot :: string
  cgrpMountOnce :: bool

definition initial_host :: "'w \<Rightarrow> 'w host" where
  "initial_host w = \<lparr>world = w, cgroupRoot = DefaultCgroupRoot, cgrpMountOnce = False\<rparr>"

definition setCgroupRoot :: "string \<Rightarrow> 'w host \<Rightarrow> 'w host" where
  "setCgroupRoot path h = h\<lparr>cgroupRoot := path\<rparr>"

definition GetCgroupRoot :: "'w host \<Rightarrow> string" where
  "GetCgroupRoot h = cgroupRoot h"

definition mountCgroup :: "'w os_ops \<Rightarrow> 'w host \<Rightarrow> fs_error option \<times> 'w host" where
  "mountCgroup os h =
     (let mount = (\<lambda>w. case os_Mount os ''none'' (cgroupRoot h) ''cgroup2'' w of
                         (Some err, w') \<Rightarrow> (Some (Mount_Error err), h\<lparr>world := w'\<rparr>)
                       | (None, w') \<Rightarrow> (None, h\<lparr>world := w'\<rparr>))
      in case os_Stat os (cgroupRoot h) (world h) of
           Inl err \<Rightarrow>
             if err = ENOENT then
               (case os_MkdirAll os (cgroupRoot h) (world h) of
                  (Some err', w') \<Rightarrow> (Some (Mkdir_Error err'), h\<lparr>world := w'\<rparr>)
                | (None, w') \<Rightarrow> mount w')
             else (Some (Stat_Error err), h)
         | Inr isDir \<Rightarrow> if \<not> isDir then (Some Not_A_Directory, h) else mount (world h))"

definition cgrpCheckOrMountLocation :: "'w os_ops \<Rightarrow> string \<Rightarrow> 'w host \<Rightarrow> fs_error option \<times> 'w host" where
  "cgrpCheckOrMountLocation os root h0 =
     (let h = setCgroupRoot root h0
      in case IsMountFS os (FilesystemTypeCgroup2 os) root (world h) of
           (_, _, Some err) \<Rightarrow> (Some (Sys_Error err), h)
         | (mounted, cgroupInstance, None) \<Rightarrow>
             if \<not> mounted then mountCgroup os h
             else if \<not> cgroupInstance then (Some Different_Filesystem, h)
             else (None, h))"

text \<open>The error is only logged. \<^verbatim>\<open>sync.Once\<close> runs its function on the first call only.\<close>

definition CheckOrMountCgrpFS :: "'w os_ops \<Rightarrow> string \<Rightarrow> 'w host \<Rightarrow> 'w host" where
  "CheckOrMountCgrpFS os mapRoot h =
     (if cgrpMountOnce h then h
      else let root = (if mapRoot = [] then cgroupRoot h else mapRoot)
           in (snd (cgrpCheckOrMountLocation os root h))\<lparr>cgrpMountOnce := True\<rparr>)"

text \<open>The id of a control group is in the first eight bytes of its file handle, in the byte order of the
  machine. Slicing a shorter handle panics.\<close>

definition of_le64 :: "u8 list \<Rightarrow> u64" where
  "of_le64 b = ucast (of_le32 (b ! 0) (b ! 1) (b ! 2) (b ! 3)) OR
     push_bit 32 (ucast (of_le32 (b ! 4) (b ! 5) (b ! 6) (b ! 7)))"

definition GetCgroupID :: "(string \<Rightarrow> errno + u8 list) \<Rightarrow> string \<Rightarrow> (errno + u64, unit) go_result" where
  "GetCgroupID NameToHandleAt cgroupPath =
     (case NameToHandleAt cgroupPath of
        Inl err \<Rightarrow> Returns (Inl err) ()
      | Inr handle \<Rightarrow>
          if length handle < 8 then Panics ''slice bounds out of range [:8]'' ()
          else Returns (Inr (of_le64 (take 8 handle))) ())"

section \<open>The BPF file system\<close>

definition MkdirBPF :: "'w os_ops \<Rightarrow> string \<Rightarrow> 'w \<Rightarrow> errno option \<times> 'w" where
  "MkdirBPF os path w = os_MkdirAll os path w"

definition mountFS :: "'w os_ops \<Rightarrow> bool \<Rightarrow> 'w \<Rightarrow> fs_error option \<times> 'w" where
  "mountFS os printWarning w0 =
     (let mount = (\<lambda>w. case os_Mount os BPFFSRoot BPFFSRoot ''bpf'' w of
                         (Some err, w') \<Rightarrow> (Some (Mount_Error err), w')
                       | (None, w') \<Rightarrow> (None, snd (MkdirBPF os (path_Join [BPFFSRoot, ''eproxy'']) w')))
      in case os_Stat os BPFFSRoot w0 of
           Inl err \<Rightarrow>
             if err = ENOENT then
               (case MkdirBPF os BPFFSRoot w0 of
                  (Some err', w') \<Rightarrow> (Some (Mkdir_Error err'), w')
                | (None, w') \<Rightarrow> mount w')
             else (Some (Stat_Error err), w0)
         | Inr isDir \<Rightarrow> if \<not> isDir then (Some Not_A_Directory, w0) else mount w0)"

definition checkOrMountDefaultLocations :: "'w os_ops \<Rightarrow> 'w \<Rightarrow> fs_error option outcome \<times> 'w" where
  "checkOrMountDefaultLocations os w =
     (case IsMountFS os (FilesystemTypeBPFFS os) BPFFSRoot w of
        (_, _, Some err) \<Rightarrow> (Continues (Some (Sys_Error err)), w)
      | (mounted, bpffsInstance, None) \<Rightarrow>
          if \<not> mounted then
            (case mountFS os False w of (err, w') \<Rightarrow> (Continues err, w'))
          else if \<not> bpffsInstance then
            (case IsMountFS os (FilesystemTypeBPFFS os) BPFFSRoot w of
               (_, _, Some err) \<Rightarrow> (Continues (Some (Sys_Error err)), w)
             | (cMounted, cBpffsInstance, None) \<Rightarrow>
                 if \<not> cMounted then
                   (case mountFS os False w of (err, w') \<Rightarrow> (Continues err, w'))
                 else if \<not> cBpffsInstance then (Exits, w)
                 else (Continues None, w))
          else (Continues None, w))"

definition CheckOrMountBtfFS :: "'w os_ops \<Rightarrow> 'w \<Rightarrow> unit outcome \<times> 'w" where
  "CheckOrMountBtfFS os w =
     (case checkOrMountDefaultLocations os w of
        (Exits, w') \<Rightarrow> (Exits, w')
      | (Continues err, w') \<Rightarrow> (Continues (), w'))"

text \<open>Both file systems as the loader wants them.\<close>

definition mounts_ready :: "'w os_ops \<Rightarrow> string \<Rightarrow> 'w \<Rightarrow> bool" where
  "mounts_ready os root w \<longleftrightarrow>
     IsMountFS os (FilesystemTypeCgroup2 os) root w = (True, True, None) \<and>
     IsMountFS os (FilesystemTypeBPFFS os) BPFFSRoot w = (True, True, None)"

section \<open>The system calls\<close>

text \<open>A path is covered by a mount point if it is at or below it.\<close>

definition covers :: "string \<Rightarrow> string \<Rightarrow> bool" where
  "covers t p \<longleftrightarrow> p = t \<or> prefix (t @ ''/'') p"

text \<open>The two mounts the program makes, by mount point and file system type, and the paths it looks at or
  makes. The laws below are about these only: on other paths symbolic links and mounts inside a file
  system of the same type would falsify them.\<close>

definition own_mounts :: "(string \<times> string) set" where
  "own_mounts = {(DefaultCgroupRoot, ''cgroup2''), (BPFFSRoot, ''bpf'')}"

definition own_paths :: "string set" where
  "own_paths = {DefaultCgroupRoot, Dir DefaultCgroupRoot, BPFFSRoot, Dir BPFFSRoot, EProxyPath}"

locale mount_os =
  fixes os :: "'w os_ops"
  assumes mount_device: "os_Mount os src t f w = (None, w') \<Longrightarrow> (t, f) \<in> own_mounts \<Longrightarrow>
      \<exists>d d'. os_Lstat os t w' = Inr d \<and> os_Lstat os (Dir t) w' = Inr d' \<and> d \<noteq> d'"
    and mount_type: "os_Mount os src t f w = (None, w') \<Longrightarrow> (t, f) \<in> own_mounts \<Longrightarrow>
      os_Statfs os t w' = Inr (os_magic os f)"
    and mount_elsewhere: "os_Mount os src t f w = (e, w') \<Longrightarrow> (t, f) \<in> own_mounts \<Longrightarrow> p \<in> own_paths \<Longrightarrow> \<not> covers t p \<Longrightarrow>
      os_Lstat os p w' = os_Lstat os p w \<and> os_Statfs os p w' = os_Statfs os p w \<and> os_Stat os p w' = os_Stat os p w"
    and mkdir_device: "os_MkdirAll os q w = (e, w') \<Longrightarrow> q \<in> own_paths \<Longrightarrow> p \<in> own_paths \<Longrightarrow>
      os_Lstat os p w = Inr d \<Longrightarrow> os_Lstat os p w' = Inr d"
    and mkdir_type: "os_MkdirAll os q w = (e, w') \<Longrightarrow> q \<in> own_paths \<Longrightarrow> p \<in> own_paths \<Longrightarrow>
      os_Statfs os p w = Inr y \<Longrightarrow> os_Statfs os p w' = Inr y"
    and mkdir_elsewhere: "os_MkdirAll os q w = (e, w') \<Longrightarrow> q \<in> own_paths \<Longrightarrow> p \<in> own_paths \<Longrightarrow> \<not> covers p q \<Longrightarrow>
      os_Stat os p w' = os_Stat os p w"
begin

text \<open>A fresh mount is seen as one, and stays one while directories are made and other places are
  mounted.\<close>

lemma mount_seen:
  "os_Mount os src t f w = (None, w') \<Longrightarrow> (t, f) \<in> own_mounts \<Longrightarrow> IsMountFS os (os_magic os f) t w' = (True, True, None)"
  using mount_device [of src t f w w'] mount_type [of src t f w w'] by (auto simp: IsMountFS_def)

lemma IsMountFS_mounted:
  "IsMountFS os ty p w = (True, True, None) \<longleftrightarrow>
     (\<exists>d d'. os_Lstat os p w = Inr d \<and> os_Lstat os (Dir p) w = Inr d' \<and> d \<noteq> d' \<and> os_Statfs os p w = Inr ty)"
  by (auto simp: IsMountFS_def Let_def split: sum.splits if_splits)

lemma mkdir_mounted:
  assumes "os_MkdirAll os q w = (e, w')" and "q \<in> own_paths" and "p \<in> own_paths" "Dir p \<in> own_paths"
    and "IsMountFS os ty p w = (True, True, None)"
  shows "IsMountFS os ty p w' = (True, True, None)"
  using assms(3-5) mkdir_device [OF assms(1,2)] mkdir_type [OF assms(1,2)] unfolding IsMountFS_mounted by blast

lemma elsewhere_mounted:
  assumes "os_Mount os src t f w = (e, w')" and "(t, f) \<in> own_mounts" and "p \<in> own_paths" "Dir p \<in> own_paths"
    and "\<not> covers t p" "\<not> covers t (Dir p)" and "IsMountFS os ty p w = (True, True, None)"
  shows "IsMountFS os ty p w' = (True, True, None)"
  using assms mount_elsewhere [OF assms(1,2)] unfolding IsMountFS_mounted by simp

end

section \<open>A machine\<close>

text \<open>Directories, other files and the mounts, the latest first, each with its type and its device. A path
  is on the latest mount that covers it.\<close>

record machine =
  m_dirs :: "string list"
  m_files :: "string list"
  m_mounts :: "(string \<times> string \<times> nat) list"

definition m_mount_of :: "string \<Rightarrow> machine \<Rightarrow> (string \<times> string \<times> nat) option" where
  "m_mount_of p m = find (\<lambda>(t, _). covers t p) (m_mounts m)"

definition m_exists :: "string \<Rightarrow> machine \<Rightarrow> bool" where
  "m_exists p m \<longleftrightarrow> p \<in> set (m_dirs m) \<or> p \<in> set (m_files m)"

definition m_magic :: "string \<Rightarrow> int" where
  "m_magic f = (if f = ''bpf'' then 0xcafe4a11 else if f = ''cgroup2'' then 0x63677270 else 0)"

definition m_Lstat :: "string \<Rightarrow> machine \<Rightarrow> errno + nat" where
  "m_Lstat p m = (if m_exists p m then Inr (case m_mount_of p m of None \<Rightarrow> 0 | Some (_, _, d) \<Rightarrow> d) else Inl ENOENT)"

definition m_Statfs :: "string \<Rightarrow> machine \<Rightarrow> errno + int" where
  "m_Statfs p m = (if m_exists p m then Inr (case m_mount_of p m of None \<Rightarrow> 0 | Some (_, f, _) \<Rightarrow> m_magic f) else Inl ENOENT)"

definition m_Stat :: "string \<Rightarrow> machine \<Rightarrow> errno + bool" where
  "m_Stat p m = (if m_exists p m then Inr (p \<in> set (m_dirs m)) else Inl ENOENT)"

definition ancestors :: "string \<Rightarrow> string list" where
  "ancestors p = p # map (\<lambda>i. take i p) (filter (\<lambda>i. p ! i = CHR ''/'') [1..<length p])"

definition m_MkdirAll :: "string \<Rightarrow> machine \<Rightarrow> errno option \<times> machine" where
  "m_MkdirAll p m =
     (if list_ex (\<lambda>a. a \<in> set (m_files m)) (ancestors p) then (Some (Errno 20), m)
      else (None, m\<lparr>m_dirs := ancestors p @ m_dirs m\<rparr>))"

text \<open>Mounting hides what was below the mount point.\<close>

definition m_Mount :: "string \<Rightarrow> string \<Rightarrow> string \<Rightarrow> machine \<Rightarrow> errno option \<times> machine" where
  "m_Mount src t f m =
     (if t \<in> set (m_dirs m) \<and> Dir t \<in> set (m_dirs m) then
        (None, m\<lparr>m_dirs := filter (\<lambda>p. \<not> prefix (t @ ''/'') p) (m_dirs m),
           m_files := filter (\<lambda>p. \<not> covers t p) (m_files m),
           m_mounts := (t, f, Suc (sum_list (map (snd \<circ> snd) (m_mounts m)))) # m_mounts m\<rparr>)
      else (Some ENOENT, m))"

definition m_os :: "machine os_ops" where
  "m_os = \<lparr>os_Lstat = m_Lstat, os_Statfs = m_Statfs, os_Stat = m_Stat, os_MkdirAll = m_MkdirAll,
     os_Mount = m_Mount, os_magic = m_magic\<rparr>"

definition demo_machine :: machine where
  "demo_machine = \<lparr>m_dirs = [''/'', ''/run'', ''/run/eproxy'', ''/sys'', ''/sys/fs'', ''/sys/fs/bpf''], m_files = [],
     m_mounts = []\<rparr>"

section \<open>Lemmas\<close>

lemma covers_refl [simp]: "covers t t"
  by (simp add: covers_def)

lemma not_covers_shorter: "length p < length t \<Longrightarrow> \<not> covers t p"
  by (auto simp: covers_def dest: prefix_length_le)

lemma mount_of_device:
  "m_mount_of p m = Some (t, f, d) \<Longrightarrow> d \<le> sum_list (map (snd \<circ> snd) (m_mounts m))"
  by (auto simp: m_mount_of_def find_Some_iff intro!: member_le_sum_list) (metis nth_mem snd_conv image_eqI)

lemma Dir_paths [simp]:
  "Dir BPFFSRoot = ''/sys/fs''" "Dir DefaultCgroupRoot = ''/run/eproxy''" "EProxyPath = ''/sys/fs/bpf/eproxy''"
  by (simp_all add: Dir_def Clean_def BPFFSRoot_def DefaultCgroupRoot_def EProxyPath_def path_Join_def Let_def)

text \<open>What a mount changes.\<close>

lemma m_Mount_cases:
  assumes "m_Mount src t f m = (e, m')"
  shows "e \<noteq> None \<and> m' = m \<or>
    e = None \<and> t \<in> set (m_dirs m') \<and> m_mount_of t m' = Some (t, f, Suc (sum_list (map (snd \<circ> snd) (m_mounts m)))) \<and>
    (length (Dir t) < length t \<longrightarrow> Dir t \<in> set (m_dirs m'))"
  using assms not_covers_shorter [of "Dir t" t]
  by (auto simp: m_Mount_def m_mount_of_def covers_def split: if_splits)

lemma m_Mount_elsewhere:
  assumes "m_Mount src t f m = (e, m')" and "\<not> covers t p"
  shows "m_mount_of p m' = m_mount_of p m" "p \<in> set (m_dirs m') \<longleftrightarrow> p \<in> set (m_dirs m)" "m_exists p m' = m_exists p m"
  using assms by (auto simp: m_Mount_def m_mount_of_def m_exists_def covers_def split: if_splits)

lemma m_mount_device:
  assumes "m_Mount src t f m = (None, m')" and "length (Dir t) < length t"
  shows "\<exists>d d'. m_Lstat t m' = Inr d \<and> m_Lstat (Dir t) m' = Inr d' \<and> d \<noteq> d'"
proof -
  let ?n = "sum_list (map (snd \<circ> snd) (m_mounts m))"
  have at: "m_Lstat t m' = Inr (Suc ?n)" "Dir t \<in> set (m_dirs m')"
    using m_Mount_cases [OF assms(1)] assms(2) by (auto simp: m_Lstat_def m_exists_def)
  have parent: "m_mount_of (Dir t) m' = m_mount_of (Dir t) m"
    by (rule m_Mount_elsewhere [OF assms(1) not_covers_shorter [OF assms(2)]])
  have "\<exists>d' \<le> ?n. m_Lstat (Dir t) m' = Inr d'"
    using at(2) parent mount_of_device [of "Dir t" m]
    by (cases "m_mount_of (Dir t) m") (auto simp: m_Lstat_def m_exists_def)
  then show ?thesis
    using at(1) by (metis not_less_eq_eq order_refl)
qed

lemma m_MkdirAll_mounts:
  assumes "m_MkdirAll q m = (e, m')"
  shows "m_mount_of p m' = m_mount_of p m" "m_exists p m \<Longrightarrow> m_exists p m'"
  using assms by (auto simp: m_MkdirAll_def m_mount_of_def m_exists_def split: if_splits)

lemma ancestors_cover: "p \<in> set (ancestors q) \<Longrightarrow> covers p q"
proof -
  assume "p \<in> set (ancestors q)"
  then consider "p = q" | i where "i < length q" "q ! i = CHR ''/''" "p = take i q"
    by (auto simp: ancestors_def)
  then show "covers p q"
  proof cases
    case 2
    then have "q = (p @ ''/'') @ drop (Suc i) q"
      using id_take_nth_drop [of i q] by simp
    then show ?thesis
      unfolding covers_def by (metis prefixI)
  qed simp
qed

lemma own_paths [simp]:
  "(DefaultCgroupRoot, ''cgroup2'') \<in> own_mounts" "(BPFFSRoot, ''bpf'') \<in> own_mounts"
  "DefaultCgroupRoot \<in> own_paths" "''/run/eproxy'' \<in> own_paths" "BPFFSRoot \<in> own_paths" "''/sys/fs'' \<in> own_paths"
  "EProxyPath \<in> own_paths" "''/sys/fs/bpf/eproxy'' \<in> own_paths"
  by (simp_all add: own_mounts_def own_paths_def)

lemma own_mounts_deeper: "(t, f) \<in> own_mounts \<Longrightarrow> length (Dir t) < length t"
  by (auto simp: own_mounts_def) (simp_all add: BPFFSRoot_def DefaultCgroupRoot_def)

interpretation machine: mount_os m_os
proof unfold_locales
  fix src t f p q :: string and w w' :: machine and e d y
  show "os_Mount m_os src t f w = (None, w') \<Longrightarrow> (t, f) \<in> own_mounts \<Longrightarrow>
      \<exists>d d'. os_Lstat m_os t w' = Inr d \<and> os_Lstat m_os (Dir t) w' = Inr d' \<and> d \<noteq> d'"
    using m_mount_device [of src t f w w'] own_mounts_deeper [of t f] by (simp add: m_os_def)
  show "os_Mount m_os src t f w = (None, w') \<Longrightarrow> os_Statfs m_os t w' = Inr (os_magic m_os f)"
    using m_Mount_cases [of src t f w None w'] by (auto simp: m_os_def m_Statfs_def m_exists_def)
  show "os_Mount m_os src t f w = (e, w') \<Longrightarrow> \<not> covers t p \<Longrightarrow>
      os_Lstat m_os p w' = os_Lstat m_os p w \<and> os_Statfs m_os p w' = os_Statfs m_os p w \<and> os_Stat m_os p w' = os_Stat m_os p w"
    using m_Mount_elsewhere [of src t f w e w' p] by (simp add: m_os_def m_Lstat_def m_Statfs_def m_Stat_def)
  show "os_MkdirAll m_os q w = (e, w') \<Longrightarrow> os_Lstat m_os p w = Inr d \<Longrightarrow> os_Lstat m_os p w' = Inr d"
    using m_MkdirAll_mounts [of q w e w' p] by (auto simp: m_os_def m_Lstat_def split: if_splits)
  show "os_MkdirAll m_os q w = (e, w') \<Longrightarrow> os_Statfs m_os p w = Inr y \<Longrightarrow> os_Statfs m_os p w' = Inr y"
    using m_MkdirAll_mounts [of q w e w' p] by (auto simp: m_os_def m_Statfs_def split: if_splits)
  show "os_MkdirAll m_os q w = (e, w') \<Longrightarrow> \<not> covers p q \<Longrightarrow> os_Stat m_os p w' = os_Stat m_os p w"
    using ancestors_cover [of p q] by (auto simp: m_os_def m_MkdirAll_def m_Stat_def m_exists_def split: if_splits)
qed

text \<open>What the two mounting routines do when they return no error.\<close>

lemma mountCgroup_ok:
  assumes "mountCgroup os h = (None, h')"
  shows "\<exists>w w'. os_Mount os ''none'' (cgroupRoot h) ''cgroup2'' w = (None, w') \<and> h' = h\<lparr>world := w'\<rparr>"
  using assms by (auto simp: mountCgroup_def Let_def split: sum.splits prod.splits option.splits if_splits)

lemma mountCgroup_frame:
  "cgroupRoot (snd (mountCgroup os h)) = cgroupRoot h" "cgrpMountOnce (snd (mountCgroup os h)) = cgrpMountOnce h"
  by (auto simp: mountCgroup_def Let_def split: sum.splits prod.splits option.splits)

lemma cgrpCheckOrMountLocation_root: "cgroupRoot (snd (cgrpCheckOrMountLocation os root h)) = root"
  by (auto simp: cgrpCheckOrMountLocation_def setCgroupRoot_def mountCgroup_frame Let_def split: prod.splits option.splits)

lemma mountFS_ok:
  assumes "mountFS os b w0 = (None, w2)"
  shows "\<exists>w w1 e. os_Mount os BPFFSRoot BPFFSRoot ''bpf'' w = (None, w1) \<and> os_MkdirAll os EProxyPath w1 = (e, w2)"
  using assms unfolding EProxyPath_def
  by (auto simp: mountFS_def MkdirBPF_def Let_def split: sum.splits prod.splits option.splits if_splits)
    (metis prod.collapse)+

lemma of_le64_le64: "of_le64 (le64 w @ bs) = w"
proof -
  have "of_le64 (le64 w @ bs) = ucast (ucast w :: u32) OR push_bit 32 (ucast (ucast (drop_bit 32 w) :: u32))"
    by (simp add: of_le64_def le64_def le32_def nth_append)
  also have "\<dots> = w"
    by (rule bit_word_eqI) (auto simp: bit_simps not_less)
  finally show ?thesis .
qed

lemma not_covers_roots:
  "\<not> covers BPFFSRoot DefaultCgroupRoot" "\<not> covers BPFFSRoot (Dir DefaultCgroupRoot)"
  "\<not> covers DefaultCgroupRoot BPFFSRoot" "\<not> covers DefaultCgroupRoot (Dir BPFFSRoot)"
  "\<not> covers DefaultCgroupRoot EProxyPath" "\<not> covers EProxyPath DefaultCgroupRoot"
  by (simp_all add: covers_def) (simp_all add: BPFFSRoot_def DefaultCgroupRoot_def)

lemma cgroup_location_mounted:
  assumes "mount_os os" and "cgrpCheckOrMountLocation os DefaultCgroupRoot h = (None, h')"
  shows "IsMountFS os (FilesystemTypeCgroup2 os) DefaultCgroupRoot (world h') = (True, True, None)"
proof -
  let ?root = DefaultCgroupRoot
  obtain mounted inst err where fs: "IsMountFS os (FilesystemTypeCgroup2 os) ?root (world h) = (mounted, inst, err)"
    by (metis prod_cases3)
  show ?thesis
  proof (cases mounted)
    case True
    then show ?thesis
      using assms(2) fs by (auto simp: cgrpCheckOrMountLocation_def setCgroupRoot_def Let_def split: option.splits if_splits)
  next
    case False
    then have "mountCgroup os (h\<lparr>cgroupRoot := ?root\<rparr>) = (None, h')"
      using assms(2) fs by (auto simp: cgrpCheckOrMountLocation_def setCgroupRoot_def Let_def split: option.splits)
    from mountCgroup_ok [OF this] obtain w w' where "os_Mount os ''none'' ?root ''cgroup2'' w = (None, w')" "world h' = w'"
      by auto
    then show ?thesis
      using mount_os.mount_seen [OF assms(1) _ own_paths(1)] by (simp add: FilesystemTypeCgroup2_def)
  qed
qed

lemma bpffs_location_mounted:
  assumes "mount_os os" and "checkOrMountDefaultLocations os w = (Continues None, w')"
  shows "IsMountFS os (FilesystemTypeBPFFS os) BPFFSRoot w' = (True, True, None)"
proof -
  obtain mounted inst err where fs: "IsMountFS os (FilesystemTypeBPFFS os) BPFFSRoot w = (mounted, inst, err)"
    by (metis prod_cases3)
  show ?thesis
  proof (cases mounted)
    case True
    then show ?thesis
      using assms(2) fs by (auto simp: checkOrMountDefaultLocations_def split: option.splits if_splits)
  next
    case False
    then have "mountFS os False w = (None, w')"
      using assms(2) fs by (auto simp: checkOrMountDefaultLocations_def split: option.splits prod.splits)
    from mountFS_ok [OF this] obtain w0 w1 e where
      steps: "os_Mount os BPFFSRoot BPFFSRoot ''bpf'' w0 = (None, w1)" "os_MkdirAll os EProxyPath w1 = (e, w')"
      by blast
    then show ?thesis
      using mount_os.mount_seen [OF assms(1) steps(1)] mount_os.mkdir_mounted [OF assms(1) steps(2) own_paths(7,5)]
      by (simp add: FilesystemTypeBPFFS_def)
  qed
qed

text \<open>What the routines keep of the machine, one system call at a time.\<close>

lemma mountCgroup_keeps:
  assumes "P (world h)"
    and "\<And>w e w'. P w \<Longrightarrow> os_MkdirAll os (cgroupRoot h) w = (e, w') \<Longrightarrow> P w'"
    and "\<And>w e w'. P w \<Longrightarrow> os_Mount os ''none'' (cgroupRoot h) ''cgroup2'' w = (e, w') \<Longrightarrow> P w'"
  shows "P (world (snd (mountCgroup os h)))"
proof -
  define mnt where "mnt w = (case os_Mount os ''none'' (cgroupRoot h) ''cgroup2'' w of
      (Some err, w') \<Rightarrow> (Some (Mount_Error err), h\<lparr>world := w'\<rparr>) | (None, w') \<Rightarrow> (None, h\<lparr>world := w'\<rparr>))" for w
  have mnt: "P (world (snd (mnt w)))" if "P w" for w
    using assms(3) [OF that] by (simp add: mnt_def split: prod.split option.split)
  have dir: "P w'" if "os_MkdirAll os (cgroupRoot h) (world h) = (e, w')" for e w'
    using assms(2) [OF assms(1) that] .
  have "mountCgroup os h = (case os_Stat os (cgroupRoot h) (world h) of
      Inl err \<Rightarrow> if err = ENOENT then (case os_MkdirAll os (cgroupRoot h) (world h) of
          (Some err', w') \<Rightarrow> (Some (Mkdir_Error err'), h\<lparr>world := w'\<rparr>) | (None, w') \<Rightarrow> mnt w') else (Some (Stat_Error err), h)
    | Inr isDir \<Rightarrow> if \<not> isDir then (Some Not_A_Directory, h) else mnt (world h))"
    unfolding mountCgroup_def mnt_def Let_def ..
  then show ?thesis
    using assms(1) mnt [OF assms(1)] mnt [OF dir] dir by (simp split: sum.split prod.split option.split)
qed

lemma CheckOrMountCgrpFS_keeps:
  assumes "P w"
    and "\<And>w e w'. P w \<Longrightarrow> os_MkdirAll os DefaultCgroupRoot w = (e, w') \<Longrightarrow> P w'"
    and "\<And>w e w'. P w \<Longrightarrow> os_Mount os ''none'' DefaultCgroupRoot ''cgroup2'' w = (e, w') \<Longrightarrow> P w'"
  shows "P (world (CheckOrMountCgrpFS os [] (initial_host w)))"
proof -
  have root: "cgroupRoot (initial_host w) = DefaultCgroupRoot" "world (initial_host w) = w"
    by (simp_all add: initial_host_def)
  have "P (world (snd (mountCgroup os (initial_host w))))"
    by (rule mountCgroup_keeps [of P "initial_host w" os, unfolded root]) (use assms in blast)+
  then show ?thesis
    using assms(1) by (simp add: CheckOrMountCgrpFS_def cgrpCheckOrMountLocation_def initial_host_def setCgroupRoot_def Let_def
        split: prod.splits option.splits)
qed

lemma mountFS_keeps:
  assumes "P w0"
    and "\<And>w e w' q. P w \<Longrightarrow> q \<in> {BPFFSRoot, EProxyPath} \<Longrightarrow> os_MkdirAll os q w = (e, w') \<Longrightarrow> P w'"
    and "\<And>w e w'. P w \<Longrightarrow> os_Mount os BPFFSRoot BPFFSRoot ''bpf'' w = (e, w') \<Longrightarrow> P w'"
  shows "P (snd (mountFS os b w0))"
proof -
  have dir: "P (snd (os_MkdirAll os q w))" if "P w" "q \<in> {BPFFSRoot, EProxyPath}" for w q
    using assms(2) [OF that] by (metis prod.collapse)
  have mount: "P w'" "P (snd (os_MkdirAll os EProxyPath w'))"
    if "P w" "os_Mount os BPFFSRoot BPFFSRoot ''bpf'' w = (e, w')" for w e w'
    using assms(3) [OF that] dir by blast+
  define mnt where "mnt w = (case os_Mount os BPFFSRoot BPFFSRoot ''bpf'' w of
      (Some err, w') \<Rightarrow> (Some (Mount_Error err), w') | (None, w') \<Rightarrow> (None, snd (os_MkdirAll os EProxyPath w')))" for w
  have mnt: "P (snd (mnt w))" if "P w" for w
    using mount [OF that] by (simp add: mnt_def del: Dir_paths split: prod.split option.split)
  have root: "P w'" if "os_MkdirAll os BPFFSRoot w0 = (e, w')" for e w'
    using assms(2) [OF assms(1) _ that] by simp
  have "mountFS os b w0 = (case os_Stat os BPFFSRoot w0 of
      Inl err \<Rightarrow> if err = ENOENT then (case os_MkdirAll os BPFFSRoot w0 of
          (Some err', w') \<Rightarrow> (Some (Mkdir_Error err'), w') | (None, w') \<Rightarrow> mnt w') else (Some (Stat_Error err), w0)
    | Inr isDir \<Rightarrow> if \<not> isDir then (Some Not_A_Directory, w0) else mnt w0)"
    unfolding mountFS_def MkdirBPF_def EProxyPath_def [symmetric] mnt_def Let_def ..
  then show ?thesis
    using assms(1) mnt [OF assms(1)] mnt [OF root] root by (simp split: sum.split prod.split option.split)
qed

lemma checkOrMount_keeps_cgroup:
  assumes "mount_os os" and "checkOrMountDefaultLocations os w = (r, w')"
    and "IsMountFS os ty DefaultCgroupRoot w = (True, True, None)"
  shows "IsMountFS os ty DefaultCgroupRoot w' = (True, True, None)"
proof -
  have "IsMountFS os ty DefaultCgroupRoot (snd (mountFS os False w)) = (True, True, None)"
  proof (rule mountFS_keeps [where P = "\<lambda>w. IsMountFS os ty DefaultCgroupRoot w = (True, True, None)"])
    fix w e w' q
    assume w: "IsMountFS os ty DefaultCgroupRoot w = (True, True, None)"
    show "IsMountFS os ty DefaultCgroupRoot w' = (True, True, None)"
      if "q \<in> {BPFFSRoot, EProxyPath}" "os_MkdirAll os q w = (e, w')"
      using mount_os.mkdir_mounted [OF assms(1) that(2) _ own_paths(3) _ w] that(1) by auto
    show "IsMountFS os ty DefaultCgroupRoot w' = (True, True, None)"
      if "os_Mount os BPFFSRoot BPFFSRoot ''bpf'' w = (e, w')"
      using mount_os.elsewhere_mounted [OF assms(1) that own_paths(2,3) _ not_covers_roots(1,2) w] by simp
  qed (rule assms(3))
  then show ?thesis
    using assms(2,3) by (auto simp: checkOrMountDefaultLocations_def split: prod.splits option.splits if_splits)
qed

section \<open>Properties\<close>

text \<open>C19. A start that logs no mount error has both file systems: when the two checks return without
  error, the cgroup root, which is then the default one, is a mount point of cgroup v2 and
  \<^verbatim>\<open>/sys/fs/bpf\<close> one of the BPF file system, whether they were mounted before or by this start; the second
  mount does not undo the first, and a later check of the cgroup mount does nothing.\<close>

theorem mounts_ready_after_checks:
  assumes "mount_os os"
    and "cgrpCheckOrMountLocation os DefaultCgroupRoot (initial_host w0) = (None, h1)"
    and "checkOrMountDefaultLocations os (world h1) = (Continues None, w2)"
  shows "CheckOrMountCgrpFS os [] (initial_host w0) = h1\<lparr>cgrpMountOnce := True\<rparr> \<and>
    GetCgroupRoot h1 = DefaultCgroupRoot \<and> CheckOrMountBtfFS os (world h1) = (Continues (), w2) \<and>
    mounts_ready os DefaultCgroupRoot w2 \<and>
    CheckOrMountCgrpFS os root (h1\<lparr>cgrpMountOnce := True\<rparr>) = h1\<lparr>cgrpMountOnce := True\<rparr>"
proof -
  from cgroup_location_mounted [OF assms(1,2)]
  have "IsMountFS os (FilesystemTypeCgroup2 os) DefaultCgroupRoot w2 = (True, True, None)"
    by (rule checkOrMount_keeps_cgroup [OF assms(1,3)])
  moreover have "GetCgroupRoot h1 = DefaultCgroupRoot"
    using cgrpCheckOrMountLocation_root [of os DefaultCgroupRoot "initial_host w0"] assms(2) by (simp add: GetCgroupRoot_def)
  ultimately show ?thesis
    using assms(2,3) bpffs_location_mounted [OF assms(1,3)]
    by (simp add: mounts_ready_def CheckOrMountCgrpFS_def CheckOrMountBtfFS_def initial_host_def)
qed

theorem mounts_ready_after_checks_witness:
  "\<exists>h1 w2. cgrpCheckOrMountLocation m_os DefaultCgroupRoot (initial_host demo_machine) = (None, h1) \<and>
     checkOrMountDefaultLocations m_os (world h1) = (Continues None, w2) \<and> mounts_ready m_os DefaultCgroupRoot w2"
proof -
  define h1 where "h1 = snd (cgrpCheckOrMountLocation m_os DefaultCgroupRoot (initial_host demo_machine))"
  define w2 where "w2 = snd (checkOrMountDefaultLocations m_os (world h1))"
  have "fst (cgrpCheckOrMountLocation m_os DefaultCgroupRoot (initial_host demo_machine)) = None"
    by code_simp
  then have first: "cgrpCheckOrMountLocation m_os DefaultCgroupRoot (initial_host demo_machine) = (None, h1)"
    by (simp add: h1_def prod_eq_iff)
  have "fst (checkOrMountDefaultLocations m_os (world h1)) = Continues None"
    unfolding h1_def by code_simp
  then have second: "checkOrMountDefaultLocations m_os (world h1) = (Continues None, w2)"
    by (simp add: w2_def prod_eq_iff)
  show ?thesis
    using first second mounts_ready_after_checks [OF machine.mount_os_axioms first second] by blast
qed

text \<open>C29. The fallback location is never used: when \<^verbatim>\<open>/sys/fs/bpf\<close> carries another file system, the second
  check looks at the same path again, and the process ends without mounting anything.\<close>

theorem bpffs_fallback_never_used:
  assumes "IsMountFS os (FilesystemTypeBPFFS os) BPFFSRoot w = (True, False, None)"
  shows "checkOrMountDefaultLocations os w = (Exits, w) \<and> CheckOrMountBtfFS os w = (Exits, w)"
  using assms by (simp add: checkOrMountDefaultLocations_def CheckOrMountBtfFS_def)

theorem bpffs_fallback_never_used_witness:
  "CheckOrMountBtfFS m_os (demo_machine\<lparr>m_mounts := [(BPFFSRoot, ''tmpfs'', 1)]\<rparr>) =
     (Exits, demo_machine\<lparr>m_mounts := [(BPFFSRoot, ''tmpfs'', 1)]\<rparr>)"
proof -
  have "IsMountFS m_os (FilesystemTypeBPFFS m_os) BPFFSRoot (demo_machine\<lparr>m_mounts := [(BPFFSRoot, ''tmpfs'', 1)]\<rparr>) =
      (True, False, None)"
    by code_simp
  from bpffs_fallback_never_used [OF this] show ?thesis
    by simp
qed

end
