(* ===== verification/Object_File.thy ===== *)
theory Object_File
  imports Connect4 Bpf_Tracing
begin

text \<open>
  The object file that the build makes of \<^verbatim>\<open>src/ebpf/src/service.c\<close>, as far as a loader sees it: the symbols
  with the ELF section that \<^verbatim>\<open>SEC\<close>, the section macros of \<^verbatim>\<open>common.h\<close> and the storage class of the print
  formats put them in, the declarations of the maps and the names of the programs. The property at the end
  checks the helper calls of the program against the prototypes and these declarations.
\<close>

section \<open>Sections\<close>

datatype symbol_kind =
  Text_Data string
| Map_Declaration "cfield list"
| Program

record elf_symbol =
  sym_name :: string
  sym_section :: string
  sym_kind :: symbol_kind

definition SEC :: "string \<Rightarrow> string \<Rightarrow> symbol_kind \<Rightarrow> elf_symbol" where
  "SEC section_name symbol kind = \<lparr>sym_name = symbol, sym_section = section_name, sym_kind = kind\<rparr>"

definition section_maps :: "string \<Rightarrow> symbol_kind \<Rightarrow> elf_symbol" where
  "section_maps = SEC ''maps''"

definition section_maps_btf :: "string \<Rightarrow> symbol_kind \<Rightarrow> elf_symbol" where
  "section_maps_btf = SEC ''.maps''"

section \<open>service.c\<close>

definition license_symbol :: elf_symbol where
  "license_symbol = SEC ''license'' ''__license'' (Text_Data ''Dual MIT/GPL'')"

text \<open>
  A \<^verbatim>\<open>bpf_printk\<close> keeps its format in an array \<^verbatim>\<open>____fmt\<close>, which is on the stack if the macro
  \<^verbatim>\<open>BPF_NO_GLOBAL_DATA\<close> is defined and static and constant otherwise, in the section for read-only data; a
  loader makes a further map of that section. The four arrays of the program differ in scope, not in name.
\<close>

definition BPF_PRINTK_FMT_MOD :: "string list \<Rightarrow> string \<Rightarrow> elf_symbol list" where
  "BPF_PRINTK_FMT_MOD defines fmt =
     (if ''BPF_NO_GLOBAL_DATA'' \<in> set defines then [] else [SEC ''.rodata'' ''____fmt'' (Text_Data fmt)])"

definition service_formats :: "string list" where
  "service_formats =
     [''unkonw socket type'', ''before user ip %lu, port:%d,protocol: %d, '' @ newline, ''query endpoint id: %d'',
      ''after user ip %lu, port:%d'' @ newline]"

definition service_o :: "elf_symbol list" where
  "service_o =
     [license_symbol,
      section_maps_btf ''eproxy_lb4_services'' (Map_Declaration eproxy_lb4_services),
      section_maps_btf ''eproxy_lb4_backends'' (Map_Declaration eproxy_lb4_backends),
      SEC ''cgroup/connect4'' ''connect4'' Program] @
     concat (map (BPF_PRINTK_FMT_MOD makefile_defines) service_formats)"

section \<open>What a loader reads\<close>

fun map_declaration :: "elf_symbol \<Rightarrow> (string \<times> cfield list) option" where
  "map_declaration s =
     (case sym_kind s of Map_Declaration d \<Rightarrow> if sym_section s = ''.maps'' then Some (sym_name s, d) else None | _ \<Rightarrow> None)"

definition object_maps :: "elf_symbol list \<Rightarrow> (string \<times> cfield list) list" where
  "object_maps obj = List.map_filter map_declaration obj"

definition object_programs :: "elf_symbol list \<Rightarrow> string list" where
  "object_programs obj = map sym_name (filter (\<lambda>s. sym_kind s = Program) obj)"

definition pinned_by_name :: "string \<times> cfield list \<Rightarrow> bool" where
  "pinned_by_name m \<longleftrightarrow> map_uint (snd m) ''pinning'' = Some (enum_nat libbpf_pin_type ''LIBBPF_PIN_BY_NAME'')"

section \<open>Lemmas\<close>

lemmas service_o_simps = service_o_def license_symbol_def section_maps_btf_def SEC_def service_formats_def
  BPF_PRINTK_FMT_MOD_def makefile_defines_def

lemma service_o_maps:
  "object_maps service_o = [(''eproxy_lb4_services'', eproxy_lb4_services), (''eproxy_lb4_backends'', eproxy_lb4_backends)]"
  by (simp add: object_maps_def service_o_simps List.map_filter_def)

lemma service_o_programs: "object_programs service_o = [''connect4'']"
  by (simp add: object_programs_def service_o_simps)

lemma service_o_pinned: "list_all pinned_by_name (object_maps service_o)"
  by (simp add: service_o_maps pinned_by_name_def eproxy_lb4_services_def eproxy_lb4_backends_def uint_attr_def type_attr_def
      map_uint_def)

text \<open>The maps that the program looks up are maps of its object file, and the formats it prints are in its
  read-only data.\<close>

lemma connect4_maps_declared:
  "Call f args \<in> set (c4_calls (connect4 services backends rnd ctx)) \<Longrightarrow> A_Map m \<in> set args \<Longrightarrow> m \<in> fst ` set (object_maps service_o)"
  by (auto simp: connect4_def Let_def printk_calls do_bpf_printk_def service_o_maps split: option.splits if_splits)

lemma connect4_formats_declared:
  "Call f args \<in> set (c4_calls (connect4 services backends rnd ctx)) \<Longrightarrow> A_Fmt fmt \<in> set args \<Longrightarrow>
     SEC ''.rodata'' ''____fmt'' (Text_Data fmt) \<in> set service_o"
  by (auto simp: connect4_def Let_def printk_calls do_bpf_printk_def service_o_simps split: option.splits if_splits)

text \<open>The arguments of each call of a run.\<close>

lemma connect4_lookups:
  assumes "Call bpf_map_lookup_elem args \<in> set (c4_calls (connect4 services backends rnd ctx))"
  shows "args = [A_Map ''eproxy_lb4_services'', A_Bytes (lb4_key_bytes (key_of_ctx ctx))] \<or>
    (\<exists>v. lookup_service services (key_of_ctx ctx) = Some v \<and>
      args = [A_Map ''eproxy_lb4_backends'', A_Bytes (le32 (backend_id (s_service_id v) (pick_index rnd (s_count v))))])"
  using connect4_calls_cases [OF assms]
  by (auto simp: prints_def do_bpf_printk_def bpf_map_lookup_elem_def bpf_trace_printk_def bpf_get_prandom_u32_def)

lemma connect4_prints:
  assumes "Call bpf_trace_printk args \<in> set (c4_calls (connect4 services backends rnd ctx))"
  shows "\<exists>fmt vs. args = A_Fmt fmt # A_Size (length fmt + 1) # map A_Val vs \<and> count_list fmt (CHR ''%'') = length vs"
  using connect4_calls_cases [OF assms]
  by (auto simp: prints_def do_bpf_printk_def fmt_size_def bpf_map_lookup_elem_def bpf_trace_printk_def bpf_get_prandom_u32_def)

lemma map_key_sizes:
  "map_size eproxy_lb4_services ''key'' = Some 8" "map_size eproxy_lb4_backends ''key'' = Some 4"
  by (simp_all add: map_size_def eproxy_lb4_services_def eproxy_lb4_backends_def uint_attr_def type_attr_def
      struct_lb4_key_def layout_simps)

section \<open>Properties\<close>

text \<open>C36. Every helper call of the program fits its prototype, argument by argument, and is a helper of the
  kernel described by vmlinux.h; the calls come in one order, of which a run makes the first one, two,
  five or all six. A print passes a format, the size of its array with the final NUL and one value per
  conversion. A lookup passes the service map and the key of the destination, or the backend map and the
  id of the picked backend, and the key has the size that the declaration of the map in the object file
  gives.\<close>

theorem connect4_helper_calls:
  "list_all (\<lambda>c. call_ok c \<and> kernel_has (call_decl c)) (c4_calls (connect4 services backends rnd ctx)) \<and>
   (\<exists>n \<in> {1, 2, 5, 6}. map call_decl (c4_calls (connect4 services backends rnd ctx)) =
     take n [bpf_trace_printk, bpf_map_lookup_elem, bpf_get_prandom_u32, bpf_trace_printk,
       bpf_map_lookup_elem, bpf_trace_printk]) \<and>
   (\<forall>args. Call bpf_trace_printk args \<in> set (c4_calls (connect4 services backends rnd ctx)) \<longrightarrow>
     (\<exists>fmt vs. args = A_Fmt fmt # A_Size (length fmt + 1) # map A_Val vs \<and> count_list fmt (CHR ''%'') = length vs)) \<and>
   (\<forall>args. Call bpf_map_lookup_elem args \<in> set (c4_calls (connect4 services backends rnd ctx)) \<longrightarrow>
     (args = [A_Map ''eproxy_lb4_services'', A_Bytes (lb4_key_bytes (key_of_ctx ctx))] \<or>
      (\<exists>v. lookup_service services (key_of_ctx ctx) = Some v \<and>
         args = [A_Map ''eproxy_lb4_backends'', A_Bytes (le32 (backend_id (s_service_id v) (pick_index rnd (s_count v))))])) \<and>
     (\<exists>symb decl key. args = [A_Map symb, A_Bytes key] \<and> (symb, decl) \<in> set (object_maps service_o) \<and>
        map_size decl ''key'' = Some (length key)))"
proof -
  let ?calls = "c4_calls (connect4 services backends rnd ctx)"
  have "set (map call_decl ?calls) \<subseteq> {bpf_trace_printk, bpf_map_lookup_elem, bpf_get_prandom_u32}"
    using connect4_call_decls [of services backends rnd ctx] by (elim bexE) (auto dest!: in_set_takeD)
  then have "list_all (\<lambda>c. call_ok c \<and> kernel_has (call_decl c)) ?calls"
    using connect4_calls_ok [of services backends rnd ctx] connect4_helpers_in_kernel by (auto simp: list_all_iff)
  moreover have "\<exists>symb decl key. args = [A_Map symb, A_Bytes key] \<and> (symb, decl) \<in> set (object_maps service_o) \<and>
      map_size decl ''key'' = Some (length key)"
    if "Call bpf_map_lookup_elem args \<in> set ?calls" for args
    using connect4_lookups [OF that] by (auto simp: service_o_maps map_key_sizes lb4_key_bytes_def le32_def le16_def)
  ultimately show ?thesis
    using connect4_call_decls [of services backends rnd ctx] connect4_prints connect4_lookups by blast
qed

theorem connect4_helper_calls_witness:
  "Call bpf_map_lookup_elem [A_Map ''eproxy_lb4_services'', A_Bytes (lb4_key_bytes demo_key)]
     \<in> set (c4_calls (connect4 demo_services demo_backends 5 demo_ctx)) \<and>
   (\<exists>decl. (''eproxy_lb4_services'', decl) \<in> set (object_maps service_o) \<and>
     map_size decl ''key'' = Some (length (lb4_key_bytes demo_key)))"
proof -
  let ?call = "Call bpf_map_lookup_elem [A_Map ''eproxy_lb4_services'', A_Bytes (lb4_key_bytes demo_key)]"
  have "?call \<in> set (c4_calls (connect4 demo_services demo_backends 5 demo_ctx))"
    by (auto simp: connect4_def Let_def demo_ctx_def key_of_ctx_def demo_key_def SOCK_STREAM_def split: option.splits)
  then show ?thesis
    using connect4_helper_calls [of demo_services demo_backends 5 demo_ctx] by blast
qed

end
