(* ===== verification/Loader.thy ===== *)
theory Loader
  imports Mounts Service_Manager Object_File
begin

text \<open>
  \<^verbatim>\<open>src/pkg/bpf/bpf.go\<close>, \<^verbatim>\<open>src/cmd/eproxy/main.go\<close> and \<^verbatim>\<open>src/pkg/utils/signals\<close>: the BPF manager that mounts, loads
  and attaches, the start of the process up to the controller, and its end. The eBPF library is a record
  of operations over the machine; errors are its texts.
\<close>

section \<open>The eBPF library\<close>

record ('w, 'spec, 'coll, 'prog, 'link, 'm) ebpf_lib =
  RemoveMemlock :: "'w \<Rightarrow> string option \<times> 'w"
  LoadCollectionSpec :: "string \<Rightarrow> 'w \<Rightarrow> string + 'spec"
  NewCollectionWithOptions :: "'spec \<Rightarrow> string \<Rightarrow> 'w \<Rightarrow> (string + 'coll) \<times> 'w"
  AttachCgroup :: "string \<Rightarrow> 'prog option \<Rightarrow> 'w \<Rightarrow> (string + 'link) \<times> 'w"
  Programs :: "'coll \<Rightarrow> string \<Rightarrow> 'prog option"
  Maps :: "'coll \<Rightarrow> string \<Rightarrow> 'm option"
  link_Close :: "'link \<Rightarrow> 'w \<Rightarrow> string option \<times> 'w"
  collection_Close :: "'coll \<Rightarrow> 'w \<Rightarrow> 'w"

section \<open>BPF manager\<close>

record ('coll, 'link, 'm) BPFManager =
  bm_ebpffile :: string
  bm_cglink :: "'link option"
  bm_collection :: "'coll option"
  bm_service :: "'m option"
  bm_endpoint :: "'m option"

definition NewBPFManager :: "string \<Rightarrow> ('coll, 'link, 'm) BPFManager" where
  "NewBPFManager file =
     \<lparr>bm_ebpffile = file, bm_cglink = None, bm_collection = None, bm_service = None, bm_endpoint = None\<rparr>"

text \<open>Everything after the mounts: the object file, the collection with its maps pinned, the program
  attached to the cgroup root, the two maps by name.\<close>

definition load_and_attach ::
  "('w, 'spec, 'coll, 'prog, 'link, 'm) ebpf_lib \<Rightarrow> ('coll, 'link, 'm) BPFManager \<Rightarrow> 'w host \<Rightarrow>
     string option outcome \<times> ('coll, 'link, 'm) BPFManager \<times> 'w host" where
  "load_and_attach lib bm h =
     (case LoadCollectionSpec lib (bm_ebpffile bm) (world h) of
        Inl err \<Rightarrow> (Continues (Some err), bm, h)
      | Inr spec \<Rightarrow>
          (case NewCollectionWithOptions lib spec EProxyPath (world h) of
             (Inl err, w) \<Rightarrow> (Continues (Some err), bm\<lparr>bm_collection := None\<rparr>, h\<lparr>world := w\<rparr>)
           | (Inr coll, w) \<Rightarrow>
               (let bm1 = bm\<lparr>bm_collection := Some coll\<rparr>
                in case AttachCgroup lib (GetCgroupRoot h) (Programs lib coll ''connect4'') w of
                     (Inl err, w') \<Rightarrow> (Continues (Some err), bm1\<lparr>bm_cglink := None\<rparr>, h\<lparr>world := w'\<rparr>)
                   | (Inr lnk, w') \<Rightarrow>
                       (Continues None,
                        bm1\<lparr>bm_cglink := Some lnk, bm_service := Maps lib coll ''eproxy_lb4_services'',
                            bm_endpoint := Maps lib coll ''eproxy_lb4_backends''\<rparr>,
                        h\<lparr>world := w'\<rparr>))))"

definition LoadAndAttach ::
  "('w, 'spec, 'coll, 'prog, 'link, 'm) ebpf_lib \<Rightarrow> 'w os_ops \<Rightarrow> ('coll, 'link, 'm) BPFManager \<Rightarrow> 'w host \<Rightarrow>
     string option outcome \<times> ('coll, 'link, 'm) BPFManager \<times> 'w host" where
  "LoadAndAttach lib os bm h =
     (case RemoveMemlock lib (world h) of
        (Some err, w) \<Rightarrow> (Continues (Some err), bm, h\<lparr>world := w\<rparr>)
      | (None, w) \<Rightarrow>
          (let h1 = CheckOrMountCgrpFS os [] (h\<lparr>world := w\<rparr>)
           in case CheckOrMountBtfFS os (world h1) of
                (Exits, w') \<Rightarrow> (Exits, bm, h1\<lparr>world := w'\<rparr>)
              | (Continues _, w') \<Rightarrow> load_and_attach lib bm (h1\<lparr>world := w'\<rparr>)))"

definition Link :: "('coll, 'link, 'm) BPFManager \<Rightarrow> 'link option" where
  "Link bm = bm_cglink bm"

definition ServiceMap :: "('coll, 'link, 'm) BPFManager \<Rightarrow> 'm option" where
  "ServiceMap bm = bm_service bm"

definition EndpointMap :: "('coll, 'link, 'm) BPFManager \<Rightarrow> 'm option" where
  "EndpointMap bm = bm_endpoint bm"

definition nil_deref :: string where
  "nil_deref = ''invalid memory address or nil pointer dereference''"

definition Close ::
  "('w, 'spec, 'coll, 'prog, 'link, 'm) ebpf_lib \<Rightarrow> ('coll, 'link, 'm) BPFManager \<Rightarrow> 'w host \<Rightarrow>
     (string option, 'w host) go_result" where
  "Close lib bm h =
     (case bm_cglink bm of
        None \<Rightarrow> Panics nil_deref h
      | Some lnk \<Rightarrow>
          (let (err, w) = link_Close lib lnk (world h)
           in case bm_collection bm of
                None \<Rightarrow> Panics nil_deref (h\<lparr>world := w\<rparr>)
              | Some coll \<Rightarrow> Returns err (h\<lparr>world := collection_Close lib coll w\<rparr>)))"

section \<open>Signals\<close>

text \<open>The handler is set up once per process: a second set-up closes a closed channel. Its goroutine takes
  the first shutdown signal as the request to stop and exits on the second.\<close>

datatype process_end = Main_Returned | Exited int | Killed

record process =
  handler_set :: bool
  stop_closed :: bool
  ended :: "process_end option"

definition new_process :: process where
  "new_process = \<lparr>handler_set = False, stop_closed = False, ended = None\<rparr>"

definition SetupSignalHandler :: "process \<Rightarrow> (unit, process) go_result" where
  "SetupSignalHandler p =
     (if handler_set p then Panics ''close of closed channel'' p
      else Returns () (p\<lparr>handler_set := True, stop_closed := False\<rparr>))"

definition shutdown_signal :: "process \<Rightarrow> process" where
  "shutdown_signal p =
     (if ended p \<noteq> None then p
      else if \<not> handler_set p then p\<lparr>ended := Some Killed\<rparr>
      else if stop_closed p then p\<lparr>ended := Some (Exited 1)\<rparr>
      else p\<lparr>stop_closed := True\<rparr>)"

section \<open>Start and end of the process\<close>

text \<open>The start up to the service manager; a load error is fatal.\<close>

definition main_start ::
  "('w, 'spec, 'coll, 'prog, 'link, 'm) ebpf_lib \<Rightarrow> 'w os_ops \<Rightarrow> string \<Rightarrow> 'w host \<Rightarrow>
     (('coll, 'link, 'm) BPFManager \<times> 'm ServiceManager) outcome \<times> 'w host" where
  "main_start lib os ebpffile h =
     (case LoadAndAttach lib os (NewBPFManager ebpffile) h of
        (Exits, _, h') \<Rightarrow> (Exits, h')
      | (Continues (Some err), _, h') \<Rightarrow> (Exits, h')
      | (Continues None, bm, h') \<Rightarrow> (Continues (bm, NewServiceManager (ServiceMap bm) (EndpointMap bm)), h'))"

text \<open>One turn of the loop at the end of \<^verbatim>\<open>main\<close>: it closes the manager and returns once the stop channel is
  closed, and sleeps otherwise.\<close>

definition main_turn ::
  "('w, 'spec, 'coll, 'prog, 'link, 'm) ebpf_lib \<Rightarrow> ('coll, 'link, 'm) BPFManager \<Rightarrow> process \<times> 'w host \<Rightarrow>
     (unit, process \<times> 'w host) go_result" where
  "main_turn lib bm st =
     (let (p, h) = st
      in if ended p \<noteq> None then Returns () (p, h)
         else if stop_closed p then
           (case Close lib bm h of
              Panics e h' \<Rightarrow> Panics e (p, h')
            | Returns _ h' \<Rightarrow> Returns () (p\<lparr>ended := Some Main_Returned\<rparr>, h'))
         else Returns () (p, h))"

section \<open>What the loader relies on\<close>

text \<open>A collection has the maps and the programs of the object file it comes from, by their symbols, besides
  the maps that the library makes of data sections.\<close>

definition exposes :: "('w, 'spec, 'coll, 'prog, 'link, 'm) ebpf_lib \<Rightarrow> string \<Rightarrow> elf_symbol list \<Rightarrow> bool" where
  "exposes lib file obj \<longleftrightarrow>
     (\<forall>spec coll pin w w1 w2. LoadCollectionSpec lib file w = Inr spec \<longrightarrow> NewCollectionWithOptions lib spec pin w1 = (Inr coll, w2) \<longrightarrow>
       fst ` set (object_maps obj) \<subseteq> {n. Maps lib coll n \<noteq> None} \<and> set (object_programs obj) \<subseteq> {n. Programs lib coll n \<noteq> None})"

text \<open>\<^verbatim>\<open>pinned spec\<close> are the maps of a specification that are to be pinned by name. A specification read from an
  object file has those that are declared so, and making a collection with such a map fails when the
  directory for its pins does not exist.\<close>

definition reads_pinning ::
  "('w, 'spec, 'coll, 'prog, 'link, 'm) ebpf_lib \<Rightarrow> ('spec \<Rightarrow> string set) \<Rightarrow> string \<Rightarrow> elf_symbol list \<Rightarrow> bool" where
  "reads_pinning lib pinned file obj \<longleftrightarrow>
     (\<forall>spec w. LoadCollectionSpec lib file w = Inr spec \<longrightarrow> fst ` set (filter pinned_by_name (object_maps obj)) \<subseteq> pinned spec)"

definition pins_need_directory ::
  "('w, 'spec, 'coll, 'prog, 'link, 'm) ebpf_lib \<Rightarrow> 'w os_ops \<Rightarrow> ('spec \<Rightarrow> string set) \<Rightarrow> bool" where
  "pins_need_directory lib os pinned \<longleftrightarrow>
     (\<forall>spec w. pinned spec \<noteq> {} \<longrightarrow> os_Stat os EProxyPath w = Inl ENOENT \<longrightarrow>
       (\<exists>err w'. NewCollectionWithOptions lib spec EProxyPath w = (Inl err, w')))"

text \<open>Two states of the machine with the same files, as the system calls show them.\<close>

definition same_files :: "'w os_ops \<Rightarrow> 'w \<Rightarrow> 'w \<Rightarrow> bool" where
  "same_files os w w' \<longleftrightarrow>
     os_Lstat os BPFFSRoot w' = os_Lstat os BPFFSRoot w \<and> os_Lstat os (Dir BPFFSRoot) w' = os_Lstat os (Dir BPFFSRoot) w \<and>
     os_Statfs os BPFFSRoot w' = os_Statfs os BPFFSRoot w \<and> os_Stat os EProxyPath w' = os_Stat os EProxyPath w"

text \<open>The directory for the pins is missing on a mounted BPF file system.\<close>

definition unprepared :: "'w os_ops \<Rightarrow> 'w \<Rightarrow> bool" where
  "unprepared os w \<longleftrightarrow>
     IsMountFS os (FilesystemTypeBPFFS os) BPFFSRoot w = (True, True, None) \<and> os_Stat os EProxyPath w = Inl ENOENT"

text \<open>A library for the machine: the file \<^verbatim>\<open>service.o\<close> holds the program and the two maps, both pinned, and its
  formats make a third map; the pins need their directory and the link its control group. A
  specification, a link and a collection are names.\<close>

definition m_pinned :: "string \<Rightarrow> string set" where
  "m_pinned spec = (if spec = ''/ebpf/service.o'' then {''eproxy_lb4_services'', ''eproxy_lb4_backends''} else {})"

definition m_lib :: "(machine, string, string, string, string, string) ebpf_lib" where
  "m_lib = \<lparr>RemoveMemlock = (\<lambda>w. (None, w)),
     LoadCollectionSpec = (\<lambda>file w. if file = [] then Inl ''no such file'' else Inr file),
     NewCollectionWithOptions = (\<lambda>spec pin w. if m_pinned spec = {} \<or> os_Stat m_os pin w = Inr True
       then (Inr spec, w) else (Inl ''pin'', w)),
     AttachCgroup = (\<lambda>path prog w. if IsMountFS m_os (FilesystemTypeCgroup2 m_os) path w = (True, True, None) \<and> prog \<noteq> None
       then (Inr path, w) else (Inl ''attach'', w)),
     Programs = (\<lambda>coll name. if name = ''connect4'' then Some name else None),
     Maps = (\<lambda>coll name. if name \<in> {''eproxy_lb4_services'', ''eproxy_lb4_backends'', ''.rodata''} then Some name else None),
     link_Close = (\<lambda>lnk w. (None, w)), collection_Close = (\<lambda>coll w. w)\<rparr>"

section \<open>Lemmas\<close>

lemma IsMountFS_same_files:
  "same_files os w w' \<Longrightarrow> IsMountFS os ty BPFFSRoot w' = IsMountFS os ty BPFFSRoot w"
  by (auto simp: IsMountFS_def same_files_def split: sum.split)

lemma load_and_attach_ok:
  assumes "load_and_attach lib bm h = (Continues None, bm', h')"
  shows "\<exists>spec coll lnk w. LoadCollectionSpec lib (bm_ebpffile bm) (world h) = Inr spec \<and>
    NewCollectionWithOptions lib spec EProxyPath (world h) = (Inr coll, w) \<and>
    AttachCgroup lib (GetCgroupRoot h) (Programs lib coll ''connect4'') w = (Inr lnk, world h') \<and>
    bm' = \<lparr>bm_ebpffile = bm_ebpffile bm, bm_cglink = Some lnk, bm_collection = Some coll,
      bm_service = Maps lib coll ''eproxy_lb4_services'', bm_endpoint = Maps lib coll ''eproxy_lb4_backends''\<rparr>"
  using assms by (cases bm) (auto simp: load_and_attach_def Let_def split: sum.splits prod.splits)

lemma load_and_attach_error:
  assumes "load_and_attach lib bm h = (Continues (Some err), bm', h')"
  shows "bm_service bm' = bm_service bm \<and> bm_endpoint bm' = bm_endpoint bm \<and>
    (bm_cglink bm = None \<longrightarrow> bm_cglink bm' = None)"
  using assms by (auto simp: load_and_attach_def Let_def split: sum.splits prod.splits)

lemma load_and_attach_continues: "fst (load_and_attach lib bm h) \<noteq> Exits"
  by (auto simp: load_and_attach_def Let_def split: sum.splits prod.splits)

lemma unprepared_same_files: "same_files os w w' \<Longrightarrow> unprepared os w \<Longrightarrow> unprepared os w'"
  using IsMountFS_same_files [of os w w'] by (simp add: unprepared_def same_files_def)

text \<open>Mounting the control groups does not prepare the BPF file system, and neither does its own check.\<close>

lemma unprepared_CheckOrMountCgrpFS:
  assumes "mount_os os" and "unprepared os w"
  shows "unprepared os (world (CheckOrMountCgrpFS os [] (initial_host w)))"
proof (rule CheckOrMountCgrpFS_keeps [of "unprepared os", OF assms(2)])
  fix w e w'
  assume w: "unprepared os w"
  show "unprepared os w'" if "os_MkdirAll os DefaultCgroupRoot w = (e, w')"
    using w mount_os.mkdir_mounted [OF assms(1) that own_paths(3,5)]
      mount_os.mkdir_elsewhere [OF assms(1) that own_paths(3,7) not_covers_roots(6)]
    by (simp add: unprepared_def)
  show "unprepared os w'" if "os_Mount os ''none'' DefaultCgroupRoot ''cgroup2'' w = (e, w')"
    using w mount_os.elsewhere_mounted [OF assms(1) that own_paths(1,5) _ not_covers_roots(3,4)]
      mount_os.mount_elsewhere [OF assms(1) that own_paths(1,7) not_covers_roots(5)]
    by (simp add: unprepared_def)
qed

lemma unprepared_CheckOrMountBtfFS: "unprepared os w \<Longrightarrow> CheckOrMountBtfFS os w = (Continues (), w)"
  by (simp add: unprepared_def CheckOrMountBtfFS_def checkOrMountDefaultLocations_def)

lemma initial_host_world: "initial_host w\<lparr>world := w'\<rparr> = initial_host w'"
  by (simp add: initial_host_def)

section \<open>Properties\<close>

text \<open>C18. A start that reaches the controller has loaded and attached everything: the collection comes from
  the given object file with its pins in the eproxy directory, its connect4 program is attached to the
  cgroup root, the service manager works on its two load-balancer maps, and closing the manager at the
  end does not panic. If the file is the one built from \<^verbatim>\<open>service.c\<close>, the program and the two maps are there:
  the names the loader asks for are those of the declarations.\<close>

theorem main_start_attached:
  assumes "main_start lib os file h = (Continues (bm, st), h')" and "exposes lib file service_o"
  shows "\<exists>spec coll lnk w w1 root.
    LoadCollectionSpec lib file w = Inr spec \<and> NewCollectionWithOptions lib spec EProxyPath w = (Inr coll, w1) \<and>
    AttachCgroup lib root (Programs lib coll ''connect4'') w1 = (Inr lnk, world h') \<and> root = GetCgroupRoot h' \<and>
    Link bm = Some lnk \<and>
    st = NewServiceManager (Maps lib coll ''eproxy_lb4_services'') (Maps lib coll ''eproxy_lb4_backends'') \<and>
    go_returns (Close lib bm h'') \<and>
    Programs lib coll ''connect4'' \<noteq> None \<and> serviceMap st \<noteq> None \<and> endpointsMap st \<noteq> None"
proof -
  obtain h1 w where load: "load_and_attach lib (NewBPFManager file) (h1\<lparr>world := w\<rparr>) = (Continues None, bm, h')"
    and st: "st = NewServiceManager (ServiceMap bm) (EndpointMap bm)"
    using assms(1) by (auto simp: main_start_def LoadAndAttach_def Let_def
        split: prod.splits outcome.splits option.splits)
  have root: "GetCgroupRoot h' = GetCgroupRoot (h1\<lparr>world := w\<rparr>)"
    using load by (auto simp: load_and_attach_def GetCgroupRoot_def Let_def split: sum.splits prod.splits)
  obtain spec coll lnk w1 where steps: "LoadCollectionSpec lib file w = Inr spec"
    "NewCollectionWithOptions lib spec EProxyPath w = (Inr coll, w1)"
    "AttachCgroup lib (GetCgroupRoot h') (Programs lib coll ''connect4'') w1 = (Inr lnk, world h')"
    and bm: "bm_cglink bm = Some lnk" "bm_collection bm = Some coll" "bm_service bm = Maps lib coll ''eproxy_lb4_services''"
    "bm_endpoint bm = Maps lib coll ''eproxy_lb4_backends''"
    using load_and_attach_ok [OF load] unfolding root by (auto simp: NewBPFManager_def)
  have "go_returns (Close lib bm h'')"
    by (simp add: Close_def bm split: prod.split)
  moreover have "Maps lib coll ''eproxy_lb4_services'' \<noteq> None" "Maps lib coll ''eproxy_lb4_backends'' \<noteq> None"
    "Programs lib coll ''connect4'' \<noteq> None"
    using assms(2) [unfolded exposes_def, rule_format, OF steps(1,2)] unfolding service_o_maps service_o_programs by simp_all
  ultimately show ?thesis
    using steps bm st by (intro exI [of _ spec] exI [of _ coll] exI [of _ lnk] exI [of _ w] exI [of _ w1]
        exI [of _ "GetCgroupRoot h'"]) (simp add: Link_def ServiceMap_def EndpointMap_def NewServiceManager_def)
qed

theorem main_start_attached_witness:
  "\<exists>bm st h'. main_start m_lib m_os ''/ebpf/service.o'' (initial_host demo_machine) = (Continues (bm, st), h') \<and>
     serviceMap st = Some ''eproxy_lb4_services'' \<and> endpointsMap st = Some ''eproxy_lb4_backends'' \<and>
     go_returns (Close m_lib bm h')"
proof -
  let ?r = "main_start m_lib m_os ''/ebpf/service.o'' (initial_host demo_machine)"
  have "(case fst ?r of Exits \<Rightarrow> False | Continues (bm, st) \<Rightarrow>
      serviceMap st = Some ''eproxy_lb4_services'' \<and> endpointsMap st = Some ''eproxy_lb4_backends'')"
    by code_simp
  then obtain bm st where r: "?r = (Continues (bm, st), snd ?r)" "serviceMap st = Some ''eproxy_lb4_services''"
    "endpointsMap st = Some ''eproxy_lb4_backends''"
    by (cases ?r) (auto split: outcome.splits prod.splits)
  have "exposes m_lib ''/ebpf/service.o'' service_o"
    by (simp add: exposes_def service_o_maps service_o_programs m_lib_def)
  from main_start_attached [OF r(1) this, of "snd ?r"] r show ?thesis
    by blast
qed

text \<open>A failed load leaves nothing to serve and nothing to close: no map and no link, the process
  exits, and closing the manager would panic on the missing link.\<close>

theorem failed_load_exits:
  assumes "LoadAndAttach lib os (NewBPFManager file) h = (Continues (Some err), bm, h')"
  shows "ServiceMap bm = None \<and> EndpointMap bm = None \<and> Link bm = None \<and>
    main_start lib os file h = (Exits, h') \<and> Close lib bm h' = Panics nil_deref h'"
proof -
  have "bm_service bm = None \<and> bm_endpoint bm = None \<and> bm_cglink bm = None"
    using assms load_and_attach_error [of lib "NewBPFManager file" _ err bm h']
    by (auto simp: LoadAndAttach_def NewBPFManager_def Let_def split: prod.splits outcome.splits option.splits)
  then show ?thesis
    using assms by (simp add: main_start_def ServiceMap_def EndpointMap_def Link_def Close_def)
qed

theorem failed_load_exits_witness:
  "\<exists>bm h'. LoadAndAttach m_lib m_os (NewBPFManager []) (initial_host demo_machine) = (Continues (Some ''no such file''), bm, h') \<and>
    ServiceMap bm = None \<and> main_start m_lib m_os [] (initial_host demo_machine) = (Exits, h')"
proof -
  let ?r = "LoadAndAttach m_lib m_os (NewBPFManager []) (initial_host demo_machine)"
  have "fst ?r = Continues (Some ''no such file'')"
    by code_simp
  then have "?r = (Continues (Some ''no such file''), fst (snd ?r), snd (snd ?r))"
    by (simp add: prod_eq_iff)
  from this failed_load_exits [OF this] show ?thesis
    by blast
qed

text \<open>C20. A host whose BPF file system is already mounted but has no eproxy directory cannot run the
  program: the directory is only made right after a mount. The file built from \<^verbatim>\<open>service.c\<close> declares its maps to be
  pinned by name; as the library pins them in that directory, it refuses the collection and the process
  exits, on every start with that file.\<close>

theorem unprepared_host_exits:
  assumes "mount_os os" and "\<And>w. same_files os w (snd (RemoveMemlock lib w))"
    and "reads_pinning lib pinned file service_o" and "pins_need_directory lib os pinned"
    and "unprepared os w"
  shows "fst (main_start lib os file (initial_host w)) = Exits"
proof -
  obtain e w1 where lock: "RemoveMemlock lib w = (e, w1)"
    by (metis prod.collapse)
  then have "unprepared os w1"
    using unprepared_same_files [OF assms(2) assms(5)] by simp
  define h1 where "h1 = CheckOrMountCgrpFS os [] (initial_host w1)"
  have h1: "unprepared os (world h1)"
    unfolding h1_def by (rule unprepared_CheckOrMountCgrpFS [OF assms(1) \<open>unprepared os w1\<close>])
  have refused: "\<exists>err w'. NewCollectionWithOptions lib spec EProxyPath (world h1) = (Inl err, w')"
    if "LoadCollectionSpec lib file (world h1) = Inr spec" for spec
  proof -
    have "(''eproxy_lb4_services'', eproxy_lb4_services) \<in> set (filter pinned_by_name (object_maps service_o))"
      using service_o_pinned by (simp add: service_o_maps)
    then have "pinned spec \<noteq> {}"
      using assms(3) [unfolded reads_pinning_def, rule_format, OF that] by force
    then show ?thesis
      using assms(4) h1 by (simp add: pins_need_directory_def unprepared_def)
  qed
  have "fst (load_and_attach lib (NewBPFManager file) h1) \<noteq> Continues None"
  proof
    assume "fst (load_and_attach lib (NewBPFManager file) h1) = Continues None"
    then obtain bm h2 where "load_and_attach lib (NewBPFManager file) h1 = (Continues None, bm, h2)"
      by (metis prod.collapse)
    from load_and_attach_ok [OF this] refused show False
      by (auto simp: NewBPFManager_def)
  qed
  moreover have "LoadAndAttach lib os (NewBPFManager file) (initial_host w) =
      (case e of Some err \<Rightarrow> (Continues (Some err), NewBPFManager file, initial_host w1)
       | None \<Rightarrow> load_and_attach lib (NewBPFManager file) h1)"
    using lock unprepared_CheckOrMountBtfFS [OF h1] initial_host_world [of w w1]
    by (simp add: LoadAndAttach_def Let_def h1_def initial_host_def split: option.split)
  ultimately show ?thesis
    by (auto simp: main_start_def split: prod.splits outcome.splits option.splits)
qed

theorem unprepared_host_exits_witness:
  "fst (main_start m_lib m_os ''/ebpf/service.o'' (initial_host (demo_machine\<lparr>m_mounts := [(BPFFSRoot, ''bpf'', 1)]\<rparr>))) = Exits"
proof (rule unprepared_host_exits [OF machine.mount_os_axioms])
  show "unprepared m_os (demo_machine\<lparr>m_mounts := [(BPFFSRoot, ''bpf'', 1)]\<rparr>)"
    by code_simp
  show "reads_pinning m_lib m_pinned ''/ebpf/service.o'' service_o"
    by (auto simp: reads_pinning_def m_lib_def m_pinned_def service_o_maps)
  show "pins_need_directory m_lib m_os m_pinned"
    by (simp add: pins_need_directory_def m_lib_def)
qed (simp add: same_files_def m_lib_def)

text \<open>C34. The first shutdown signal ends the process in order: the next turn of the main loop closes the
  link and the collection and \<^verbatim>\<open>main\<close> returns. A second signal before that turn exits with the link still
  open, and a second set-up of the handler panics.\<close>

theorem shutdown_closes_once:
  assumes "SetupSignalHandler new_process = Returns () p" and "bm_cglink bm = Some lnk" and "bm_collection bm = Some coll"
  shows "main_turn lib bm (p, h) = Returns () (p, h) \<and>
    main_turn lib bm (shutdown_signal p, h) =
      Returns () ((shutdown_signal p)\<lparr>ended := Some Main_Returned\<rparr>, h\<lparr>world := collection_Close lib coll (snd (link_Close lib lnk (world h)))\<rparr>) \<and>
    main_turn lib bm (shutdown_signal (shutdown_signal p), h) =
      Returns () ((shutdown_signal p)\<lparr>ended := Some (Exited 1)\<rparr>, h) \<and>
    \<not> go_returns (SetupSignalHandler p)"
  using assms by (auto simp: SetupSignalHandler_def new_process_def shutdown_signal_def main_turn_def Close_def split: prod.split)

theorem shutdown_closes_once_witness:
  "\<exists>p. SetupSignalHandler new_process = Returns () p \<and>
    main_turn m_lib ((NewBPFManager [])\<lparr>bm_cglink := Some ''l'', bm_collection := Some ''c''\<rparr>) (shutdown_signal p, initial_host demo_machine) =
      Returns () ((shutdown_signal p)\<lparr>ended := Some Main_Returned\<rparr>, initial_host demo_machine)"
proof -
  obtain p where p: "SetupSignalHandler new_process = Returns () p"
    by (simp add: SetupSignalHandler_def new_process_def)
  then show ?thesis
    using shutdown_closes_once [OF p, of "(NewBPFManager [])\<lparr>bm_cglink := Some ''l'', bm_collection := Some ''c''\<rparr>" "''l''" "''c''"
        m_lib "initial_host demo_machine"]
    by (simp add: m_lib_def)
qed

end
