(* ===== verification/Command_Line.thy ===== *)
theory Command_Line
  imports Eproxy_Prelude
begin

text \<open>
  The command line of \<^verbatim>\<open>src/cmd/eproxy/main.go\<close>: Go's package \<^verbatim>\<open>flag\<close> as far as \<^verbatim>\<open>ParseCommand\<close> uses it, with
  the process-wide flag set that exits on errors, and \<^verbatim>\<open>ParseCommand\<close> itself. The variables that the flags
  are bound to are the values in the flag set.
\<close>

section \<open>Package flag\<close>

datatype flag_value = Bool_Flag bool | String_Flag string

type_synonym flag_set = "(string \<times> flag_value) list"

definition flag_Var :: "string \<Rightarrow> flag_value \<Rightarrow> flag_set \<Rightarrow> (unit, flag_set) go_result" where
  "flag_Var name v fs =
     (if map_of fs name \<noteq> None then Panics (''flag redefined: '' @ name) fs else Returns () (fs @ [(name, v)]))"

definition BoolVar :: "string \<Rightarrow> bool \<Rightarrow> flag_set \<Rightarrow> (unit, flag_set) go_result" where
  "BoolVar name v = flag_Var name (Bool_Flag v)"

definition StringVar :: "string \<Rightarrow> string \<Rightarrow> flag_set \<Rightarrow> (unit, flag_set) go_result" where
  "StringVar name v = flag_Var name (String_Flag v)"

definition set_flag :: "string \<Rightarrow> flag_value \<Rightarrow> flag_set \<Rightarrow> flag_set" where
  "set_flag name v = map (\<lambda>(n, old). (n, if n = name then v else old))"

definition ParseBool :: "string \<Rightarrow> bool option" where
  "ParseBool s =
     (if s \<in> {''1'', ''t'', ''T'', ''true'', ''TRUE'', ''True''} then Some True
      else if s \<in> {''0'', ''f'', ''F'', ''false'', ''FALSE'', ''False''} then Some False
      else None)"

text \<open>The name up to the first equals sign that is not its first character, and the value after it.\<close>

definition cut_value :: "string \<Rightarrow> string \<times> string option" where
  "cut_value s =
     (let name = takeWhile (\<lambda>c. c \<noteq> CHR ''='') (tl s); rest = dropWhile (\<lambda>c. c \<noteq> CHR ''='') (tl s)
      in (take 1 s @ name, if rest = [] then None else Some (tl rest)))"

datatype flag_error = ErrHelp | Bad_Syntax string | Not_Defined string | Invalid_Boolean string string | Needs_Argument string

datatype parsed_one = Seen flag_set "string list" | No_Flag "string list" | Fails flag_error

text \<open>What follows the dashes of an argument that is a flag.\<close>

definition parse_flag :: "flag_set \<Rightarrow> string \<Rightarrow> string list \<Rightarrow> parsed_one" where
  "parse_flag fs text args =
     (let (name, value) = cut_value text
      in case map_of fs name of
           None \<Rightarrow> if name = ''help'' \<or> name = ''h'' then Fails ErrHelp else Fails (Not_Defined name)
         | Some (Bool_Flag _) \<Rightarrow>
             (case value of
                None \<Rightarrow> Seen (set_flag name (Bool_Flag True) fs) args
              | Some v \<Rightarrow>
                  (case ParseBool v of
                     None \<Rightarrow> Fails (Invalid_Boolean v name)
                   | Some b \<Rightarrow> Seen (set_flag name (Bool_Flag b) fs) args))
         | Some (String_Flag _) \<Rightarrow>
             (case value of
                Some v \<Rightarrow> Seen (set_flag name (String_Flag v) fs) args
              | None \<Rightarrow>
                  (case args of
                     [] \<Rightarrow> Fails (Needs_Argument name)
                   | v # rest \<Rightarrow> Seen (set_flag name (String_Flag v) fs) rest)))"

fun parseOne :: "flag_set \<Rightarrow> string list \<Rightarrow> parsed_one" where
  "parseOne fs [] = No_Flag []"
| "parseOne fs (s # args) =
     (if length s < 2 \<or> s ! 0 \<noteq> CHR ''-'' then No_Flag (s # args)
      else if s = ''--'' then No_Flag args
      else let text = (if s ! 1 = CHR ''-'' then drop 2 s else drop 1 s)
           in if text ! 0 = CHR ''-'' \<or> text ! 0 = CHR ''='' then Fails (Bad_Syntax s)
              else parse_flag fs text args)"

lemma parse_flag_args: "parse_flag fs text args = Seen fs' args' \<Longrightarrow> length args' \<le> length args"
  by (auto simp: parse_flag_def split: prod.splits option.splits flag_value.splits if_splits list.splits)

lemma parseOne_args: "parseOne fs args = Seen fs' args' \<Longrightarrow> length args' < length args"
  by (cases "(fs, args)" rule: parseOne.cases) (auto simp: Let_def less_Suc_eq_le dest: parse_flag_args split: if_splits)

text \<open>\<^verbatim>\<open>Parse\<close> with \<^verbatim>\<open>ExitOnError\<close>: the flags and the arguments after them, or the exit code.\<close>

function Parse :: "flag_set \<Rightarrow> string list \<Rightarrow> int + flag_set \<times> string list" where
  "Parse fs args =
     (case parseOne fs args of
        Seen fs' args' \<Rightarrow> Parse fs' args'
      | No_Flag rest \<Rightarrow> Inr (fs, rest)
      | Fails err \<Rightarrow> Inl (if err = ErrHelp then 0 else 2))"
  by pat_completeness auto
termination
  by (relation "measure (\<lambda>(fs, args). length args)") (auto dest: parseOne_args)

declare Parse.simps [simp del]

section \<open>ParseCommand\<close>

text \<open>The variables of the package.\<close>

record command =
  Prof :: bool
  configfile :: string
  kubeconfig :: string
  ebpffile :: string
  help_flag :: bool
  version :: bool

definition bool_of :: "flag_set \<Rightarrow> string \<Rightarrow> bool" where
  "bool_of fs name = (map_of fs name = Some (Bool_Flag True))"

definition string_of :: "flag_set \<Rightarrow> string \<Rightarrow> string" where
  "string_of fs name = (case map_of fs name of Some (String_Flag s) \<Rightarrow> s | _ \<Rightarrow> [])"

definition define_flags :: "flag_set \<Rightarrow> (unit, flag_set) go_result" where
  "define_flags fs =
     go_bind (BoolVar ''h'' False fs) (\<lambda>_ fs. go_bind (BoolVar ''p'' False fs) (\<lambda>_ fs.
     go_bind (BoolVar ''v'' False fs) (\<lambda>_ fs. go_bind (StringVar ''kubeconfig'' [] fs) (\<lambda>_ fs.
     go_bind (StringVar ''ebpf'' [] fs) (\<lambda>_ fs. StringVar ''f'' [] fs)))))"

definition command_of :: "flag_set \<Rightarrow> command" where
  "command_of fs = \<lparr>Prof = bool_of fs ''p'', configfile = string_of fs ''f'', kubeconfig = string_of fs ''kubeconfig'',
     ebpffile = string_of fs ''ebpf'', help_flag = bool_of fs ''h'', version = bool_of fs ''v''\<rparr>"

text \<open>The process exits, or runs with the variables set; \<^verbatim>\<open>Prof\<close> tells that the HTTP server was started. The
  process-wide flag set is empty at the start.\<close>

datatype parsed_command = Exit_Code int | Command command | Command_Panics string

definition ParseCommand :: "string list \<Rightarrow> parsed_command" where
  "ParseCommand args =
     (case define_flags [] of
        Panics p _ \<Rightarrow> Command_Panics p
      | Returns _ fs \<Rightarrow>
          (case Parse fs args of
             Inl code \<Rightarrow> Exit_Code code
           | Inr (fs', _) \<Rightarrow> if help_flag (command_of fs') then Exit_Code 1 else Command (command_of fs')))"

section \<open>Printing a command line\<close>

definition bool_text :: "bool \<Rightarrow> string" where
  "bool_text b = (if b then ''true'' else ''false'')"

definition print_command :: "command \<Rightarrow> string list" where
  "print_command c =
     [''-h='' @ bool_text (help_flag c), ''-p='' @ bool_text (Prof c), ''-v='' @ bool_text (version c),
      ''-kubeconfig='' @ kubeconfig c, ''-ebpf='' @ ebpffile c, ''-f='' @ configfile c]"

section \<open>Lemmas\<close>

lemma define_flags_all:
  "define_flags [] = Returns () [(''h'', Bool_Flag False), (''p'', Bool_Flag False), (''v'', Bool_Flag False),
     (''kubeconfig'', String_Flag []), (''ebpf'', String_Flag []), (''f'', String_Flag [])]"
  by (simp add: define_flags_def BoolVar_def StringVar_def flag_Var_def)

lemma ParseBool_bool_text [simp]: "ParseBool (bool_text b) = Some b"
  by (simp add: bool_text_def ParseBool_def)

lemma cut_value_assignment:
  "CHR ''='' \<notin> set name \<Longrightarrow> cut_value (c # name @ CHR ''='' # v) = (c # name, Some v)"
  by (simp add: cut_value_def takeWhile_append dropWhile_append)

lemma cut_value_plain: "CHR ''='' \<notin> set name \<Longrightarrow> cut_value (c # name) = (c # name, None)"
  by (simp add: cut_value_def)

text \<open>An argument with one or two dashes is taken apart the same way.\<close>

lemma parseOne_dash:
  assumes "c \<noteq> CHR ''-''" and "c \<noteq> CHR ''=''"
  shows "parseOne fs ((CHR ''-'' # c # s) # args) = parse_flag fs (c # s) args"
    and "parseOne fs ((CHR ''-'' # CHR ''-'' # c # s) # args) = parse_flag fs (c # s) args"
  using assms by simp_all

lemma Parse_assignment:
  assumes "c \<noteq> CHR ''-''" and "c \<noteq> CHR ''=''" and "CHR ''='' \<notin> set name" and "map_of fs (c # name) = Some (String_Flag old)"
  shows "Parse fs ((CHR ''-'' # c # name @ CHR ''='' # v) # args) = Parse (set_flag (c # name) (String_Flag v) fs) args"
    and "Parse fs ((CHR ''-'' # c # name) # v # args) = Parse (set_flag (c # name) (String_Flag v) fs) args"
  using assms by (subst Parse.simps, simp add: parseOne_dash parse_flag_def cut_value_assignment cut_value_plain)+

lemma Parse_bool:
  assumes "c \<noteq> CHR ''-''" and "c \<noteq> CHR ''=''" and "CHR ''='' \<notin> set name" and "map_of fs (c # name) = Some (Bool_Flag old)"
  shows "Parse fs ((CHR ''-'' # c # name @ CHR ''='' # bool_text b) # args) = Parse (set_flag (c # name) (Bool_Flag b) fs) args"
    and "Parse fs ((CHR ''-'' # c # name) # args) = Parse (set_flag (c # name) (Bool_Flag True) fs) args"
  using assms by (subst Parse.simps, simp add: parseOne_dash parse_flag_def cut_value_assignment cut_value_plain)+

lemma Parse_end: "Parse fs [] = Inr (fs, [])" "Parse fs (''--'' # args) = Inr (fs, args)"
  by (subst Parse.simps, simp)+

text \<open>The arguments of the deployment.\<close>

lemma deployment_command:
  "ParseCommand [''-ebpf'', ''/ebpf/service.o''] =
     Command \<lparr>Prof = False, configfile = [], kubeconfig = [], ebpffile = ''/ebpf/service.o'', help_flag = False, version = False\<rparr>"
  by (simp add: ParseCommand_def define_flags_all Parse_assignment(2) Parse_end set_flag_def command_of_def bool_of_def string_of_def)

text \<open>Flags that are all well formed are passed one after the other; what stands after them decides.\<close>

lemma Parse_print_command:
  "Parse [(''h'', Bool_Flag h), (''p'', Bool_Flag p), (''v'', Bool_Flag v), (''kubeconfig'', String_Flag k),
      (''ebpf'', String_Flag e), (''f'', String_Flag f)] (print_command c @ args) =
   Parse [(''h'', Bool_Flag (help_flag c)), (''p'', Bool_Flag (Prof c)), (''v'', Bool_Flag (version c)),
      (''kubeconfig'', String_Flag (kubeconfig c)), (''ebpf'', String_Flag (ebpffile c)), (''f'', String_Flag (configfile c))] args"
  using Parse_bool(1) [where name = "[]"] Parse_assignment(1) [where name = "[]"]
    Parse_assignment(1) [where c = "CHR ''k''" and name = "''ubeconfig''"] Parse_assignment(1) [where c = "CHR ''e''" and name = "''bpf''"]
  by (simp add: print_command_def set_flag_def)

section \<open>Properties\<close>

text \<open>C27. Every command line reads back: the flags printed for any values of the variables, whatever the
  strings contain, are parsed to exactly these values, or to the exit with code 1 when help is asked for;
  arguments after a double dash change nothing.\<close>

theorem command_line_roundtrip:
  "ParseCommand (print_command c) = (if help_flag c then Exit_Code 1 else Command c) \<and>
   ParseCommand (print_command c @ ''--'' # args) = ParseCommand (print_command c)"
proof -
  have "ParseCommand (print_command c @ args) = (if help_flag c then Exit_Code 1 else Command c)"
    if "args = [] \<or> (\<exists>rest. args = ''--'' # rest)" for args
    using that by (cases c) (auto simp: ParseCommand_def define_flags_all Parse_print_command Parse_end command_of_def
        bool_of_def string_of_def)
  from this [of "[]"] this [of "''--'' # args"] show ?thesis
    by simp
qed

text \<open>A flag that is not defined ends the process, whatever stands before and after it: with code 0 when it
  is the library's own help flag, with code 2 otherwise.\<close>

theorem unknown_flag_exits:
  assumes "c # name \<notin> {''h'', ''p'', ''v'', ''kubeconfig'', ''ebpf'', ''f''}" and "CHR ''='' \<notin> set (c # name)" and "c \<noteq> CHR ''-''"
  shows "ParseCommand (print_command cmd @ (CHR ''-'' # c # name) # args) = Exit_Code (if c # name = ''help'' then 0 else 2)"
proof -
  have "parse_flag fs (c # name) args = Fails (if c # name = ''help'' then ErrHelp else Not_Defined (c # name))"
    if "map_of fs (c # name) = None" for fs
    using assms that by (auto simp: parse_flag_def cut_value_plain)
  then have "Parse fs ((CHR ''-'' # c # name) # args) = Inl (if c # name = ''help'' then 0 else 2)"
    if "map_of fs (c # name) = None" for fs
    using assms(2,3) that by (subst Parse.simps) (auto simp: parseOne_dash)
  then show ?thesis
    using assms(1) by (auto simp: ParseCommand_def define_flags_all Parse_print_command)
qed

end
