(* ===== verification/Startup.thy ===== *)
theory Startup
  imports Informers Loader Command_Line
begin

text \<open>
  How \<^verbatim>\<open>main\<close> puts the process together: \<^verbatim>\<open>src/pkg/kubernetes/informers/informer.go\<close>, which makes the API client
  and registers the custom informers with the factory of client-go, \<^verbatim>\<open>NewController\<close> of
  \<^verbatim>\<open>src/pkg/kubernetes/controller/controller.go\<close>, which asks the factory for its informers and installs its event
  handlers on them, and \<^verbatim>\<open>main\<close> itself. Informers are objects behind pointers: they are kept in a list and
  named by their position. The client library is a record of operations; what is relied on of the factory
  is the locale \<^verbatim>\<open>informer_factory\<close>.
\<close>

section \<open>The client library\<close>

text \<open>An event handler reads the objects of the two kinds that its events point to.\<close>

type_synonym ('p, 'q) event_handler = "api_slice list \<times> 'p api_service list \<Rightarrow> event \<Rightarrow> 'q \<Rightarrow> 'q"

record ('cfg, 'client, 'f, 'i, 'x, 'q) client_go =
  BuildConfigFromFlags :: "string \<Rightarrow> string \<Rightarrow> string + 'cfg"
  NewForConfigOrDie :: "'cfg \<Rightarrow> ('client, unit) go_result"
  NewSharedInformerFactory :: "'client \<Rightarrow> int \<Rightarrow> 'f"
  InformerFor :: "obj_kind \<Rightarrow> (int \<Rightarrow> 'i list \<Rightarrow> (nat, 'i list) go_result) \<Rightarrow> 'f \<times> 'i list \<Rightarrow> (nat, 'f \<times> 'i list) go_result"
  defaultInformer :: "obj_kind \<Rightarrow> int \<Rightarrow> 'i list \<Rightarrow> (nat, 'i list) go_result"
  factory_Start :: "'f \<Rightarrow> nat list \<times> 'f"
  NewRequirement :: "string \<Rightarrow> string list \<Rightarrow> string option"
  NewIndexer :: 'x
  NewNamedRateLimitingQueue :: "string \<Rightarrow> 'q"

text \<open>The factory makes an informer for a type when it is first asked for one and gives out the same one from
  then on; \<^verbatim>\<open>Start\<close> runs those that do not run yet.\<close>

locale informer_factory =
  fixes lib :: "('cfg, 'client, 'f, ('x, ('p, 'q) event_handler) informer, 'x, 'q) client_go"
    and registered :: "'f \<Rightarrow> obj_kind \<rightharpoonup> nat"
    and running :: "'f \<Rightarrow> obj_kind set"
    and period :: "'f \<Rightarrow> int"
  assumes new_factory: "registered (NewSharedInformerFactory lib client p) = Map.empty"
      "running (NewSharedInformerFactory lib client p) = {}" "period (NewSharedInformerFactory lib client p) = p"
    and known: "registered f k = Some a \<Longrightarrow> InformerFor lib k mk (f, infs) = Returns a (f, infs)"
    and asked: "registered f k = None \<Longrightarrow> mk (period f) infs = Returns a infs' \<Longrightarrow>
      \<exists>f'. InformerFor lib k mk (f, infs) = Returns a (f', infs') \<and> registered f' = (registered f)(k \<mapsto> a) \<and>
        running f' = running f \<and> period f' = period f"
    and asked_panics: "registered f k = None \<Longrightarrow> mk (period f) infs = Panics e infs' \<Longrightarrow>
      \<exists>f'. InformerFor lib k mk (f, infs) = Panics e (f', infs')"
    and start: "factory_Start lib f = (as, f') \<Longrightarrow>
      set as = {a. \<exists>k. registered f k = Some a \<and> k \<notin> running f} \<and> registered f' = registered f \<and> running f' = dom (registered f)"

section \<open>Resources\<close>

definition defaultResync :: int where
  "defaultResync = 0"

record ('client, 'f) Resources =
  kubernetesClient :: 'client
  resource_informers :: 'f

definition KubernetetsClient :: "('client, 'f) Resources \<Rightarrow> 'client" where
  "KubernetetsClient resources = kubernetesClient resources"

text \<open>The accessors of the factory, named by the type of their objects.\<close>

definition ServiceInformer :: "('client, 'f) Resources \<Rightarrow> obj_kind" where
  "ServiceInformer resources = Is_Service"

definition EndpointSliceInfomer :: "('client, 'f) Resources \<Rightarrow> obj_kind" where
  "EndpointSliceInfomer resources = Is_EndpointSlice"

text \<open>Both custom constructors make an informer with the selector for this proxy; the object is new.\<close>

definition custom_informer ::
  "('cfg, 'client, 'f, ('x, 'h) informer, 'x, 'q) client_go \<Rightarrow> int \<Rightarrow> ('x, 'h) informer list \<Rightarrow> (nat, ('x, 'h) informer list) go_result" where
  "custom_informer lib resync infs =
     (case defaultCustomInformer (NewRequirement lib) (NewIndexer lib) resync of
        Panics p _ \<Rightarrow> Panics p infs
      | Returns i _ \<Rightarrow> Returns (length infs) (infs @ [i]))"

definition NewResources ::
  "('cfg, 'client, 'f, ('x, 'h) informer, 'x, 'q) client_go \<Rightarrow> string \<Rightarrow> ('x, 'h) informer list \<Rightarrow>
     (('client, 'f) Resources, ('x, 'h) informer list) go_result" where
  "NewResources lib path infs =
     (case BuildConfigFromFlags lib [] path of
        Inl err \<Rightarrow> Panics err infs
      | Inr config \<Rightarrow>
          (case NewForConfigOrDie lib config of
             Panics p _ \<Rightarrow> Panics p infs
           | Returns client _ \<Rightarrow>
               (case go_bind (InformerFor lib Is_EndpointSlice (custom_informer lib) (NewSharedInformerFactory lib client defaultResync, infs))
                   (\<lambda>_. InformerFor lib Is_Service (custom_informer lib)) of
                  Panics p (_, infs') \<Rightarrow> Panics p infs'
                | Returns _ (f, infs') \<Rightarrow> Returns \<lparr>kubernetesClient = client, resource_informers = f\<rparr> infs')))"

text \<open>\<^verbatim>\<open>Informer\<close> of an accessor: the factory's informer, made by the library's own constructor if there is none.\<close>

definition accessor_Informer ::
  "('cfg, 'client, 'f, 'i, 'x, 'q) client_go \<Rightarrow> obj_kind \<Rightarrow> ('client, 'f) Resources \<times> 'i list \<Rightarrow>
     (nat, ('client, 'f) Resources \<times> 'i list) go_result" where
  "accessor_Informer lib accessor st =
     (let (resources, infs) = st
      in case InformerFor lib accessor (defaultInformer lib accessor) (resource_informers resources, infs) of
           Panics p (f, infs') \<Rightarrow> Panics p (resources\<lparr>resource_informers := f\<rparr>, infs')
         | Returns a (f, infs') \<Rightarrow> Returns a (resources\<lparr>resource_informers := f\<rparr>, infs'))"

definition run_informers :: "nat list \<Rightarrow> ('x, 'h) informer list \<Rightarrow> ('x, 'h) informer list" where
  "run_informers as infs = fold (\<lambda>a infs. infs[a := Run_started (infs ! a)]) as infs"

definition StartListenEventFromKubernetes ::
  "('cfg, 'client, 'f, ('x, 'h) informer, 'x, 'q) client_go \<Rightarrow> ('client, 'f) Resources \<times> ('x, 'h) informer list \<Rightarrow>
     ('client, 'f) Resources \<times> ('x, 'h) informer list" where
  "StartListenEventFromKubernetes lib st =
     (let (resources, infs) = st; (as, f) = factory_Start lib (resource_informers resources)
      in (resources\<lparr>resource_informers := f\<rparr>, run_informers as infs))"

section \<open>The controller object\<close>

text \<open>\<^verbatim>\<open>Synced\<close> and the listers refer to informers: the first to their \<^verbatim>\<open>HasSynced\<close>, the others to their indexers.\<close>

record ('client, 'q) Controller_object =
  Synced :: "nat list"
  Workqueue :: 'q
  MaxRetries :: nat
  controller_Name :: string
  controller_cluster :: string
  KubernetesClient :: 'client
  serviceLister :: nat
  endpointsLister :: nat

definition SvccontrollerName :: string where
  "SvccontrollerName = ''svc-controller''"

definition enqueue_services :: "'q queue_ops \<Rightarrow> (string \<Rightarrow> string \<Rightarrow> string) \<Rightarrow> ('p, 'q) event_handler" where
  "enqueue_services qops meta_key heaps = controller_handler qops meta_key av_ObjectMeta Is_Service (snd heaps)"

definition enqueue_slices :: "'q queue_ops \<Rightarrow> (string \<Rightarrow> string \<Rightarrow> string) \<Rightarrow> ('p, 'q) event_handler" where
  "enqueue_slices qops meta_key heaps = controller_handler qops meta_key as_ObjectMeta Is_EndpointSlice (fst heaps)"

definition install :: "nat \<Rightarrow> 'h \<Rightarrow> 'r \<times> ('x, 'h) informer list \<Rightarrow> 'r \<times> ('x, 'h) informer list" where
  "install a h st = (fst st, (snd st)[a := AddEventHandler h (snd st ! a)])"

definition NewController ::
  "('cfg, 'client, 'f, ('x, ('p, 'q) event_handler) informer, 'x, 'q) client_go \<Rightarrow> 'q queue_ops \<Rightarrow> (string \<Rightarrow> string \<Rightarrow> string) \<Rightarrow>
     'client \<Rightarrow> obj_kind \<Rightarrow> obj_kind \<Rightarrow> ('client, 'f) Resources \<times> ('x, ('p, 'q) event_handler) informer list \<Rightarrow>
     (('client, 'q) Controller_object, ('client, 'f) Resources \<times> ('x, ('p, 'q) event_handler) informer list) go_result" where
  "NewController lib qops meta_key k8sClient serviceinformer endpointinformer st =
     go_bind (accessor_Informer lib endpointinformer st) (\<lambda>synced1 st.
     go_bind (accessor_Informer lib serviceinformer st) (\<lambda>synced2 st.
     go_bind (accessor_Informer lib serviceinformer st) (\<lambda>slister st.
     go_bind (accessor_Informer lib endpointinformer st) (\<lambda>elister st.
     go_bind (accessor_Informer lib serviceinformer st) (\<lambda>a st.
     go_bind (accessor_Informer lib endpointinformer (install a (enqueue_services qops meta_key) st)) (\<lambda>b st.
       Returns \<lparr>Synced = [synced1, synced2], Workqueue = NewNamedRateLimitingQueue lib SvccontrollerName,
           MaxRetries = controller_MaxRetries, controller_Name = SvccontrollerName, controller_cluster = [],
           KubernetesClient = k8sClient, serviceLister = slister, endpointsLister = elister\<rparr>
         (install b (enqueue_slices qops meta_key) st)))))))"

section \<open>main\<close>

text \<open>The process has ended with a code or by a panic, or it runs: the BPF manager, the service manager, the
  controller and the informers, from when on the workers, the informers and the loop of \<^verbatim>\<open>main\<close> take turns.
  The server that \<^verbatim>\<open>Prof\<close> starts has no part in that. A fatal log entry exits with code 1.\<close>

datatype 'a main_result = Main_Exits int | Main_Panics string | Main_Runs 'a

definition main_resources ::
  "('cfg, 'client, 'f, ('x, ('p, 'q) event_handler) informer, 'x, 'q) client_go \<Rightarrow> 'q queue_ops \<Rightarrow> (string \<Rightarrow> string \<Rightarrow> string) \<Rightarrow> string \<Rightarrow>
     (('client, 'q) Controller_object, ('x, ('p, 'q) event_handler) informer list) go_result" where
  "main_resources lib qops meta_key path =
     (case NewResources lib path [] of
        Panics p infs \<Rightarrow> Panics p infs
      | Returns k8sresource infs \<Rightarrow>
          (case NewController lib qops meta_key (KubernetetsClient k8sresource) (ServiceInformer k8sresource)
              (EndpointSliceInfomer k8sresource) (k8sresource, infs) of
             Panics p (_, infs1) \<Rightarrow> Panics p infs1
           | Returns ctl st1 \<Rightarrow> Returns ctl (snd (StartListenEventFromKubernetes lib st1))))"

definition main ::
  "('w, 'spec, 'coll, 'prog, 'link, 'm) ebpf_lib \<Rightarrow> 'w os_ops \<Rightarrow>
     ('cfg, 'client, 'f, ('x, ('p, 'q) event_handler) informer, 'x, 'q) client_go \<Rightarrow> 'q queue_ops \<Rightarrow> (string \<Rightarrow> string \<Rightarrow> string) \<Rightarrow>
     string list \<Rightarrow> process \<times> 'w host \<Rightarrow>
     (('coll, 'link, 'm) BPFManager \<times> 'm ServiceManager \<times> ('client, 'q) Controller_object \<times>
       ('x, ('p, 'q) event_handler) informer list) main_result \<times> process \<times> 'w host" where
  "main ebpf os lib qops meta_key args st =
     (let (p, h) = st
      in case ParseCommand args of
           Exit_Code code \<Rightarrow> (Main_Exits code, st)
         | Command_Panics e \<Rightarrow> (Main_Panics e, st)
         | Command c \<Rightarrow>
             (case SetupSignalHandler p of
                Panics e p1 \<Rightarrow> (Main_Panics e, p1, h)
              | Returns _ p1 \<Rightarrow>
                  (case main_start ebpf os (ebpffile c) h of
                     (Exits, h1) \<Rightarrow> (Main_Exits 1, p1, h1)
                   | (Continues (bm, mgr), h1) \<Rightarrow>
                       (case main_resources lib qops meta_key (kubeconfig c) of
                          Panics e _ \<Rightarrow> (Main_Panics e, p1, h1)
                        | Returns ctl infs \<Rightarrow> (Main_Runs (bm, mgr, ctl, infs), p1, h1)))))"

section \<open>An instance of the factory\<close>

text \<open>The informers by type, the types that run and the resync period.\<close>

record simple_factory =
  sf_informers :: "obj_kind \<rightharpoonup> nat"
  sf_running :: "obj_kind list"
  sf_period :: int

definition sf_InformerFor ::
  "obj_kind \<Rightarrow> (int \<Rightarrow> 'i list \<Rightarrow> (nat, 'i list) go_result) \<Rightarrow> simple_factory \<times> 'i list \<Rightarrow> (nat, simple_factory \<times> 'i list) go_result" where
  "sf_InformerFor k mk st =
     (let (f, infs) = st
      in case sf_informers f k of
           Some a \<Rightarrow> Returns a (f, infs)
         | None \<Rightarrow>
             (case mk (sf_period f) infs of
                Panics e infs' \<Rightarrow> Panics e (f, infs')
              | Returns a infs' \<Rightarrow> Returns a (f\<lparr>sf_informers := (sf_informers f)(k \<mapsto> a)\<rparr>, infs')))"

definition all_kinds :: "obj_kind list" where
  "all_kinds = [Is_Service, Is_EndpointSlice, Is_Other]"

definition sf_Start :: "simple_factory \<Rightarrow> nat list \<times> simple_factory" where
  "sf_Start f =
     (let kinds = filter (\<lambda>k. sf_informers f k \<noteq> None) all_kinds
      in (map (\<lambda>k. the (sf_informers f k)) (filter (\<lambda>k. k \<notin> set (sf_running f)) kinds), f\<lparr>sf_running := kinds\<rparr>))"

text \<open>A client library around it, for a cluster that is there when a file is given; its indexers are maps and its
  queue is the one of the controller.\<close>

definition demo_lib ::
  "(string, string, simple_factory, (string \<rightharpoonup> delta_obj, ('p, wq) event_handler) informer, string \<rightharpoonup> delta_obj, wq) client_go" where
  "demo_lib = \<lparr>BuildConfigFromFlags = (\<lambda>master path. Inr path),
     NewForConfigOrDie = (\<lambda>config. if config = ''/broken'' then Panics ''no configuration'' () else Returns config ()),
     NewSharedInformerFactory = (\<lambda>client p. \<lparr>sf_informers = Map.empty, sf_running = [], sf_period = p\<rparr>),
     InformerFor = sf_InformerFor,
     defaultInformer = (\<lambda>k p infs. Returns (length infs) (infs @ [\<lparr>selector = ([], []), indexer_of = Map.empty, controller = None,
       eventhandler = None, resyncPeriod = p, watchErrorHandler = None, started = False, stopped = False\<rparr>])),
     factory_Start = sf_Start, NewRequirement = (\<lambda>name vals. None), NewIndexer = Map.empty,
     NewNamedRateLimitingQueue = (\<lambda>name. wq_empty)\<rparr>"

definition int_lib ::
  "(string, string, simple_factory, (string \<rightharpoonup> delta_obj, (int, wq) event_handler) informer, string \<rightharpoonup> delta_obj, wq) client_go" where
  "int_lib = demo_lib"

section \<open>Lemmas\<close>

lemma run_informers_nth:
  assumes "i < length infs"
  shows "run_informers as (infs :: ('x, 'h) informer list) ! i = (if i \<in> set as then Run_started (infs ! i) else infs ! i)"
proof -
  have twice: "Run_started (Run_started x) = Run_started x" for x :: "('x, 'h) informer"
    by (simp add: Run_started_def)
  show ?thesis
    using assms
  proof (induction as arbitrary: infs)
    case (Cons a as)
    then show ?case
      by (cases "a = i") (simp_all add: run_informers_def twice)
  qed (simp add: run_informers_def)
qed

lemma length_run_informers [simp]: "length (run_informers as infs) = length infs"
  by (induction as arbitrary: infs) (simp_all add: run_informers_def)

definition fresh_informer :: "'x \<Rightarrow> ('x, 'h) informer" where
  "fresh_informer ix = \<lparr>selector = (LabelServiceProxyName, [ProxyName]), indexer_of = ix, controller = None, eventhandler = None,
     resyncPeriod = defaultResync, watchErrorHandler = None, started = False, stopped = False\<rparr>"

context informer_factory
begin

lemma NewResources_registers:
  assumes "NewResources lib path [] = Returns res infs"
  shows "registered (resource_informers res) = [Is_EndpointSlice \<mapsto> 0, Is_Service \<mapsto> 1] \<and> running (resource_informers res) = {} \<and>
    infs = [fresh_informer (NewIndexer lib), fresh_informer (NewIndexer lib)]"
proof -
  obtain client where client: "(case go_bind (InformerFor lib Is_EndpointSlice (custom_informer lib)
        (NewSharedInformerFactory lib client defaultResync, [])) (\<lambda>_. InformerFor lib Is_Service (custom_informer lib)) of
      Panics p (_, infs') \<Rightarrow> Panics p infs' | Returns _ (f, infs') \<Rightarrow> Returns \<lparr>kubernetesClient = client, resource_informers = f\<rparr> infs') =
    Returns res infs"
    using assms by (auto simp: NewResources_def split: sum.splits go_result.splits)
  let ?f = "NewSharedInformerFactory lib client defaultResync" and ?i = "fresh_informer (NewIndexer lib)"
  show ?thesis
  proof (cases "NewRequirement lib LabelServiceProxyName [ProxyName]")
    case None
    then have mk: "custom_informer lib (period f) l = Returns (length l) (l @ [?i])" if "period f = defaultResync" for f l
      using that by (simp add: custom_informer_def defaultCustomInformer_def fresh_informer_def)
    obtain f1 where f1: "InformerFor lib Is_EndpointSlice (custom_informer lib) (?f, []) = Returns 0 (f1, [?i])"
      "registered f1 = [Is_EndpointSlice \<mapsto> 0]" "running f1 = {}" "period f1 = defaultResync"
      using asked [of ?f Is_EndpointSlice "custom_informer lib" "[]" 0 "[?i]"] mk [of ?f "[]"] by (auto simp: new_factory)
    obtain f2 where "InformerFor lib Is_Service (custom_informer lib) (f1, [?i]) = Returns 1 (f2, [?i, ?i])"
      "registered f2 = [Is_EndpointSlice \<mapsto> 0, Is_Service \<mapsto> 1]" "running f2 = {}"
      using asked [of f1 Is_Service "custom_informer lib" "[?i]" 1 "[?i, ?i]"] mk [of f1 "[?i]"] f1(2-4) by auto
    then show ?thesis
      using client f1(1) by auto
  next
    case (Some err)
    then have "custom_informer lib (period ?f) [] = Panics err []"
      by (simp add: custom_informer_def defaultCustomInformer_def)
    from asked_panics [of ?f Is_EndpointSlice "custom_informer lib", OF _ this] obtain f' where
      "InformerFor lib Is_EndpointSlice (custom_informer lib) (?f, []) = Panics err (f', [])"
      by (auto simp: new_factory)
    then show ?thesis
      using client by simp
  qed
qed

lemma accessor_known:
  "registered (resource_informers res) k = Some a \<Longrightarrow> accessor_Informer lib k (res, infs) = Returns a (res, infs)"
  by (simp add: accessor_Informer_def known)

text \<open>The controller and the informers once they run.\<close>

lemma main_resources_wired:
  assumes "main_resources lib qops meta_key path = Returns ctl infs"
  shows "Synced ctl = [0, 1] \<and> endpointsLister ctl = 0 \<and> serviceLister ctl = 1 \<and> MaxRetries ctl = controller_MaxRetries \<and>
    controller_Name ctl = SvccontrollerName \<and> Workqueue ctl = NewNamedRateLimitingQueue lib SvccontrollerName \<and>
    infs = [Run_started (AddEventHandler (enqueue_slices qops meta_key) (fresh_informer (NewIndexer lib))),
      Run_started (AddEventHandler (enqueue_services qops meta_key) (fresh_informer (NewIndexer lib)))]"
proof -
  let ?i = "fresh_informer (NewIndexer lib)"
  obtain res infs0 where res: "NewResources lib path [] = Returns res infs0"
    using assms by (auto simp: main_resources_def split: go_result.splits)
  note known = NewResources_registers [OF res]
  then have acc: "accessor_Informer lib Is_EndpointSlice (res, l) = Returns 0 (res, l)"
    "accessor_Informer lib Is_Service (res, l) = Returns 1 (res, l)" for l
    by (simp_all add: accessor_known)
  define infs1 :: "('x, ('p, 'q) event_handler) informer list" where "infs1 = [AddEventHandler (enqueue_slices qops meta_key) ?i, AddEventHandler (enqueue_services qops meta_key) ?i]"
  have ctl: "NewController lib qops meta_key (KubernetetsClient res) (ServiceInformer res) (EndpointSliceInfomer res) (res, infs0) =
      Returns \<lparr>Synced = [0, 1], Workqueue = NewNamedRateLimitingQueue lib SvccontrollerName, MaxRetries = controller_MaxRetries,
        controller_Name = SvccontrollerName, controller_cluster = [], KubernetesClient = KubernetetsClient res, serviceLister = 1,
        endpointsLister = 0\<rparr> (res, infs1)"
    using known acc by (simp add: NewController_def ServiceInformer_def EndpointSliceInfomer_def install_def infs1_def)
  obtain as f where start: "factory_Start lib (resource_informers res) = (as, f)"
    by fastforce
  then have "set as = {0, 1}"
    using informer_factory.start [OF informer_factory_axioms start] known by (auto split: if_splits)
  moreover have "length infs1 = 2"
    by (simp add: infs1_def)
  ultimately have "run_informers as infs1 = map Run_started infs1"
    by (intro nth_equalityI) (simp_all add: run_informers_nth less_2_cases_iff)
  then show ?thesis
    using assms by (simp add: main_resources_def res ctl StartListenEventFromKubernetes_def start infs1_def [symmetric])
      (clarsimp simp: infs1_def)
qed

end

lemma set_all_kinds: "set all_kinds = UNIV"
proof -
  have "k \<in> set all_kinds" for k
    by (cases k) (simp_all add: all_kinds_def)
  then show ?thesis
    by blast
qed

lemma sf_Start_result:
  assumes "sf_Start f = (as, f')"
  shows "set as = {a. \<exists>k. sf_informers f k = Some a \<and> k \<notin> set (sf_running f)} \<and> sf_informers f' = sf_informers f \<and>
    set (sf_running f') = dom (sf_informers f)"
proof -
  have as: "as = map (\<lambda>k. the (sf_informers f k)) (filter (\<lambda>k. k \<notin> set (sf_running f)) (filter (\<lambda>k. sf_informers f k \<noteq> None) all_kinds))"
    and f': "f' = f\<lparr>sf_running := filter (\<lambda>k. sf_informers f k \<noteq> None) all_kinds\<rparr>"
    using assms by (simp_all add: sf_Start_def Let_def)
  have "set as = (\<lambda>k. the (sf_informers f k)) ` {k. sf_informers f k \<noteq> None \<and> k \<notin> set (sf_running f)}"
    unfolding as by (simp add: set_all_kinds)
  then have "set as = {a. \<exists>k. sf_informers f k = Some a \<and> k \<notin> set (sf_running f)}"
    by force
  with f' show ?thesis
    by (auto simp: set_all_kinds)
qed

interpretation factory: informer_factory demo_lib sf_informers "\<lambda>f. set (sf_running f)" sf_period
proof unfold_locales
  show "set as = {a. \<exists>k. sf_informers f k = Some a \<and> k \<notin> set (sf_running f)} \<and> sf_informers f' = sf_informers f \<and>
      set (sf_running f') = dom (sf_informers f)" if "factory_Start demo_lib f = (as, f')" for f as f'
    by (rule sf_Start_result) (use that in \<open>simp add: demo_lib_def\<close>)
qed (simp_all add: demo_lib_def sf_InformerFor_def)

lemma main_Runs:
  assumes "main ebpf os lib qops meta_key args st = (Main_Runs (bm, mgr, ctl, infs), st')"
  shows "\<exists>c. ParseCommand args = Command c \<and> main_resources lib qops meta_key (kubeconfig c) = Returns ctl infs \<and>
    mgr = NewServiceManager (ServiceMap bm) (EndpointMap bm)"
  using assms by (auto simp: main_def main_start_def split: parsed_command.splits go_result.splits prod.splits outcome.splits option.splits)

lemma int_factory: "informer_factory int_lib sf_informers (\<lambda>f. set (sf_running f)) sf_period"
  unfolding int_lib_def by (rule factory.informer_factory_axioms)

section \<open>Properties\<close>

text \<open>C15. A process that runs is wired up: the command line named an object file and was no call for help, the
  signal handler is set, and the two informers that run are the custom ones, selected by the label of this
  proxy, each with the controller's event handler installed before it was started; the controller waits for
  both, its listers read their indexers, and it retries without limit. No informer of the library's own is
  ever made, because the custom ones are registered first.\<close>

theorem main_wires_informers:
  assumes "informer_factory lib registered running period"
    and "main ebpf os lib qops meta_key args (p, h) = (Main_Runs (bm, mgr, ctl, infs), p', h')"
  shows "\<exists>c. ParseCommand args = Command c \<and> \<not> handler_set p \<and> handler_set p' \<and>
    main_start ebpf os (ebpffile c) h = (Continues (bm, mgr), h') \<and>
    length infs = 2 \<and> endpointsLister ctl < 2 \<and> serviceLister ctl < 2 \<and> endpointsLister ctl \<noteq> serviceLister ctl \<and>
    set (Synced ctl) = {endpointsLister ctl, serviceLister ctl} \<and> MaxRetries ctl = 0 \<and>
    eventhandler (infs ! endpointsLister ctl) = Some (enqueue_slices qops meta_key) \<and>
    eventhandler (infs ! serviceLister ctl) = Some (enqueue_services qops meta_key) \<and>
    (\<forall>a < 2. started (infs ! a) \<and> \<not> HasSynced (infs ! a) \<and> selector (infs ! a) = (''service.kubernetes.io/service-proxy-name'', [''eproxy'']) \<and>
      indexer_of (infs ! a) = NewIndexer lib)"
proof -
  obtain c p1 where c: "ParseCommand args = Command c" "SetupSignalHandler p = Returns () p1"
    "main_start ebpf os (ebpffile c) h = (Continues (bm, mgr), h')" "main_resources lib qops meta_key (kubeconfig c) = Returns ctl infs" "p' = p1"
    using assms(2) by (auto simp: main_def split: parsed_command.splits go_result.splits prod.splits outcome.splits)
  have set: "\<not> handler_set p" "handler_set p'"
    using c(2,5) by (auto simp: SetupSignalHandler_def split: if_splits)
  have ctl: "Synced ctl = [0, 1]" "endpointsLister ctl = 0" "serviceLister ctl = 1" "MaxRetries ctl = 0"
    and infs: "infs = [Run_started (AddEventHandler (enqueue_slices qops meta_key) (fresh_informer (NewIndexer lib))),
      Run_started (AddEventHandler (enqueue_services qops meta_key) (fresh_informer (NewIndexer lib)))]"
    using informer_factory.main_resources_wired [OF assms(1) c(4)] by (simp_all add: controller_MaxRetries_def)
  have "\<forall>a < 2. started (infs ! a) \<and> \<not> HasSynced (infs ! a) \<and> selector (infs ! a) = (''service.kubernetes.io/service-proxy-name'', [''eproxy'']) \<and>
      indexer_of (infs ! a) = NewIndexer lib"
    by (simp add: infs less_2_cases_iff Run_started_def AddEventHandler_def fresh_informer_def HasSynced_def LabelServiceProxyName_def ProxyName_def)
  moreover have "eventhandler (infs ! endpointsLister ctl) = Some (enqueue_slices qops meta_key)"
    "eventhandler (infs ! serviceLister ctl) = Some (enqueue_services qops meta_key)"
    by (simp_all add: ctl infs Run_started_def AddEventHandler_def)
  ultimately show ?thesis
    using c(1,3) set ctl by (intro exI [of _ c] conjI) (assumption | simp add: infs)+
qed

theorem main_wires_informers_witness:
  "\<exists>bm mgr ctl infs p' h'. main m_lib m_os int_lib wq_ops slash_key [''-ebpf'', ''/ebpf/service.o''] (new_process, initial_host demo_machine) =
     (Main_Runs (bm, mgr, ctl, infs), p', h') \<and>
   length infs = 2 \<and> eventhandler (infs ! endpointsLister ctl) = Some (enqueue_slices wq_ops slash_key)"
proof -
  let ?r = "main m_lib m_os int_lib wq_ops slash_key [''-ebpf'', ''/ebpf/service.o''] (new_process, initial_host demo_machine)"
  have "case fst ?r of Main_Runs _ \<Rightarrow> True | _ \<Rightarrow> False"
    by code_simp
  then obtain bm mgr ctl infs p' h' where r: "?r = (Main_Runs (bm, mgr, ctl, infs), p', h')"
    by (cases ?r) (auto split: main_result.splits)
  from main_wires_informers [OF int_factory r] show ?thesis
    using r by blast
qed

end
