(* ===== verification/Control_Plane.thy ===== *)
theory Control_Plane
  imports Startup
begin

text \<open>
  The running control plane: the two informers, the work queue, the worker and the service manager that \<^verbatim>\<open>main\<close>
  has put together, as one state on which the goroutines act in any order. The listers read the caches of
  the informers, whose objects are shared and blanked; the refinement at the end of the theory replaces the
  caches by two plain tables.
\<close>

section \<open>State\<close>

text \<open>The libraries: the maps, the queue, the key function, the indexers with what they hold, and \<^verbatim>\<open>IntValue\<close>.\<close>

record ('p, 'x, 'q, 'm) libraries =
  env_maps :: "'m map_ops"
  env_queue :: "'q queue_ops"
  env_key :: "string \<Rightarrow> string \<Rightarrow> string"
  env_slices :: "(api_slice, 'x) indexer_ops"
  env_services :: "('p api_service, 'x) indexer_ops"
  env_contents :: "'x \<Rightarrow> string \<rightharpoonup> delta_obj"
  env_IntValue :: "'p \<Rightarrow> int"

record ('p, 'x, 'q, 'm) system =
  slice_heap :: "api_slice list"
  service_heap :: "'p api_service list"
  slice_informer :: "('x, ('p, 'q) event_handler) informer"
  service_informer :: "('x, ('p, 'q) event_handler) informer"
  work_items :: 'q
  service_manager :: "'m ServiceManager"

definition boot ::
  "'m ServiceManager \<Rightarrow> ('client, 'q) Controller_object \<Rightarrow> ('x, ('p, 'q) event_handler) informer list \<Rightarrow> ('p, 'x, 'q, 'm) system" where
  "boot mgr ctl infs = \<lparr>slice_heap = [], service_heap = [], slice_informer = infs ! endpointsLister ctl,
     service_informer = infs ! serviceLister ctl, work_items = Workqueue ctl, service_manager = mgr\<rparr>"

section \<open>Actions\<close>

text \<open>A watch sends an object with the kind of change, or the reflector finds out that a deletion was missed: then
  it makes a tombstone with the object the indexer has. Deltas that come in one batch are processed one after the
  other.\<close>

datatype 'o watched = Sent delta_type 'o | Missed string

definition deliver :: "'o watched \<Rightarrow> (string \<rightharpoonup> delta_obj) \<Rightarrow> 'o list \<Rightarrow> (delta_type \<times> delta_obj) \<times> 'o list" where
  "deliver w c heap =
     (case w of
        Sent t obj \<Rightarrow> ((t, Obj (length heap)), heap @ [obj])
      | Missed k \<Rightarrow> ((Deleted, Tombstone k (case c k of Some (Obj a) \<Rightarrow> Some a | _ \<Rightarrow> None)), heap))"

definition watch ::
  "((delta_type \<times> delta_obj) list \<Rightarrow> ('o, 'x, 'q) informer_state \<Rightarrow> (string option, ('o, 'x, 'q) informer_state) go_result) \<Rightarrow>
     ('x \<Rightarrow> string \<rightharpoonup> delta_obj) \<Rightarrow> 'o watched \<Rightarrow> ('o, 'x, 'q) informer_state \<Rightarrow> (string option, ('o, 'x, 'q) informer_state) go_result" where
  "watch Process contents w st =
     (let (heap, x, q) = st; (d, heap1) = deliver w (contents x) heap in Process [d] (heap1, x, q))"

definition watch_slice ::
  "('p, 'x, 'q, 'm) libraries \<Rightarrow> api_slice watched \<Rightarrow> ('p, 'x, 'q, 'm) system \<Rightarrow> (unit, ('p, 'x, 'q, 'm) system) go_result" where
  "watch_slice env w s =
     (let h = map_option (\<lambda>h heap. h (heap, service_heap s)) (eventhandler (slice_informer s));
          put = (\<lambda>(heap, x, q). s\<lparr>slice_heap := heap, slice_informer := (slice_informer s)\<lparr>indexer_of := x\<rparr>, work_items := q\<rparr>)
      in case watch (EndpointSlice_Process (env_slices env) h) (env_contents env) w
             (slice_heap s, indexer_of (slice_informer s), work_items s) of
           Panics p st \<Rightarrow> Panics p (put st)
         | Returns _ st \<Rightarrow> Returns () (put st))"

definition watch_service ::
  "('p, 'x, 'q, 'm) libraries \<Rightarrow> 'p api_service watched \<Rightarrow> ('p, 'x, 'q, 'm) system \<Rightarrow> (unit, ('p, 'x, 'q, 'm) system) go_result" where
  "watch_service env w s =
     (let h = map_option (\<lambda>h heap. h (slice_heap s, heap)) (eventhandler (service_informer s));
          put = (\<lambda>(heap, x, q). s\<lparr>service_heap := heap, service_informer := (service_informer s)\<lparr>indexer_of := x\<rparr>, work_items := q\<rparr>)
      in case watch (Service_Process (env_services env) h) (env_contents env) w
             (service_heap s, indexer_of (service_informer s), work_items s) of
           Panics p st \<Rightarrow> Panics p (put st)
         | Returns _ st \<Rightarrow> Returns () (put st))"

text \<open>The cluster as the listers show it: an object is looked up under its namespace and name.\<close>

definition lister_cluster ::
  "('p, 'x, 'q, 'm) libraries \<Rightarrow> Ports list \<Rightarrow> Ports list \<Rightarrow> ('p, 'x, 'q, 'm) system \<Rightarrow> 'p cluster" where
  "lister_cluster env order1 order2 s =
     \<lparr>slice_lister = (\<lambda>ns name. map_option slice_view
        (cached (slice_heap s) (env_contents env (indexer_of (slice_informer s))) (ns @ ''/'' @ name))),
      service_lister = (\<lambda>ns name. map_option service_view
        (cached (service_heap s) (env_contents env (indexer_of (service_informer s))) (ns @ ''/'' @ name))),
      int_value = env_IntValue env, delete_order = order1, append_order = order2\<rparr>"

text \<open>The worker starts when both caches have synced.\<close>

definition work ::
  "('p, 'x, 'q, 'm) libraries \<Rightarrow> Ports list \<Rightarrow> Ports list \<Rightarrow> ('p, 'x, 'q, 'm) system \<Rightarrow> (unit, ('p, 'x, 'q, 'm) system) go_result" where
  "work env order1 order2 s =
     (if HasSynced (slice_informer s) \<and> HasSynced (service_informer s) then
        (case processNextWorkItem (env_queue env) controller_MaxRetries
             (handler (env_maps env) (lister_cluster env order1 order2 s)) (work_items s, service_manager s) of
           Panics p (q, m) \<Rightarrow> Panics p (s\<lparr>work_items := q, service_manager := m\<rparr>)
         | Returns _ (q, m) \<Rightarrow> Returns () (s\<lparr>work_items := q, service_manager := m\<rparr>))
      else Returns () s)"

datatype 'p action =
  Watch_Slice "api_slice watched"
| Watch_Service "'p api_service watched"
| Slices_Synced string
| Services_Synced string
| Work "Ports list" "Ports list"

fun act :: "('p, 'x, 'q, 'm) libraries \<Rightarrow> 'p action \<Rightarrow> ('p, 'x, 'q, 'm) system \<Rightarrow> (unit, ('p, 'x, 'q, 'm) system) go_result" where
  "act env (Watch_Slice w) s = watch_slice env w s"
| "act env (Watch_Service w) s = watch_service env w s"
| "act env (Slices_Synced v) s = Returns () (s\<lparr>slice_informer := (slice_informer s)\<lparr>controller := Some (True, v)\<rparr>\<rparr>)"
| "act env (Services_Synced v) s = Returns () (s\<lparr>service_informer := (service_informer s)\<lparr>controller := Some (True, v)\<rparr>\<rparr>)"
| "act env (Work order1 order2) s = work env order1 order2 s"

fun run_actions ::
  "('p, 'x, 'q, 'm) libraries \<Rightarrow> 'p action list \<Rightarrow> ('p, 'x, 'q, 'm) system \<Rightarrow> (unit, ('p, 'x, 'q, 'm) system) go_result" where
  "run_actions env [] s = Returns () s"
| "run_actions env (a # as) s = go_bind (act env a s) (\<lambda>_. run_actions env as)"

section \<open>Specification\<close>

text \<open>What the informers promise to the controller: two tables by key, in which a sent object replaces the old one
  or removes it, and a key on the queue for every object sent. A missed deletion is in the tables only.\<close>

record ('p, 'q, 'm) plane =
  slice_table :: "string \<rightharpoonup> EndpointSlice"
  service_table :: "string \<rightharpoonup> 'p v1_Service"
  slices_synced :: bool
  services_synced :: bool
  plane_queue :: 'q
  plane_manager :: "'m ServiceManager"

definition table_update :: "string \<Rightarrow> 'o watched \<Rightarrow> ('o \<Rightarrow> 'v) \<Rightarrow> (string \<rightharpoonup> 'v) \<Rightarrow> (string \<rightharpoonup> 'v)" where
  "table_update k w view t =
     (case w of Sent ty obj \<Rightarrow> t(k := if ty = Deleted then None else Some (view obj)) | Missed k' \<Rightarrow> t(k' := None))"

definition queue_update :: "'q queue_ops \<Rightarrow> obj_kind \<Rightarrow> string \<Rightarrow> 'o watched \<Rightarrow> 'q \<Rightarrow> 'q" where
  "queue_update qops kind k w q = (case w of Sent _ _ \<Rightarrow> q_Add qops (Key (kind_name kind @ ''/'' @ k)) q | Missed _ \<Rightarrow> q)"

definition object_key :: "(string \<Rightarrow> string \<Rightarrow> string) \<Rightarrow> ('o \<Rightarrow> ObjectMeta) \<Rightarrow> 'o watched \<Rightarrow> string" where
  "object_key meta_key meta w = (case w of Sent _ obj \<Rightarrow> meta_key (om_Namespace (meta obj)) (om_Name (meta obj)) | Missed k \<Rightarrow> k)"

definition table_cluster :: "('p \<Rightarrow> int) \<Rightarrow> Ports list \<Rightarrow> Ports list \<Rightarrow> ('p, 'q, 'm) plane \<Rightarrow> 'p cluster" where
  "table_cluster IntValue order1 order2 pl =
     \<lparr>slice_lister = (\<lambda>ns name. slice_table pl (ns @ ''/'' @ name)), service_lister = (\<lambda>ns name. service_table pl (ns @ ''/'' @ name)),
      int_value = IntValue, delete_order = order1, append_order = order2\<rparr>"

fun plane_act ::
  "('p, 'x, 'q, 'm) libraries \<Rightarrow> 'p action \<Rightarrow> ('p, 'q, 'm) plane \<Rightarrow> (unit, ('p, 'q, 'm) plane) go_result" where
  "plane_act env (Watch_Slice w) pl =
     (let k = object_key (env_key env) as_ObjectMeta w
      in Returns () (pl\<lparr>slice_table := table_update k w slice_view (slice_table pl),
           plane_queue := queue_update (env_queue env) Is_EndpointSlice k w (plane_queue pl)\<rparr>))"
| "plane_act env (Watch_Service w) pl =
     (let k = object_key (env_key env) av_ObjectMeta w
      in Returns () (pl\<lparr>service_table := table_update k w service_view (service_table pl),
           plane_queue := queue_update (env_queue env) Is_Service k w (plane_queue pl)\<rparr>))"
| "plane_act env (Slices_Synced v) pl = Returns () (pl\<lparr>slices_synced := True\<rparr>)"
| "plane_act env (Services_Synced v) pl = Returns () (pl\<lparr>services_synced := True\<rparr>)"
| "plane_act env (Work order1 order2) pl =
     (if slices_synced pl \<and> services_synced pl then
        (case processNextWorkItem (env_queue env) controller_MaxRetries
             (handler (env_maps env) (table_cluster (env_IntValue env) order1 order2 pl)) (plane_queue pl, plane_manager pl) of
           Panics p (q, m) \<Rightarrow> Panics p (pl\<lparr>plane_queue := q, plane_manager := m\<rparr>)
         | Returns _ (q, m) \<Rightarrow> Returns () (pl\<lparr>plane_queue := q, plane_manager := m\<rparr>))
      else Returns () pl)"

fun plane_run ::
  "('p, 'x, 'q, 'm) libraries \<Rightarrow> 'p action list \<Rightarrow> ('p, 'q, 'm) plane \<Rightarrow> (unit, ('p, 'q, 'm) plane) go_result" where
  "plane_run env [] pl = Returns () pl"
| "plane_run env (a # as) pl = go_bind (plane_act env a pl) (\<lambda>_. plane_run env as)"

text \<open>The plane that a system stands for.\<close>

definition plane_of :: "('p, 'x, 'q, 'm) libraries \<Rightarrow> ('p, 'x, 'q, 'm) system \<Rightarrow> ('p, 'q, 'm) plane" where
  "plane_of env s =
     \<lparr>slice_table = (\<lambda>k. map_option slice_view (cached (slice_heap s) (env_contents env (indexer_of (slice_informer s))) k)),
      service_table = (\<lambda>k. map_option service_view (cached (service_heap s) (env_contents env (indexer_of (service_informer s))) k)),
      slices_synced = HasSynced (slice_informer s), services_synced = HasSynced (service_informer s),
      plane_queue = work_items s, plane_manager = service_manager s\<rparr>"

text \<open>The invariant: the controller's handlers are installed, and no two keys of an indexer share an object.\<close>

definition own_entries :: "'o list \<Rightarrow> (string \<rightharpoonup> delta_obj) \<Rightarrow> bool" where
  "own_entries heap c \<longleftrightarrow> valid_entries heap c \<and> (\<forall>k k' a. c k = Some (Obj a) \<longrightarrow> c k' = Some (Obj a) \<longrightarrow> k = k')"

definition system_inv :: "('p, 'x, 'q, 'm) libraries \<Rightarrow> ('p, 'x, 'q, 'm) system \<Rightarrow> bool" where
  "system_inv env s \<longleftrightarrow>
     eventhandler (slice_informer s) = Some (enqueue_slices (env_queue env) (env_key env)) \<and>
     eventhandler (service_informer s) = Some (enqueue_services (env_queue env) (env_key env)) \<and>
     own_entries (slice_heap s) (env_contents env (indexer_of (slice_informer s))) \<and>
     own_entries (service_heap s) (env_contents env (indexer_of (service_informer s)))"

text \<open>The system as \<^verbatim>\<open>main\<close> leaves it: nothing is cached yet, and the service manager is new.\<close>

definition initial_system :: "('p, 'x, 'q, 'm) libraries \<Rightarrow> 'm option \<Rightarrow> 'm option \<Rightarrow> ('p, 'x, 'q, 'm) system \<Rightarrow> bool" where
  "initial_system env sm em s \<longleftrightarrow> system_inv env s \<and> service_manager s = NewServiceManager sm em \<and>
     slice_table (plane_of env s) = Map.empty \<and> service_table (plane_of env s) = Map.empty"

text \<open>The slices that are sent have fewer addresses than there are indices; an action that sends no slice.\<close>

fun bounded_action :: "'p action \<Rightarrow> bool" where
  "bounded_action (Watch_Slice (Sent t obj)) = (length (ready_addresses (as_Endpoints obj)) < 65536)"
| "bounded_action _ = True"

fun sends_slice :: "'p action \<Rightarrow> bool" where
  "sends_slice (Watch_Slice (Sent t obj)) = (t \<noteq> Deleted)"
| "sends_slice _ = False"

text \<open>The table of slices as the watch alone determines it.\<close>

fun slice_history :: "('p, 'x, 'q, 'm) libraries \<Rightarrow> 'p action \<Rightarrow> (string \<rightharpoonup> EndpointSlice) \<Rightarrow> (string \<rightharpoonup> EndpointSlice)" where
  "slice_history env (Watch_Slice w) t = table_update (object_key (env_key env) as_ObjectMeta w) w slice_view t"
| "slice_history env _ t = t"

text \<open>Libraries for a cluster with one service and one slice, and the messages of the watch about them.\<close>

definition demo_env :: "(int, string \<rightharpoonup> delta_obj, wq, hash_map) libraries" where
  "demo_env = \<lparr>env_maps = hash_ops 65536, env_queue = wq_ops, env_key = slash_key,
     env_slices = store_ops (DeletionHandlingMetaNamespaceKeyFunc slash_key as_ObjectMeta),
     env_services = store_ops (DeletionHandlingMetaNamespaceKeyFunc slash_key av_ObjectMeta),
     env_contents = (\<lambda>x. x), env_IntValue = (\<lambda>i. i)\<rparr>"

definition web_service :: "int api_service" where
  "web_service = zero_service\<lparr>av_ObjectMeta := zero_meta\<lparr>om_Name := ''web'', om_Namespace := ''default''\<rparr>,
     av_ClusterIP := ''10.0.0.1'', av_Ports := [\<lparr>sp_Protocol = ''TCP'', sp_Port = 80, sp_TargetPort = 8080\<rparr>]\<rparr>"

definition web_slice :: api_slice where
  "web_slice = demo_api_slice\<lparr>as_Endpoints := [\<lparr>Ready = Some True, Addresses = [''10.0.0.2'', ''10.0.0.3'']\<rparr>]\<rparr>"

definition demo_system :: "(int, string \<rightharpoonup> delta_obj, wq, hash_map) system" where
  "demo_system = (case main_resources int_lib wq_ops slash_key [] of
     Returns ctl infs \<Rightarrow> boot (NewServiceManager (Some []) (Some [])) ctl infs
   | Panics _ infs \<Rightarrow> boot (NewServiceManager None None) \<lparr>Synced = [], Workqueue = wq_empty, MaxRetries = 0, controller_Name = [],
       controller_cluster = [], KubernetesClient = ([] :: string), serviceLister = 0, endpointsLister = 0\<rparr> infs)"

text \<open>The machine's eBPF library with maps that hold entries.\<close>

definition hash_lib :: "(machine, string, string, string, string, hash_map) ebpf_lib" where
  "hash_lib = \<lparr>RemoveMemlock = RemoveMemlock m_lib, LoadCollectionSpec = LoadCollectionSpec m_lib,
     NewCollectionWithOptions = NewCollectionWithOptions m_lib, AttachCgroup = AttachCgroup m_lib, Programs = Programs m_lib,
     Maps = (\<lambda>coll name. map_option (\<lambda>_. []) (Maps m_lib coll name)), link_Close = link_Close m_lib,
     collection_Close = collection_Close m_lib\<rparr>"

definition service_known :: "int action list" where
  "service_known = [Slices_Synced [], Services_Synced [], Watch_Service (Sent Added web_service), Work [] []]"

definition slice_served :: "int action list" where
  "slice_served = service_known @ [Watch_Slice (Sent Added web_slice), Work [] [demo_port]]"

section \<open>The informers as tables\<close>

context informer_on
begin

lemma watch_Sent:
  assumes "own_entries heap (contents x)"
  shows "\<exists>heap' x'. watch (process_deltas (convert copy zero) ix (Some (controller_handler qops meta_key meta kind))) contents
        (Sent t obj) (heap, x, q) =
      Returns None (heap', x', q_Add qops (Key (kind_name kind @ ''/'' @ meta_key (om_Namespace (meta obj)) (om_Name (meta obj)))) q) \<and>
    own_entries heap' (contents x') \<and>
    (\<forall>k. cached heap' (contents x') k =
      (if k = meta_key (om_Namespace (meta obj)) (om_Name (meta obj)) then (if t = Deleted then None else Some (copy obj))
       else cached heap (contents x) k))"
proof -
  define k where "k = meta_key (om_Namespace (meta obj)) (om_Name (meta obj))"
  define heap' where "heap' = (heap @ [obj])[length heap := zero] @ [copy obj]"
  have "DeletionHandlingMetaNamespaceKeyFunc meta_key meta (heap @ [obj]) (Obj (length heap)) = Some k"
    by (simp add: k_def DeletionHandlingMetaNamespaceKeyFunc_def MetaNamespaceKeyFunc_def)
  from process_one [OF _ this, of qops kind t x q] obtain x' where
    run: "process_delta (convert copy zero) ix (Some (controller_handler qops meta_key meta kind)) (t, Obj (length heap)) (heap @ [obj], x, q) =
      Returns None (heap', x', q_Add qops (Key (kind_name kind @ ''/'' @ k)) q)"
    and x': "contents x' = (contents x)(k := if t = Deleted then None else Some (Obj (Suc (length heap))))"
    by (auto simp: heap'_def)
  have old: "a < length heap" if "contents x k' = Some (Obj a)" for k' a
    using assms that by (simp add: own_entries_def valid_entries_def)
  have "own_entries heap' (contents x')"
    using assms old by (fastforce simp: own_entries_def valid_entries_def x' heap'_def split: if_splits)
  moreover have "cached heap' (contents x') k' =
      (if k' = k then (if t = Deleted then None else Some (copy obj)) else cached heap (contents x) k')" for k'
    using old [of k'] by (auto simp: cached_def x' heap'_def nth_append nth_list_update split: option.split delta_obj.split)
  ultimately show ?thesis
    using run unfolding k_def [symmetric] by (intro exI [of _ heap'] exI [of _ x']) (simp add: watch_def deliver_def)
qed

lemma watch_Missed:
  assumes "own_entries heap (contents x)"
  shows "\<exists>heap' x'. watch (process_deltas (convert copy zero) ix (Some (controller_handler qops meta_key meta kind))) contents
        (Missed k) (heap, x, q) = Returns None (heap', x', q) \<and>
    own_entries heap' (contents x') \<and>
    (\<forall>k'. cached heap' (contents x') k' = (if k' = k then None else cached heap (contents x) k'))"
proof -
  define obj where "obj = (case contents x k of Some (Obj a) \<Rightarrow> Some a | _ \<Rightarrow> None)"
  define obj' where "obj' = map_option (\<lambda>_. length heap) obj"
  define heap' where "heap' = (case obj of Some a \<Rightarrow> heap[a := zero] @ [copy (heap ! a)] | None \<Rightarrow> heap)"
  have conv: "convert copy zero (Tombstone k obj) heap = (Tombstone k obj', heap')"
    by (simp add: convert_def obj'_def heap'_def split: option.split)
  have "DeletionHandlingMetaNamespaceKeyFunc meta_key meta heap' (Tombstone k obj') = Some k"
    by (simp add: DeletionHandlingMetaNamespaceKeyFunc_def)
  from delete [OF this, of x] obtain x' where
    del: "ix_Delete ix heap' (Tombstone k obj') x = (None, x')" and x': "contents x' = (contents x)(k := None)"
    by blast
  have run: "watch (process_deltas (convert copy zero) ix (Some (controller_handler qops meta_key meta kind))) contents
      (Missed k) (heap, x, q) = Returns None (heap', x', q)"
    using conv del by (simp add: watch_def deliver_def obj_def [symmetric] process_delta_def call_handler_def controller_handler_def
        Enqueue_def MetaNamespaceKeyFunc_def)
  have own: "a < length heap \<and> obj \<noteq> Some a" if "contents x k' = Some (Obj a)" "k' \<noteq> k" for k' a
    using assms that by (auto simp: own_entries_def valid_entries_def obj_def split: option.splits delta_obj.splits)
  have "own_entries heap' (contents x')"
    using assms own by (fastforce simp: own_entries_def valid_entries_def x' heap'_def split: option.splits)
  moreover have "cached heap' (contents x') k' = (if k' = k then None else cached heap (contents x) k')" for k'
    using own [of k'] by (auto simp: cached_def x' heap'_def nth_append nth_list_update split: option.split delta_obj.split)
  ultimately show ?thesis
    using run by blast
qed

lemma watch_table:
  assumes "own_entries heap (contents x)" and "\<And>obj. view (copy obj) = view obj"
  shows "\<exists>heap' x'. watch (process_deltas (convert copy zero) ix (Some (controller_handler qops meta_key meta kind))) contents w (heap, x, q) =
      Returns None (heap', x', queue_update qops kind (object_key meta_key meta w) w q) \<and>
    own_entries heap' (contents x') \<and>
    (\<lambda>k. map_option view (cached heap' (contents x') k)) =
      table_update (object_key meta_key meta w) w view (\<lambda>k. map_option view (cached heap (contents x) k))"
proof (cases w)
  case (Sent t obj)
  with watch_Sent [OF assms(1), of qops kind t obj q] assms(2) show ?thesis
    by (fastforce simp: object_key_def queue_update_def table_update_def fun_eq_iff)
next
  case (Missed k)
  with watch_Missed [OF assms(1), of qops kind k q] show ?thesis
    by (fastforce simp: queue_update_def table_update_def fun_eq_iff)
qed

end

section \<open>Refinement\<close>

text \<open>What the control plane relies on: the laws of the queue, of the two indexers and of the maps, and the form of
  the key of a namespaced object.\<close>

locale control_plane =
  queue: work_queue "env_queue env" pending down waiting +
  slice_index: indexer "env_slices env" "DeletionHandlingMetaNamespaceKeyFunc (env_key env) as_ObjectMeta" "env_contents env" +
  service_index: indexer "env_services env" "DeletionHandlingMetaNamespaceKeyFunc (env_key env) av_ObjectMeta" "env_contents env" +
  bpf: ebpf_map "env_maps env" cap ok
  for env :: "('p, 'x, 'q, 'm) libraries" and pending :: "'q \<Rightarrow> queue_item set" and down :: "'q \<Rightarrow> bool" and waiting :: "'q \<Rightarrow> nat"
    and cap :: nat and ok :: "'m \<Rightarrow> bool" +
  assumes namespaced_key: "ns \<noteq> [] \<Longrightarrow> env_key env ns name = ns @ ''/'' @ name"

definition go_map :: "('s \<Rightarrow> 't) \<Rightarrow> ('r, 's) go_result \<Rightarrow> ('r, 't) go_result" where
  "go_map f r = (case r of Returns v s \<Rightarrow> Returns v (f s) | Panics p s \<Rightarrow> Panics p (f s))"

lemma go_map_simps [simp]: "go_map f (Returns v s) = Returns v (f s)" "go_map f (Panics p s) = Panics p (f s)"
  by (simp_all add: go_map_def)

lemma lister_cluster_plane_of:
  "lister_cluster env order1 order2 s = table_cluster (env_IntValue env) order1 order2 (plane_of env s)"
  by (simp add: lister_cluster_def table_cluster_def plane_of_def)

lemma work_refines: "go_map (plane_of env) (work env order1 order2 s) = plane_act env (Work order1 order2) (plane_of env s)"
  by (simp add: work_def lister_cluster_plane_of split: go_result.split prod.split) (auto simp: plane_of_def)

lemma work_inv: "system_inv env s \<Longrightarrow> system_inv env (go_state (work env order1 order2 s))"
  by (auto simp: work_def system_inv_def split: go_result.splits prod.splits)

context control_plane
begin

lemma watch_slice_refines:
  assumes "system_inv env s"
  shows "\<exists>s'. watch_slice env w s = Returns () s' \<and> system_inv env s' \<and> plane_act env (Watch_Slice w) (plane_of env s) = Returns () (plane_of env s')"
proof -
  let ?h = "Some (controller_handler (env_queue env) (env_key env) as_ObjectMeta Is_EndpointSlice)"
  let ?k = "object_key (env_key env) as_ObjectMeta w"
  have h: "map_option (\<lambda>h heap. h (heap, service_heap s)) (eventhandler (slice_informer s)) = ?h"
    using assms by (simp add: system_inv_def enqueue_slices_def)
  have "own_entries (slice_heap s) (env_contents env (indexer_of (slice_informer s)))"
    using assms by (simp add: system_inv_def)
  from informer_on.watch_table [where view = slice_view, OF slice_informer_on [OF slice_index.indexer_axioms] this slice_view_copy,
      of zero_slice "env_queue env" Is_EndpointSlice w "work_items s"]
  obtain heap x where run: "watch (EndpointSlice_Process (env_slices env) ?h) (env_contents env) w
        (slice_heap s, indexer_of (slice_informer s), work_items s) =
      Returns None (heap, x, queue_update (env_queue env) Is_EndpointSlice ?k w (work_items s))"
    and own: "own_entries heap (env_contents env x)"
    and tab: "(\<lambda>k. map_option slice_view (cached heap (env_contents env x) k)) =
      table_update ?k w slice_view (\<lambda>k. map_option slice_view (cached (slice_heap s) (env_contents env (indexer_of (slice_informer s))) k))"
    unfolding EndpointSlice_Process_def convertToCustomEndpointSlice_def by blast
  let ?s = "s\<lparr>slice_heap := heap, slice_informer := (slice_informer s)\<lparr>indexer_of := x\<rparr>,
    work_items := queue_update (env_queue env) Is_EndpointSlice ?k w (work_items s)\<rparr>"
  have "watch_slice env w s = Returns () ?s"
    by (simp add: watch_slice_def h run)
  moreover have "system_inv env ?s"
    using assms own by (simp add: system_inv_def)
  moreover have "plane_act env (Watch_Slice w) (plane_of env s) = Returns () (plane_of env ?s)"
    by (simp add: plane_of_def tab HasSynced_def Let_def)
  ultimately show ?thesis
    by blast
qed

lemma watch_service_refines:
  assumes "system_inv env s"
  shows "\<exists>s'. watch_service env w s = Returns () s' \<and> system_inv env s' \<and> plane_act env (Watch_Service w) (plane_of env s) = Returns () (plane_of env s')"
proof -
  let ?h = "Some (controller_handler (env_queue env) (env_key env) av_ObjectMeta Is_Service)"
  let ?k = "object_key (env_key env) av_ObjectMeta w"
  have h: "map_option (\<lambda>h heap. h (slice_heap s, heap)) (eventhandler (service_informer s)) = ?h"
    using assms by (simp add: system_inv_def enqueue_services_def)
  have "own_entries (service_heap s) (env_contents env (indexer_of (service_informer s)))"
    using assms by (simp add: system_inv_def)
  from informer_on.watch_table [where view = service_view, OF service_informer_on [OF service_index.indexer_axioms] this service_view_copy,
      of zero_service "env_queue env" Is_Service w "work_items s"]
  obtain heap x where run: "watch (Service_Process (env_services env) ?h) (env_contents env) w
        (service_heap s, indexer_of (service_informer s), work_items s) =
      Returns None (heap, x, queue_update (env_queue env) Is_Service ?k w (work_items s))"
    and own: "own_entries heap (env_contents env x)"
    and tab: "(\<lambda>k. map_option service_view (cached heap (env_contents env x) k)) =
      table_update ?k w service_view (\<lambda>k. map_option service_view (cached (service_heap s) (env_contents env (indexer_of (service_informer s))) k))"
    unfolding Service_Process_def convertToCustomService_def by blast
  let ?s = "s\<lparr>service_heap := heap, service_informer := (service_informer s)\<lparr>indexer_of := x\<rparr>,
    work_items := queue_update (env_queue env) Is_Service ?k w (work_items s)\<rparr>"
  have "watch_service env w s = Returns () ?s"
    by (simp add: watch_service_def h run)
  moreover have "system_inv env ?s"
    using assms own by (simp add: system_inv_def)
  moreover have "plane_act env (Watch_Service w) (plane_of env s) = Returns () (plane_of env ?s)"
    by (simp add: plane_of_def tab HasSynced_def Let_def)
  ultimately show ?thesis
    by blast
qed

lemma act_refines:
  assumes "system_inv env s"
  shows "go_map (plane_of env) (act env a s) = plane_act env a (plane_of env s) \<and> system_inv env (go_state (act env a s))"
proof (cases a)
  case (Watch_Slice w)
  with watch_slice_refines [OF assms, of w] show ?thesis
    by auto
next
  case (Watch_Service w)
  with watch_service_refines [OF assms, of w] show ?thesis
    by auto
next
  case (Work order1 order2)
  with work_refines [of env order1 order2 s] work_inv [OF assms] show ?thesis
    by simp
qed (use assms in \<open>auto simp: plane_of_def HasSynced_def system_inv_def\<close>)

lemma run_refines:
  "system_inv env s \<Longrightarrow> go_map (plane_of env) (run_actions env as s) = plane_run env as (plane_of env s) \<and>
     system_inv env (go_state (run_actions env as s))"
proof (induction as arbitrary: s)
  case (Cons a as)
  have act: "go_map (plane_of env) (act env a s) = plane_act env a (plane_of env s)" "system_inv env (go_state (act env a s))"
    using act_refines [OF Cons.prems] by blast+
  show ?case
  proof (cases "act env a s")
    case (Returns u s')
    then show ?thesis
      using act Cons.IH [of s'] by (simp add: act(1) [symmetric])
  next
    case (Panics p s')
    then show ?thesis
      using act by (simp add: act(1) [symmetric])
  qed
qed simp

end

text \<open>The system that \<^verbatim>\<open>main\<close> starts.\<close>

lemma boot_plane:
  assumes "informer_factory lib registered running period" and "main_resources lib (env_queue env) (env_key env) path = Returns ctl infs"
    and "env_contents env (NewIndexer lib) = Map.empty"
  shows "system_inv env (boot mgr ctl infs) \<and> plane_of env (boot mgr ctl infs) =
    \<lparr>slice_table = Map.empty, service_table = Map.empty, slices_synced = False, services_synced = False,
      plane_queue = Workqueue ctl, plane_manager = mgr\<rparr> \<and> Workqueue ctl = NewNamedRateLimitingQueue lib SvccontrollerName"
  using informer_factory.main_resources_wired [OF assms(1,2)] assms(3)
  by (simp add: system_inv_def boot_def plane_of_def own_entries_def valid_entries_def cached_def HasSynced_def
      Run_started_def AddEventHandler_def fresh_informer_def)

lemma demo_env_simps [simp]:
  "env_maps demo_env = hash_ops 65536" "env_queue demo_env = wq_ops" "env_key demo_env = slash_key" "env_contents demo_env = (\<lambda>x. x)"
  "env_slices demo_env = store_ops (DeletionHandlingMetaNamespaceKeyFunc slash_key as_ObjectMeta)"
  "env_services demo_env = store_ops (DeletionHandlingMetaNamespaceKeyFunc slash_key av_ObjectMeta)"
  "env_IntValue demo_env = (\<lambda>i. i)"
  by (simp_all add: demo_env_def)

interpretation plane: control_plane demo_env wq_pending wq_down wq_waiting 65536 hash_ok
proof (intro control_plane.intro control_plane_axioms.intro)
  show "work_queue (env_queue demo_env) wq_pending wq_down wq_waiting"
    using wq.work_queue_axioms by simp
  show "ebpf_map (env_maps demo_env) 65536 hash_ok"
    using hm.ebpf_map_axioms by simp
qed (simp_all add: store_indexer slash_key_def)

lemma demo_system_plane:
  "system_inv demo_env demo_system \<and> plane_of demo_env demo_system =
    \<lparr>slice_table = Map.empty, service_table = Map.empty, slices_synced = False, services_synced = False,
      plane_queue = wq_empty, plane_manager = NewServiceManager (Some []) (Some [])\<rparr>"
proof -
  have "go_returns (main_resources int_lib wq_ops slash_key [])"
    by code_simp
  then obtain ctl infs where r: "main_resources int_lib wq_ops slash_key [] = Returns ctl infs"
    by (auto simp: go_returns_iff)
  then have sys: "demo_system = boot (NewServiceManager (Some []) (Some [])) ctl infs"
    by (simp add: demo_system_def)
  have "env_contents demo_env (NewIndexer int_lib) = Map.empty" "NewNamedRateLimitingQueue int_lib SvccontrollerName = wq_empty"
    by (simp_all add: int_lib_def demo_lib_def)
  with boot_plane [OF int_factory _ this(1)] r show ?thesis
    unfolding sys by simp
qed

lemma demo_system_initial: "initial_system demo_env (Some []) (Some []) demo_system"
proof -
  have "service_manager demo_system = plane_manager (plane_of demo_env demo_system)"
    by (simp add: plane_of_def)
  then show ?thesis
    using demo_system_plane by (simp add: initial_system_def)
qed

section \<open>Runs\<close>

lemma run_actions_append: "run_actions env (as @ bs) s = go_bind (run_actions env as s) (\<lambda>_. run_actions env bs)"
proof (induction as arbitrary: s)
  case (Cons a as)
  then show ?case
    by (cases "act env a s") simp_all
qed simp

lemma go_map_Returns: "go_map f r = Returns v t \<longleftrightarrow> (\<exists>s. r = Returns v s \<and> t = f s)"
  by (cases r) auto

lemma go_map_Panics: "go_map f r = Panics p t \<longleftrightarrow> (\<exists>s. r = Panics p s \<and> t = f s)"
  by (cases r) auto

text \<open>Along a run the slices cached stay bounded, and the manager does what its own runs do.\<close>

definition plane_inv :: "('p, 'x, 'q, 'm) libraries \<Rightarrow> 'm ServiceManager \<Rightarrow> ('p, 'q, 'm) plane \<Rightarrow> bool" where
  "plane_inv env st0 pl \<longleftrightarrow> manager_run (env_maps env) st0 (plane_manager pl) \<and>
     (\<forall>k es. slice_table pl k = Some es \<longrightarrow> length (ready_addresses (es_Endpoints es)) < 65536)"

lemma plane_act_inv:
  assumes "plane_inv env st0 pl" and "bounded_action a" and "plane_act env a pl = Returns () pl'"
  shows "plane_inv env st0 pl'"
proof (cases a)
  case (Watch_Slice w)
  with assms show ?thesis
    by (cases w) (auto simp: plane_inv_def table_update_def slice_view_def Let_def split: if_splits)
next
  case (Work order1 order2)
  let ?k8s = "table_cluster (env_IntValue env) order1 order2 pl"
  have k8s: "bounded_slices ?k8s"
    using assms(1) by (auto simp: bounded_slices_def table_cluster_def plane_inv_def)
  show ?thesis
  proof (cases "slices_synced pl \<and> services_synced pl")
    case True
    then obtain busy q m where run: "processNextWorkItem (env_queue env) controller_MaxRetries (handler (env_maps env) ?k8s)
        (plane_queue pl, plane_manager pl) = Returns busy (q, m)" and pl': "pl' = pl\<lparr>plane_queue := q, plane_manager := m\<rparr>"
      using assms(3) Work by (auto split: go_result.splits prod.splits)
    from processNextWorkItem_handler [OF run] have "manager_run (env_maps env) st0 m"
      using assms(1) handler_manager_run [OF _ k8s] by (auto simp: plane_inv_def)
    then show ?thesis
      using assms(1) by (simp add: plane_inv_def pl')
  qed (use assms Work in auto)
qed (use assms in \<open>auto simp: plane_inv_def Let_def\<close>)

lemma plane_run_inv:
  "plane_run env as pl = Returns () pl' \<Longrightarrow> plane_inv env st0 pl \<Longrightarrow> list_all bounded_action as \<Longrightarrow> plane_inv env st0 pl'"
proof (induction as arbitrary: pl)
  case (Cons a as)
  then obtain pl1 where "plane_act env a pl = Returns () pl1" "plane_run env as pl1 = Returns () pl'"
    by (auto simp: go_bind_Returns_iff)
  then show ?case
    using Cons plane_act_inv [of env st0 pl a pl1] by simp
qed simp

text \<open>The lister shows what the watch has sent, whatever the worker does in between.\<close>

lemma plane_run_slices:
  "plane_run env as pl = Returns () pl' \<Longrightarrow> slice_table pl' = fold (slice_history env) as (slice_table pl)"
proof (induction as arbitrary: pl)
  case (Cons a as)
  then obtain pl1 where pl1: "plane_act env a pl = Returns () pl1" "plane_run env as pl1 = Returns () pl'"
    by (auto simp: go_bind_Returns_iff)
  have "slice_table pl1 = slice_history env a (slice_table pl)"
    using pl1(1) by (cases a) (auto simp: Let_def split: go_result.splits prod.splits if_splits)
  then show ?case
    using Cons.IH [OF pl1(2)] by simp
qed simp

text \<open>Without slices the worker changes nothing.\<close>

lemma handler_no_slices:
  assumes "\<And>ns name. slice_lister k8s ns name = None"
  shows "\<exists>e. handler ops k8s key st = Returns e st"
  using assms by (simp add: handler_def ServiceHandler_def EndpointHandler_def Let_def)

lemma processNextWorkItem_idle:
  assumes "\<And>key. \<exists>e. h key s = Returns e s"
  shows "\<exists>busy q'. processNextWorkItem qops n h (q, s) = Returns busy (q', s)"
proof -
  obtain r q1 where get: "q_Get qops q = (r, q1)"
    by fastforce
  show ?thesis
  proof (cases r)
    case (Some i)
    show ?thesis
    proof (cases i)
      case (Key key)
      from assms [of key] obtain e where "h key s = Returns e s"
        by blast
      then show ?thesis
        using get Some Key by (cases e) (auto simp: processNextWorkItem_def)
    qed (use get Some in \<open>auto simp: processNextWorkItem_def\<close>)
  qed (use get in \<open>auto simp: processNextWorkItem_def\<close>)
qed

lemma plane_act_no_slices:
  assumes "slice_table pl = Map.empty" and "\<not> sends_slice a"
  shows "\<exists>pl'. plane_act env a pl = Returns () pl' \<and> slice_table pl' = Map.empty \<and> plane_manager pl' = plane_manager pl"
proof (cases a)
  case (Watch_Slice w)
  with assms show ?thesis
    by (cases w) (simp_all add: table_update_def Let_def)
next
  case (Work order1 order2)
  have "\<exists>e. handler (env_maps env) (table_cluster (env_IntValue env) order1 order2 pl) key st = Returns e st" for key st
    by (rule handler_no_slices) (simp add: table_cluster_def assms(1))
  from processNextWorkItem_idle [of "handler (env_maps env) (table_cluster (env_IntValue env) order1 order2 pl)" "plane_manager pl" "env_queue env"
      controller_MaxRetries "plane_queue pl", OF this]
  obtain busy q' where "processNextWorkItem (env_queue env) controller_MaxRetries
      (handler (env_maps env) (table_cluster (env_IntValue env) order1 order2 pl)) (plane_queue pl, plane_manager pl) = Returns busy (q', plane_manager pl)"
    by blast
  then show ?thesis
    using assms(1) Work by simp
qed (simp_all add: assms(1) Let_def)

lemma plane_run_no_slices:
  "slice_table pl = Map.empty \<Longrightarrow> \<forall>a \<in> set as. \<not> sends_slice a \<Longrightarrow>
     \<exists>pl'. plane_run env as pl = Returns () pl' \<and> slice_table pl' = Map.empty \<and> plane_manager pl' = plane_manager pl"
proof (induction as arbitrary: pl)
  case (Cons a as)
  from plane_act_no_slices [OF Cons.prems(1), of a env] Cons.prems(2) obtain pl1 where
    pl1: "plane_act env a pl = Returns () pl1" "slice_table pl1 = Map.empty" "plane_manager pl1 = plane_manager pl"
    by auto
  with Cons.IH [OF pl1(2)] Cons.prems(2) show ?case
    by auto
qed simp

text \<open>The worker on the key of a slice.\<close>

lemma plane_work_slice:
  assumes "slices_synced pl" and "services_synced pl" and "CHR ''/'' \<notin> set ns" and "CHR ''/'' \<notin> set name"
    and "q_Get (env_queue env) (plane_queue pl) = (Some (Key (EndpointSliceType @ ''/'' @ ns @ ''/'' @ name)), q1)"
    and "EndpointHandler (env_maps env) (table_cluster (env_IntValue env) order1 order2 pl) ns name (plane_manager pl) = r"
  shows "r = Panics p m \<Longrightarrow> \<exists>pl'. plane_act env (Work order1 order2) pl = Panics p pl'"
    and "r = Returns None m \<Longrightarrow> plane_act env (Work order1 order2) pl = Returns () (pl\<lparr>plane_queue :=
      (let i = Key (EndpointSliceType @ ''/'' @ ns @ ''/'' @ name) in q_Done (env_queue env) i (q_Forget (env_queue env) i q1)), plane_manager := m\<rparr>)"
  using assms(1,2,5) assms(6) [folded handler_slice_key [OF assms(3,4)]] by (auto simp: processNextWorkItem_def Let_def)

text \<open>The cluster that the listers show once a slice has been sent.\<close>

definition sent_cluster ::
  "('p, 'x, 'q, 'm) libraries \<Rightarrow> api_slice \<Rightarrow> Ports list \<Rightarrow> Ports list \<Rightarrow> ('p, 'x, 'q, 'm) system \<Rightarrow> 'p cluster" where
  "sent_cluster env obj order1 order2 s =
     (lister_cluster env order1 order2 s)\<lparr>slice_lister := (\<lambda>ns name.
        if ns @ ''/'' @ name = om_Namespace (as_ObjectMeta obj) @ ''/'' @ om_Name (as_ObjectMeta obj) then Some (slice_view obj)
        else slice_lister (lister_cluster env order1 order2 s) ns name)\<rparr>"

definition slice_item :: "api_slice \<Rightarrow> queue_item" where
  "slice_item obj = Key (EndpointSliceType @ ''/'' @ om_Namespace (as_ObjectMeta obj) @ ''/'' @ om_Name (as_ObjectMeta obj))"

text \<open>The names of an object: a namespace and a name without slashes.\<close>

definition named_object :: "api_slice \<Rightarrow> bool" where
  "named_object obj \<longleftrightarrow> om_Namespace (as_ObjectMeta obj) \<noteq> [] \<and> CHR ''/'' \<notin> set (om_Namespace (as_ObjectMeta obj)) \<and>
     CHR ''/'' \<notin> set (om_Name (as_ObjectMeta obj))"

context control_plane
begin

lemma reached:
  assumes "initial_system env sm em s0" and "run_actions env as s0 = Returns () s"
  shows "system_inv env s \<and> plane_run env as (plane_of env s0) = Returns () (plane_of env s)"
  using run_refines [of s0 as] assms by (simp add: initial_system_def)

lemma reached_inv:
  assumes "initial_system env sm em s0" and "run_actions env as s0 = Returns () s" and "list_all bounded_action as"
  shows "manager_run (env_maps env) (NewServiceManager sm em) (service_manager s)"
proof -
  have "plane_inv env (NewServiceManager sm em) (plane_of env s0)"
    using assms(1) by (simp add: initial_system_def plane_inv_def) (simp add: plane_of_def manager_run.start)
  from plane_run_inv [OF _ this assms(3)] reached [OF assms(1,2)] show ?thesis
    by (simp add: plane_inv_def) (simp add: plane_of_def)
qed

lemma send_then_work:
  assumes "system_inv env s" and "HasSynced (slice_informer s)" and "HasSynced (service_informer s)"
    and "named_object obj" and "t \<noteq> Deleted"
    and "q_Get (env_queue env) (q_Add (env_queue env) (slice_item obj) (work_items s)) = (Some (slice_item obj), q1)"
    and "EndpointHandler (env_maps env) (sent_cluster env obj order1 order2 s) (om_Namespace (as_ObjectMeta obj))
      (om_Name (as_ObjectMeta obj)) (service_manager s) = r"
  shows "\<exists>s1. act env (Watch_Slice (Sent t obj)) s = Returns () s1 \<and>
    (\<forall>p m. r = Panics p m \<longrightarrow> (\<exists>s2. act env (Work order1 order2) s1 = Panics p s2)) \<and>
    (\<forall>m. r = Returns None m \<longrightarrow> (\<exists>s2. act env (Work order1 order2) s1 = Returns () s2 \<and> service_manager s2 = m \<and> plane_of env s2 =
      (plane_of env s)\<lparr>slice_table := (slice_table (plane_of env s))(om_Namespace (as_ObjectMeta obj) @ ''/'' @ om_Name (as_ObjectMeta obj) \<mapsto> slice_view obj),
        plane_queue := q_Done (env_queue env) (slice_item obj) (q_Forget (env_queue env) (slice_item obj) q1), plane_manager := m\<rparr>))"
proof -
  let ?ns = "om_Namespace (as_ObjectMeta obj)" and ?name = "om_Name (as_ObjectMeta obj)"
  have key: "object_key (env_key env) as_ObjectMeta (Sent t obj) = ?ns @ ''/'' @ ?name"
    using assms(4) by (simp add: object_key_def namespaced_key named_object_def)
  obtain s1 where s1: "watch_slice env (Sent t obj) s = Returns () s1" "system_inv env s1"
    "plane_act env (Watch_Slice (Sent t obj)) (plane_of env s) = Returns () (plane_of env s1)"
    using watch_slice_refines [OF assms(1)] by blast
  have pl: "plane_of env s1 = (plane_of env s)\<lparr>slice_table := (slice_table (plane_of env s))(?ns @ ''/'' @ ?name \<mapsto> slice_view obj),
      plane_queue := q_Add (env_queue env) (slice_item obj) (work_items s)\<rparr>"
    using s1(3) assms(5) by (simp add: key Let_def table_update_def queue_update_def slice_item_def kind_name_def) (simp add: plane_of_def)
  have cluster: "table_cluster (env_IntValue env) order1 order2 (plane_of env s1) = sent_cluster env obj order1 order2 s"
    unfolding sent_cluster_def lister_cluster_plane_of pl by (simp add: table_cluster_def fun_eq_iff)
  have "slices_synced (plane_of env s1)" "services_synced (plane_of env s1)" "plane_manager (plane_of env s1) = service_manager s"
    "q_Get (env_queue env) (plane_queue (plane_of env s1)) = (Some (Key (EndpointSliceType @ ''/'' @ ?ns @ ''/'' @ ?name)), q1)"
    using assms(2,3,6) unfolding pl slice_item_def by (simp_all add: plane_of_def)
  note work = plane_work_slice [OF this(1,2) _ _ this(4), of order1 order2 r, unfolded cluster this(3), OF _ _ assms(7)]
  have act: "go_map (plane_of env) (act env (Work order1 order2) s1) = plane_act env (Work order1 order2) (plane_of env s1)"
    using act_refines [OF s1(2)] by blast
  have "\<exists>s2. act env (Work order1 order2) s1 = Panics p s2" if "r = Panics p m" for p m
    using work(1) [OF _ _ that] assms(4) act by (auto simp: named_object_def go_map_Panics simp del: plane_act.simps act.simps)
  moreover have "\<exists>s2. act env (Work order1 order2) s1 = Returns () s2 \<and> service_manager s2 = m \<and> plane_of env s2 =
      (plane_of env s)\<lparr>slice_table := (slice_table (plane_of env s))(?ns @ ''/'' @ ?name \<mapsto> slice_view obj),
        plane_queue := q_Done (env_queue env) (slice_item obj) (q_Forget (env_queue env) (slice_item obj) q1), plane_manager := m\<rparr>"
    if r: "r = Returns None m" for m
  proof -
    have "plane_act env (Work order1 order2) (plane_of env s1) = Returns () ((plane_of env s1)\<lparr>plane_queue :=
        q_Done (env_queue env) (slice_item obj) (q_Forget (env_queue env) (slice_item obj) q1), plane_manager := m\<rparr>)"
      using work(2) [OF _ _ r] assms(4) by (simp add: named_object_def slice_item_def Let_def del: plane_act.simps)
    then obtain s2 where s2: "act env (Work order1 order2) s1 = Returns () s2" "plane_of env s2 = (plane_of env s1)\<lparr>plane_queue :=
        q_Done (env_queue env) (slice_item obj) (q_Forget (env_queue env) (slice_item obj) q1), plane_manager := m\<rparr>"
      using act by (auto simp: go_map_Returns simp del: plane_act.simps act.simps)
    moreover have "service_manager s2 = plane_manager (plane_of env s2)"
      by (simp add: plane_of_def)
    ultimately show ?thesis
      by (intro exI [of _ s2]) (simp add: pl del: act.simps)
  qed
  ultimately show ?thesis
    using s1(1) by auto
qed

end

text \<open>The demonstration: after the first actions the service is known, the queue empty again and nothing published.\<close>

lemma wq_one_item:
  "q_Get wq_ops (q_Add wq_ops i wq_empty) = (Some i, wq_empty\<lparr>wq_processing := [i]\<rparr>)"
  "q_Done wq_ops i (q_Forget wq_ops i (wq_empty\<lparr>wq_processing := [i]\<rparr>)) = wq_empty"
  by (simp_all add: wq_ops_def wq_Add_def wq_Get_def wq_take_def wq_Done_def wq_Forget_def wq_empty_def Let_def fun_eq_iff)

lemma demo_known:
  "\<exists>s. run_actions demo_env service_known demo_system = Returns () s \<and> system_inv demo_env s \<and> plane_of demo_env s =
    \<lparr>slice_table = Map.empty, service_table = [''default/web'' \<mapsto> service_view web_service], slices_synced = True, services_synced = True,
      plane_queue = wq_empty, plane_manager = NewServiceManager (Some []) (Some [])\<rparr>"
proof -
  have key: "object_key slash_key av_ObjectMeta (Sent Added web_service) = ''default/web''"
    by (simp add: object_key_def web_service_def slash_key_def)
  have handler: "handler ops k8s ''Service/default/web'' st = Returns None st" for ops :: "hash_map map_ops" and k8s :: "int cluster" and st
    by (simp add: handler_def ServiceHandler_def ServiceType_def)
  have "plane_run demo_env service_known (plane_of demo_env demo_system) = Returns ()
      \<lparr>slice_table = Map.empty, service_table = [''default/web'' \<mapsto> service_view web_service], slices_synced = True, services_synced = True,
        plane_queue = wq_empty, plane_manager = NewServiceManager (Some []) (Some [])\<rparr>"
    using demo_system_plane by (simp add: service_known_def key table_update_def queue_update_def kind_name_def ServiceType_def
        processNextWorkItem_def wq_one_item handler Let_def)
  then show ?thesis
    using plane.run_refines [of demo_system service_known] demo_system_plane by (auto simp: go_map_Returns)
qed

lemma web_NewService:
  "NewService (\<lambda>i. i) (service_view web_service) (slice_view web_slice) = Returns demo_service ()"
  by code_simp

lemma web_slice_named: "named_object web_slice" "om_Namespace (as_ObjectMeta web_slice) = ''default''" "om_Name (as_ObjectMeta web_slice) = ''web-1''"
  by (simp_all add: named_object_def web_slice_def demo_api_slice_def zero_slice_def zero_meta_def)

lemma web_label: "label (slice_view web_slice) LabelServiceName = ''web''" "es_DeletionTimestamp (slice_view web_slice) = None"
  by (simp_all add: label_def slice_view_def web_slice_def demo_api_slice_def zero_slice_def zero_meta_def)

text \<open>The handler of a slice whose service is listed, in terms of the service made of the two.\<close>

lemma EndpointHandler_sent:
  assumes "service_lister k8s ns (label es LabelServiceName) = Some svc" and "slice_lister k8s ns name = Some es"
    and "NewService (int_value k8s) svc es = Returns bsvc ()"
  shows "EndpointHandler ops k8s ns name st =
    (if \<not> Time_IsZero (es_DeletionTimestamp es) then go_bind (DeleteService ops (delete_order k8s) (ServiceKey bsvc) st) (\<lambda>_. Returns None)
     else go_bind (UpdateService ops (delete_order k8s) (append_order k8s) (length (objects st)) (st\<lparr>objects := objects st @ [bsvc]\<rparr>)) (\<lambda>_. Returns None))"
  using assms by (simp add: EndpointHandler_def)

lemma sent_cluster_simps [simp]:
  "service_lister (sent_cluster env obj order1 order2 s) = (\<lambda>ns name. service_table (plane_of env s) (ns @ ''/'' @ name))"
  "slice_lister (sent_cluster env obj order1 order2 s) (om_Namespace (as_ObjectMeta obj)) (om_Name (as_ObjectMeta obj)) = Some (slice_view obj)"
  "int_value (sent_cluster env obj order1 order2 s) = env_IntValue env"
  "delete_order (sent_cluster env obj order1 order2 s) = order1" "append_order (sent_cluster env obj order1 order2 s) = order2"
  by (simp_all add: sent_cluster_def lister_cluster_plane_of table_cluster_def)

lemma demo_served:
  "\<exists>s. run_actions demo_env slice_served demo_system = Returns () s \<and> system_inv demo_env s \<and>
     services (service_manager s) = [''default/web'' \<mapsto> 0] \<and> objects (service_manager s) = [demo_service\<lparr>ServiceId := 1\<rparr>] \<and>
     HasSynced (slice_informer s) \<and> HasSynced (service_informer s) \<and> work_items s = wq_empty \<and>
     service_table (plane_of demo_env s) ''default/web'' = Some (service_view web_service)"
proof -
  obtain s where s: "run_actions demo_env service_known demo_system = Returns () s" "system_inv demo_env s" and pl: "plane_of demo_env s =
    \<lparr>slice_table = Map.empty, service_table = [''default/web'' \<mapsto> service_view web_service], slices_synced = True, services_synced = True,
      plane_queue = wq_empty, plane_manager = NewServiceManager (Some []) (Some [])\<rparr>"
    using demo_known by blast
  have fields: "HasSynced (slice_informer s)" "HasSynced (service_informer s)" "work_items s = wq_empty"
    "service_manager s = NewServiceManager (Some []) (Some [])"
    using pl by (simp_all add: plane_of_def)
  obtain m where m: "UpdateService (hash_ops 65536) [] [demo_port] 0 demo_manager = Returns None m"
    "services m = [''default/web'' \<mapsto> 0]" "objects m = [demo_service\<lparr>ServiceId := 1\<rparr>]"
    using demo_first_update by blast
  have run: "EndpointHandler (env_maps demo_env) (sent_cluster demo_env web_slice [] [demo_port] s) (om_Namespace (as_ObjectMeta web_slice))
      (om_Name (as_ObjectMeta web_slice)) (service_manager s) = Returns None m"
  proof -
    have objs: "objects (NewServiceManager a b) = []" for a b :: "hash_map option"
      by (simp add: NewServiceManager_def)
    have "service_lister (sent_cluster demo_env web_slice [] [demo_port] s) (om_Namespace (as_ObjectMeta web_slice))
        (label (slice_view web_slice) LabelServiceName) = Some (service_view web_service)"
      by (simp add: pl web_label web_slice_named)
    note EndpointHandler_sent [OF this sent_cluster_simps(2), of demo_service "env_maps demo_env" "service_manager s"]
    then show ?thesis
      using m(1) by (simp add: web_NewService web_label fields objs Time_IsZero_def demo_manager_def)
  qed
  from plane.send_then_work [OF s(2) fields(1,2) web_slice_named(1) _ _ run, of Added] obtain s1 s2 where
    acts: "act demo_env (Watch_Slice (Sent Added web_slice)) s = Returns () s1" "act demo_env (Work [] [demo_port]) s1 = Returns () s2"
    and m2: "service_manager s2 = m" and pl2: "plane_of demo_env s2 = (plane_of demo_env s)\<lparr>slice_table :=
      (slice_table (plane_of demo_env s))(om_Namespace (as_ObjectMeta web_slice) @ ''/'' @ om_Name (as_ObjectMeta web_slice) \<mapsto> slice_view web_slice),
      plane_queue := wq_empty, plane_manager := m\<rparr>"
    using wq_one_item [of "slice_item web_slice"] by (auto simp: fields simp del: act.simps)
  have synced: "HasSynced (slice_informer s2) = slices_synced (plane_of demo_env s2)" "work_items s2 = plane_queue (plane_of demo_env s2)"
    "HasSynced (service_informer s2) = services_synced (plane_of demo_env s2)"
    by (simp_all add: plane_of_def)
  have "run_actions demo_env slice_served demo_system = Returns () s2"
    using s(1) acts by (simp add: slice_served_def run_actions_append del: act.simps)
  moreover from plane.reached [OF demo_system_initial this] have "system_inv demo_env s2"
    by blast
  ultimately show ?thesis
    using m(2,3) m2 synced by (intro exI [of _ s2]) (simp add: pl2 pl)
qed

lemma slice_served_bounded: "list_all bounded_action slice_served"
  by (simp add: slice_served_def service_known_def web_slice_def demo_api_slice_def ready_addresses_def)

section \<open>Properties\<close>

text \<open>C4. The running process behaves as two tables, a queue and a manager: from the state \<^verbatim>\<open>main\<close> starts in, any
  sequence of messages of the watch, in any order with the turns of the worker, does to the shared and blanked objects of the
  informers what it does to plain tables by key, and panics at the same places. Every object sent queues its key; a deletion the
  watch missed only leaves the table.\<close>

theorem control_plane_refines_tables:
  assumes "control_plane env pending down waiting cap ok" and "informer_factory lib registered running period"
    and "main ebpf os lib (env_queue env) (env_key env) args (p, h) = (Main_Runs (bm, mgr, ctl, infs), p', h')"
    and "env_contents env (NewIndexer lib) = Map.empty"
  shows "go_map (plane_of env) (run_actions env as (boot mgr ctl infs)) =
    plane_run env as \<lparr>slice_table = Map.empty, service_table = Map.empty, slices_synced = False, services_synced = False,
      plane_queue = Workqueue ctl, plane_manager = mgr\<rparr>"
proof -
  obtain path where "main_resources lib (env_queue env) (env_key env) path = Returns ctl infs"
    using main_Runs [OF assms(3)] by blast
  from boot_plane [OF assms(2) this assms(4), of mgr] control_plane.run_refines [OF assms(1), of "boot mgr ctl infs" as] show ?thesis
    by simp
qed

theorem control_plane_refines_tables_witness:
  "\<exists>bm mgr ctl infs p' h'. main hash_lib m_os int_lib wq_ops slash_key [''-ebpf'', ''/ebpf/service.o''] (new_process, initial_host demo_machine) =
     (Main_Runs (bm, mgr, ctl, infs), p', h') \<and>
   go_map (plane_of demo_env) (run_actions demo_env slice_served (boot mgr ctl infs)) =
     plane_run demo_env slice_served \<lparr>slice_table = Map.empty, service_table = Map.empty, slices_synced = False, services_synced = False,
       plane_queue = Workqueue ctl, plane_manager = mgr\<rparr>"
proof -
  let ?r = "main hash_lib m_os int_lib wq_ops slash_key [''-ebpf'', ''/ebpf/service.o''] (new_process, initial_host demo_machine)"
  have "case fst ?r of Main_Runs _ \<Rightarrow> True | _ \<Rightarrow> False"
    by code_simp
  then obtain bm mgr ctl infs p' h' where r: "?r = (Main_Runs (bm, mgr, ctl, infs), p', h')"
    by (cases ?r) (auto split: main_result.splits)
  have "main hash_lib m_os int_lib (env_queue demo_env) (env_key demo_env) [''-ebpf'', ''/ebpf/service.o''] (new_process, initial_host demo_machine) =
      (Main_Runs (bm, mgr, ctl, infs), p', h')" "env_contents demo_env (NewIndexer int_lib) = Map.empty"
    using r by (simp_all add: int_lib_def demo_lib_def)
  from control_plane_refines_tables [OF plane.control_plane_axioms int_factory this, of slice_served] r show ?thesis
    by blast
qed

text \<open>C7. Whatever the watch sends and whenever the worker runs, the manager is only driven through its own runs; so in
  every state the process reaches all registered services have the id 1.\<close>

theorem control_plane_drives_manager:
  assumes "control_plane env pending down waiting cap ok" and "initial_system env sm em s0"
    and "run_actions env as s0 = Returns () s" and "list_all bounded_action as"
  shows "manager_run (env_maps env) (NewServiceManager sm em) (service_manager s) \<and>
    (\<forall>key addr. services (service_manager s) key = Some addr \<longrightarrow> ServiceId (objects (service_manager s) ! addr) = 1)"
proof -
  have run: "manager_run (env_maps env) (NewServiceManager sm em) (service_manager s)"
    by (rule control_plane.reached_inv [OF assms])
  from manager_run_ids [OF run ids_inv_NewServiceManager] run show ?thesis
    by (auto simp: ids_inv_def)
qed

theorem control_plane_drives_manager_witness:
  "\<exists>s. run_actions demo_env slice_served demo_system = Returns () s \<and> services (service_manager s) ''default/web'' = Some 0 \<and>
     ServiceId (objects (service_manager s) ! 0) = 1"
proof -
  obtain s where s: "run_actions demo_env slice_served demo_system = Returns () s" "services (service_manager s) = [''default/web'' \<mapsto> 0]"
    using demo_served by blast
  from control_plane_drives_manager [OF plane.control_plane_axioms demo_system_initial s(1) slice_served_bounded] s show ?thesis
    by auto
qed

text \<open>C8. The second event of a served slice ends the process: when a service is registered with endpoints, any further
  message of the watch that sends one of its slices, be it an update, the same slice again after a new list, or its
  deletion in two steps, makes the worker panic as soon as it takes the key, because the deletion of the old entries fails.\<close>

theorem second_slice_event_panics:
  assumes "control_plane env pending down waiting cap ok" and "initial_system env sm (Some em) s0"
    and "run_actions env as s0 = Returns () s" and "list_all bounded_action as"
    and em: "ok em" "\<forall>sid. op_lookup (env_maps env) em (Endpoint4Key_bytes (endpoint_key sid 0)) = None"
    and synced: "HasSynced (slice_informer s)" "HasSynced (service_informer s)"
    and obj: "named_object obj" "t \<noteq> Deleted"
      "service_table (plane_of env s) (om_Namespace (as_ObjectMeta obj) @ ''/'' @ label (slice_view obj) LabelServiceName) = Some svc"
      "NewService (env_IntValue env) svc (slice_view obj) = Returns bsvc ()"
    and registered: "services (service_manager s) (ServiceKey bsvc) = Some addr" "Endpoints (objects (service_manager s) ! addr) \<noteq> []"
      "order1 \<noteq> []"
    and get: "q_Get (env_queue env) (q_Add (env_queue env) (slice_item obj) (work_items s)) = (Some (slice_item obj), q1)"
  shows "\<exists>s1 p s2. act env (Watch_Slice (Sent t obj)) s = Returns () s1 \<and> act env (Work order1 order2) s1 = Panics p s2"
proof -
  let ?mgr = "service_manager s"
  have inv: "system_inv env s" and run: "manager_run (env_maps env) (NewServiceManager sm (Some em)) ?mgr"
    using control_plane.reached [OF assms(1-3)] control_plane.reached_inv [OF assms(1-4)] by blast+
  have maps: "ebpf_map (env_maps env) cap ok"
    using assms(1) by (simp add: control_plane_def)
  have handler: "EndpointHandler (env_maps env) (sent_cluster env obj order1 order2 s) (om_Namespace (as_ObjectMeta obj))
      (om_Name (as_ObjectMeta obj)) ?mgr =
    (if \<not> Time_IsZero (es_DeletionTimestamp (slice_view obj)) then go_bind (DeleteService (env_maps env) order1 (ServiceKey bsvc) ?mgr) (\<lambda>_. Returns None)
     else go_bind (UpdateService (env_maps env) order1 order2 (length (objects ?mgr)) (?mgr\<lparr>objects := objects ?mgr @ [bsvc]\<rparr>)) (\<lambda>_. Returns None))"
    using EndpointHandler_sent [OF _ sent_cluster_simps(2), of env obj order1 order2 s svc bsvc "env_maps env" ?mgr] obj(3,4) by simp
  have "\<exists>p m. EndpointHandler (env_maps env) (sent_cluster env obj order1 order2 s) (om_Namespace (as_ObjectMeta obj))
      (om_Name (as_ObjectMeta obj)) ?mgr = Panics p m"
    unfolding handler using registered_service_panics [OF maps run em registered refl, of order2] by auto
  then show ?thesis
    using control_plane.send_then_work [OF assms(1) inv synced obj(1,2) get refl, of order1 order2] by blast
qed

theorem second_slice_event_panics_witness:
  "\<exists>s s1 p s2. run_actions demo_env slice_served demo_system = Returns () s \<and>
     act demo_env (Watch_Slice (Sent Replaced web_slice)) s = Returns () s1 \<and> act demo_env (Work [demo_port] [demo_port]) s1 = Panics p s2"
proof -
  obtain s where s: "run_actions demo_env slice_served demo_system = Returns () s" and mgr: "services (service_manager s) = [''default/web'' \<mapsto> 0]"
    "objects (service_manager s) = [demo_service\<lparr>ServiceId := 1\<rparr>]"
    and synced: "HasSynced (slice_informer s)" "HasSynced (service_informer s)" and q: "work_items s = wq_empty"
    and table: "service_table (plane_of demo_env s) ''default/web'' = Some (service_view web_service)"
    using demo_served by blast
  have em: "hash_ok []" "\<forall>sid. op_lookup (env_maps demo_env) [] (Endpoint4Key_bytes (endpoint_key sid 0)) = None"
    by (simp_all add: hash_ok_def hash_ops_def)
  have obj: "service_table (plane_of demo_env s) (om_Namespace (as_ObjectMeta web_slice) @ ''/'' @ label (slice_view web_slice) LabelServiceName) =
      Some (service_view web_service)" "NewService (env_IntValue demo_env) (service_view web_service) (slice_view web_slice) = Returns demo_service ()"
    using table by (simp_all add: web_slice_named web_label web_NewService)
  have reg: "services (service_manager s) (ServiceKey demo_service) = Some 0" "Endpoints (objects (service_manager s) ! 0) \<noteq> []"
    by (simp_all add: mgr ServiceKey_def demo_service_def)
  have "q_Get (env_queue demo_env) (q_Add (env_queue demo_env) (slice_item web_slice) (work_items s)) =
      (Some (slice_item web_slice), wq_empty\<lparr>wq_processing := [slice_item web_slice]\<rparr>)"
    by (simp add: q wq_one_item)
  from second_slice_event_panics [OF plane.control_plane_axioms demo_system_initial s slice_served_bounded em synced web_slice_named(1) _ obj reg _ this,
      of Replaced "[demo_port]" "[demo_port]"] s show ?thesis
    by (simp del: act.simps)
qed

text \<open>C9. Deleted slices are never withdrawn: once the listers show no slice any more, nothing the watch sends but another
  slice, and no turn of the worker, however many there are, changes the service manager or its maps, and nothing panics; the
  entries of the services last published stay for good.\<close>

theorem deleted_slices_never_withdrawn:
  assumes "control_plane env pending down waiting cap ok" and "initial_system env sm em s0" and "run_actions env as s0 = Returns () s"
    and "fold (slice_history env) as Map.empty = Map.empty" and "\<forall>a \<in> set bs. \<not> sends_slice a"
  shows "\<exists>s'. run_actions env bs s = Returns () s' \<and> service_manager s' = service_manager s"
proof -
  have inv: "system_inv env s" and "plane_run env as (plane_of env s0) = Returns () (plane_of env s)"
    using control_plane.reached [OF assms(1-3)] by blast+
  from plane_run_slices [OF this(2)] have "slice_table (plane_of env s) = Map.empty"
    using assms(2,4) by (simp add: initial_system_def)
  from plane_run_no_slices [OF this assms(5), of env] obtain pl' where
    "plane_run env bs (plane_of env s) = Returns () pl'" "plane_manager pl' = service_manager s"
    by (auto simp: plane_of_def)
  then show ?thesis
    using control_plane.run_refines [OF assms(1) inv, of bs] by (auto simp: go_map_Returns) (simp add: plane_of_def)
qed

theorem deleted_slices_never_withdrawn_witness:
  "\<exists>s s'. run_actions demo_env (slice_served @ [Watch_Slice (Sent Deleted web_slice)]) demo_system = Returns () s \<and>
     services (service_manager s) = [''default/web'' \<mapsto> 0] \<and>
     run_actions demo_env [Work [] [], Watch_Service (Sent Deleted web_service), Work [] [], Work [] []] s = Returns () s' \<and>
     service_manager s' = service_manager s"
proof -
  obtain s0 where s0: "run_actions demo_env slice_served demo_system = Returns () s0" "system_inv demo_env s0"
    "services (service_manager s0) = [''default/web'' \<mapsto> 0]"
    using demo_served by blast
  obtain s where s: "watch_slice demo_env (Sent Deleted web_slice) s0 = Returns () s"
    "plane_act demo_env (Watch_Slice (Sent Deleted web_slice)) (plane_of demo_env s0) = Returns () (plane_of demo_env s)"
    using plane.watch_slice_refines [OF s0(2)] by blast
  then have "plane_manager (plane_of demo_env s) = plane_manager (plane_of demo_env s0)"
    by (auto simp: Let_def dest!: sym [of _ "plane_of demo_env s"])
  then have mgr: "services (service_manager s) = [''default/web'' \<mapsto> 0]"
    using s0(3) by (simp add: plane_of_def)
  let ?as = "slice_served @ [Watch_Slice (Sent Deleted web_slice)]"
  have run: "run_actions demo_env ?as demo_system = Returns () s"
    using s0(1) s(1) by (simp add: run_actions_append)
  have "fold (slice_history demo_env) ?as Map.empty = Map.empty"
    by (simp add: slice_served_def service_known_def table_update_def object_key_def)
  from deleted_slices_never_withdrawn [OF plane.control_plane_axioms demo_system_initial run this,
      of "[Work [] [], Watch_Service (Sent Deleted web_service), Work [] [], Work [] []]"] run mgr show ?thesis
    by auto
qed

end
