(* ===== verification/Spec2Isabelle.thy ===== *)
theory Spec2Isabelle
  imports Bpf_Endian Bpf_Tracing Kernel_Layout Data_Path Control_Plane
begin

text \<open>
  eproxy replaces kube-proxy for cluster addresses: an eBPF program on the \<^verbatim>\<open>connect\<close> hook of the root
  control group rewrites the destination of a connection from a service to one of its endpoints, and
  a control plane in Go keeps the two maps of that program in step with Kubernetes.

  \<^bold>\<open>Parts and how they interact.\<close> Events of the cluster put keys on a work queue
  (\<^verbatim>\<open>src/pkg/kubernetes/controller\<close>). The worker turns a slice and its service into a service object
  (\<^verbatim>\<open>src/pkg/manager/service.go\<close>) and hands it to the service manager (\<^verbatim>\<open>src/pkg/manager/manager.go\<close>), which
  allocates an id and writes one service entry per port and one backend entry per endpoint into the maps.
  The program \<^verbatim>\<open>connect4\<close> (\<^verbatim>\<open>src/ebpf/src/service.c\<close>) reads them on every connection. The byte image of
  keys and values is the interface between the two sides. Before all this \<^verbatim>\<open>main\<close> mounts the cgroup and BPF
  file systems, loads the object file and attaches the program (\<^verbatim>\<open>src/pkg/bpf/bpf.go\<close>); the events come from
  two custom informers (\<^verbatim>\<open>src/pkg/kubernetes/informers\<close>), whose caches the worker reads.

  \<^bold>\<open>Theories.\<close>
  \<^item> \<^verbatim>\<open>Eproxy_Prelude\<close>: fixed-width words, results of Go functions (a value, or a panic with the state
    reached), integers in memory.
  \<^item> \<^verbatim>\<open>C_Types\<close>, \<^verbatim>\<open>Kernel_Uapi\<close>: C types with size, alignment, member offsets and bit-fields; the typedefs,
    enums and structs of \<^verbatim>\<open>vmlinux.h\<close> that the code uses, the macros of \<^verbatim>\<open>socket.h\<close>.
  \<^item> \<^verbatim>\<open>Kernel_Types\<close>, \<^verbatim>\<open>Kernel_Net\<close>: the sixteen socket types of \<^verbatim>\<open>vmlinux.h\<close>, socket addresses and
    protocol headers, with every type they embed, one definition per declaration, and their sizes and
    alignments.
  \<^item> \<^verbatim>\<open>Kernel_Layout\<close>: what these layouts guarantee: the header that all socket types share, the wire formats,
    and the socket address that the program's result ends up in.
  \<^item> \<^verbatim>\<open>Bpf_Endian\<close>, \<^verbatim>\<open>Helper_Defs\<close>, \<^verbatim>\<open>Bpf_Helpers\<close>, \<^verbatim>\<open>Bpf_Tracing\<close>: the headers under
    \<^verbatim>\<open>src/ebpf/src/headers\<close>: byte order, the 180 helper stubs, the variadic macros as expansions into helper
    calls, register accessors and argument macros.
  \<^item> \<^verbatim>\<open>Lb_Types\<close>: the map keys and values as C structs (\<^verbatim>\<open>common.h\<close>) and as Go structs (\<^verbatim>\<open>types.go\<close>), their
    byte images, the declarations of the maps.
  \<^item> \<^verbatim>\<open>Connect4\<close>: the program, with the helper calls it makes, and the load balancer it refines.
  \<^item> \<^verbatim>\<open>Object_File\<close>: the sections and symbols of the object file, as a loader sees them, and the helper calls of
    the program against the prototypes and the maps declared there.
  \<^item> \<^verbatim>\<open>Bpf_Map\<close>: the interface \<^verbatim>\<open>ebpf_map\<close> of a kernel map, a bounded hash map as an instance, the wrappers
    of \<^verbatim>\<open>map.go\<close>.
  \<^item> \<^verbatim>\<open>Go_Set\<close>, \<^verbatim>\<open>Go_Net\<close>: the set library and \<^verbatim>\<open>IterUnion\<close>; addresses, ports and protocol numbers.
  \<^item> \<^verbatim>\<open>Service_Manager\<close>, \<^verbatim>\<open>Manager_Runs\<close>: the manager's operations; the states its calls reach, with two
    invariants.
  \<^item> \<^verbatim>\<open>Data_Path\<close>: connections and what they are redirected to; the map writes of \<^verbatim>\<open>AppendService\<close> as a
    sequence and their races with the program as a step relation.
  \<^item> \<^verbatim>\<open>Controller\<close>: queue keys, the worker and its loop, the handlers; the interface \<^verbatim>\<open>work_queue\<close>.
  \<^item> \<^verbatim>\<open>Informers\<close>: the conversion of watched objects, over a heap since it blanks the original, the processing
    of deltas and the event handler of the controller; the interfaces \<^verbatim>\<open>indexer\<close> and \<^verbatim>\<open>informer_on\<close>.
  \<^item> \<^verbatim>\<open>Go_Strings\<close>, \<^verbatim>\<open>Mount_Info\<close>, \<^verbatim>\<open>Mounts\<close>: splitting, decimal numbers, lines and paths of the Go library; the
    mount table and the mount-point test; the cgroup and BPF file systems (\<^verbatim>\<open>src/pkg/mountinfo\<close>,
    \<^verbatim>\<open>src/pkg/cgroups\<close>, \<^verbatim>\<open>src/pkg/bpf/bpffs_linux.go\<close>) over the interface \<^verbatim>\<open>mount_os\<close> of the system calls.
  \<^item> \<^verbatim>\<open>Loader\<close>: the BPF manager (\<^verbatim>\<open>src/pkg/bpf/bpf.go\<close>), signals, and the load and the end of \<^verbatim>\<open>main\<close>.
  \<^item> \<^verbatim>\<open>Command_Line\<close>: Go's package \<^verbatim>\<open>flag\<close> and \<^verbatim>\<open>ParseCommand\<close> of \<^verbatim>\<open>main.go\<close>.
  \<^item> \<^verbatim>\<open>Startup\<close>: \<^verbatim>\<open>informer.go\<close>, \<^verbatim>\<open>NewController\<close> and the whole of \<^verbatim>\<open>main\<close>, over the interface \<^verbatim>\<open>informer_factory\<close>.
  \<^item> \<^verbatim>\<open>Control_Plane\<close>: what \<^verbatim>\<open>main\<close> has started, as one state with the actions of the goroutines: messages of the
    watch, turns of the worker, the end of the first lists. The locale \<^verbatim>\<open>control_plane\<close> joins the interfaces; the
    state refines two tables by key.
  \<^item> this theory: the properties from the watch and from the manager's operations to the program's redirections.

  \<^bold>\<open>What is shown.\<close> The program lets every connection proceed, changes at most its destination, also
  in the bytes of the kernel's context structure, and implements the load balancer that the maps describe; its random choice is even; its helper calls fit
  their prototypes and the declared maps and are known to the kernel, and the destination it writes fits the socket
  address of the kernel. All socket types of the kernel begin with the same header. The two sides agree on
  layout and byte order. \<^verbatim>\<open>AppendService\<close>
  writes exactly the entries of its service, so that a connection to the service reaches its endpoints.
  The manager's invariants show where the code falls short of this for more than one service: all
  services are given the same id, so a later one captures the connections of an earlier one; the ports of
  a service share one target port; a service with endpoints can be neither deleted nor updated, and a
  deleted slice is retried forever. \<^verbatim>\<open>IterUnion\<close> visits the union of its sets exactly once.
  End to end, a slice that the watch sends leads, through the caches, the queue, the worker, the manager and
  the maps, to connections that reach its ready addresses; but the second message about a slice of a published
  service ends the process, and once all slices are deleted nothing is withdrawn. What \<^verbatim>\<open>main\<close> starts is wired as
  intended. A full map ends the process; a number of endpoints that does not fit 16 bits may read as 0.
  A connection that races with the writes of a port goes to the right endpoint or keeps its address. The
  tombstone of a missed deletion reaches no handler; the worker ends after a shutdown. The first
  shutdown signal closes the program's link once. A start without mount errors has both file systems
  and everything attached, but one on a host whose BPF file system is mounted without the directory for
  the pins always fails, and the fallback mount is never used. The mount table reads back what the kernel
  prints, unless the source of a mount is a lone dash.

  \<^bold>\<open>Parameters and bounds.\<close> The kernel's maps, the work queue, the listers and \<^verbatim>\<open>IntValue\<close> are library code:
  they are arguments, as are the indexer and the informer factory of client-go, the eBPF library and the system calls, with their
  documented behaviour in the locales \<^verbatim>\<open>ebpf_map\<close>, \<^verbatim>\<open>work_queue\<close>, \<^verbatim>\<open>indexer\<close>, \<^verbatim>\<open>informer_factory\<close> and \<^verbatim>\<open>mount_os\<close>
  and an instance of each. The laws of \<^verbatim>\<open>mount_os\<close> are about the default mount points and the directories the
  program makes, and those of \<^verbatim>\<open>work_queue\<close> leave open whether a key that is taken also stays in a delay. Of the
  eBPF library \<^verbatim>\<open>Loader\<close> supposes that a collection has at least the maps and programs of its object file, that a
  specification keeps the pinning the file declares, and that pinning needs its directory. Go leaves the order of iteration over a map open, so every operation takes it as an
  argument. Endpoint lists are shorter than 65536 in the properties that decode backend ids, which is the
  size of the index field and of the map. The search for a free id is bounded by 65535 in
  the code and terminates; the group loop of the IPv6 parser runs at most eight times, the number of
  groups of an address. The worker's loop may run forever and is a partial function, shown to end once the
  queue is shut down. A line of the mount table has at most 65535 characters, the scanner's buffer.

  \<^bold>\<open>Not modelled.\<close> The operations of the manager exclude each other, so its lock is left out; the two
  lookups of the program are atomic each, as the kernel replaces the value of an entry as a whole. One
  worker runs, as \<^verbatim>\<open>main\<close> starts one. The list and watch calls and the HTTP server of the
  profiling flag are calls of libraries; the goroutines take turns at whole messages and whole work items. \<^verbatim>\<open>vmlinux.h\<close> is a dump of all types
  of a kernel; its types outside the parts named above occur here at most behind a pointer, no code reads them, and
  nothing would be said of them beyond their layout, so they are left out. So are the constants of \<^verbatim>\<open>defaults.go\<close>
  that no code here uses; the variants of the packages for other systems only return an error. What the kernel does
  with the context after the program returns is not in the sources.
\<close>

section \<open>From the control plane to a connection\<close>

text \<open>A service with two ports, and two services, in an otherwise empty manager.\<close>

definition other_port :: Ports where
  "other_port = \<lparr>Protocol = ''TCP'', Port = 90, TargetPort = 9090\<rparr>"

definition two_port_service :: Service where
  "two_port_service = demo_service\<lparr>Service_Ports := Some (Some {demo_port, other_port})\<rparr>"

definition two_port_manager :: "hash_map ServiceManager" where
  "two_port_manager = (NewServiceManager (Some []) (Some []))\<lparr>objects := [two_port_service]\<rparr>"

definition other_service :: Service where
  "other_service = demo_service\<lparr>Name := ''api'', IpAddress := [10, 0, 0, 9], Service_Ports := Some (Some {other_port}),
     Endpoints := [0x0700000A, 0x0800000A]\<rparr>"

definition two_service_manager :: "hash_map ServiceManager" where
  "two_service_manager = (NewServiceManager (Some []) (Some []))\<lparr>objects := [demo_service, other_service]\<rparr>"

lemma connect4_published:
  assumes "published ops ip svc order sm sm' em em'" and "port \<in> set order"
    and "connects_to (frontend ip port) ctx" and "Endpoints svc \<noteq> []" and "length (Endpoints svc) < 65536"
  shows "c4_ctx (connect4 (op_lookup ops sm') (op_lookup ops em') rnd ctx) =
    redirected (Endpoints svc ! (unat rnd mod length (Endpoints svc))) (last order) ctx"
  using assms by (intro connect4_found) (auto simp: published_def service_key_frontend [symmetric])

lemma append_then_connect:
  assumes maps: "ebpf_map ops cap ok"
    and svc: "addr < length (objects st)" "svc = objects st ! addr" "Service_Ports svc = Some ports"
      "LittleEndian_Uint32 (To4 (IpAddress svc)) = Some ip" "Endpoints svc \<noteq> []" "length (Endpoints svc) < 65536"
    and order: "enumerates order ports" "port \<in> typed_members ports"
    and alloc: "alloc_id (cacheSerivceId st) 1 = Some i"
    and sm: "serviceMap st = Some sm" "ok sm" "card (dom (op_lookup ops sm)) + length order \<le> cap"
    and em: "endpointsMap st = Some em" "ok em"
      "card (dom (op_lookup ops em)) + length order * length (Endpoints svc) \<le> cap"
    and ctx: "connects_to (frontend ip port) ctx"
  shows "\<exists>st' sm' em'. AppendService ops order addr st = Returns () st' \<and>
    serviceMap st' = Some sm' \<and> endpointsMap st' = Some em' \<and>
    c4_ctx (connect4 (op_lookup ops sm') (op_lookup ops em') rnd ctx) =
      redirected (Endpoints svc ! (unat rnd mod length (Endpoints svc))) (last order) ctx"
proof -
  have members: "set order = typed_members ports" "order \<noteq> []"
    using order by (auto simp: enumerates_def)
  have room: "ebpf_map.has_room ops cap ok sm (length order + 0)"
    "ebpf_map.has_room ops cap ok em (length order * length (Endpoints svc) + 0)"
    using sm em by (simp_all add: ebpf_map.has_room_def [OF maps])
  obtain sm' em' where run: "AppendService ops order addr st =
      Returns () ((appended addr i st)\<lparr>serviceMap := Some sm', endpointsMap := Some em'\<rparr>)"
    and "published ops ip (svc\<lparr>ServiceId := of_nat i\<rparr>) order sm sm' em em'"
    using ebpf_map.AppendService_published [OF maps svc(1-4,6) members(2) alloc sm(1) room(1) em(1) room(2)] by blast
  from connect4_published [OF this(2) _ ctx, of rnd] show ?thesis
    using run members order(2) svc(5,6) by auto
qed

lemma To4_To4 [simp]: "To4 (To4 ip) = To4 ip"
  by (simp add: To4_def)

section \<open>Properties\<close>

text \<open>C1. End to end, from the watch to the socket: in any state that the process reaches with both caches synced, let the watch
  send a slice with a service that is listed and not yet registered, whose cluster address and ready addresses are IPv4 and whose
  ports share a target port. When the worker takes the key of the slice, it publishes the service, and from then on every
  connection to the cluster address and one of the ports is redirected by \<^verbatim>\<open>connect4\<close> to one of the ready addresses of the slice
  at the target port, picked by the random number.\<close>

theorem watched_service_is_reached:
  assumes plane: "control_plane env pending down waiting cap ok" "initial_system env sm0 em0 s0" "run_actions env as s0 = Returns () s"
      "list_all bounded_action as" "HasSynced (slice_informer s)" "HasSynced (service_informer s)"
    and obj: "named_object obj" "t \<noteq> Deleted" "om_DeletionTimestamp (as_ObjectMeta obj) = None"
      "\<forall>e \<in> set (as_Endpoints obj). Ready e \<noteq> None" "None \<notin> set (ready_addresses (as_Endpoints obj))"
      "eps = filter (\<lambda>a. a \<noteq> 0) (map the (ready_addresses (as_Endpoints obj)))" "eps \<noteq> []" "length eps < 65536"
    and svc: "service_table (plane_of env s) (om_Namespace (as_ObjectMeta obj) @ ''/'' @ label (slice_view obj) LabelServiceName) = Some svc"
      "services (service_manager s) (sv_Namespace svc @ ''/'' @ sv_Name svc) = None" "address_of (sv_ClusterIP svc) = Some ip"
    and ports: "ports = set (map (NewService_port (env_IntValue env)) (sv_Ports svc))" "enumerates order2 (Some ports)" "port \<in> ports"
      "\<forall>p \<in> ports. TargetPort p = TargetPort port"
    and sm: "serviceMap (service_manager s) = Some sm" "ok sm" "card (dom (op_lookup (env_maps env) sm)) + length order2 \<le> cap"
    and em: "endpointsMap (service_manager s) = Some em" "ok em" "card (dom (op_lookup (env_maps env) em)) + length order2 * length eps \<le> cap"
    and get: "q_Get (env_queue env) (q_Add (env_queue env) (slice_item obj) (work_items s)) = (Some (slice_item obj), q1)"
    and ctx: "connects_to (frontend ip port) ctx"
  shows "\<exists>s1 s2 sm' em'. act env (Watch_Slice (Sent t obj)) s = Returns () s1 \<and> act env (Work order1 order2) s1 = Returns () s2 \<and>
    serviceMap (service_manager s2) = Some sm' \<and> endpointsMap (service_manager s2) = Some em' \<and>
    c4_ctx (connect4 (op_lookup (env_maps env) sm') (op_lookup (env_maps env) em') rnd ctx) = redirected (eps ! (unat rnd mod length eps)) port ctx"
proof -
  define mgr where "mgr = service_manager s"
  define bsvc where "bsvc = \<lparr>Name = sv_Name svc, Namespace = sv_Namespace svc, ServiceId = 0, IpAddress = To4 (ParseIP (sv_ClusterIP svc)),
    Service_Ports = Some (Some ports), Endpoints = eps\<rparr>"
  define st where "st = mgr\<lparr>objects := objects mgr @ [bsvc]\<rparr>"
  have new: "NewService (env_IntValue env) svc (slice_view obj) = Returns bsvc ()"
    using obj(4-6) ports(1) by (simp add: NewService_Returns bsvc_def slice_view_def)
  have maps: "ebpf_map (env_maps env) cap ok" and inv: "system_inv env s"
    using plane(1) control_plane.reached [OF plane(1-3)] by (simp_all add: control_plane_def)
  have "cacheSerivceId mgr 1 = None"
    using manager_run_ids [OF control_plane.reached_inv [OF plane(1-4)] ids_inv_NewServiceManager] by (auto simp: ids_inv_def mgr_def)
  then have alloc: "alloc_id (cacheSerivceId st) 1 = Some 1"
    by (intro alloc_id_first) (simp add: st_def)
  have st: "length (objects mgr) < length (objects st)" "bsvc = objects st ! length (objects mgr)" "Service_Ports bsvc = Some (Some ports)"
    "LittleEndian_Uint32 (To4 (IpAddress bsvc)) = Some ip" "Endpoints bsvc \<noteq> []" "length (Endpoints bsvc) < 65536"
    "serviceMap st = Some sm" "endpointsMap st = Some em" "port \<in> typed_members (Some ports)"
    using svc(3) obj(7,8) sm(1) em(1) ports(3) by (simp_all add: st_def bsvc_def mgr_def address_of_def)
  have "last order2 \<in> ports"
    using ports(2,3) last_in_set [of order2] by (cases "order2 = []") (auto simp: enumerates_def)
  then have target: "redirected a (last order2) ctx = redirected a port ctx" for a
    using ports(4) by (simp add: redirected_def)
  obtain st' sm' em' where run: "AppendService (env_maps env) order2 (length (objects mgr)) st = Returns () st'" and m': "serviceMap st' = Some sm'" "endpointsMap st' = Some em'"
    "c4_ctx (connect4 (op_lookup (env_maps env) sm') (op_lookup (env_maps env) em') rnd ctx) = redirected (eps ! (unat rnd mod length eps)) port ctx"
    using append_then_connect [OF maps st(1-6) ports(2) st(9) alloc st(7) sm(2,3) st(8) em(2) _ ctx, of rnd] em(3) target by (auto simp: bsvc_def)
  have "UpdateService (env_maps env) order1 order2 (length (objects mgr)) st = Returns None st'"
    using run svc(2) by (simp add: UpdateService_def st_def nth_append bsvc_def ServiceKey_def mgr_def)
  then have "EndpointHandler (env_maps env) (sent_cluster env obj order1 order2 s) (om_Namespace (as_ObjectMeta obj)) (om_Name (as_ObjectMeta obj)) mgr =
      Returns None st'"
    using EndpointHandler_sent [OF _ sent_cluster_simps(2), of env obj order1 order2 s svc bsvc "env_maps env" mgr] svc(1) new obj(3)
    by (simp add: Time_IsZero_def st_def slice_view_def)
  from control_plane.send_then_work [OF plane(1) inv plane(5,6) obj(1,2) get this [unfolded mgr_def]] m' show ?thesis
    by blast
qed

theorem watched_service_is_reached_witness:
  "\<exists>s s1 s2 sm' em'. run_actions demo_env service_known demo_system = Returns () s \<and>
     act demo_env (Watch_Slice (Sent Added web_slice)) s = Returns () s1 \<and> act demo_env (Work [] [demo_port]) s1 = Returns () s2 \<and>
     serviceMap (service_manager s2) = Some sm' \<and> endpointsMap (service_manager s2) = Some em' \<and>
     c4_ctx (connect4 (op_lookup (hash_ops 65536) sm') (op_lookup (hash_ops 65536) em') 5 demo_ctx) =
       redirected 0x0300000A demo_port demo_ctx"
proof -
  obtain s where s: "run_actions demo_env service_known demo_system = Returns () s" and pl: "plane_of demo_env s =
    \<lparr>slice_table = Map.empty, service_table = [''default/web'' \<mapsto> service_view web_service], slices_synced = True, services_synced = True,
      plane_queue = wq_empty, plane_manager = NewServiceManager (Some []) (Some [])\<rparr>"
    using demo_known by blast
  have fields: "HasSynced (slice_informer s)" "HasSynced (service_informer s)" "work_items s = wq_empty"
    "service_manager s = NewServiceManager (Some []) (Some [])"
    using pl by (simp_all add: plane_of_def)
  have mgr: "services (service_manager s) (sv_Namespace (service_view web_service) @ ''/'' @ sv_Name (service_view web_service)) = None"
    "serviceMap (service_manager s) = Some []" "endpointsMap (service_manager s) = Some []"
    by (simp_all add: fields NewServiceManager_def)
  have addresses: "ready_addresses (as_Endpoints web_slice) = [Some 0x0200000A, Some 0x0300000A]"
    by code_simp
  have ip: "address_of (sv_ClusterIP (service_view web_service)) = Some (of_le32 10 0 0 1)"
    by code_simp
  have obj: "om_DeletionTimestamp (as_ObjectMeta web_slice) = None" "\<forall>e \<in> set (as_Endpoints web_slice). Ready e \<noteq> None"
    "None \<notin> set (ready_addresses (as_Endpoints web_slice))"
    "[0x0200000A, 0x0300000A] = filter (\<lambda>a. a \<noteq> 0) (map the (ready_addresses (as_Endpoints web_slice)))"
    by (simp_all add: addresses) (auto simp: web_slice_def demo_api_slice_def zero_slice_def zero_meta_def)
  have svc: "service_table (plane_of demo_env s) (om_Namespace (as_ObjectMeta web_slice) @ ''/'' @ label (slice_view web_slice) LabelServiceName) =
      Some (service_view web_service)"
    by (simp add: pl web_label web_slice_named)
  have ports: "{demo_port} = set (map (NewService_port (env_IntValue demo_env)) (sv_Ports (service_view web_service)))"
    "enumerates [demo_port] (Some {demo_port})"
    by (simp_all add: service_view_def web_service_def NewService_port_def demo_port_def enumerates_def)
  have room: "hash_ok []" "card (dom (op_lookup (env_maps demo_env) [])) + length [demo_port] \<le> 65536"
    "card (dom (op_lookup (env_maps demo_env) [])) + length [demo_port] * length [0x0200000A, 0x0300000A :: u32] \<le> 65536"
    by (simp_all add: hash_ok_def hash_ops_def)
  have get: "q_Get (env_queue demo_env) (q_Add (env_queue demo_env) (slice_item web_slice) (work_items s)) =
      (Some (slice_item web_slice), wq_empty\<lparr>wq_processing := [slice_item web_slice]\<rparr>)"
    by (simp add: fields wq_one_item)
  have bounded: "list_all bounded_action service_known"
    by (simp add: service_known_def)
  from watched_service_is_reached [OF plane.control_plane_axioms demo_system_initial s bounded fields(1,2) web_slice_named(1) _ obj _ _ svc mgr(1) ip
      ports _ _ mgr(2) room(1,2) mgr(3) room(1,3) get demo_connects, of Added "[]" 5] s show ?thesis
    by (simp add: numeral_2_eq_2 [symmetric] del: act.simps)
qed

text \<open>C2. A published service is reached: after \<^verbatim>\<open>AppendService\<close> of a service with an IPv4 address, whose ports
  share a target port, in a manager whose maps have room, every connection to the cluster address and
  one of the ports is redirected by \<^verbatim>\<open>connect4\<close> to one of the service's endpoints, at the target port;
  the random number selects the endpoint.\<close>

theorem appended_service_is_reached:
  assumes maps: "ebpf_map ops cap ok"
    and svc: "addr < length (objects st)" "svc = objects st ! addr" "Service_Ports svc = Some ports"
      "LittleEndian_Uint32 (To4 (IpAddress svc)) = Some ip" "Endpoints svc \<noteq> []" "length (Endpoints svc) < 65536"
    and order: "enumerates order ports" "port \<in> typed_members ports"
      "\<forall>p \<in> typed_members ports. TargetPort p = TargetPort port"
    and alloc: "alloc_id (cacheSerivceId st) 1 = Some i"
    and sm: "serviceMap st = Some sm" "ok sm" "card (dom (op_lookup ops sm)) + length order \<le> cap"
    and em: "endpointsMap st = Some em" "ok em"
      "card (dom (op_lookup ops em)) + length order * length (Endpoints svc) \<le> cap"
    and ctx: "connects_to (frontend ip port) ctx"
  shows "\<exists>st' sm' em'. AppendService ops order addr st = Returns () st' \<and>
    serviceMap st' = Some sm' \<and> endpointsMap st' = Some em' \<and>
    c4_ctx (connect4 (op_lookup ops sm') (op_lookup ops em') rnd ctx) =
      redirected (Endpoints svc ! (unat rnd mod length (Endpoints svc))) port ctx"
proof -
  have "last order \<in> typed_members ports"
    using order(1,2) last_in_set [of order] by (cases "order = []") (auto simp: enumerates_def)
  then have "TargetPort (last order) = TargetPort port"
    using order(3) by blast
  then show ?thesis
    using append_then_connect [OF maps svc order(1,2) alloc sm em ctx, of rnd] by (simp add: redirected_def)
qed

theorem appended_service_is_reached_witness:
  "connects_to (frontend (of_le32 10 0 0 1) demo_port) demo_ctx \<and>
   (\<exists>st' sm' em'. AppendService (hash_ops 65536) [demo_port] 0 demo_manager = Returns () st' \<and>
     serviceMap st' = Some sm' \<and> endpointsMap st' = Some em' \<and>
     c4_ctx (connect4 (op_lookup (hash_ops 65536) sm') (op_lookup (hash_ops 65536) em') 5 demo_ctx) =
       redirected 0x0300000A demo_port demo_ctx)"
proof -
  have alloc: "alloc_id (cacheSerivceId demo_manager) 1 = Some 1"
    by (rule alloc_id_first) (simp add: demo_manager_def NewServiceManager_def)
  have st: "0 < length (objects demo_manager)" "demo_service = objects demo_manager ! 0"
    "serviceMap demo_manager = Some []" "endpointsMap demo_manager = Some []"
    by (simp_all add: demo_manager_def NewServiceManager_def)
  have svc: "Service_Ports demo_service = Some (Some {demo_port})"
    "LittleEndian_Uint32 (To4 (IpAddress demo_service)) = Some (of_le32 10 0 0 1)"
    "Endpoints demo_service \<noteq> []" "length (Endpoints demo_service) < 65536"
    by (simp_all add: demo_service_def To4_def)
  have order: "enumerates [demo_port] (Some {demo_port})" "demo_port \<in> typed_members (Some {demo_port})"
    "\<forall>p \<in> typed_members (Some {demo_port}). TargetPort p = TargetPort demo_port"
    by (simp_all add: enumerates_def)
  have room: "hash_ok []" "card (dom (op_lookup (hash_ops 65536) [])) + length [demo_port] \<le> 65536"
    "card (dom (op_lookup (hash_ops 65536) [])) + length [demo_port] * length (Endpoints demo_service) \<le> 65536"
    by (simp_all add: hash_ok_def hash_ops_def demo_service_def)
  show ?thesis
    using appended_service_is_reached [OF hm.ebpf_map_axioms st(1,2) svc order alloc st(3) room(1,2) st(4) room(1,3) demo_connects, of 5]
      demo_connects
    by (simp add: demo_service_def numeral_2_eq_2 [symmetric])
qed

text \<open>C12. All ports of a service share their endpoint entries, so the port visited last decides: whichever
  port of the service a connection goes to, it is redirected to the target port of the last one in the
  order of the iteration, which Go leaves open.\<close>

theorem last_port_decides_target:
  assumes maps: "ebpf_map ops cap ok"
    and svc: "addr < length (objects st)" "svc = objects st ! addr" "Service_Ports svc = Some ports"
      "LittleEndian_Uint32 (To4 (IpAddress svc)) = Some ip" "Endpoints svc \<noteq> []" "length (Endpoints svc) < 65536"
    and order: "enumerates order ports" "port \<in> typed_members ports"
    and alloc: "alloc_id (cacheSerivceId st) 1 = Some i"
    and sm: "serviceMap st = Some sm" "ok sm" "card (dom (op_lookup ops sm)) + length order \<le> cap"
    and em: "endpointsMap st = Some em" "ok em"
      "card (dom (op_lookup ops em)) + length order * length (Endpoints svc) \<le> cap"
    and ctx: "connects_to (frontend ip port) ctx"
  shows "\<exists>st' sm' em'. AppendService ops order addr st = Returns () st' \<and>
    serviceMap st' = Some sm' \<and> endpointsMap st' = Some em' \<and>
    user_port (c4_ctx (connect4 (op_lookup ops sm') (op_lookup ops em') rnd ctx)) =
      ucast (LittleEndianPort (TargetPort (last order)))"
  using append_then_connect [OF assms, of rnd] by (fastforce simp: redirected_def)

theorem last_port_decides_target_witness:
  "\<exists>st' sm' em'. AppendService (hash_ops 65536) [demo_port, other_port] 0 two_port_manager = Returns () st' \<and>
     serviceMap st' = Some sm' \<and> endpointsMap st' = Some em' \<and>
     user_port (c4_ctx (connect4 (op_lookup (hash_ops 65536) sm') (op_lookup (hash_ops 65536) em') 5 demo_ctx)) =
       ucast (LittleEndianPort 9090)"
proof -
  have alloc: "alloc_id (cacheSerivceId two_port_manager) 1 = Some 1"
    by (rule alloc_id_first) (simp add: two_port_manager_def NewServiceManager_def)
  have st: "0 < length (objects two_port_manager)" "two_port_service = objects two_port_manager ! 0"
    "serviceMap two_port_manager = Some []" "endpointsMap two_port_manager = Some []"
    by (simp_all add: two_port_manager_def NewServiceManager_def)
  have svc: "Service_Ports two_port_service = Some (Some {demo_port, other_port})"
    "LittleEndian_Uint32 (To4 (IpAddress two_port_service)) = Some (of_le32 10 0 0 1)"
    "Endpoints two_port_service \<noteq> []" "length (Endpoints two_port_service) < 65536"
    by (simp_all add: two_port_service_def demo_service_def To4_def)
  have order: "enumerates [demo_port, other_port] (Some {demo_port, other_port})"
    "demo_port \<in> typed_members (Some {demo_port, other_port})"
    by (simp_all add: enumerates_def demo_port_def other_port_def)
  have room: "hash_ok []" "card (dom (op_lookup (hash_ops 65536) [])) + length [demo_port, other_port] \<le> 65536"
    "card (dom (op_lookup (hash_ops 65536) [])) + length [demo_port, other_port] * length (Endpoints two_port_service) \<le> 65536"
    by (simp_all add: hash_ok_def hash_ops_def two_port_service_def demo_service_def)
  show ?thesis
    using last_port_decides_target
      [OF hm.ebpf_map_axioms st(1,2) svc order alloc st(3) room(1,2) st(4) room(1,3) demo_connects, of 5]
    by (simp add: other_port_def)
qed

text \<open>C11. Services capture each other's connections: when two services with one port each are appended to
  a manager in which the id 1 is free, both get the id 1, and a connection to the first one is redirected
  to an endpoint of the second, at the second's target port, whenever the second has an endpoint at the
  position picked.\<close>

theorem second_service_captures_first:
  assumes maps: "ebpf_map ops cap ok"
    and a: "a < length (objects st)" "A = objects st ! a" "ServiceId A = 0" "Service_Ports A = Some (Some {pa})"
      "LittleEndian_Uint32 (To4 (IpAddress A)) = Some ipa" "Endpoints A \<noteq> []" "length (Endpoints A) < 65536"
    and b: "b < length (objects st)" "b \<noteq> a" "B = objects st ! b" "Service_Ports B = Some (Some {pb})"
      "LittleEndian_Uint32 (To4 (IpAddress B)) = Some ipb" "length (Endpoints B) < 65536"
    and keys: "frontend ipa pa \<noteq> frontend ipb pb" and free: "cacheSerivceId st 1 = None"
    and sm: "serviceMap st = Some sm" "ok sm" "card (dom (op_lookup ops sm)) + 2 \<le> cap"
    and em: "endpointsMap st = Some em" "ok em"
      "card (dom (op_lookup ops em)) + length (Endpoints A) + length (Endpoints B) \<le> cap"
    and ctx: "connects_to (frontend ipa pa) ctx" "unat rnd mod length (Endpoints A) < length (Endpoints B)"
  shows "\<exists>st1 st2 sm' em'. AppendService ops [pa] a st = Returns () st1 \<and> AppendService ops [pb] b st1 = Returns () st2 \<and>
    serviceMap st2 = Some sm' \<and> endpointsMap st2 = Some em' \<and>
    c4_ctx (connect4 (op_lookup ops sm') (op_lookup ops em') rnd ctx) =
      redirected (Endpoints B ! (unat rnd mod length (Endpoints A))) pb ctx"
proof -
  have room: "ebpf_map.has_room ops cap ok sm (length [pa] + 1)"
    "ebpf_map.has_room ops cap ok em (length [pa] * length (Endpoints A) + length (Endpoints B))"
    using sm em by (simp_all add: ebpf_map.has_room_def [OF maps])
  have alloc: "alloc_id (cacheSerivceId st) 1 = Some 1"
    by (rule alloc_id_first) (rule free)
  obtain sm1 em1 where run1: "AppendService ops [pa] a st =
      Returns () ((appended a 1 st)\<lparr>serviceMap := Some sm1, endpointsMap := Some em1\<rparr>)"
    and room1: "ebpf_map.has_room ops cap ok sm1 (length [pb] + 0)"
      "ebpf_map.has_room ops cap ok em1 (length [pb] * length (Endpoints B) + 0)"
    and pub1: "published ops ipa (A\<lparr>ServiceId := of_nat 1\<rparr>) [pa] sm sm1 em em1"
    using ebpf_map.AppendService_published
      [OF maps a(1,2,4,5,7) _ alloc sm(1) room(1) em(1) room(2)] by auto
  let ?st = "(appended a 1 st)\<lparr>serviceMap := Some sm1, endpointsMap := Some em1\<rparr>"
  have st1: "b < length (objects ?st)" "B = objects ?st ! b" "serviceMap ?st = Some sm1" "endpointsMap ?st = Some em1"
    "cacheSerivceId ?st 1 = None"
    using a(2,3) b(1-3) free by simp_all
  have alloc1: "alloc_id (cacheSerivceId ?st) 1 = Some 1"
    by (rule alloc_id_first) (rule st1(5))
  obtain sm2 em2 where run2: "AppendService ops [pb] b ?st =
      Returns () ((appended b 1 ?st)\<lparr>serviceMap := Some sm2, endpointsMap := Some em2\<rparr>)"
    and pub2: "published ops ipb (B\<lparr>ServiceId := of_nat 1\<rparr>) [pb] sm1 sm2 em1 em2"
    using ebpf_map.AppendService_published
      [OF maps st1(1,2) b(4-6) _ alloc1 st1(3) room1(1) st1(4) room1(2)] by auto
  have "op_lookup ops sm2 (lb4_key_bytes (frontend ipa pa)) =
      Some (Service4Value_bytes \<lparr>ServiceID = 1, Count = of_nat (length (Endpoints A))\<rparr>)"
    using pub1 pub2 keys by (simp add: published_def service_key_frontend)
  moreover have "op_lookup ops em2 (Endpoint4Key_bytes (endpoint_key 1 (unat rnd mod length (Endpoints A) + 1))) =
      Some (Endpoint4Value_bytes (endpoint_value (Endpoints B ! (unat rnd mod length (Endpoints A))) pb))"
    using pub2 ctx(2) by (simp add: published_def)
  ultimately have "c4_ctx (connect4 (op_lookup ops sm2) (op_lookup ops em2) rnd ctx) =
      redirected (Endpoints B ! (unat rnd mod length (Endpoints A))) pb ctx"
    using ctx(1) a(6,7) by (intro connect4_found) simp_all
  then show ?thesis
    using run1 run2 by auto
qed

theorem second_service_captures_first_witness:
  "\<exists>st1 st2 sm' em'. AppendService (hash_ops 65536) [demo_port] 0 two_service_manager = Returns () st1 \<and>
     AppendService (hash_ops 65536) [other_port] 1 st1 = Returns () st2 \<and>
     serviceMap st2 = Some sm' \<and> endpointsMap st2 = Some em' \<and>
     c4_ctx (connect4 (op_lookup (hash_ops 65536) sm') (op_lookup (hash_ops 65536) em') 5 demo_ctx) =
       redirected 0x0800000A other_port demo_ctx"
proof -
  have a: "0 < length (objects two_service_manager)" "demo_service = objects two_service_manager ! 0"
    "ServiceId demo_service = 0" "Service_Ports demo_service = Some (Some {demo_port})"
    "LittleEndian_Uint32 (To4 (IpAddress demo_service)) = Some (of_le32 10 0 0 1)"
    "Endpoints demo_service \<noteq> []" "length (Endpoints demo_service) < 65536"
    by (simp_all add: two_service_manager_def NewServiceManager_def demo_service_def To4_def)
  have b: "1 < length (objects two_service_manager)" "1 \<noteq> (0 :: nat)" "other_service = objects two_service_manager ! 1"
    "Service_Ports other_service = Some (Some {other_port})"
    "LittleEndian_Uint32 (To4 (IpAddress other_service)) = Some (of_le32 10 0 0 9)"
    "length (Endpoints other_service) < 65536"
    by (simp_all add: two_service_manager_def NewServiceManager_def other_service_def demo_service_def To4_def)
  have st: "serviceMap two_service_manager = Some []" "endpointsMap two_service_manager = Some []"
    "cacheSerivceId two_service_manager 1 = None"
    by (simp_all add: two_service_manager_def NewServiceManager_def)
  have keys: "frontend (of_le32 10 0 0 1) demo_port \<noteq> frontend (of_le32 10 0 0 9) other_port"
    by (simp add: frontend_def of_le32_def)
  have room: "hash_ok []" "card (dom (op_lookup (hash_ops 65536) [])) + 2 \<le> 65536"
    "card (dom (op_lookup (hash_ops 65536) [])) + length (Endpoints demo_service) + length (Endpoints other_service) \<le> 65536"
    by (simp_all add: hash_ok_def hash_ops_def other_service_def demo_service_def)
  have pos: "unat (5 :: u32) mod length (Endpoints demo_service) = 1"
    by (simp add: demo_service_def numeral_2_eq_2 [symmetric])
  then have "unat (5 :: u32) mod length (Endpoints demo_service) < length (Endpoints other_service)"
    by (simp add: other_service_def)
  from second_service_captures_first
    [OF hm.ebpf_map_axioms a b keys st(3,1) room(1,2) st(2) room(1,3) demo_connects this, unfolded pos]
  show ?thesis
    by (simp add: other_service_def)
qed

end
